(* ===== verification/Prelude.thy ===== *)
theory Prelude
  imports Main "HOL-Library.Word" "HOL-Library.Char_ord" "HOL-Library.List_Lexorder"
    "HOL-Library.Product_Lexorder" "HOL-Library.Sublist" "HOL-Library.AList"
    "HOL-Library.State_Monad" "HOL-Library.Code_Target_Nat"
begin

text \<open>
  What every component shares: the machine integers of the Rust sources and their
  saturating operations, byte strings with the operations of \<open>str\<close>, \<open>Result\<close> chains,
  iterator folds (\<open>max_by\<close>, \<open>min_by_key\<close>, \<open>sum\<close>), association lists for the maps, and a
  small logic (\<open>keeps\<close>, \<open>inv_op\<close>, \<open>hoare\<close>) over the state monad in which the stateful
  operations of the manager are written.

  A Rust \<open>str\<close> is the list of its UTF-8 bytes, one HOL \<open>char\<close> per byte, so \<open>len()\<close> is
  \<open>length\<close> and the derived ordering of strings is the lexicographic order of bytes.
\<close>

named_theorems spec_simps \<open>characterisations of validators and decisions as propositions\<close>
named_theorems frame_intros \<open>composition rules for operations that keep a part of the state\<close>

subsection \<open>Machine integers\<close>

type_synonym u8 = "8 word"
type_synonym u16 = "16 word"
type_synonym u32 = "32 word"
type_synonym u64 = "64 word"
type_synonym uuid = "128 word"

text \<open>\<open>uN::saturating_add\<close> and \<open>uN::saturating_sub\<close> at any width.\<close>

definition saturating_add :: "'a::len word \<Rightarrow> 'a word \<Rightarrow> 'a word" where
  "saturating_add x y = (if unat x + unat y < 2 ^ LENGTH('a) then x + y else - 1)"

definition saturating_sub :: "'a::len word \<Rightarrow> 'a word \<Rightarrow> 'a word" where
  "saturating_sub x y = (if y \<le> x then x - y else 0)"

definition saturating_mul :: "'a::len word \<Rightarrow> 'a word \<Rightarrow> 'a word" where
  "saturating_mul x y = (if unat x * unat y < 2 ^ LENGTH('a) then x * y else - 1)"

lemma unat_minus_one_word: "unat (- 1 :: 'a::len word) = 2 ^ LENGTH('a) - 1"
  by (simp add: unsigned_minus_1_eq_mask mask_eq_exp_minus_1)

lemma unat_saturating_add:
  fixes x y :: "'a::len word"
  shows "unat (saturating_add x y) = min (unat x + unat y) (2 ^ LENGTH('a) - 1)"
  by (auto simp: saturating_add_def unat_word_ariths unat_minus_one_word min_def)

lemma unat_saturating_sub: "unat (saturating_sub x y) = unat x - unat y"
  by (auto simp: saturating_sub_def unat_sub_if' word_le_nat_alt)

lemma unat_saturating_mul:
  fixes x y :: "'a::len word"
  shows "unat (saturating_mul x y) = min (unat x * unat y) (2 ^ LENGTH('a) - 1)"
proof (cases "unat x * unat y < 2 ^ LENGTH('a)")
  case True
  then have "min (unat x * unat y) (2 ^ LENGTH('a) - 1) = unat x * unat y" by linarith
  with True show ?thesis by (simp only: saturating_mul_def unat_word_ariths if_True mod_less)
next
  case False
  then have "min (unat x * unat y) (2 ^ LENGTH('a) - 1) = 2 ^ LENGTH('a) - 1" by linarith
  with False show ?thesis by (simp only: saturating_mul_def unat_minus_one_word if_False)
qed

lemma saturating_add_le_iff:
  fixes x y b :: "'a::len word"
  assumes "b \<noteq> - 1"
  shows "saturating_add x y \<le> b \<longleftrightarrow> unat x + unat y \<le> unat b"
proof -
  have "unat b \<noteq> unat (- 1 :: 'a word)" using assms by (simp only: word_unat_eq_iff not_False_eq_True)
  moreover have "unat b < 2 ^ LENGTH('a)" by (rule unsigned_less)
  ultimately have "unat b < 2 ^ LENGTH('a) - 1" unfolding unat_minus_one_word by linarith
  then show ?thesis by (auto simp: word_le_nat_alt unat_saturating_add)
qed

lemma saturating_add_mono: "x \<le> x' \<Longrightarrow> y \<le> y' \<Longrightarrow> saturating_add x y \<le> saturating_add x' y'"
  by (auto simp: word_le_nat_alt unat_saturating_add min_def)

lemma saturating_sub_add_cancel: "y \<le> x \<Longrightarrow> saturating_sub x y + y = x"
  by (simp add: saturating_sub_def)

subsection \<open>Bytes and strings\<close>

abbreviation byte_val :: "char \<Rightarrow> nat" where
  "byte_val c \<equiv> of_char c"

definition is_ascii_digit :: "char \<Rightarrow> bool" where
  "is_ascii_digit c \<longleftrightarrow> 48 \<le> byte_val c \<and> byte_val c \<le> 57"

definition is_ascii_lowercase :: "char \<Rightarrow> bool" where
  "is_ascii_lowercase c \<longleftrightarrow> 97 \<le> byte_val c \<and> byte_val c \<le> 122"

definition is_ascii_uppercase :: "char \<Rightarrow> bool" where
  "is_ascii_uppercase c \<longleftrightarrow> 65 \<le> byte_val c \<and> byte_val c \<le> 90"

definition is_ascii_alphanumeric :: "char \<Rightarrow> bool" where
  "is_ascii_alphanumeric c \<longleftrightarrow> is_ascii_digit c \<or> is_ascii_lowercase c \<or> is_ascii_uppercase c"

definition is_ascii_hexdigit :: "char \<Rightarrow> bool" where
  "is_ascii_hexdigit c \<longleftrightarrow> is_ascii_digit c \<or> 97 \<le> byte_val c \<and> byte_val c \<le> 102
     \<or> 65 \<le> byte_val c \<and> byte_val c \<le> 70"

definition is_ascii_graphic :: "char \<Rightarrow> bool" where
  "is_ascii_graphic c \<longleftrightarrow> 33 \<le> byte_val c \<and> byte_val c \<le> 126"

definition is_ascii_control :: "char \<Rightarrow> bool" where
  "is_ascii_control c \<longleftrightarrow> byte_val c < 32 \<or> byte_val c = 127"

definition is_ascii_whitespace :: "char \<Rightarrow> bool" where
  "is_ascii_whitespace c \<longleftrightarrow> byte_val c \<in> {9, 10, 12, 13, 32}"

definition to_ascii_lowercase :: "char \<Rightarrow> char" where
  "to_ascii_lowercase c = (if is_ascii_uppercase c then char_of (byte_val c + 32) else c)"

lemmas ascii_defs = is_ascii_digit_def is_ascii_lowercase_def is_ascii_uppercase_def
  is_ascii_alphanumeric_def is_ascii_hexdigit_def is_ascii_graphic_def is_ascii_control_def
  is_ascii_whitespace_def

text \<open>A UTF-8 continuation byte is \<open>0b10xxxxxx\<close>; \<open>chars().count()\<close> counts the others.\<close>

definition is_continuation :: "char \<Rightarrow> bool" where
  "is_continuation c \<longleftrightarrow> 128 \<le> byte_val c \<and> byte_val c < 192"

definition char_count :: "string \<Rightarrow> nat" where
  "char_count s = length (filter (\<lambda>c. \<not> is_continuation c) s)"

lemma char_count_le: "char_count s \<le> length s"
  by (simp add: char_count_def)

abbreviation starts_with :: "string \<Rightarrow> string \<Rightarrow> bool" where
  "starts_with s p \<equiv> prefix p s"

abbreviation ends_with :: "string \<Rightarrow> string \<Rightarrow> bool" where
  "ends_with s p \<equiv> suffix p s"

abbreviation str_contains :: "string \<Rightarrow> string \<Rightarrow> bool" where
  "str_contains s p \<equiv> sublist p s"

definition strip_prefix :: "string \<Rightarrow> string \<Rightarrow> string option" where
  "strip_prefix p s = (if prefix p s then Some (drop (length p) s) else None)"

definition strip_suffix :: "string \<Rightarrow> string \<Rightarrow> string option" where
  "strip_suffix p s = (if suffix p s then Some (take (length s - length p) s) else None)"

lemma strip_prefix_Some_iff: "strip_prefix p s = Some r \<longleftrightarrow> s = p @ r"
  by (auto simp: strip_prefix_def prefix_def)

lemma strip_suffix_Some_iff: "strip_suffix p s = Some r \<longleftrightarrow> s = r @ p"
  by (auto simp: strip_suffix_def suffix_def)

text \<open>\<open>str::split\<close> on one byte, \<open>str::split_once\<close> and \<open>str::rsplit_once\<close>.\<close>

fun split_on :: "char \<Rightarrow> string \<Rightarrow> string list" where
  "split_on d [] = [[]]"
| "split_on d (c # s) =
     (if c = d then [] # split_on d s
      else case split_on d s of [] \<Rightarrow> [[c]] | x # xs \<Rightarrow> (c # x) # xs)"

fun split_once :: "char \<Rightarrow> string \<Rightarrow> (string \<times> string) option" where
  "split_once d [] = None"
| "split_once d (c # s) =
     (if c = d then Some ([], s) else map_option (\<lambda>(a, b). (c # a, b)) (split_once d s))"

definition rsplit_once :: "char \<Rightarrow> string \<Rightarrow> (string \<times> string) option" where
  "rsplit_once d s = map_option (\<lambda>(a, b). (rev b, rev a)) (split_once d (rev s))"

text \<open>\<open>str::split_once\<close> on a separator of several bytes: the first occurrence.\<close>

fun split_once_str :: "string \<Rightarrow> string \<Rightarrow> (string \<times> string) option" where
  "split_once_str d [] = (if d = [] then Some ([], []) else None)"
| "split_once_str d (c # s) =
     (if prefix d (c # s) then Some ([], drop (length d) (c # s))
      else map_option (\<lambda>(a, b). (c # a, b)) (split_once_str d s))"

lemma split_once_Some:
  "split_once d s = Some (a, b) \<longleftrightarrow> s = a @ d # b \<and> d \<notin> set a"
proof (induction s arbitrary: a)
  case (Cons c s)
  then show ?case by (cases a) auto
qed simp

lemma split_once_None: "split_once d s = None \<longleftrightarrow> d \<notin> set s"
  by (induction s) auto

lemma rsplit_once_Some:
  "rsplit_once d s = Some (a, b) \<longleftrightarrow> s = a @ d # b \<and> d \<notin> set b"
proof -
  have "rsplit_once d s = Some (a, b) \<longleftrightarrow> split_once d (rev s) = Some (rev b, rev a)"
    by (auto simp: rsplit_once_def)
  also have "\<dots> \<longleftrightarrow> rev s = rev b @ d # rev a \<and> d \<notin> set b"
    by (simp add: split_once_Some)
  also have "rev s = rev b @ d # rev a \<longleftrightarrow> s = a @ d # b"
    by (metis append_assoc append_Cons append_Nil rev_append rev_rev_ident rev.simps(2))
  finally show ?thesis .
qed

lemma split_on_not_Nil [simp]: "split_on d s \<noteq> []"
  by (induction s) (auto split: list.splits)

lemma set_split_on: "seg \<in> set (split_on d s) \<Longrightarrow> d \<notin> set seg"
  by (induction s arbitrary: seg) (auto split: if_splits list.splits)

text \<open>Decimal rendering of an unsigned integer (\<open>Display\<close>) and its reading back.\<close>

definition digit_char :: "nat \<Rightarrow> char" where
  "digit_char n = char_of (48 + n)"

fun nat_str :: "nat \<Rightarrow> string" where
  "nat_str n = (if n < 10 then [digit_char n] else nat_str (n div 10) @ [digit_char (n mod 10)])"

declare nat_str.simps [simp del]

fun parse_digits :: "nat \<Rightarrow> string \<Rightarrow> nat option" where
  "parse_digits acc [] = Some acc"
| "parse_digits acc (c # s) =
     (if is_ascii_digit c then parse_digits (10 * acc + (byte_val c - 48)) s else None)"

lemma parse_digits_append:
  "parse_digits a (s @ t) = (case parse_digits a s of None \<Rightarrow> None | Some b \<Rightarrow> parse_digits b t)"
  by (induction s arbitrary: a) auto

lemma byte_val_digit_char: "n < 10 \<Longrightarrow> byte_val (digit_char n) = 48 + n"
  by (simp add: digit_char_def of_char_of)

lemma is_ascii_digit_digit_char: "n < 10 \<Longrightarrow> is_ascii_digit (digit_char n)"
  by (simp add: is_ascii_digit_def byte_val_digit_char)

lemma parse_digits_nat_str: "parse_digits 0 (nat_str n) = Some n"
proof (induction n rule: nat_str.induct)
  case (1 n)
  show ?case
  proof (cases "n < 10")
    case True
    then show ?thesis
      by (simp add: nat_str.simps[of n] is_ascii_digit_digit_char byte_val_digit_char)
  next
    case False
    with 1 show ?thesis
      by (simp add: nat_str.simps[of n] parse_digits_append is_ascii_digit_digit_char
          byte_val_digit_char)
  qed
qed

lemma nat_str_inject [simp]: "nat_str m = nat_str n \<longleftrightarrow> m = n"
  by (metis parse_digits_nat_str option.inject)

lemma nat_str_digits: "c \<in> set (nat_str n) \<Longrightarrow> is_ascii_digit c"
proof (induction n rule: nat_str.induct)
  case (1 n)
  then show ?case
    by (cases "n < 10") (auto simp: nat_str.simps[of n] is_ascii_digit_digit_char)
qed

lemma nat_str_not_Nil [simp]: "nat_str n \<noteq> []"
  by (subst nat_str.simps) simp

lemma length_nat_str: "0 < k \<Longrightarrow> n < 10 ^ k \<Longrightarrow> length (nat_str n) \<le> k"
proof (induction k arbitrary: n)
  case (Suc k)
  show ?case
  proof (cases "n < 10")
    case True
    then show ?thesis by (simp add: nat_str.simps[of n])
  next
    case False
    then have "0 < k" using Suc.prems(2) by (cases k) auto
    moreover have "n div 10 < 10 ^ k"
      using Suc.prems(2) by (simp add: less_mult_imp_div_less mult.commute)
    ultimately have "length (nat_str (n div 10)) \<le> k" by (rule Suc.IH)
    with False show ?thesis by (simp add: nat_str.simps[of n])
  qed
qed simp

text \<open>
  \<open>str::parse\<close> to an unsigned type of \<open>w\<close> bits: an optional \<open>+\<close>, then at least one
  digit, and a value that fits.
\<close>

definition parse_uint :: "nat \<Rightarrow> string \<Rightarrow> nat option" where
  "parse_uint w s =
     (let digits = (case s of [] \<Rightarrow> [] | c # t \<Rightarrow> if c = CHR ''+'' then t else s)
      in if digits = [] then None
         else case parse_digits 0 digits of
             None \<Rightarrow> None
           | Some n \<Rightarrow> if n < 2 ^ w then Some n else None)"

lemma plus_not_digit [simp]: "\<not> is_ascii_digit (CHR ''+'')"
  by (simp add: is_ascii_digit_def)

lemma parse_uint_nat_str: "n < 2 ^ w \<Longrightarrow> parse_uint w (nat_str n) = Some n"
proof -
  have "(case nat_str n of [] \<Rightarrow> [] | c # t \<Rightarrow> if c = CHR ''+'' then t else nat_str n) = nat_str n"
    using nat_str_digits[of "CHR ''+''" n] by (auto split: list.split)
  then show "n < 2 ^ w \<Longrightarrow> parse_uint w (nat_str n) = Some n"
    by (simp add: parse_uint_def parse_digits_nat_str)
qed

subsection \<open>Results\<close>

text \<open>
  A \<open>Result<T, E>\<close> is a sum whose left side is the error. A chain of statements that each
  end in \<open>?\<close> is \<open>first_error\<close> of the list of their results, in program order.
\<close>

definition ensure :: "bool \<Rightarrow> 'e \<Rightarrow> 'e + unit" where
  "ensure ok e = (if ok then Inr () else Inl e)"

fun first_error :: "('e + unit) list \<Rightarrow> 'e + unit" where
  "first_error [] = Inr ()"
| "first_error (r # rs) = (case r of Inl e \<Rightarrow> Inl e | Inr _ \<Rightarrow> first_error rs)"

definition and_then :: "'e + 'a \<Rightarrow> ('a \<Rightarrow> 'e + 'b) \<Rightarrow> 'e + 'b" where
  "and_then r f = (case r of Inl e \<Rightarrow> Inl e | Inr a \<Rightarrow> f a)"

definition res_ok :: "'e + 'a \<Rightarrow> 'a option" where
  "res_ok r = (case r of Inl _ \<Rightarrow> None | Inr a \<Rightarrow> Some a)"

definition is_ok :: "'e + 'a \<Rightarrow> bool" where
  "is_ok r \<longleftrightarrow> (case r of Inl _ \<Rightarrow> False | Inr _ \<Rightarrow> True)"

lemma ensure_simps [simp]:
  "ensure b e = Inr u \<longleftrightarrow> b"
  "ensure b e = Inl e' \<longleftrightarrow> \<not> b \<and> e' = e"
  "ensure True e = Inr ()"
  "ensure False e = Inl e"
  by (auto simp: ensure_def)

lemma first_error_Inr [simp]: "first_error rs = Inr u \<longleftrightarrow> (\<forall>r\<in>set rs. r = Inr ())"
  by (induction rs) (auto split: sum.splits)

lemma first_error_append:
  "first_error (xs @ ys) = (case first_error xs of Inl e \<Rightarrow> Inl e | Inr _ \<Rightarrow> first_error ys)"
  by (induction xs) (simp_all split: sum.split del: first_error_Inr)

text \<open>The error a chain reports is that of its first failing statement.\<close>

lemma first_error_Inl:
  "first_error rs = Inl e \<longleftrightarrow>
     (\<exists>xs ys. rs = xs @ Inl e # ys \<and> (\<forall>r\<in>set xs. r = Inr ()))"
proof (induction rs)
  case (Cons r rs)
  show ?case
  proof (cases r)
    case (Inl e')
    then show ?thesis by (auto simp: Cons_eq_append_conv)
  next
    case (Inr u)
    have "(\<exists>xs ys. r # rs = xs @ Inl e # ys \<and> (\<forall>r\<in>set xs. r = Inr ())) \<longleftrightarrow>
        (\<exists>xs ys. rs = xs @ Inl e # ys \<and> (\<forall>r\<in>set xs. r = Inr ()))"
      using Inr by (fastforce simp: Cons_eq_append_conv intro: exI[of _ "r # _"])
    with Inr Cons show ?thesis by simp
  qed
qed simp

declare first_error.simps(2) [simp del]

lemma and_then_Inr [simp]: "and_then r f = Inr b \<longleftrightarrow> (\<exists>a. r = Inr a \<and> f a = Inr b)"
  by (auto simp: and_then_def split: sum.splits)

lemma and_then_simps [simp]: "and_then (Inl e) f = Inl e" "and_then (Inr a) f = f a"
  by (simp_all add: and_then_def)

lemma res_ok_simps [simp]: "res_ok (Inl e) = None" "res_ok (Inr a) = Some a"
  by (simp_all add: res_ok_def)

lemma res_ok_Some [simp]: "res_ok r = Some a \<longleftrightarrow> r = Inr a"
  by (auto simp: res_ok_def split: sum.splits)

lemma is_ok_simps [simp]: "is_ok (Inl e) = False" "is_ok (Inr a) = True"
  by (simp_all add: is_ok_def)

lemma is_ok_iff: "is_ok r \<longleftrightarrow> (\<exists>a. r = Inr a)"
  by (auto simp: is_ok_def split: sum.splits)

definition option_all :: "('a \<Rightarrow> bool) \<Rightarrow> 'a option \<Rightarrow> bool" where
  "option_all P x = (case x of None \<Rightarrow> True | Some a \<Rightarrow> P a)"

lemma option_all_simps [simp]: "option_all P None" "option_all P (Some a) = P a"
  by (simp_all add: option_all_def)

definition is_some_and :: "('a \<Rightarrow> bool) \<Rightarrow> 'a option \<Rightarrow> bool" where
  "is_some_and P x = (case x of None \<Rightarrow> False | Some a \<Rightarrow> P a)"

lemma is_some_and_simps [simp]: "\<not> is_some_and P None" "is_some_and P (Some a) = P a"
  by (simp_all add: is_some_and_def)

lemma is_some_and_iff: "is_some_and P x \<longleftrightarrow> (\<exists>a. x = Some a \<and> P a)"
  by (cases x) auto

definition unwrap_or :: "'a \<Rightarrow> 'a option \<Rightarrow> 'a" where
  "unwrap_or d x = (case x of None \<Rightarrow> d | Some a \<Rightarrow> a)"

lemma unwrap_or_simps [simp]: "unwrap_or d None = d" "unwrap_or d (Some a) = a"
  by (simp_all add: unwrap_or_def)

subsection \<open>Iterators\<close>

text \<open>
  \<open>Iterator::max_by\<close> keeps the later of two equal elements and \<open>Iterator::min_by_key\<close>
  the earlier one; the order of a set or a hash map's iteration is the order of the list.
\<close>

fun max_by :: "('a \<Rightarrow> 'a \<Rightarrow> bool) \<Rightarrow> 'a list \<Rightarrow> 'a option" where
  "max_by gt [] = None"
| "max_by gt (x # xs) = Some (foldl (\<lambda>a b. if gt a b then a else b) x xs)"

fun min_by_key :: "('a \<Rightarrow> 'k::linorder) \<Rightarrow> 'a list \<Rightarrow> 'a option" where
  "min_by_key f [] = None"
| "min_by_key f (x # xs) = Some (foldl (\<lambda>a b. if f b < f a then b else a) x xs)"

lemma max_by_None [simp]: "max_by gt xs = None \<longleftrightarrow> xs = []"
  by (cases xs) auto

lemma min_by_key_None [simp]: "min_by_key f xs = None \<longleftrightarrow> xs = []"
  by (cases xs) auto

lemma foldl_choice_mem:
  assumes "\<And>a b. g a b = a \<or> g a b = b"
  shows "foldl g x xs \<in> insert x (set xs)"
  by (induction xs arbitrary: x) (simp, metis assms foldl_Cons insert_iff list.simps(15))

lemma max_by_mem: "max_by gt xs = Some x \<Longrightarrow> x \<in> set xs"
  using foldl_choice_mem[of "\<lambda>a b. if gt a b then a else b" "hd xs" "tl xs"]
  by (cases xs) (auto split: if_splits)

lemma min_by_key_mem: "min_by_key f xs = Some x \<Longrightarrow> x \<in> set xs"
  using foldl_choice_mem[of "\<lambda>a b. if f b < f a then b else a" "hd xs" "tl xs"]
  by (cases xs) (auto split: if_splits)

lemma foldl_max_key:
  fixes f :: "'a \<Rightarrow> 'k::linorder"
  shows "y \<in> insert x (set xs) \<Longrightarrow>
    f y \<le> f (foldl (\<lambda>a b. if f b < f a then a else b) x xs)"
proof (induction xs arbitrary: x y)
  case (Cons z zs)
  let ?w = "if f z < f x then x else z"
  have "f ?w \<le> f (foldl (\<lambda>a b. if f b < f a then a else b) ?w zs)" by (rule Cons.IH) simp
  moreover have "f x \<le> f ?w" "f z \<le> f ?w" by auto
  ultimately show ?case
    using Cons.prems Cons.IH[of y ?w] by (auto intro: order_trans)
qed simp

text \<open>With a comparator that is the order of a key, the result is a greatest element.\<close>

lemma max_by_key_greatest:
  fixes f :: "'a \<Rightarrow> 'k::linorder"
  assumes "max_by (\<lambda>a b. f b < f a) xs = Some x" and "y \<in> set xs"
  shows "f y \<le> f x"
  using assms foldl_max_key[of y "hd xs" "tl xs" f] by (cases xs) auto

lemma foldl_min_key:
  fixes f :: "'a \<Rightarrow> 'k::linorder"
  shows "y \<in> insert x (set xs) \<Longrightarrow>
    f (foldl (\<lambda>a b. if f b < f a then b else a) x xs) \<le> f y"
proof (induction xs arbitrary: x y)
  case (Cons z zs)
  let ?w = "if f z < f x then z else x"
  have "f (foldl (\<lambda>a b. if f b < f a then b else a) ?w zs) \<le> f ?w" by (rule Cons.IH) simp
  moreover have "f ?w \<le> f x" "f ?w \<le> f z" by auto
  ultimately show ?case
    using Cons.prems Cons.IH[of y ?w] by (auto intro: order_trans)
qed simp

lemma min_by_key_least:
  assumes "min_by_key f xs = Some x" and "y \<in> set xs"
  shows "f x \<le> f y"
  using assms foldl_min_key[of y "hd xs" "tl xs" f] by (cases xs) auto

subsection \<open>Association lists\<close>

text \<open>
  A keyed map is a list of pairs with distinct keys; the position of a pair is its place in
  the iteration order.
\<close>

definition al_values :: "('k \<times> 'v) list \<Rightarrow> 'v list" where
  "al_values m = map snd m"

lemma set_al_values: "distinct (map fst m) \<Longrightarrow> v \<in> set (al_values m) \<longleftrightarrow> (\<exists>k. map_of m k = Some v)"
  by (force simp: al_values_def dest: map_of_SomeD)

lemma map_of_update: "map_of (AList.update k v m) k' = (if k' = k then Some v else map_of m k')"
  by (simp add: update_conv')

lemma map_of_delete: "map_of (AList.delete k m) k' = (if k' = k then None else map_of m k')"
  by (simp add: delete_conv')

lemma set_filter_fst: "map_of (filter (\<lambda>(k, _). P k) m) k' = (if P k' then map_of m k' else None)"
  by (induction m) auto

subsection \<open>Stateful operations\<close>

text \<open>
  An asynchronous method of the manager is a value of the state monad: every \<open>await\<close> of a
  callee is a bind. \<open>gets\<close> reads the state, \<open>modify\<close> writes it, and \<open>for_each\<close> is a
  \<open>for\<close> loop over a collection taken before the loop starts.
\<close>

abbreviation return :: "'a \<Rightarrow> ('s, 'a) state" where
  "return \<equiv> State_Monad.return"

definition gets :: "('s \<Rightarrow> 'a) \<Rightarrow> ('s, 'a) state" where
  "gets f = State (\<lambda>s. (f s, s))"

definition modify :: "('s \<Rightarrow> 's) \<Rightarrow> ('s, unit) state" where
  "modify f = State (\<lambda>s. ((), f s))"

fun for_each :: "('a \<Rightarrow> ('s, unit) state) \<Rightarrow> 'a list \<Rightarrow> ('s, unit) state" where
  "for_each body [] = return ()"
| "for_each body (x # xs) = do { _ \<leftarrow> body x; for_each body xs }"

definition if_then :: "bool \<Rightarrow> ('s, unit) state \<Rightarrow> ('s, unit) state" where
  "if_then b m = (if b then m else return ())"

text \<open>\<open>bind_res\<close> is \<open>?\<close> on an awaited result.\<close>

definition bind_res :: "('s, 'e + 'a) state \<Rightarrow> ('a \<Rightarrow> ('s, 'e + 'b) state) \<Rightarrow> ('s, 'e + 'b) state" where
  "bind_res m f = do { r \<leftarrow> m; case r of Inl e \<Rightarrow> return (Inl e) | Inr a \<Rightarrow> f a }"

lemma run_state_gets [simp]: "run_state (gets f) s = (f s, s)"
  by (simp add: gets_def)

lemma run_state_modify [simp]: "run_state (modify f) s = ((), f s)"
  by (simp add: modify_def)

lemma run_state_if_then [simp]: "run_state (if_then b m) s = (if b then run_state m s else ((), s))"
  by (simp add: if_then_def)

lemma for_each_append:
  "for_each body (xs @ ys) = do { _ \<leftarrow> for_each body xs; for_each body ys }"
  by (induction xs) simp_all

text \<open>\<open>keeps f m\<close>: running \<open>m\<close> leaves the part \<open>f\<close> of the state as it was.\<close>

definition keeps :: "('s \<Rightarrow> 'b) \<Rightarrow> ('s, 'a) state \<Rightarrow> bool" where
  "keeps f m \<longleftrightarrow> (\<forall>s. f (snd (run_state m s)) = f s)"

lemma keepsD: "keeps f m \<Longrightarrow> f (snd (run_state m s)) = f s"
  by (simp add: keeps_def)

lemma keeps_run: "keeps f m \<Longrightarrow> run_state m s = (a, s') \<Longrightarrow> f s' = f s"
  by (metis keeps_def snd_conv)

lemma keeps_return [frame_intros]: "keeps f (return a)"
  by (simp add: keeps_def)

lemma keeps_gets [frame_intros]: "keeps f (gets g)"
  by (simp add: keeps_def)

lemma keeps_bind [frame_intros]: "keeps f m \<Longrightarrow> (\<And>a. keeps f (g a)) \<Longrightarrow> keeps f (State_Monad.bind m g)"
  by (simp add: keeps_def split: prod.splits) (metis snd_conv)

lemma keeps_modify: "(\<And>s. f (g s) = f s) \<Longrightarrow> keeps f (modify g)"
  by (simp add: keeps_def)

lemma keeps_if [frame_intros]: "(b \<Longrightarrow> keeps f m) \<Longrightarrow> (\<not> b \<Longrightarrow> keeps f n) \<Longrightarrow> keeps f (if b then m else n)"
  by simp

lemma keeps_if_then [frame_intros]: "(b \<Longrightarrow> keeps f m) \<Longrightarrow> keeps f (if_then b m)"
  by (simp add: if_then_def keeps_return)

lemma keeps_option [frame_intros]:
  "keeps f m \<Longrightarrow> (\<And>a. keeps f (g a)) \<Longrightarrow> keeps f (case x of None \<Rightarrow> m | Some a \<Rightarrow> g a)"
  by (cases x) auto

lemma keeps_sum [frame_intros]:
  "(\<And>e. keeps f (h e)) \<Longrightarrow> (\<And>a. keeps f (g a)) \<Longrightarrow> keeps f (case x of Inl e \<Rightarrow> h e | Inr a \<Rightarrow> g a)"
  by (cases x) auto

lemma keeps_prod [frame_intros]:
  "(\<And>a b. keeps f (g a b)) \<Longrightarrow> keeps f (case x of (a, b) \<Rightarrow> g a b)"
  by (cases x) auto

lemma keeps_Let [frame_intros]: "(\<And>a. keeps f (g a)) \<Longrightarrow> keeps f (Let x g)"
  by (simp add: Let_def)

lemma keeps_bind_res [frame_intros]:
  "keeps f m \<Longrightarrow> (\<And>a. keeps f (g a)) \<Longrightarrow> keeps f (bind_res m g)"
  unfolding bind_res_def by (intro frame_intros)

lemma keeps_for_each [frame_intros]: "(\<And>x. keeps f (body x)) \<Longrightarrow> keeps f (for_each body xs)"
  by (induction xs) (simp_all add: keeps_return keeps_bind)

text \<open>\<open>inv_op P m\<close>: running \<open>m\<close> preserves the invariant \<open>P\<close>.\<close>

definition inv_op :: "('s \<Rightarrow> bool) \<Rightarrow> ('s, 'a) state \<Rightarrow> bool" where
  "inv_op P m \<longleftrightarrow> (\<forall>s. P s \<longrightarrow> P (snd (run_state m s)))"

named_theorems inv_intros \<open>composition rules for operations that preserve an invariant\<close>

lemma inv_opD: "inv_op P m \<Longrightarrow> P s \<Longrightarrow> P (snd (run_state m s))"
  by (simp add: inv_op_def)

lemma keeps_inv_op: "keeps f m \<Longrightarrow> inv_op (\<lambda>s. P (f s)) m"
  by (simp add: keeps_def inv_op_def)

lemma inv_op_return [inv_intros]: "inv_op P (return a)"
  by (simp add: inv_op_def)

lemma inv_op_gets [inv_intros]: "inv_op P (gets g)"
  by (simp add: inv_op_def)

lemma inv_op_bind [inv_intros]:
  "inv_op P m \<Longrightarrow> (\<And>a. inv_op P (g a)) \<Longrightarrow> inv_op P (State_Monad.bind m g)"
  by (simp add: inv_op_def split: prod.splits) (metis snd_conv)

lemma inv_op_if [inv_intros]:
  "(b \<Longrightarrow> inv_op P m) \<Longrightarrow> (\<not> b \<Longrightarrow> inv_op P n) \<Longrightarrow> inv_op P (if b then m else n)"
  by simp

lemma inv_op_if_then [inv_intros]: "(b \<Longrightarrow> inv_op P m) \<Longrightarrow> inv_op P (if_then b m)"
  by (simp add: if_then_def inv_op_return)

lemma inv_op_option [inv_intros]:
  "inv_op P m \<Longrightarrow> (\<And>a. inv_op P (g a)) \<Longrightarrow> inv_op P (case x of None \<Rightarrow> m | Some a \<Rightarrow> g a)"
  by (cases x) auto

lemma inv_op_sum [inv_intros]:
  "(\<And>e. inv_op P (h e)) \<Longrightarrow> (\<And>a. inv_op P (g a)) \<Longrightarrow>
     inv_op P (case x of Inl e \<Rightarrow> h e | Inr a \<Rightarrow> g a)"
  by (cases x) auto

lemma inv_op_prod [inv_intros]:
  "(\<And>a b. inv_op P (g a b)) \<Longrightarrow> inv_op P (case x of (a, b) \<Rightarrow> g a b)"
  by (cases x) auto

lemma inv_op_Let [inv_intros]: "(\<And>a. inv_op P (g a)) \<Longrightarrow> inv_op P (Let x g)"
  by (simp add: Let_def)

lemma inv_op_bind_res [inv_intros]:
  "inv_op P m \<Longrightarrow> (\<And>a. inv_op P (g a)) \<Longrightarrow> inv_op P (bind_res m g)"
  unfolding bind_res_def by (intro inv_intros)

lemma inv_op_for_each [inv_intros]: "(\<And>x. inv_op P (body x)) \<Longrightarrow> inv_op P (for_each body xs)"
  by (induction xs) (simp_all add: inv_op_return inv_op_bind)

text \<open>\<open>hoare P m Q\<close>: from a state in \<open>P\<close>, the result and the final state are in \<open>Q\<close>.\<close>

definition hoare :: "('s \<Rightarrow> bool) \<Rightarrow> ('s, 'a) state \<Rightarrow> ('a \<Rightarrow> 's \<Rightarrow> bool) \<Rightarrow> bool" where
  "hoare P m Q \<longleftrightarrow> (\<forall>s. P s \<longrightarrow> (case run_state m s of (a, s') \<Rightarrow> Q a s'))"

lemma hoareD: "hoare P m Q \<Longrightarrow> P s \<Longrightarrow> run_state m s = (a, s') \<Longrightarrow> Q a s'"
  by (auto simp: hoare_def)

lemma hoareI: "(\<And>s a s'. P s \<Longrightarrow> run_state m s = (a, s') \<Longrightarrow> Q a s') \<Longrightarrow> hoare P m Q"
  by (auto simp: hoare_def)

lemma hoare_bind:
  "hoare P m R \<Longrightarrow> (\<And>a. hoare (R a) (g a) Q) \<Longrightarrow> hoare P (State_Monad.bind m g) Q"
  by (fastforce simp: hoare_def split: prod.splits)

lemma hoare_for_each:
  assumes "\<And>x. x \<in> set xs \<Longrightarrow> hoare I (body x) (\<lambda>_. I)"
  shows "hoare I (for_each body xs) (\<lambda>_. I)"
  using assms
proof (induction xs)
  case (Cons x xs)
  have "hoare I (body x) (\<lambda>_. I)" and "hoare I (for_each body xs) (\<lambda>_. I)"
    using Cons by auto
  then show ?case unfolding for_each.simps by (rule hoare_bind)
qed (simp add: hoare_def)

text \<open>
  \<open>rel_op R m\<close>: the state before and the state after \<open>m\<close> are related by \<open>R\<close>. For a preorder
  the property composes along every construct of a program; the locale gives the rules once,
  for each relation it is interpreted with.
\<close>

definition rel_op :: "('s \<Rightarrow> 's \<Rightarrow> bool) \<Rightarrow> ('s, 'a) state \<Rightarrow> bool" where
  "rel_op R m \<longleftrightarrow> (\<forall>s. R s (snd (run_state m s)))"

lemma rel_opD: "rel_op R m \<Longrightarrow> R s (snd (run_state m s))"
  by (simp add: rel_op_def)

lemma rel_op_run: "rel_op R m \<Longrightarrow> run_state m s = (a, s') \<Longrightarrow> R s s'"
  by (metis rel_op_def snd_conv)

locale state_preorder =
  fixes R :: "'s \<Rightarrow> 's \<Rightarrow> bool"
  assumes refl: "R s s" and trans: "R s t \<Longrightarrow> R t u \<Longrightarrow> R s u"
begin

lemma rel_return: "rel_op R (return a)"
  by (simp add: rel_op_def refl)

lemma rel_gets: "rel_op R (gets g)"
  by (simp add: rel_op_def refl)

lemma rel_bind: "rel_op R m \<Longrightarrow> (\<And>a. rel_op R (g a)) \<Longrightarrow> rel_op R (State_Monad.bind m g)"
  by (simp add: rel_op_def split: prod.splits) (metis snd_conv trans)

lemma rel_modify: "(\<And>s. R s (g s)) \<Longrightarrow> rel_op R (modify g)"
  by (simp add: rel_op_def)

lemma rel_if: "(b \<Longrightarrow> rel_op R m) \<Longrightarrow> (\<not> b \<Longrightarrow> rel_op R n) \<Longrightarrow> rel_op R (if b then m else n)"
  by simp

lemma rel_if_then: "(b \<Longrightarrow> rel_op R m) \<Longrightarrow> rel_op R (if_then b m)"
  by (simp add: if_then_def rel_return)

lemma rel_option: "(x = None \<Longrightarrow> rel_op R m) \<Longrightarrow> (\<And>a. x = Some a \<Longrightarrow> rel_op R (g a)) \<Longrightarrow>
    rel_op R (case x of None \<Rightarrow> m | Some a \<Rightarrow> g a)"
  by (cases x) auto

lemma rel_sum: "(\<And>e. x = Inl e \<Longrightarrow> rel_op R (h e)) \<Longrightarrow> (\<And>a. x = Inr a \<Longrightarrow> rel_op R (g a)) \<Longrightarrow>
    rel_op R (case x of Inl e \<Rightarrow> h e | Inr a \<Rightarrow> g a)"
  by (cases x) auto

lemma rel_prod: "(\<And>a b. rel_op R (g a b)) \<Longrightarrow> rel_op R (case x of (a, b) \<Rightarrow> g a b)"
  by (cases x) auto

lemma rel_Let: "(\<And>a. rel_op R (g a)) \<Longrightarrow> rel_op R (Let x g)"
  by (simp add: Let_def)

lemma rel_bind_res: "rel_op R m \<Longrightarrow> (\<And>a. rel_op R (g a)) \<Longrightarrow> rel_op R (bind_res m g)"
  unfolding bind_res_def by (intro rel_bind rel_sum rel_return)

lemma rel_for_each: "(\<And>x. rel_op R (body x)) \<Longrightarrow> rel_op R (for_each body xs)"
  by (induction xs) (simp_all add: rel_return rel_bind)

lemmas rel_intros = rel_return rel_gets rel_bind rel_if rel_if_then rel_option rel_sum rel_prod
  rel_Let rel_bind_res rel_for_each

end

text \<open>Staying equal in a part of the state, and preserving a predicate, are such relations.\<close>

lemma keeps_rel_op: "keeps f m \<longleftrightarrow> rel_op (\<lambda>s s'. f s' = f s) m"
  by (simp add: keeps_def rel_op_def)

lemma inv_op_rel_op: "inv_op P m \<longleftrightarrow> rel_op (\<lambda>s s'. P s \<longrightarrow> P s') m"
  by (simp add: inv_op_def rel_op_def)

lemma rel_op_conj: "rel_op (\<lambda>s s'. R s s' \<and> Q s s') m \<longleftrightarrow> rel_op R m \<and> rel_op Q m"
  by (auto simp: rel_op_def)

text \<open>A loop that collects what its body returns.\<close>

fun map_each :: "('a \<Rightarrow> ('s, 'b) state) \<Rightarrow> 'a list \<Rightarrow> ('s, 'b list) state" where
  "map_each body [] = return []"
| "map_each body (x # xs) = do { y \<leftarrow> body x; ys \<leftarrow> map_each body xs; return (y # ys) }"

lemma keeps_map_each [frame_intros]: "(\<And>x. keeps f (body x)) \<Longrightarrow> keeps f (map_each body xs)"
  by (induction xs) (simp_all add: keeps_return keeps_bind)

text \<open>A loop with \<open>?\<close> in its body stops at the first error.\<close>

fun try_each :: "('a \<Rightarrow> ('s, 'e + unit) state) \<Rightarrow> 'a list \<Rightarrow> ('s, 'e + unit) state" where
  "try_each body [] = return (Inr ())"
| "try_each body (x # xs) = bind_res (body x) (\<lambda>_. try_each body xs)"

end
