(* ===== verification/Lifecycle.thy ===== *)
theory Lifecycle
  imports Prelude
begin

text \<open>
  The two lifecycles of the core crate as transition tables: \<open>AllocationState\<close>
  (\<open>allocation/state.rs\<close>) and \<open>HotState\<close> (\<open>hot/state.rs\<close>). The locale \<open>lifecycle\<close> is the
  contract both promise, a terminal state is never left and a state may repeat; the locale
  \<open>ranked_lifecycle\<close> adds a rank that every change increases, which only the allocation
  lifecycle has, since a pool guest is claimed again after each recycle.
\<close>

subsection \<open>Transition tables\<close>

datatype allocation_state =
    Requested | Preparing | Booting | Registering | WaitingForJob | Ready | Running
  | Cleaning | Completed | Failed | Cancelled

fun is_terminal :: "allocation_state \<Rightarrow> bool" where
  "is_terminal s = (s \<in> {Completed, Failed, Cancelled})"

definition can_transition_to :: "allocation_state \<Rightarrow> allocation_state \<Rightarrow> bool" where
  "can_transition_to s next =
     (if s = next then True
      else case s of
          Requested \<Rightarrow> next \<in> {Preparing, Cleaning}
        | Preparing \<Rightarrow> next \<in> {Booting, Registering, Cleaning}
        | Booting \<Rightarrow> next \<in> {Registering, Cleaning}
        | Registering \<Rightarrow> next \<in> {WaitingForJob, Cleaning}
        | WaitingForJob \<Rightarrow> next \<in> {Ready, Running, Cleaning}
        | Ready \<Rightarrow> next \<in> {Running, Cleaning}
        | Running \<Rightarrow> next \<in> {Cleaning}
        | Cleaning \<Rightarrow> next \<in> {Completed, Failed, Cancelled}
        | Completed \<Rightarrow> False | Failed \<Rightarrow> False | Cancelled \<Rightarrow> False)"

datatype hot_state = Provisioning | Idle | Claimed | Recycling | Draining | Evicted

fun hot_is_terminal :: "hot_state \<Rightarrow> bool" where
  "hot_is_terminal s = (s = Evicted)"

definition is_holding_machine :: "hot_state \<Rightarrow> bool" where
  "is_holding_machine s = (\<not> hot_is_terminal s)"

definition is_claim_bearing :: "hot_state \<Rightarrow> bool" where
  "is_claim_bearing s = (s = Claimed)"

definition hot_can_transition_to :: "hot_state \<Rightarrow> hot_state \<Rightarrow> bool" where
  "hot_can_transition_to s next =
     (if s = next then True
      else case s of
          Provisioning \<Rightarrow> next \<in> {Idle, Evicted}
        | Idle \<Rightarrow> next \<in> {Claimed, Draining, Evicted}
        | Claimed \<Rightarrow> next \<in> {Recycling, Draining}
        | Recycling \<Rightarrow> next \<in> {Idle, Evicted}
        | Draining \<Rightarrow> next \<in> {Evicted}
        | Evicted \<Rightarrow> False)"

datatype hot_drain_reason =
    EvictRequested | CapacityPressure | MaxLifetime | MaxJobs | MaxIdle | IdleTtl | ResetFailed
  | StaleBase | ConfigReloaded | MachineGone | Unverifiable | OperatorRequest

subsection \<open>The contract of a lifecycle\<close>

text \<open>A run is a list of states each of which may follow the one before.\<close>

fun run_from :: "('s \<Rightarrow> 's \<Rightarrow> bool) \<Rightarrow> 's \<Rightarrow> 's list \<Rightarrow> bool" where
  "run_from step s [] = True"
| "run_from step s (t # ts) = (step s t \<and> run_from step t ts)"

fun changes :: "'s \<Rightarrow> 's list \<Rightarrow> nat" where
  "changes s [] = 0"
| "changes s (t # ts) = (if s = t then 0 else 1) + changes t ts"

locale lifecycle =
  fixes step :: "'s \<Rightarrow> 's \<Rightarrow> bool" and terminal :: "'s \<Rightarrow> bool"
  assumes step_refl: "step s s"
    and terminal_stuck: "terminal s \<Longrightarrow> step s t \<Longrightarrow> t = s"
    and progress: "\<not> terminal s \<Longrightarrow> \<exists>t. t \<noteq> s \<and> step s t"
begin

lemma terminal_iff: "terminal s \<longleftrightarrow> (\<forall>t. step s t \<longrightarrow> t = s)"
  using terminal_stuck progress by blast

lemma run_terminal: "terminal s \<Longrightarrow> run_from step s ts \<Longrightarrow> t \<in> set ts \<Longrightarrow> t = s"
proof (induction ts arbitrary: s)
  case (Cons u us)
  then have "u = s" by (auto dest: terminal_stuck)
  with Cons show ?case by auto
qed simp

end

locale ranked_lifecycle = lifecycle +
  fixes rank :: "'s \<Rightarrow> nat"
  assumes rank_increases: "step s t \<Longrightarrow> t \<noteq> s \<Longrightarrow> rank s < rank t"
begin

lemma run_rank: "run_from step s ts \<Longrightarrow> rank s + changes s ts \<le> rank (last (s # ts))"
proof (induction ts arbitrary: s)
  case (Cons t ts)
  then have "rank t + changes t ts \<le> rank (last (t # ts))" by simp
  moreover have "rank s + (if s = t then 0 else 1) \<le> rank t"
    using Cons.prems rank_increases[of s t] by auto
  ultimately show ?case by simp
qed simp

lemma no_return:
  assumes "run_from step s ts" "t \<in> set ts" "t \<noteq> s"
  shows "\<not> step t s"
proof
  assume "step t s"
  then have "rank t < rank s" using assms(3) rank_increases by metis
  moreover obtain xs ys where ts: "ts = xs @ t # ys" using assms(2) by (meson split_list)
  have "run_from step s (xs @ [t])"
    using assms(1) unfolding ts by (induction xs arbitrary: s) auto
  then have "rank s \<le> rank t" using run_rank[of s "xs @ [t]"] by simp
  ultimately show False by simp
qed

end

subsection \<open>Both tables are lifecycles\<close>

lemmas allocation_steps = can_transition_to_def
lemmas hot_steps = hot_can_transition_to_def

interpretation hot_life: lifecycle hot_can_transition_to hot_is_terminal
proof unfold_locales
  fix s :: hot_state
  show "\<not> hot_is_terminal s \<Longrightarrow> \<exists>t. t \<noteq> s \<and> hot_can_transition_to s t"
    by (cases s) (auto simp: hot_steps)
qed (auto simp: hot_steps split: hot_state.splits if_splits)

text \<open>The rank of an allocation state: its place on the longest path to a terminal state.\<close>

fun allocation_rank :: "allocation_state \<Rightarrow> nat" where
  "allocation_rank Requested = 0"
| "allocation_rank Preparing = 1"
| "allocation_rank Booting = 2"
| "allocation_rank Registering = 3"
| "allocation_rank WaitingForJob = 4"
| "allocation_rank Ready = 5"
| "allocation_rank Running = 6"
| "allocation_rank Cleaning = 7"
| "allocation_rank _ = 8"

lemma allocation_rank_le: "allocation_rank s \<le> 8"
  by (cases s) auto

interpretation allocation_life: ranked_lifecycle can_transition_to is_terminal allocation_rank
proof unfold_locales
  fix s :: allocation_state
  show "\<not> is_terminal s \<Longrightarrow> \<exists>t. t \<noteq> s \<and> can_transition_to s t"
    by (cases s) (auto simp: allocation_steps)
qed (auto simp: allocation_steps split: allocation_state.splits if_splits)

text \<open>Every state but a terminal one can be sent to cleaning: teardown is always reachable.\<close>

lemma cleaning_reachable: "can_transition_to s Cleaning \<longleftrightarrow> \<not> is_terminal s"
  by (cases s) (auto simp: allocation_steps)

lemma terminal_from_cleaning:
  "can_transition_to s t \<Longrightarrow> is_terminal t \<Longrightarrow> s \<noteq> t \<Longrightarrow> s = Cleaning"
  by (cases s) (auto simp: allocation_steps)

end
