(* ===== verification/Identifiers.thy ===== *)
theory Identifiers
  imports Prelude
begin

text \<open>
  The identifiers of \<open>crates/flanforge-core/src/identifiers/names.rs\<close>: the newtypes made by
  the \<open>identifier!\<close> macro and \<open>RepositoryName\<close>. A newtype is a datatype with one
  constructor; its \<open>new\<close> is the only way the program makes one, and \<open>validate\<close> runs \<open>new\<close>
  again. The locale \<open>validated_name\<close> states what the macro gives each of the four newtypes.
\<close>

datatype identifier_error =
    Length string nat nat
  | Character string
  | Repository
  | VmPrefixError

definition is_name_byte :: "char \<Rightarrow> bool" where
  "is_name_byte c \<longleftrightarrow> is_ascii_alphanumeric c \<or> c \<in> {CHR ''-'', CHR ''_'', CHR ''.''}"

definition is_profile_byte :: "char \<Rightarrow> bool" where
  "is_profile_byte c \<longleftrightarrow>
     is_ascii_lowercase c \<or> is_ascii_digit c \<or> c = CHR ''_'' \<or> c = CHR ''-''"

definition starts_alphanumeric :: "string \<Rightarrow> bool" where
  "starts_alphanumeric s = (case s of [] \<Rightarrow> False | c # _ \<Rightarrow> is_ascii_alphanumeric c)"

text \<open>The body of the macro's \<open>new\<close>, with the macro's arguments.\<close>

definition identifier_new ::
    "string \<Rightarrow> nat \<Rightarrow> nat \<Rightarrow> (char \<Rightarrow> bool) \<Rightarrow> string \<Rightarrow> identifier_error + string" where
  "identifier_new kind lo hi byte_ok s =
     (if \<not> (lo \<le> length s \<and> length s \<le> hi) then Inl (Length kind lo hi)
      else if \<not> starts_alphanumeric s \<or> \<not> list_all byte_ok s then Inl (Character kind)
      else Inr s)"

datatype profile_name = ProfileName (profile_str: string)
datatype runner_label = RunnerLabel (label_str: string)
datatype vm_name = VmName (vm_str: string)
datatype vm_prefix = VmPrefix (prefix_str: string)
datatype repository_name = RepositoryName (repository_str: string)

definition profile_name_new :: "string \<Rightarrow> identifier_error + profile_name" where
  "profile_name_new s = map_sum id ProfileName (identifier_new ''profile name'' 1 32 is_profile_byte s)"

definition runner_label_new :: "string \<Rightarrow> identifier_error + runner_label" where
  "runner_label_new s = map_sum id RunnerLabel (identifier_new ''runner label'' 1 64 is_name_byte s)"

definition vm_name_new :: "string \<Rightarrow> identifier_error + vm_name" where
  "vm_name_new s = map_sum id VmName (identifier_new ''VM name'' 1 80 is_name_byte s)"

definition vm_prefix_new :: "string \<Rightarrow> identifier_error + vm_prefix" where
  "vm_prefix_new s = map_sum id VmPrefix (identifier_new ''VM prefix'' 3 24 is_name_byte s)"

definition with_suffix :: "vm_name \<Rightarrow> string \<Rightarrow> identifier_error + vm_name" where
  "with_suffix n sfx = vm_name_new (vm_str n @ sfx)"

definition vm_prefix_ensure_valid :: "vm_prefix \<Rightarrow> identifier_error + unit" where
  "vm_prefix_ensure_valid p = ensure (ends_with (prefix_str p) ''-'') VmPrefixError"

definition profile_name_validate :: "profile_name \<Rightarrow> bool" where
  "profile_name_validate n = is_ok (profile_name_new (profile_str n))"

definition runner_label_validate :: "runner_label \<Rightarrow> bool" where
  "runner_label_validate n = is_ok (runner_label_new (label_str n))"

definition vm_name_validate :: "vm_name \<Rightarrow> bool" where
  "vm_name_validate n = is_ok (vm_name_new (vm_str n))"

definition vm_prefix_validate :: "vm_prefix \<Rightarrow> bool" where
  "vm_prefix_validate n = is_ok (vm_prefix_new (prefix_str n))"

text \<open>
  \<open>split('/')\<close> always yields a first part; a missing second part reads as the empty string.
\<close>

definition segment_ok :: "string \<Rightarrow> bool" where
  "segment_ok seg \<longleftrightarrow> seg \<noteq> [] \<and> length seg \<le> 100 \<and> seg \<noteq> ''.'' \<and> seg \<noteq> ''..''
     \<and> starts_alphanumeric seg \<and> list_all is_name_byte seg"

definition repository_name_new :: "string \<Rightarrow> identifier_error + repository_name" where
  "repository_name_new s =
     (if length s > 201 then Inl Repository
      else case split_on (CHR ''/'') s of
          [owner, repo] \<Rightarrow>
            if segment_ok owner \<and> segment_ok repo then Inr (RepositoryName s) else Inl Repository
        | _ \<Rightarrow> Inl Repository)"

definition repository_name_validate :: "repository_name \<Rightarrow> bool" where
  "repository_name_validate n = is_ok (repository_name_new (repository_str n))"

definition repository_owner :: "repository_name \<Rightarrow> string" where
  "repository_owner n =
     (case split_once (CHR ''/'') (repository_str n) of None \<Rightarrow> [] | Some (a, _) \<Rightarrow> a)"

definition repository_part :: "repository_name \<Rightarrow> string" where
  "repository_part n =
     (case split_once (CHR ''/'') (repository_str n) of None \<Rightarrow> [] | Some (_, b) \<Rightarrow> b)"

subsection \<open>The derived order\<close>

text \<open>\<open>#[derive(Ord)]\<close> on a newtype is the order of its string.\<close>

instantiation vm_name :: linorder
begin

definition less_eq_vm_name :: "vm_name \<Rightarrow> vm_name \<Rightarrow> bool" where
  "less_eq_vm_name a b \<longleftrightarrow> vm_str a \<le> vm_str b"

definition less_vm_name :: "vm_name \<Rightarrow> vm_name \<Rightarrow> bool" where
  "less_vm_name a b \<longleftrightarrow> vm_str a < vm_str b"

instance
  by standard (auto simp: less_eq_vm_name_def less_vm_name_def vm_name.expand)

end

instantiation profile_name :: linorder
begin

definition less_eq_profile_name :: "profile_name \<Rightarrow> profile_name \<Rightarrow> bool" where
  "less_eq_profile_name a b \<longleftrightarrow> profile_str a \<le> profile_str b"

definition less_profile_name :: "profile_name \<Rightarrow> profile_name \<Rightarrow> bool" where
  "less_profile_name a b \<longleftrightarrow> profile_str a < profile_str b"

instance
  by standard (auto simp: less_eq_profile_name_def less_profile_name_def profile_name.expand)

end

subsection \<open>What the macro gives\<close>

text \<open>The shape of an identifier, as a predicate on its string.\<close>

definition well_named :: "nat \<Rightarrow> nat \<Rightarrow> (char \<Rightarrow> bool) \<Rightarrow> string \<Rightarrow> bool" where
  "well_named lo hi byte_ok s \<longleftrightarrow>
     lo \<le> length s \<and> length s \<le> hi \<and> starts_alphanumeric s \<and> (\<forall>c\<in>set s. byte_ok c)"

lemma identifier_new_Inr: "identifier_new kind lo hi P s = Inr t \<longleftrightarrow> t = s \<and> well_named lo hi P s"
  by (auto simp: identifier_new_def well_named_def list_all_iff)

lemma is_ok_map_sum [simp]: "is_ok (map_sum f g r) = is_ok r"
  by (cases r) auto

lemma is_ok_identifier_new: "is_ok (identifier_new kind lo hi P s) \<longleftrightarrow> well_named lo hi P s"
  by (simp add: is_ok_iff identifier_new_Inr)

locale validated_name =
  fixes new :: "string \<Rightarrow> identifier_error + 'n"
    and str :: "'n \<Rightarrow> string"
    and validate :: "'n \<Rightarrow> bool"
    and lo hi :: nat
    and byte_ok :: "char \<Rightarrow> bool"
  assumes new_ok: "new s = Inr n \<longleftrightarrow> str n = s \<and> well_named lo hi byte_ok s"
    and validate_ok: "validate n \<longleftrightarrow> well_named lo hi byte_ok (str n)"
    and name_byte: "byte_ok c \<Longrightarrow> is_name_byte c"
    and str_inject: "str a = str b \<Longrightarrow> a = b"
begin

lemma new_validates: "new s = Inr n \<Longrightarrow> validate n"
  by (simp add: new_ok validate_ok)

lemma validate_round_trip: "validate n \<longleftrightarrow> new (str n) = Inr n"
  by (simp add: new_ok validate_ok)

lemma str_bytes: "validate n \<Longrightarrow> c \<in> set (str n) \<Longrightarrow> is_name_byte c"
  by (auto simp: validate_ok well_named_def intro: name_byte)

lemma str_length: "validate n \<Longrightarrow> lo \<le> length (str n) \<and> length (str n) \<le> hi"
  by (simp add: validate_ok well_named_def)

lemma str_no_slash: "validate n \<Longrightarrow> CHR ''/'' \<notin> set (str n)"
  using str_bytes[of n "CHR ''/''"] by (auto simp: is_name_byte_def ascii_defs)

lemma str_no_nul: "validate n \<Longrightarrow> CHR 0x00 \<notin> set (str n)"
  using str_bytes[of n "CHR 0x00"] by (auto simp: is_name_byte_def ascii_defs)

end

lemma profile_byte_name_byte: "is_profile_byte c \<Longrightarrow> is_name_byte c"
  by (auto simp: is_profile_byte_def is_name_byte_def is_ascii_alphanumeric_def)

lemma map_sum_Inr: "map_sum f g r = Inr y \<longleftrightarrow> (\<exists>x. r = Inr x \<and> y = g x)"
  by (cases r) auto

interpretation vm_name_kind: validated_name vm_name_new vm_str vm_name_validate 1 80 is_name_byte
  by unfold_locales
    (auto simp: vm_name_new_def vm_name_validate_def map_sum_Inr identifier_new_Inr
      is_ok_identifier_new vm_name.expand)

interpretation profile_name_kind: validated_name profile_name_new profile_str profile_name_validate
  1 32 is_profile_byte
  by unfold_locales
    (auto simp: profile_name_new_def profile_name_validate_def map_sum_Inr identifier_new_Inr
      is_ok_identifier_new profile_byte_name_byte profile_name.expand)

interpretation runner_label_kind: validated_name runner_label_new label_str runner_label_validate
  1 64 is_name_byte
  by unfold_locales
    (auto simp: runner_label_new_def runner_label_validate_def map_sum_Inr identifier_new_Inr
      is_ok_identifier_new runner_label.expand)

interpretation vm_prefix_kind: validated_name vm_prefix_new prefix_str vm_prefix_validate
  3 24 is_name_byte
  by unfold_locales
    (auto simp: vm_prefix_new_def vm_prefix_validate_def map_sum_Inr identifier_new_Inr
      is_ok_identifier_new vm_prefix.expand)

subsection \<open>Repository names\<close>

lemma split_on_append:
  "d \<notin> set a \<Longrightarrow> split_on d (a @ d # b) = a # split_on d b"
  by (induction a) auto

lemma split_on_no_sep: "d \<notin> set a \<Longrightarrow> split_on d a = [a]"
  by (induction a) auto

lemma split_on_one: "split_on d s = [a] \<longleftrightarrow> s = a \<and> d \<notin> set a"
proof (cases "split_once d s")
  case None
  then show ?thesis by (auto simp: split_once_None split_on_no_sep)
next
  case (Some p)
  then obtain x y where "s = x @ d # y" "d \<notin> set x" by (cases p) (auto simp: split_once_Some)
  then show ?thesis by (auto simp: split_on_append)
qed

lemma split_on_two: "split_on d s = [a, b] \<longleftrightarrow> s = a @ d # b \<and> d \<notin> set a \<and> d \<notin> set b"
proof
  assume s: "split_on d s = [a, b]"
  then have "split_once d s \<noteq> None" using split_on_no_sep[of d s] by (auto simp: split_once_None)
  then obtain x y where xy: "s = x @ d # y" "d \<notin> set x" by (auto simp: split_once_Some)
  then have "a = x" "split_on d y = [b]" using s by (simp_all add: split_on_append)
  then show "s = a @ d # b \<and> d \<notin> set a \<and> d \<notin> set b" using xy by (simp add: split_on_one)
qed (simp add: split_on_append split_on_no_sep)

lemma slash_not_name_byte [simp]: "\<not> is_name_byte (CHR ''/'')"
  by (simp add: is_name_byte_def ascii_defs)

lemma segment_ok_no_slash: "segment_ok seg \<Longrightarrow> CHR ''/'' \<notin> set seg"
  by (auto simp: segment_ok_def list_all_iff)

lemma repository_name_new_Inr:
  "repository_name_new s = Inr n \<longleftrightarrow>
     n = RepositoryName s \<and>
     (\<exists>owner repo. s = owner @ CHR ''/'' # repo \<and> segment_ok owner \<and> segment_ok repo)"
proof -
  have len: "length (a @ CHR ''/'' # b) \<le> 201" if "segment_ok a" "segment_ok b" for a b
    using that by (simp add: segment_ok_def)
  have "repository_name_new s = Inr n \<longleftrightarrow> length s \<le> 201 \<and> n = RepositoryName s \<and>
      (\<exists>a b. split_on (CHR ''/'') s = [a, b] \<and> segment_ok a \<and> segment_ok b)"
    by (auto simp: repository_name_new_def split: list.splits)
  also have "\<dots> \<longleftrightarrow> n = RepositoryName s \<and>
      (\<exists>a b. s = a @ CHR ''/'' # b \<and> segment_ok a \<and> segment_ok b)"
    using len unfolding split_on_two by (metis segment_ok_no_slash)
  finally show ?thesis .
qed

end
