(* ===== verification/Text_Utils.thy ===== *)
theory Text_Utils
  imports Prelude
begin

text \<open>
  The string utilities of \<open>crates/flanforge-utils/src/lib.rs\<close>: text bounded at a character
  boundary, the glob matcher of the authorization allowlists, the shape of a safe git ref and
  of a supported libvirt connection URI. The matcher is the source's loop over two indices
  with one backtrack point; it is proved total and equal to the language of the pattern.
\<close>

subsection \<open>Bounded text\<close>

definition is_char_boundary :: "string \<Rightarrow> nat \<Rightarrow> bool" where
  "is_char_boundary s i \<longleftrightarrow>
     i = 0 \<or> i = length s \<or> (i < length s \<and> \<not> is_continuation (s ! i))"

fun floor_boundary :: "string \<Rightarrow> nat \<Rightarrow> nat" where
  "floor_boundary s 0 = 0"
| "floor_boundary s (Suc n) =
     (if is_char_boundary s (Suc n) then Suc n else floor_boundary s n)"

definition bounded_text :: "string \<Rightarrow> nat \<Rightarrow> string" where
  "bounded_text s n = (if length s \<le> n then s else take (floor_boundary s n) s)"

lemma floor_boundary_le: "floor_boundary s n \<le> n"
  by (induction n) auto

lemma floor_boundary_is_boundary: "is_char_boundary s (floor_boundary s n)"
  by (induction n) (auto simp: is_char_boundary_def)

lemma floor_boundary_greatest: "is_char_boundary s m \<Longrightarrow> m \<le> n \<Longrightarrow> m \<le> floor_boundary s n"
  by (induction n) (auto simp: le_Suc_eq)

lemma length_bounded_text: "length (bounded_text s n) \<le> n"
  using floor_boundary_le[of s n] by (auto simp: bounded_text_def)

lemma bounded_text_prefix: "prefix (bounded_text s n) s"
  by (auto simp: bounded_text_def take_is_prefix)

lemma set_bounded_text: "set (bounded_text s n) \<subseteq> set s"
  using bounded_text_prefix by (rule set_mono_prefix)

subsection \<open>Glob patterns\<close>

text \<open>
  \<open>glob_loop\<close> is the \<open>while\<close> loop: \<open>p\<close> and \<open>v\<close> index the pattern and the value, \<open>star\<close>
  is the last \<open>*\<close> seen and \<open>resume\<close> where to try it again. The measure counts a state whose
  \<open>resume\<close> is past \<open>v\<close> as worse than any other, so the recursion ends from every state.
\<close>

function glob_loop :: "string \<Rightarrow> string \<Rightarrow> nat \<Rightarrow> nat \<Rightarrow> nat option \<Rightarrow> nat \<Rightarrow> bool" where
  "glob_loop pattern val p v star resume =
     (if v < length val then
        if p < length pattern \<and> pattern ! p = CHR ''*'' then
          glob_loop pattern val (p + 1) v (Some p) v
        else if p < length pattern \<and> (pattern ! p = CHR ''?'' \<or> pattern ! p = val ! v) then
          glob_loop pattern val (p + 1) (v + 1) star resume
        else (case star of
            Some index \<Rightarrow> glob_loop pattern val (index + 1) (resume + 1) star (resume + 1)
          | None \<Rightarrow> False)
      else list_all (\<lambda>c. c = CHR ''*'') (drop p pattern))"
  by pat_completeness auto
termination
  by (relation "measures [\<lambda>(pt, vl, p, v, st, r). if r \<le> v then 0 else 1,
        \<lambda>(pt, vl, p, v, st, r). length vl - r,
        \<lambda>(pt, vl, p, v, st, r). (length vl - v) + (length pt - p)]") auto

declare glob_loop.simps [simp del]

definition is_glob_match :: "string \<Rightarrow> string \<Rightarrow> bool" where
  "is_glob_match pattern val = glob_loop pattern val 0 0 None 0"

text \<open>The specification: a pattern denotes the concatenation of what its bytes denote.\<close>

definition glob_byte :: "char \<Rightarrow> string set" where
  "glob_byte c = (if c = CHR ''*'' then UNIV else if c = CHR ''?'' then {s. length s = 1} else {[c]})"

fun glob_lang :: "string \<Rightarrow> string set" where
  "glob_lang [] = {[]}"
| "glob_lang (c # p) = {u @ w | u w. u \<in> glob_byte c \<and> w \<in> glob_lang p}"

lemma glob_lang_star: "s \<in> glob_lang (CHR ''*'' # p) \<longleftrightarrow> (\<exists>k\<le>length s. drop k s \<in> glob_lang p)"
proof
  assume "s \<in> glob_lang (CHR ''*'' # p)"
  then obtain u w where "s = u @ w" "w \<in> glob_lang p" by auto
  then show "\<exists>k\<le>length s. drop k s \<in> glob_lang p" by (intro exI[of _ "length u"]) simp
next
  assume "\<exists>k\<le>length s. drop k s \<in> glob_lang p"
  then obtain k where "drop k s \<in> glob_lang p" by blast
  then show "s \<in> glob_lang (CHR ''*'' # p)"
    unfolding glob_lang.simps glob_byte_def
    by (intro CollectI exI[of _ "take k s"] exI[of _ "drop k s"]) simp
qed

lemma glob_byte_one:
  "c \<noteq> CHR ''*'' \<Longrightarrow> u \<in> glob_byte c \<longleftrightarrow> (\<exists>y. u = [y] \<and> (c = CHR ''?'' \<or> c = y))"
  by (auto simp: glob_byte_def length_Suc_conv)

lemma glob_lang_one:
  assumes "c \<noteq> CHR ''*''"
  shows "s \<in> glob_lang (c # p) \<longleftrightarrow>
     (\<exists>x t. s = x # t \<and> (c = CHR ''?'' \<or> c = x) \<and> t \<in> glob_lang p)"
  unfolding glob_lang.simps mem_Collect_eq glob_byte_one[OF assms] by (metis append_Cons append_Nil)

lemma Nil_glob_lang: "[] \<in> glob_lang p \<longleftrightarrow> list_all (\<lambda>c. c = CHR ''*'') p"
  by (induction p) (auto simp: glob_byte_def)

declare glob_lang.simps(2) [simp del]

text \<open>\<open>here p v\<close>: the rest of the pattern from \<open>p\<close> matches the rest of the value from \<open>v\<close>.\<close>

definition here :: "string \<Rightarrow> string \<Rightarrow> nat \<Rightarrow> nat \<Rightarrow> bool" where
  "here pt vl p v \<longleftrightarrow> drop v vl \<in> glob_lang (drop p pt)"

lemma here_star:
  assumes "p < length pt" "pt ! p = CHR ''*''" "v \<le> length vl"
  shows "here pt vl p v \<longleftrightarrow> (\<exists>k\<ge>v. k \<le> length vl \<and> here pt vl (Suc p) k)"
proof -
  have d: "drop p pt = CHR ''*'' # drop (Suc p) pt" using assms by (metis Cons_nth_drop_Suc)
  have "here pt vl p v \<longleftrightarrow> (\<exists>j\<le>length vl - v. here pt vl (Suc p) (v + j))"
    unfolding here_def d glob_lang_star by (simp add: add.commute)
  also have "\<dots> \<longleftrightarrow> (\<exists>k\<ge>v. k \<le> length vl \<and> here pt vl (Suc p) k)"
  proof
    assume "\<exists>j\<le>length vl - v. here pt vl (Suc p) (v + j)"
    then obtain j where "j \<le> length vl - v" "here pt vl (Suc p) (v + j)" by blast
    then show "\<exists>k\<ge>v. k \<le> length vl \<and> here pt vl (Suc p) k"
      using assms(3) by (intro exI[of _ "v + j"]) simp
  next
    assume "\<exists>k\<ge>v. k \<le> length vl \<and> here pt vl (Suc p) k"
    then obtain k where "v \<le> k" "k \<le> length vl" "here pt vl (Suc p) k" by blast
    then show "\<exists>j\<le>length vl - v. here pt vl (Suc p) (v + j)"
      by (intro exI[of _ "k - v"]) simp
  qed
  finally show ?thesis .
qed

lemma here_star_later:
  assumes "p < length pt" "pt ! p = CHR ''*''" "v < k" "k \<le> length vl" "here pt vl p k"
  shows "here pt vl p v"
  using assms here_star[of p pt k vl] here_star[of p pt v vl] by (auto intro: exI[of _ k])

lemma here_one:
  assumes "p < length pt" "pt ! p \<noteq> CHR ''*''"
  shows "here pt vl p v \<longleftrightarrow>
    v < length vl \<and> (pt ! p = CHR ''?'' \<or> pt ! p = vl ! v) \<and> here pt vl (Suc p) (Suc v)"
proof -
  have d: "drop p pt = pt ! p # drop (Suc p) pt" using assms by (metis Cons_nth_drop_Suc)
  have "drop v vl = x # t \<longleftrightarrow> v < length vl \<and> x = vl ! v \<and> t = drop (Suc v) vl" for x t
    by (metis Cons_nth_drop_Suc drop_eq_Nil2 leI list.distinct(1) list.inject)
  then show ?thesis unfolding here_def d glob_lang_one[OF assms(2)] by auto
qed

lemma here_end: "length pt \<le> p \<Longrightarrow> here pt vl p v \<longleftrightarrow> length vl \<le> v"
  by (auto simp: here_def)

text \<open>A run of \<open>n\<close> pattern bytes without a \<open>*\<close> consumes exactly \<open>n\<close> bytes of the value.\<close>

lemma here_run:
  assumes "here pt vl i k" "k \<le> length vl" "i + n \<le> length pt" "\<forall>j<n. pt ! (i + j) \<noteq> CHR ''*''"
  shows "here pt vl (i + n) (k + n) \<and> k + n \<le> length vl"
  using assms(3,4)
proof (induction n)
  case (Suc n)
  then have "here pt vl (i + n) (k + n)" by simp
  moreover have "pt ! (i + n) \<noteq> CHR ''*''" using Suc.prems by simp
  ultimately show ?case using here_one[of "i + n" pt vl "k + n"] Suc.prems by simp
qed (use assms in simp)

text \<open>
  The loop's invariant: since the last \<open>*\<close> the loop has only stepped over bytes that are
  not \<open>*\<close>, as many of them in the pattern as in the value.
\<close>

definition star_inv :: "string \<Rightarrow> nat \<Rightarrow> nat \<Rightarrow> nat option \<Rightarrow> nat \<Rightarrow> bool" where
  "star_inv pt p v star resume \<longleftrightarrow> (case star of None \<Rightarrow> True | Some i \<Rightarrow>
     i < p \<and> p \<le> length pt \<and> resume \<le> v \<and> p - Suc i = v - resume \<and> pt ! i = CHR ''*''
     \<and> (\<forall>j. i < j \<and> j < p \<longrightarrow> pt ! j \<noteq> CHR ''*''))"

definition retry :: "string \<Rightarrow> string \<Rightarrow> nat option \<Rightarrow> nat \<Rightarrow> bool" where
  "retry pt vl star resume \<longleftrightarrow> (case star of None \<Rightarrow> False | Some i \<Rightarrow>
     \<exists>k>resume. k \<le> length vl \<and> here pt vl (Suc i) k)"

lemma retry_run:
  assumes "star_inv pt p v star r" "retry pt vl star r"
  shows "\<exists>k>v. k \<le> length vl \<and> here pt vl p k"
proof -
  obtain i where i: "star = Some i" using assms(2) by (cases star) (auto simp: retry_def)
  then obtain k where k: "k > r" "k \<le> length vl" "here pt vl (Suc i) k"
    using assms(2) by (auto simp: retry_def)
  have inv: "i < p" "p \<le> length pt" "r \<le> v" "p - Suc i = v - r"
    and lit: "\<And>j. i < j \<Longrightarrow> j < p \<Longrightarrow> pt ! j \<noteq> CHR ''*''"
    using assms(1) i by (auto simp: star_inv_def)
  have "here pt vl (Suc i + (p - Suc i)) (k + (p - Suc i)) \<and> k + (p - Suc i) \<le> length vl"
    by (rule here_run) (use k inv lit in auto)
  then have "here pt vl p (k + (p - Suc i)) \<and> k + (p - Suc i) \<le> length vl"
    using inv(1) by simp
  then show ?thesis using inv k(1) by (intro exI[of _ "k + (p - Suc i)"]) auto
qed

lemma glob_loop_correct:
  assumes "star_inv pt p v star r" "p \<le> length pt" "v \<le> length vl"
  shows "glob_loop pt vl p v star r \<longleftrightarrow> here pt vl p v \<or> retry pt vl star r"
  using assms
proof (induction pt vl p v star r rule: glob_loop.induct)
  case (1 pt vl p v star r)
  consider (exhausted) "\<not> v < length vl"
    | (star) "v < length vl" "p < length pt" "pt ! p = CHR ''*''"
    | (one) "v < length vl" "p < length pt" "pt ! p \<noteq> CHR ''*''"
        "pt ! p = CHR ''?'' \<or> pt ! p = vl ! v"
    | (miss) "v < length vl" "p < length pt \<longrightarrow> pt ! p \<noteq> CHR ''*''"
        "p < length pt \<longrightarrow> \<not> (pt ! p = CHR ''?'' \<or> pt ! p = vl ! v)"
    by blast
  then show ?case
  proof cases
    case exhausted
    then have "\<not> retry pt vl star r" using retry_run[OF 1(4), of vl] by auto
    with exhausted show ?thesis by (simp add: glob_loop.simps[of pt] here_def Nil_glob_lang)
  next
    case star
    have "star_inv pt (p + 1) v (Some p) v" using star by (auto simp: star_inv_def)
    then have "glob_loop pt vl p v star r \<longleftrightarrow> here pt vl (p + 1) v \<or> retry pt vl (Some p) v"
      using 1(1) 1(5,6) star by (simp add: glob_loop.simps[of pt vl p])
    also have "\<dots> \<longleftrightarrow> here pt vl p v"
      using star here_star[of p pt v vl] by (auto simp: retry_def le_less)
    also have "\<dots> \<longleftrightarrow> here pt vl p v \<or> retry pt vl star r"
      using here_star_later[OF star(2,3)] retry_run[OF 1(4), of vl] by auto
    finally show ?thesis .
  next
    case one
    have "star_inv pt (p + 1) (v + 1) star r"
      using 1(4) one by (auto simp: star_inv_def less_Suc_eq split: option.splits)
    then have "glob_loop pt vl p v star r \<longleftrightarrow> here pt vl (p + 1) (v + 1) \<or> retry pt vl star r"
      using 1(2) one by (simp add: glob_loop.simps[of pt vl p])
    then show ?thesis using one here_one[of p pt vl v] by auto
  next
    case miss
    have no: "\<not> here pt vl p v" using miss here_one[of p pt vl v] here_end[of pt p vl v] by fastforce
    have step: "glob_loop pt vl p v star r = (case star of None \<Rightarrow> False
        | Some i \<Rightarrow> glob_loop pt vl (i + 1) (r + 1) star (r + 1))"
      using miss by (subst glob_loop.simps) (auto split: option.splits)
    show ?thesis
    proof (cases star)
      case None
      with no step show ?thesis by (simp add: retry_def)
    next
      case (Some i)
      then have r: "r < length vl" "i < length pt" using 1(4,5) miss by (auto simp: star_inv_def)
      have "star_inv pt (i + 1) (r + 1) star (r + 1)"
        using 1(4) Some r by (auto simp: star_inv_def less_Suc_eq)
      then have "glob_loop pt vl p v star r \<longleftrightarrow>
          here pt vl (i + 1) (r + 1) \<or> retry pt vl star (r + 1)"
        using 1(3) miss Some r step by auto
      also have "\<dots> \<longleftrightarrow> retry pt vl star r"
        using Some r by (auto simp: retry_def dest: Suc_lessD) (metis Suc_lessI)
      finally show ?thesis using no by simp
    qed
  qed
qed

lemma is_glob_match_lang: "is_glob_match pattern val \<longleftrightarrow> val \<in> glob_lang pattern"
  using glob_loop_correct[of pattern 0 0 None 0 val]
  by (simp add: is_glob_match_def star_inv_def retry_def here_def)

text \<open>A pattern without wildcards denotes only itself.\<close>

lemma glob_lang_literal:
  "CHR ''*'' \<notin> set p \<Longrightarrow> CHR ''?'' \<notin> set p \<Longrightarrow> glob_lang p = {p}"
proof (induction p)
  case (Cons c p)
  then show ?case using glob_lang_one[of c _ p] by (auto simp: set_eq_iff)
qed simp

subsection \<open>Safe git refs\<close>

definition is_ref_byte :: "bool \<Rightarrow> char \<Rightarrow> bool" where
  "is_ref_byte wildcards c \<longleftrightarrow> is_ascii_alphanumeric c
     \<or> c \<in> {CHR ''/'', CHR ''-'', CHR ''_'', CHR ''.''}
     \<or> (wildcards \<and> c \<in> {CHR ''*'', CHR ''?''})"

definition is_safe_segment :: "string \<Rightarrow> bool" where
  "is_safe_segment seg \<longleftrightarrow> seg \<noteq> [] \<and> \<not> starts_with seg ''.''
     \<and> \<not> ends_with (map to_ascii_lowercase seg) ''.lock''"

definition is_safe_ref_shape :: "string \<Rightarrow> bool \<Rightarrow> bool" where
  "is_safe_ref_shape s wildcards =
     (if \<not> starts_with s ''refs/'' \<or> length s > 256
         \<or> ends_with s ''/'' \<or> ends_with s ''.''
         \<or> str_contains s ''//'' \<or> str_contains s ''..'' \<or> str_contains s [CHR 0x40, CHR 0x7B]
         \<or> \<not> list_all (is_ref_byte wildcards) s
      then False
      else list_all is_safe_segment (drop 1 (split_on (CHR ''/'') s)))"

definition is_safe_git_ref :: "string \<Rightarrow> bool" where
  "is_safe_git_ref s = is_safe_ref_shape s False"

definition is_safe_git_ref_pattern :: "string \<Rightarrow> bool" where
  "is_safe_git_ref_pattern s = is_safe_ref_shape s True"

text \<open>Every safe ref is a safe pattern, and as a pattern it names only itself.\<close>

lemma safe_ref_no_wildcard:
  "is_safe_git_ref s \<Longrightarrow> CHR ''*'' \<notin> set s \<and> CHR ''?'' \<notin> set s"
  by (auto simp: is_safe_git_ref_def is_safe_ref_shape_def list_all_iff is_ref_byte_def
      ascii_defs split: if_splits)

lemma is_ref_byte_mono: "list_all (is_ref_byte False) s \<Longrightarrow> list_all (is_ref_byte w) s"
  by (auto simp: list_all_iff is_ref_byte_def)

lemma safe_ref_is_pattern: "is_safe_git_ref s \<Longrightarrow> is_safe_git_ref_pattern s"
  using is_ref_byte_mono[of s True]
  by (auto simp: is_safe_git_ref_def is_safe_git_ref_pattern_def is_safe_ref_shape_def
      split: if_splits)

subsection \<open>Libvirt connection URIs\<close>

definition is_user_byte :: "char \<Rightarrow> bool" where
  "is_user_byte c \<longleftrightarrow> is_ascii_alphanumeric c \<or> c \<in> {CHR ''-'', CHR ''_'', CHR ''.''}"

definition is_host_byte :: "char \<Rightarrow> bool" where
  "is_host_byte c \<longleftrightarrow> is_ascii_alphanumeric c \<or> c \<in> {CHR ''-'', CHR ''.''}"

definition is_libvirt_host :: "string \<Rightarrow> bool" where
  "is_libvirt_host host \<longleftrightarrow> host \<noteq> [] \<and> length host \<le> 253 \<and> \<not> starts_with host ''.''
     \<and> \<not> ends_with host ''.'' \<and> \<not> str_contains host ''..'' \<and> list_all is_host_byte host"

definition is_libvirt_authority :: "string \<Rightarrow> bool" where
  "is_libvirt_authority authority =
     (let after_user = (case split_once (CHR 0x40) authority of
            Some (user, host) \<Rightarrow>
              if user = [] \<or> \<not> list_all is_user_byte user then None else Some host
          | None \<Rightarrow> Some authority)
      in case after_user of
           None \<Rightarrow> False
         | Some rest \<Rightarrow>
             (case rsplit_once (CHR '':'') rest of
                Some (host, port) \<Rightarrow>
                  if port = [] \<or> \<not> list_all is_ascii_digit port \<or> parse_uint 16 port = None
                  then False else is_libvirt_host host
              | None \<Rightarrow> is_libvirt_host rest))"

definition libvirt_transport :: "string \<Rightarrow> string option" where
  "libvirt_transport scheme =
     (if scheme = ''qemu'' then Some ''unix'' else strip_prefix ''qemu+'' scheme)"

definition is_supported_libvirt_uri :: "string \<Rightarrow> bool \<Rightarrow> bool" where
  "is_supported_libvirt_uri uri is_insecure_allowed =
     (if uri = [] \<or> length uri > 255
         \<or> CHR ''?'' \<in> set uri \<or> CHR ''#'' \<in> set uri \<or> CHR '' '' \<in> set uri
         \<or> \<not> list_all is_ascii_graphic uri
      then False
      else case split_once_str ''://'' uri of
        None \<Rightarrow> False
      | Some (scheme, rest) \<Rightarrow>
          (case libvirt_transport scheme of
             None \<Rightarrow> False
           | Some transport \<Rightarrow>
               (case split_once (CHR ''/'') rest of
                  None \<Rightarrow> False
                | Some (authority, path) \<Rightarrow>
                    if path \<noteq> ''system'' \<and> path \<noteq> ''session'' then False
                    else if transport = ''unix'' then authority = []
                    else if transport = ''tcp'' \<and> \<not> is_insecure_allowed then False
                    else if transport \<in> {''ssh'', ''tls'', ''tcp''} then is_libvirt_authority authority
                    else False)))"

lemma split_once_str_Some: "split_once_str d s = Some (a, b) \<Longrightarrow> s = a @ d @ b"
proof (induction s arbitrary: a)
  case (Cons c s)
  then show ?case by (auto simp: prefix_def split: if_splits)
qed (auto split: if_splits)

end
