(* ===== verification/Images.thy ===== *)
theory Images
  imports Identifiers Text_Utils
begin

text \<open>
  The value types of images and sizing: \<open>image/fingerprint.rs\<close>, \<open>image/outcome.rs\<close>,
  \<open>image/record.rs\<close>, \<open>allocation/size.rs\<close> and \<open>allocation/source.rs\<close> of the core crate,
  each with the validation its \<open>Validate\<close> derive declares.
\<close>

subsection \<open>Base fingerprints\<close>

datatype base_fingerprint = BaseFingerprint (fingerprint_str: string)

record file_stat =
  stat_len :: u64
  mtime_secs :: u64
  mtime_nanos :: u32

definition fingerprint_new :: "string \<Rightarrow> identifier_error + base_fingerprint" where
  "fingerprint_new s =
     (if \<not> (1 \<le> length s \<and> length s \<le> 128) then Inl (Length ''base fingerprint'' 1 128)
      else if \<not> list_all is_ascii_hexdigit s then Inl (Character ''base fingerprint'')
      else Inr (BaseFingerprint s))"

definition fingerprint_validate :: "base_fingerprint \<Rightarrow> bool" where
  "fingerprint_validate f = is_ok (fingerprint_new (fingerprint_str f))"

text \<open>\<open>{:0wx}\<close> of a value below \<open>16 ^ w\<close>: exactly \<open>w\<close> lower-case hexadecimal digits.\<close>

definition hex_char :: "nat \<Rightarrow> char" where
  "hex_char n = (if n < 10 then char_of (48 + n) else char_of (87 + n))"

fun hex_pad :: "nat \<Rightarrow> nat \<Rightarrow> string" where
  "hex_pad 0 n = []"
| "hex_pad (Suc w) n = hex_pad w (n div 16) @ [hex_char (n mod 16)]"

definition from_stats :: "file_stat \<Rightarrow> file_stat \<Rightarrow> base_fingerprint" where
  "from_stats disk config = BaseFingerprint
     (hex_pad 16 (unat (stat_len disk)) @ hex_pad 16 (unat (mtime_secs disk))
      @ hex_pad 8 (unat (mtime_nanos disk)) @ hex_pad 16 (unat (stat_len config))
      @ hex_pad 16 (unat (mtime_secs config)) @ hex_pad 8 (unat (mtime_nanos config)))"

definition is_fingerprint_match :: "base_fingerprint option \<Rightarrow> base_fingerprint option \<Rightarrow> bool" where
  "is_fingerprint_match recorded current =
     (case (recorded, current) of (Some r, Some c) \<Rightarrow> r = c | _ \<Rightarrow> False)"

lemma byte_val_hex_char: "n < 16 \<Longrightarrow> byte_val (hex_char n) = (if n < 10 then 48 + n else 87 + n)"
  by (simp add: hex_char_def of_char_of)

lemma hex_char_inject:
  assumes "m < 16" "n < 16"
  shows "hex_char m = hex_char n \<longleftrightarrow> m = n"
proof
  assume "hex_char m = hex_char n"
  then have "byte_val (hex_char m) = byte_val (hex_char n)" by simp
  then show "m = n" using assms by (simp add: byte_val_hex_char split: if_splits)
qed simp

lemma hex_char_hexdigit: "n < 16 \<Longrightarrow> is_ascii_hexdigit (hex_char n)"
  by (simp add: is_ascii_hexdigit_def is_ascii_digit_def byte_val_hex_char)

lemma length_hex_pad [simp]: "length (hex_pad w n) = w"
  by (induction w arbitrary: n) auto

lemma hex_pad_inject: "m < 16 ^ w \<Longrightarrow> n < 16 ^ w \<Longrightarrow> hex_pad w m = hex_pad w n \<longleftrightarrow> m = n"
proof (induction w arbitrary: m n)
  case (Suc w)
  have "m div 16 < 16 ^ w" "n div 16 < 16 ^ w"
    using Suc.prems by (auto simp: less_mult_imp_div_less mult.commute)
  then have "hex_pad (Suc w) m = hex_pad (Suc w) n \<longleftrightarrow> m div 16 = n div 16 \<and> m mod 16 = n mod 16"
    by (simp add: Suc.IH hex_char_inject)
  then show ?case by (metis div_mult_mod_eq)
qed simp

lemma hex_pad_hexdigit: "c \<in> set (hex_pad w n) \<Longrightarrow> is_ascii_hexdigit c"
  by (induction w arbitrary: n) (auto simp: hex_char_hexdigit)

lemma unat_hex_bounds: "unat (x::u64) < 16 ^ 16" "unat (y::u32) < 16 ^ 8"
proof -
  have "(16::nat) ^ 16 = 2 ^ LENGTH(64)" "(16::nat) ^ 8 = 2 ^ LENGTH(32)" by simp_all
  then show "unat (x::u64) < 16 ^ 16" "unat (y::u32) < 16 ^ 8"
    using unsigned_less[of x, where 'a = nat] unsigned_less[of y, where 'a = nat] by presburger+
qed

lemma hex_u64: "hex_pad 16 (unat x) = hex_pad 16 (unat y) \<longleftrightarrow> x = y" for x y :: u64
  using hex_pad_inject[OF unat_hex_bounds(1) unat_hex_bounds(1)] by (simp add: word_unat_eq_iff)

lemma hex_u32: "hex_pad 8 (unat x) = hex_pad 8 (unat y) \<longleftrightarrow> x = y" for x y :: u32
  using hex_pad_inject[OF unat_hex_bounds(2) unat_hex_bounds(2)] by (simp add: word_unat_eq_iff)

lemma fingerprint_match_iff: "is_fingerprint_match r c \<longleftrightarrow> (\<exists>f. r = Some f \<and> c = Some f)"
  by (auto simp: is_fingerprint_match_def split: option.splits)

subsection \<open>Sizes and clone sources\<close>

record guest_size =
  cpu_count :: u8
  memory_mb :: u32
  storage_mb :: u64

definition MAX_STORAGE_MB :: u64 where
  "MAX_STORAGE_MB = 1048576"

definition guest_size_validate :: "guest_size \<Rightarrow> bool" where
  "guest_size_validate z \<longleftrightarrow> 1 \<le> cpu_count z \<and> cpu_count z \<le> 64
     \<and> 2048 \<le> memory_mb z \<and> memory_mb z \<le> 131072
     \<and> 16384 \<le> storage_mb z \<and> storage_mb z \<le> 1048576"

datatype allocation_mode = Cold | Warm | Regenerate
datatype clone_kind = TemplateKind | WarmKind

datatype fallback_reason =
    NotDeclared | NoRecord | Repointed | Absent | NotStopped | FallbackStaleBase | Unclaimed
  | Quarantined | NotPromoted | FingerprintUnavailable | Unsupported | StorageTooSmall | Unknown

definition fallback_names :: "(string \<times> fallback_reason) list" where
  "fallback_names =
     [(''not_declared'', NotDeclared), (''no_record'', NoRecord), (''repointed'', Repointed),
      (''absent'', Absent), (''not_stopped'', NotStopped), (''stale_base'', FallbackStaleBase),
      (''unclaimed'', Unclaimed), (''quarantined'', Quarantined),
      (''not_promoted'', NotPromoted), (''fingerprint_unavailable'', FingerprintUnavailable),
      (''unsupported'', Unsupported), (''storage_too_small'', StorageTooSmall)]"

text \<open>The tolerant reader: the first row of the table that has the name, or \<open>Unknown\<close>.\<close>

definition fallback_deserialize :: "string \<Rightarrow> fallback_reason" where
  "fallback_deserialize s = unwrap_or Unknown (map_of fallback_names s)"

text \<open>The derived \<open>Serialize\<close> writes the variant in snake case.\<close>

fun fallback_serialize :: "fallback_reason \<Rightarrow> string" where
  "fallback_serialize NotDeclared = ''not_declared''"
| "fallback_serialize NoRecord = ''no_record''"
| "fallback_serialize Repointed = ''repointed''"
| "fallback_serialize Absent = ''absent''"
| "fallback_serialize NotStopped = ''not_stopped''"
| "fallback_serialize FallbackStaleBase = ''stale_base''"
| "fallback_serialize Unclaimed = ''unclaimed''"
| "fallback_serialize Quarantined = ''quarantined''"
| "fallback_serialize NotPromoted = ''not_promoted''"
| "fallback_serialize FingerprintUnavailable = ''fingerprint_unavailable''"
| "fallback_serialize Unsupported = ''unsupported''"
| "fallback_serialize StorageTooSmall = ''storage_too_small''"
| "fallback_serialize Unknown = ''unknown''"

record clone_source =
  src_name :: vm_name
  src_kind :: clone_kind
  src_base_fingerprint :: "base_fingerprint option"
  src_fallback_reason :: "fallback_reason option"

definition clone_source_validate :: "clone_source \<Rightarrow> bool" where
  "clone_source_validate c \<longleftrightarrow>
     vm_name_validate (src_name c) \<and> option_all fingerprint_validate (src_base_fingerprint c)"

subsection \<open>Retention outcomes\<close>

datatype retention_result = ResPromoted | ResRolledBack | ResSkipped | ResRejected | ResFailed
datatype retention_phase = Strip | Stop | Stage | Verify | Retire | Promote

record retention_outcome =
  ret_outcome :: retention_result
  ret_phase :: retention_phase
  ret_reason :: string
  ret_generation :: "u64 option"
  ret_duration_ms :: "u64 option"

definition MAX_REASON_LEN :: nat where
  "MAX_REASON_LEN = 256"

definition retention_outcome_new ::
    "retention_result \<Rightarrow> retention_phase \<Rightarrow> string \<Rightarrow> u64 option \<Rightarrow> retention_outcome" where
  "retention_outcome_new outcome phase reason generation =
     \<lparr>ret_outcome = outcome, ret_phase = phase, ret_reason = bounded_text reason MAX_REASON_LEN,
      ret_generation = generation, ret_duration_ms = None\<rparr>"

text \<open>A \<open>Duration\<close>'s milliseconds are a \<open>u128\<close>; one that does not fit reads as the maximum.\<close>

definition with_duration :: "retention_outcome \<Rightarrow> nat \<Rightarrow> retention_outcome" where
  "with_duration r millis = r\<lparr>ret_duration_ms := Some (of_nat (min millis (2 ^ 64 - 1)))\<rparr>"

definition validate_reason :: "string \<Rightarrow> bool" where
  "validate_reason s \<longleftrightarrow> length s \<le> MAX_REASON_LEN \<and> CHR 0x00 \<notin> set s"

definition retention_outcome_validate :: "retention_outcome \<Rightarrow> bool" where
  "retention_outcome_validate r = validate_reason (ret_reason r)"

lemma retention_new_validates_iff:
  "retention_outcome_validate (retention_outcome_new r p reason g) \<longleftrightarrow>
     CHR 0x00 \<notin> set (bounded_text reason MAX_REASON_LEN)"
  using length_bounded_text[of reason MAX_REASON_LEN]
  by (simp add: retention_outcome_validate_def retention_outcome_new_def validate_reason_def)

subsection \<open>Warm image records\<close>

definition STAGING_SUFFIX :: string where "STAGING_SUFFIX = ''.staging''"
definition PREVIOUS_SUFFIX :: string where "PREVIOUS_SUFFIX = ''.previous''"

datatype warm_image_state = Staging | Promoted

record warm_generation =
  gen_generation :: u64
  gen_base_fingerprint :: base_fingerprint
  gen_produced_by :: uuid
  gen_produced_at_unix :: u64

record warm_image_record =
  img_profile :: profile_name
  img_warm_template :: vm_name
  img_generation :: u64
  img_base_fingerprint :: base_fingerprint
  img_produced_by :: uuid
  img_produced_at_unix :: u64
  img_state :: warm_image_state
  img_previous :: "warm_generation option"

definition warm_generation_validate :: "warm_generation \<Rightarrow> bool" where
  "warm_generation_validate g \<longleftrightarrow>
     1 \<le> gen_generation g \<and> fingerprint_validate (gen_base_fingerprint g)"

definition warm_image_validate :: "warm_image_record \<Rightarrow> bool" where
  "warm_image_validate r \<longleftrightarrow> profile_name_validate (img_profile r)
     \<and> vm_name_validate (img_warm_template r) \<and> 1 \<le> img_generation r
     \<and> fingerprint_validate (img_base_fingerprint r)
     \<and> option_all warm_generation_validate (img_previous r)"

definition staging_name :: "warm_image_record \<Rightarrow> identifier_error + vm_name" where
  "staging_name r = with_suffix (img_warm_template r) STAGING_SUFFIX"

definition previous_name :: "warm_image_record \<Rightarrow> identifier_error + vm_name" where
  "previous_name r = with_suffix (img_warm_template r) PREVIOUS_SUFFIX"

end
