(* ===== verification/Allocations.thy ===== *)
theory Allocations
  imports Lifecycle Images
begin

text \<open>
  The allocation model of \<open>crates/flanforge-core/src/allocation\<close> (\<open>model.rs\<close>, \<open>origin.rs\<close>,
  \<open>outcome.rs\<close>) and the pool guest's record of \<open>hot\<close> (\<open>lane.rs\<close>, \<open>refusal.rs\<close>,
  \<open>record.rs\<close>). A method that takes \<open>&mut self\<close> is a function to the updated record; the
  clock it reads (\<open>unix_time\<close>) is its last argument, a new identifier an argument of \<open>new\<close>.
\<close>

subsection \<open>Lanes and refusals\<close>

datatype hot_lane = Protected | Unprotected

definition from_ref_protected :: "bool \<Rightarrow> hot_lane" where
  "from_ref_protected is_ref_protected = (if is_ref_protected then Protected else Unprotected)"

datatype hot_lane_policy = PolicyNone | PolicyProtected | PolicyAny

fun is_lane_admitted :: "hot_lane_policy \<Rightarrow> hot_lane \<Rightarrow> bool" where
  "is_lane_admitted PolicyNone lane = False"
| "is_lane_admitted PolicyProtected lane = (lane = Protected)"
| "is_lane_admitted PolicyAny lane = True"

datatype hot_refusal = NotEnabled | LaneNotAdmitted | RefusalRegeneration | RefusalUnsupported | PoolFull

subsection \<open>Requests\<close>

record allocation_request =
  req_profile :: profile_name
  req_repository :: repository_name
  req_run_id :: u64
  req_run_attempt :: u32

definition request_validate :: "allocation_request \<Rightarrow> bool" where
  "request_validate r \<longleftrightarrow> profile_name_validate (req_profile r)
     \<and> repository_name_validate (req_repository r) \<and> 1 \<le> req_run_id r \<and> 1 \<le> req_run_attempt r"

definition is_same_attempt :: "allocation_request \<Rightarrow> allocation_request \<Rightarrow> bool" where
  "is_same_attempt a b \<longleftrightarrow> req_repository a = req_repository b \<and> req_run_id a = req_run_id b
     \<and> req_run_attempt a = req_run_attempt b \<and> req_profile a = req_profile b"

lemma is_same_attempt_eq: "is_same_attempt a b \<longleftrightarrow> a = b"
  by (cases a; cases b) (auto simp: is_same_attempt_def)

subsection \<open>Allocations\<close>

datatype allocation_origin = Cloned | HotReuse (reuse_vm: vm_name) (reuse_jobs: u32) (reuse_booted: u64)

fun is_hot_reuse :: "allocation_origin \<Rightarrow> bool" where
  "is_hot_reuse Cloned = False"
| "is_hot_reuse (HotReuse _ _ _) = True"

fun hot_vm_name :: "allocation_origin \<Rightarrow> vm_name option" where
  "hot_vm_name Cloned = None"
| "hot_vm_name (HotReuse n _ _) = Some n"

fun origin_validate :: "allocation_origin \<Rightarrow> bool" where
  "origin_validate Cloned = True"
| "origin_validate (HotReuse n _ _) = vm_name_validate n"

datatype terminal_reason = Capacity

text \<open>\<open>runner_id\<close> is an \<open>i64\<close> that the code only stores and compares with one.\<close>

record allocation =
  alloc_id :: uuid
  alloc_request :: allocation_request
  alloc_state :: allocation_state
  alloc_vm_name :: vm_name
  alloc_runner_label :: runner_label
  alloc_vm_created :: bool
  alloc_runner_id :: "int option"
  alloc_created_at :: u64
  alloc_updated_at :: u64
  alloc_error :: "string option"
  alloc_mode :: allocation_mode
  alloc_size :: "guest_size option"
  alloc_source :: "clone_source option"
  alloc_origin :: allocation_origin
  alloc_hot_lane :: "hot_lane option"
  alloc_hot_refusal :: "hot_refusal option"
  alloc_hot_age :: "u64 option"
  alloc_warm_generation :: "u64 option"
  alloc_retention :: "retention_outcome option"
  alloc_terminal_reason :: "terminal_reason option"

definition validate_error :: "string \<Rightarrow> bool" where
  "validate_error s \<longleftrightarrow> length s \<le> 512 \<and> CHR 0x00 \<notin> set s"

definition allocation_validate :: "allocation \<Rightarrow> bool" where
  "allocation_validate a \<longleftrightarrow> request_validate (alloc_request a)
     \<and> vm_name_validate (alloc_vm_name a) \<and> runner_label_validate (alloc_runner_label a)
     \<and> option_all (\<lambda>i. 1 \<le> i) (alloc_runner_id a) \<and> option_all validate_error (alloc_error a)
     \<and> option_all guest_size_validate (alloc_size a)
     \<and> option_all clone_source_validate (alloc_source a) \<and> origin_validate (alloc_origin a)
     \<and> option_all (\<lambda>g. 1 \<le> g) (alloc_hot_age a) \<and> option_all (\<lambda>g. 1 \<le> g) (alloc_warm_generation a)
     \<and> option_all retention_outcome_validate (alloc_retention a)"

definition allocation_new ::
    "allocation_request \<Rightarrow> vm_name \<Rightarrow> runner_label \<Rightarrow> allocation_mode \<Rightarrow> guest_size
      \<Rightarrow> uuid \<Rightarrow> u64 \<Rightarrow> allocation" where
  "allocation_new request name label mode sz ident now =
     \<lparr>alloc_id = ident, alloc_request = request, alloc_state = Requested, alloc_vm_name = name,
      alloc_runner_label = label, alloc_vm_created = False, alloc_runner_id = None,
      alloc_created_at = now, alloc_updated_at = now, alloc_error = None, alloc_mode = mode,
      alloc_size = Some sz, alloc_source = None, alloc_origin = Cloned, alloc_hot_lane = None,
      alloc_hot_refusal = None, alloc_hot_age = None, alloc_warm_generation = None,
      alloc_retention = None, alloc_terminal_reason = None\<rparr>"

datatype transition_error = StateTransitionError allocation_state allocation_state

definition transition :: "allocation \<Rightarrow> allocation_state \<Rightarrow> u64 \<Rightarrow> transition_error + allocation" where
  "transition a next now =
     (if \<not> can_transition_to (alloc_state a) next
      then Inl (StateTransitionError (alloc_state a) next)
      else Inr (a\<lparr>alloc_state := next, alloc_updated_at := now\<rparr>))"

definition set_runner_id :: "int \<Rightarrow> u64 \<Rightarrow> allocation \<Rightarrow> allocation" where
  "set_runner_id i now a = a\<lparr>alloc_runner_id := Some i, alloc_updated_at := now\<rparr>"

definition set_vm_created :: "u64 \<Rightarrow> allocation \<Rightarrow> allocation" where
  "set_vm_created now a = a\<lparr>alloc_vm_created := True, alloc_updated_at := now\<rparr>"

definition set_error :: "string \<Rightarrow> u64 \<Rightarrow> allocation \<Rightarrow> allocation" where
  "set_error e now a = a\<lparr>alloc_error := Some (bounded_text e 512), alloc_updated_at := now\<rparr>"

definition set_source :: "clone_source \<Rightarrow> u64 \<Rightarrow> allocation \<Rightarrow> allocation" where
  "set_source source now a =
     (let a = (if src_kind source \<noteq> WarmKind then a\<lparr>alloc_warm_generation := None\<rparr> else a)
      in a\<lparr>alloc_source := Some source, alloc_updated_at := now\<rparr>)"

definition set_clone_source :: "clone_source \<Rightarrow> u64 option \<Rightarrow> u64 \<Rightarrow> allocation \<Rightarrow> allocation" where
  "set_clone_source source warm_generation now a =
     a\<lparr>alloc_warm_generation := (if src_kind source = WarmKind then warm_generation else None),
       alloc_source := Some source, alloc_updated_at := now\<rparr>"

definition set_hot ::
    "hot_lane option \<Rightarrow> allocation_origin \<Rightarrow> clone_source option \<Rightarrow> u64 option \<Rightarrow> u64
      \<Rightarrow> allocation \<Rightarrow> allocation" where
  "set_hot lane origin source age now a =
     (let a = (case source of None \<Rightarrow> a | Some s \<Rightarrow> a\<lparr>alloc_source := Some s\<rparr>)
      in a\<lparr>alloc_origin := origin, alloc_hot_lane := lane, alloc_hot_age := age,
           alloc_hot_refusal := None, alloc_updated_at := now\<rparr>)"

definition set_hot_refused :: "hot_refusal \<Rightarrow> u64 \<Rightarrow> allocation \<Rightarrow> allocation" where
  "set_hot_refused refusal now a =
     a\<lparr>alloc_hot_lane := None, alloc_hot_refusal := Some refusal, alloc_updated_at := now\<rparr>"

definition is_hot :: "allocation \<Rightarrow> bool" where
  "is_hot a \<longleftrightarrow> alloc_hot_lane a \<noteq> None \<or> is_hot_reuse (alloc_origin a)"

definition set_retention :: "retention_outcome \<Rightarrow> u64 \<Rightarrow> allocation \<Rightarrow> allocation" where
  "set_retention r now a = a\<lparr>alloc_retention := Some r, alloc_updated_at := now\<rparr>"

definition set_capacity_busy :: "u64 \<Rightarrow> allocation \<Rightarrow> allocation" where
  "set_capacity_busy now a = a\<lparr>alloc_terminal_reason := Some Capacity, alloc_updated_at := now\<rparr>"

definition is_capacity_busy :: "allocation \<Rightarrow> bool" where
  "is_capacity_busy a \<longleftrightarrow> alloc_terminal_reason a = Some Capacity"

definition is_retention_eligible :: "allocation \<Rightarrow> bool" where
  "is_retention_eligible a \<longleftrightarrow> alloc_mode a = Regenerate \<and> alloc_vm_created a"

lemmas setter_defs = set_runner_id_def set_vm_created_def set_error_def set_source_def
  set_clone_source_def set_hot_def set_hot_refused_def set_retention_def set_capacity_busy_def

lemma hot_vm_name_Some: "hot_vm_name o' = Some n \<longleftrightarrow> (\<exists>j b. o' = HotReuse n j b)"
  by (cases o') auto

lemma hot_vm_name_hot: "hot_vm_name (alloc_origin a) = Some n \<Longrightarrow> is_hot a"
  by (auto simp: is_hot_def hot_vm_name_Some)

lemma transition_Inr:
  "transition a t now = Inr a' \<longleftrightarrow>
     can_transition_to (alloc_state a) t \<and> a' = a\<lparr>alloc_state := t, alloc_updated_at := now\<rparr>"
  by (auto simp: transition_def)

lemma transition_validates:
  "transition a t now = Inr a' \<Longrightarrow> allocation_validate a' = allocation_validate a"
  by (auto simp: transition_Inr allocation_validate_def)

text \<open>
  The evidence of a warm generation never outlives a template source: after either setter of
  the source, a template allocation carries no generation.
\<close>

lemma source_setters_generation:
  "src_kind source \<noteq> WarmKind \<Longrightarrow> alloc_warm_generation (set_source source now a) = None"
  "src_kind source \<noteq> WarmKind \<Longrightarrow> alloc_warm_generation (set_clone_source source g now a) = None"
  by (simp_all add: setter_defs Let_def)

subsection \<open>Pool guests\<close>

record hot_guest =
  hot_vm :: vm_name
  hot_profile :: profile_name
  hot_lane_of :: hot_lane
  hot_state_of :: hot_state
  hot_size :: guest_size
  hot_source :: clone_source
  hot_warm_generation :: "u64 option"
  hot_age_limit :: "u64 option"
  hot_booted_at :: u64
  hot_updated_at :: u64
  hot_jobs_served :: u32
  hot_claimed_by :: "uuid option"
  hot_drain_reason_of :: "hot_drain_reason option"

datatype hot_transition_error = HotTransitionError hot_state hot_state

definition hot_guest_new ::
    "vm_name \<Rightarrow> profile_name \<Rightarrow> hot_lane \<Rightarrow> guest_size \<Rightarrow> clone_source \<Rightarrow> u64 option
      \<Rightarrow> u64 option \<Rightarrow> u64 \<Rightarrow> hot_guest" where
  "hot_guest_new name profile lane sz source generation age now =
     \<lparr>hot_vm = name, hot_profile = profile, hot_lane_of = lane, hot_state_of = Provisioning,
      hot_size = sz, hot_source = source, hot_warm_generation = generation,
      hot_age_limit = age, hot_booted_at = now, hot_updated_at = now, hot_jobs_served = 0,
      hot_claimed_by = None, hot_drain_reason_of = None\<rparr>"

definition ensure_state :: "hot_guest \<Rightarrow> hot_state \<Rightarrow> u64 \<Rightarrow> hot_transition_error + hot_guest" where
  "ensure_state g next now =
     (if \<not> hot_can_transition_to (hot_state_of g) next
      then Inl (HotTransitionError (hot_state_of g) next)
      else Inr (g\<lparr>hot_state_of := next, hot_updated_at := now\<rparr>))"

definition ensure_claimed :: "hot_guest \<Rightarrow> uuid \<Rightarrow> u64 \<Rightarrow> hot_transition_error + hot_guest" where
  "ensure_claimed g ident now =
     (if hot_state_of g \<noteq> Idle then Inl (HotTransitionError (hot_state_of g) Claimed)
      else and_then (ensure_state g Claimed now) (\<lambda>g. Inr (g\<lparr>hot_claimed_by := Some ident\<rparr>)))"

definition ensure_released :: "hot_guest \<Rightarrow> u64 \<Rightarrow> hot_transition_error + hot_guest" where
  "ensure_released g now =
     (if hot_state_of g \<noteq> Claimed then Inl (HotTransitionError (hot_state_of g) Recycling)
      else and_then (ensure_state g Recycling now)
        (\<lambda>g. Inr (g\<lparr>hot_claimed_by := None,
                    hot_jobs_served := saturating_add (hot_jobs_served g) 1\<rparr>)))"

definition is_serving :: "hot_guest \<Rightarrow> profile_name \<Rightarrow> hot_lane \<Rightarrow> bool" where
  "is_serving g profile lane \<longleftrightarrow>
     hot_state_of g = Idle \<and> hot_profile g = profile \<and> hot_lane_of g = lane"

definition validate_claim :: "hot_guest \<Rightarrow> bool" where
  "validate_claim g \<longleftrightarrow> (hot_claimed_by g \<noteq> None) = is_claim_bearing (hot_state_of g)"

definition hot_guest_validate :: "hot_guest \<Rightarrow> bool" where
  "hot_guest_validate g \<longleftrightarrow> vm_name_validate (hot_vm g) \<and> profile_name_validate (hot_profile g)
     \<and> guest_size_validate (hot_size g) \<and> clone_source_validate (hot_source g)
     \<and> option_all (\<lambda>n. 1 \<le> n) (hot_warm_generation g) \<and> option_all (\<lambda>n. 1 \<le> n) (hot_age_limit g)
     \<and> validate_claim g"

lemma ensure_state_Inr:
  "ensure_state g s now = Inr g' \<longleftrightarrow>
     hot_can_transition_to (hot_state_of g) s \<and> g' = g\<lparr>hot_state_of := s, hot_updated_at := now\<rparr>"
  by (auto simp: ensure_state_def)

lemma ensure_claimed_Inr:
  "ensure_claimed g i now = Inr g' \<longleftrightarrow> hot_state_of g = Idle \<and>
     g' = g\<lparr>hot_state_of := Claimed, hot_updated_at := now, hot_claimed_by := Some i\<rparr>"
  by (auto simp: ensure_claimed_def ensure_state_Inr hot_steps)

lemma ensure_released_Inr:
  "ensure_released g now = Inr g' \<longleftrightarrow> hot_state_of g = Claimed \<and>
     g' = g\<lparr>hot_state_of := Recycling, hot_updated_at := now, hot_claimed_by := None,
            hot_jobs_served := saturating_add (hot_jobs_served g) 1\<rparr>"
  by (auto simp: ensure_released_def ensure_state_Inr hot_steps)

text \<open>
  The claim rule, a claim exactly while claimed, is kept by the two methods that move a claim;
  a bare change of state keeps it unless it takes a claimed guest out of \<open>Claimed\<close>.
\<close>

lemma ensure_claimed_validates:
  "ensure_claimed g i now = Inr g' \<Longrightarrow> hot_guest_validate g \<Longrightarrow> hot_guest_validate g'"
  by (auto simp: ensure_claimed_Inr hot_guest_validate_def validate_claim_def is_claim_bearing_def)

lemma ensure_released_validates:
  "ensure_released g now = Inr g' \<Longrightarrow> hot_guest_validate g \<Longrightarrow> hot_guest_validate g'"
  by (auto simp: ensure_released_Inr hot_guest_validate_def validate_claim_def is_claim_bearing_def)

lemma ensure_state_validates_iff:
  assumes "ensure_state g s now = Inr g'" "hot_guest_validate g"
  shows "hot_guest_validate g' \<longleftrightarrow> (hot_state_of g = Claimed \<longleftrightarrow> s = Claimed)"
  using assms
  by (auto simp: ensure_state_Inr hot_guest_validate_def validate_claim_def is_claim_bearing_def)

end
