(* ===== verification/Config_Model.thy ===== *)
theory Config_Model
  imports Allocations
begin

text \<open>
  The configuration the service runs on, \<open>crates/flanforge-core/src/config/model\<close>, with the
  path helpers of \<open>crates/flanforge-paths\<close> its validation uses, and the request options that
  select beneath a profile (\<open>allocation/sizing.rs\<close>, \<open>hot/request.rs\<close>). A \<open>Url\<close> is the
  record of the components the code reads; a \<open>PathBuf\<close> is its string; the sorted map of
  profiles is an association list in key order.
\<close>

subsection \<open>Paths\<close>

datatype path_component = RootDir | CurDir | ParentDir | Normal string

definition segment_component :: "string \<Rightarrow> path_component" where
  "segment_component seg = (if seg = ''..'' then ParentDir else Normal seg)"

text \<open>
  \<open>Path::components\<close>: repeated separators and \<open>.\<close> segments vanish, except a leading \<open>.\<close>.
\<close>

definition is_absolute :: "string \<Rightarrow> bool" where
  "is_absolute path = starts_with path ''/''"

definition components :: "string \<Rightarrow> path_component list" where
  "components path =
     (let segs = split_on (CHR ''/'') path;
          body = map segment_component (filter (\<lambda>x. x \<noteq> [] \<and> x \<noteq> ''.'') segs)
      in if is_absolute path then RootDir # body
         else if hd segs = ''.'' then CurDir # body
         else body)"

definition path_starts_with :: "string \<Rightarrow> string \<Rightarrow> bool" where
  "path_starts_with path base = prefix (components base) (components path)"

definition path_join :: "string \<Rightarrow> string \<Rightarrow> string" where
  "path_join path rel =
     (if is_absolute rel then rel
      else if path = [] \<or> ends_with path ''/'' then path @ rel
      else path @ ''/'' @ rel)"

definition is_absolute_normalized :: "string \<Rightarrow> bool" where
  "is_absolute_normalized path \<longleftrightarrow> is_absolute path \<and> \<not> str_contains path ''//''
     \<and> \<not> list_ex (\<lambda>c. c = CurDir \<or> c = ParentDir) (components path)
     \<and> \<not> list_ex (\<lambda>seg. seg = ''.'' \<or> seg = ''..'') (split_on (CHR ''/'') path)"

datatype path_error =
    HomeUnavailable | HomeNotAbsolute | PathNotAbsolute | PathNotNormalized | UnsafeName

definition ensure_absolute_normalized :: "string \<Rightarrow> path_error + unit" where
  "ensure_absolute_normalized path =
     first_error [ensure (is_absolute path) PathNotAbsolute,
                  ensure (is_absolute_normalized path) PathNotNormalized]"

definition validated_home :: "string \<Rightarrow> path_error + string" where
  "validated_home home = (if is_absolute home then Inr home else Inl HomeNotAbsolute)"

definition expand_home :: "string \<Rightarrow> string option \<Rightarrow> path_error + string" where
  "expand_home path home =
     (case (if path = ''~'' then Some [] else strip_prefix ''~/'' path) of
        None \<Rightarrow> Inr path
      | Some rest \<Rightarrow>
          (case home of
             None \<Rightarrow> Inl HomeUnavailable
           | Some h \<Rightarrow>
               and_then (validated_home h)
                 (\<lambda>h. Inr (if rest = [] then h else path_join h rest))))"

record libvirt_state_paths =
  lsp_root :: string
  lsp_service_instance :: string
  lsp_allocations :: string
  lsp_imports :: string
  lsp_published_bases :: string
  lsp_warm :: string

definition libvirt_state_paths_of :: "string \<Rightarrow> libvirt_state_paths" where
  "libvirt_state_paths_of state_dir =
     (let root = path_join state_dir ''libvirt''
      in \<lparr>lsp_root = root,
          lsp_service_instance = path_join root ''service-instance-id'',
          lsp_allocations = path_join root ''allocations'',
          lsp_imports = path_join root ''imports'',
          lsp_published_bases = path_join root ''published-bases'',
          lsp_warm = path_join root ''warm''\<rparr>)"

definition warm_record_dir :: "string \<Rightarrow> string" where
  "warm_record_dir state_dir = path_join state_dir ''images''"

subsection \<open>Sections of the configuration\<close>

record url =
  url_scheme :: string
  url_host :: "string option"
  url_username :: string
  url_password :: "string option"
  url_path :: string
  url_query :: "string option"
  url_fragment :: "string option"

record logging_config =
  log_level :: string
  log_path :: "string option"

record server_config =
  srv_listen :: string
  srv_request_body_limit :: nat
  srv_allocation_wait :: u64
  srv_shutdown_grace :: u64

record oidc_config =
  oidc_issuer :: url
  oidc_audience :: string
  oidc_jwks_url :: url
  oidc_jwks_cache_seconds :: u64
  oidc_clock_skew_seconds :: u64

record forgejo_config =
  fj_api_url :: url
  fj_api_token_file :: string
  fj_http_timeout_seconds :: u64

record webui_oidc_config =
  woidc_enabled :: bool
  woidc_issuer :: "url option"
  woidc_client_id :: "string option"
  woidc_client_secret_file :: "string option"
  woidc_redirect_url :: "url option"
  woidc_scopes :: "string list"

record webui_config =
  web_enabled :: bool
  web_public_read_only :: bool
  web_session_ttl_seconds :: u64
  web_request_body_limit :: nat
  web_dev_dist_dir :: "string option"
  web_authdb_enabled :: bool
  web_oidc :: webui_oidc_config

record tart_config =
  tart_path :: string
  tart_home :: "string option"
  tart_runner_host_path :: "string option"

datatype image_reimport = Refuse | Supersede

record libvirt_config =
  lv_uri :: string
  lv_pool :: string
  lv_network :: string
  lv_image_manifest_dir :: string
  lv_qemu_img_path :: string
  lv_virsh_path :: string
  lv_min_storage_free_mb :: u64
  lv_warm_capture_timeout :: u64
  lv_allow_insecure_transport :: bool
  lv_image_import_dir :: "string option"
  lv_image_reimport :: image_reimport

datatype backend_config = Tart tart_config | Libvirt libvirt_config
datatype backend_kind = TartBackend | LibvirtBackend

fun backend_kind_of :: "backend_config \<Rightarrow> backend_kind" where
  "backend_kind_of (Tart _) = TartBackend"
| "backend_kind_of (Libvirt _) = LibvirtBackend"

definition is_clear_text_transport :: "libvirt_config \<Rightarrow> bool" where
  "is_clear_text_transport lv = starts_with (lv_uri lv) ''qemu+tcp://''"

record runtime_config =
  rt_state_dir :: string
  rt_backend :: backend_config
  rt_ssh_path :: string
  rt_scp_path :: string
  rt_vm_prefix :: vm_prefix
  rt_max_running_vms :: u8
  rt_max_hot_vms :: u8
  rt_poll_seconds :: u64
  rt_reap_interval_hours :: u64
  rt_host_cpu_count :: "u8 option"
  rt_host_memory_mb :: "u32 option"
  rt_host_storage_mb :: "u64 option"

definition rt_libvirt :: "runtime_config \<Rightarrow> libvirt_config option" where
  "rt_libvirt r = (case rt_backend r of Tart _ \<Rightarrow> None | Libvirt lv \<Rightarrow> Some lv)"

definition rt_tart :: "runtime_config \<Rightarrow> tart_config option" where
  "rt_tart r = (case rt_backend r of Tart t \<Rightarrow> Some t | Libvirt _ \<Rightarrow> None)"

datatype guest_channel_kind = Ssh | Agent

fun for_backend :: "backend_config \<Rightarrow> guest_channel_kind" where
  "for_backend (Tart _) = Ssh"
| "for_backend (Libvirt lv) = (if is_clear_text_transport lv then Ssh else Agent)"

record guest_ssh_config =
  ssh_identity_file :: string
  ssh_privileged_identity_file :: "string option"
  ssh_known_hosts_file :: "string option"
  ssh_host_key_alias :: "string option"
  ssh_connect_timeout :: u64
  ssh_verify_host_key :: bool

record guest_config =
  guest_channel :: guest_channel_kind
  guest_runner_user :: string
  guest_privileged_user :: string
  guest_forgejo_runner_path :: string
  guest_ssh :: "guest_ssh_config option"

record guest_document =
  doc_channel :: "guest_channel_kind option"
  doc_runner_user :: string
  doc_privileged_user :: string
  doc_forgejo_runner_path :: string
  doc_ssh :: "guest_ssh_config option"

definition guest_resolve :: "guest_document \<Rightarrow> backend_config \<Rightarrow> guest_config" where
  "guest_resolve d backend =
     \<lparr>guest_channel = unwrap_or (for_backend backend) (doc_channel d),
      guest_runner_user = doc_runner_user d, guest_privileged_user = doc_privileged_user d,
      guest_forgejo_runner_path = doc_forgejo_runner_path d, guest_ssh = doc_ssh d\<rparr>"

record tailscale_config =
  ts_enabled :: bool
  ts_preauth_key_file :: "string option"
  ts_login_server :: "url option"
  ts_hostname :: "string option"
  ts_extra_args :: string

datatype simulator_reset = ResetNone | ResetApps | ResetErase

record hot_config =
  hc_enabled :: bool
  hc_lanes :: hot_lane_policy
  hc_max_idle :: u8
  hc_max_lifetime_seconds :: u64
  hc_max_jobs :: u32
  hc_idle_ttl_seconds :: u64
  hc_reset_timeout_seconds :: u64
  hc_simulator_reset :: simulator_reset

datatype network_mode = NetDefault | Softnet

record profile =
  prof_repository :: repository_name
  prof_template :: vm_name
  prof_runner_label :: runner_label
  prof_job_name :: string
  prof_allowed_workflows :: "string list"
  prof_allowed_events :: "string list"
  prof_allowed_refs :: "string list"
  prof_require_protected_ref :: bool
  prof_network :: network_mode
  prof_cpu_count :: u8
  prof_memory_mb :: u32
  prof_storage_mb :: u64
  prof_boot_timeout :: u64
  prof_idle_timeout :: u64
  prof_job_timeout :: u64
  prof_cleanup_timeout :: u64
  prof_warm_template :: "vm_name option"
  prof_regeneration_workflow :: "string option"
  prof_hot :: "hot_config option"
  prof_reap :: bool

record config =
  cfg_logging :: logging_config
  cfg_server :: server_config
  cfg_db_path :: "string option"
  cfg_webui :: webui_config
  cfg_oidc :: oidc_config
  cfg_forgejo :: forgejo_config
  cfg_runtime :: runtime_config
  cfg_guest :: guest_config
  cfg_tailscale :: tailscale_config
  cfg_profiles :: "(profile_name \<times> profile) list"

abbreviation lookup_profile :: "config \<Rightarrow> profile_name \<Rightarrow> profile option" where
  "lookup_profile c n \<equiv> map_of (cfg_profiles c) n"

text \<open>\<open>profile.hot.filter(|hot| hot.enabled)\<close>, the table the pool acts on.\<close>

definition enabled_hot :: "profile \<Rightarrow> hot_config option" where
  "enabled_hot p = (case prof_hot p of None \<Rightarrow> None | Some h \<Rightarrow> if hc_enabled h then Some h else None)"

lemma enabled_hot_Some: "enabled_hot p = Some h \<longleftrightarrow> prof_hot p = Some h \<and> hc_enabled h"
  by (auto simp: enabled_hot_def split: option.splits)

subsection \<open>Selecting beneath a profile\<close>

datatype hot_request = Untouched | Retain "u64 option" | Evict

fun is_retaining :: "hot_request \<Rightarrow> bool" where
  "is_retaining (Retain _) = True"
| "is_retaining _ = False"

fun is_evicting :: "hot_request \<Rightarrow> bool" where
  "is_evicting Evict = True"
| "is_evicting _ = False"

record request_options =
  opt_warm :: bool
  opt_hot :: hot_request
  opt_cpu_count :: "u8 option"
  opt_memory_mb :: "u32 option"

datatype size_ceiling_error = SizeCeilingError
datatype hot_ceiling_error = HotCeilingError

definition resolve_hot_age :: "hot_request \<Rightarrow> profile \<Rightarrow> hot_ceiling_error + u64 option" where
  "resolve_hot_age request p =
     (case request of
        Retain (Some age) \<Rightarrow>
          (case enabled_hot p of
             None \<Rightarrow> Inr None
           | Some hot \<Rightarrow>
               if age > hc_max_lifetime_seconds hot then Inl HotCeilingError else Inr (Some age))
      | _ \<Rightarrow> Inr None)"

definition resolve_size :: "request_options \<Rightarrow> profile \<Rightarrow> size_ceiling_error + guest_size" where
  "resolve_size options p =
     (let cpu = unwrap_or (prof_cpu_count p) (opt_cpu_count options);
          memory = unwrap_or (prof_memory_mb p) (opt_memory_mb options)
      in if cpu > prof_cpu_count p \<or> memory > prof_memory_mb p then Inl SizeCeilingError
         else Inr \<lparr>cpu_count = cpu, memory_mb = memory, storage_mb = prof_storage_mb p\<rparr>)"

definition resolve_mode :: "request_options \<Rightarrow> profile \<Rightarrow> string \<Rightarrow> allocation_mode" where
  "resolve_mode options p workflow_file =
     (if prof_warm_template p \<noteq> None
         \<and> is_some_and (\<lambda>declared. declared = workflow_file) (prof_regeneration_workflow p)
      then Regenerate
      else if opt_warm options \<or> is_retaining (opt_hot options) then Warm
      else Cold)"

lemma resolve_size_Inr:
  assumes "resolve_size options p = Inr z"
  shows "cpu_count z \<le> prof_cpu_count p" "memory_mb z \<le> prof_memory_mb p"
    "storage_mb z = prof_storage_mb p"
  using assms by (auto simp: resolve_size_def Let_def split: if_splits)

lemma resolve_mode_regenerate:
  "resolve_mode options p w = Regenerate \<longleftrightarrow>
     prof_warm_template p \<noteq> None \<and> prof_regeneration_workflow p = Some w"
  by (auto simp: resolve_mode_def is_some_and_iff)

end
