(* ===== verification/Config_Validate.thy ===== *)
theory Config_Validate
  imports Config_Model
begin

text \<open>
  \<open>Config::ensure_valid\<close> and its parts, \<open>crates/flanforge-core/src/config\<close>: \<open>validate.rs\<close>,
  \<open>logging.rs\<close>, \<open>db.rs\<close>, \<open>webui.rs\<close>, \<open>runtime.rs\<close>, \<open>guest.rs\<close>, \<open>tailscale.rs\<close>,
  \<open>profile.rs\<close>, \<open>images.rs\<close> and \<open>hot.rs\<close>, in the order the code runs them. The shell-word
  splitter is a library, so it is the argument \<open>split_words\<close>. The lemmas at the end say what
  a configuration that passed can be relied on for.
\<close>

datatype config_error =
    NoProfiles
  | OutOfRange string
  | InvalidPath string
  | InsecureUrl string
  | InvalidForgejoApiUrl
  | UnsafeValue string
  | InvalidProfile string string
  | DuplicateRunnerLabel
  | MissingTailscaleSetting string
  | MissingGuestSetting string
  | MissingGuestTable string backend_kind guest_channel_kind
  | InsecureGuestChannelTransport
  | MissingRuntimeSetting string
  | UnsupportedBackendCapability string string "string option"
  | InvalidTailscaleArguments
  | MissingWebuiOidcSetting string
  | InvalidWebuiRedirectUrl

subsection \<open>Field checks\<close>

definition is_safe_path_text :: "string \<Rightarrow> bool" where
  "is_safe_path_text s \<longleftrightarrow> s \<noteq> [] \<and> length s \<le> 1024
     \<and> list_all (\<lambda>c. \<not> is_ascii_control c \<and> c \<noteq> CHR 0x22 \<and> c \<noteq> CHR 0x5C) s"

definition ensure_path :: "string \<Rightarrow> string \<Rightarrow> config_error + unit" where
  "ensure_path field path =
     ensure (is_safe_path_text path \<and> is_ok (ensure_absolute_normalized path)) (InvalidPath field)"

definition ensure_path_opt :: "string \<Rightarrow> string option \<Rightarrow> config_error + unit" where
  "ensure_path_opt field path = (case path of None \<Rightarrow> Inr () | Some p \<Rightarrow> ensure_path field p)"

definition ensure_url :: "string \<Rightarrow> url \<Rightarrow> config_error + unit" where
  "ensure_url field u =
     (let is_loopback_http = url_scheme u = ''http''
            \<and> is_some_and (\<lambda>h. h \<in> {''localhost'', ''127.0.0.1'', ''::1''}) (url_host u)
      in first_error
          [ensure (url_scheme u = ''https'' \<or> is_loopback_http) (InsecureUrl field),
           ensure (url_username u = [] \<and> url_password u = None \<and> url_fragment u = None)
             (UnsafeValue field)])"

definition ensure_safe_text :: "string \<Rightarrow> string \<Rightarrow> nat \<Rightarrow> nat \<Rightarrow> config_error + unit" where
  "ensure_safe_text field s lo hi =
     ensure (lo \<le> length s \<and> length s \<le> hi \<and> \<not> list_ex is_ascii_control s) (UnsafeValue field)"

definition ensure_safe_name :: "string \<Rightarrow> string \<Rightarrow> nat \<Rightarrow> nat \<Rightarrow> config_error + unit" where
  "ensure_safe_name field s lo hi =
     ensure (lo \<le> length s \<and> length s \<le> hi \<and> starts_alphanumeric s \<and> list_all is_name_byte s
             \<and> \<not> str_contains s ''..'') (UnsafeValue field)"

definition ensure_range :: "string \<Rightarrow> 'a::order \<Rightarrow> 'a \<Rightarrow> 'a \<Rightarrow> config_error + unit" where
  "ensure_range field v lo hi = ensure (lo \<le> v \<and> v \<le> hi) (OutOfRange field)"

text \<open>\<open>str::trim\<close>: the byte sequences of the Unicode white space characters.\<close>

definition whitespace_seqs :: "string list" where
  "whitespace_seqs = map (map char_of)
     ([[9], [10], [11], [12], [13], [32], [0xC2, 0x85], [0xC2, 0xA0], [0xE1, 0x9A, 0x80]]
      @ map (\<lambda>b. [0xE2, 0x80, b]) [0x80, 0x81, 0x82, 0x83, 0x84, 0x85, 0x86, 0x87, 0x88, 0x89,
          0x8A, 0xA8, 0xA9, 0xAF]
      @ [[0xE2, 0x81, 0x9F], [0xE3, 0x80, 0x80 :: nat]])"

function trim_start :: "string list \<Rightarrow> string \<Rightarrow> string" where
  "trim_start seqs s =
     (case find (\<lambda>w. w \<noteq> [] \<and> prefix w s) seqs of
        None \<Rightarrow> s
      | Some w \<Rightarrow> trim_start seqs (drop (length w) s))"
  by pat_completeness auto
termination
proof (relation "measure (\<lambda>(_, s). length s)", goal_cases)
  case (2 seqs s w)
  then have "w \<noteq> []" "prefix w s" by (auto simp: find_Some_iff)
  then show ?case by (cases s) auto
qed simp

declare trim_start.simps [simp del]

definition trim :: "string \<Rightarrow> string" where
  "trim s = rev (trim_start (map rev whitespace_seqs) (rev (trim_start whitespace_seqs s)))"

subsection \<open>Logging, server, database, web interface, endpoints\<close>

definition ensure_logging_valid :: "logging_config \<Rightarrow> config_error + unit" where
  "ensure_logging_valid l =
     first_error
       [ensure (map to_ascii_lowercase (trim (log_level l))
                \<in> {''trace'', ''debug'', ''info'', ''warn'', ''error'', ''off''})
          (UnsafeValue ''logging.level''),
        ensure_path_opt ''logging.path'' (log_path l)]"

definition ensure_server_valid :: "server_config \<Rightarrow> config_error + unit" where
  "ensure_server_valid s =
     first_error
       [ensure_range ''server.request_body_limit_bytes'' (srv_request_body_limit s) 512 65536,
        ensure_range ''server.allocation_wait_seconds'' (srv_allocation_wait s) 5 1800,
        ensure_range ''server.shutdown_grace_seconds'' (srv_shutdown_grace s) 1 300]"

definition ensure_db_valid :: "string option \<Rightarrow> config_error + unit" where
  "ensure_db_valid db_path = ensure_path_opt ''db.db_path'' db_path"

definition WEBUI_OIDC_CALLBACK_PATH :: string where
  "WEBUI_OIDC_CALLBACK_PATH = ''/api/v1/oidc/callback''"

definition ensure_client_id :: "string \<Rightarrow> config_error + unit" where
  "ensure_client_id s =
     ensure (s \<noteq> [] \<and> length s \<le> 256 \<and> list_all is_ascii_graphic s)
       (UnsafeValue ''webui.oidc.client_id'')"

definition ensure_scopes :: "string list \<Rightarrow> config_error + unit" where
  "ensure_scopes scopes =
     ensure (scopes \<noteq> [] \<and> length scopes \<le> 16
             \<and> list_all (\<lambda>s. s \<noteq> [] \<and> length s \<le> 64 \<and> list_all is_ascii_graphic s) scopes)
       (UnsafeValue ''webui.oidc.scopes'')"

definition ensure_webui_oidc_valid :: "webui_oidc_config \<Rightarrow> config_error + unit" where
  "ensure_webui_oidc_valid oc =
     first_error
       [case woidc_issuer oc of None \<Rightarrow> Inr () | Some u \<Rightarrow> ensure_url ''webui.oidc.issuer'' u,
        case woidc_client_id oc of None \<Rightarrow> Inr () | Some s \<Rightarrow> ensure_client_id s,
        ensure_path_opt ''webui.oidc.client_secret_file'' (woidc_client_secret_file oc),
        (case woidc_redirect_url oc of None \<Rightarrow> Inr ()
         | Some u \<Rightarrow> first_error
             [ensure_url ''webui.oidc.redirect_url'' u,
              ensure (url_path u = WEBUI_OIDC_CALLBACK_PATH \<and> url_query u = None)
                InvalidWebuiRedirectUrl]),
        ensure_scopes (woidc_scopes oc),
        if woidc_enabled oc then
          first_error
            [ensure (woidc_issuer oc \<noteq> None) (MissingWebuiOidcSetting ''issuer''),
             ensure (woidc_client_id oc \<noteq> None) (MissingWebuiOidcSetting ''client_id''),
             ensure (woidc_client_secret_file oc \<noteq> None)
               (MissingWebuiOidcSetting ''client_secret_file''),
             ensure (woidc_redirect_url oc \<noteq> None) (MissingWebuiOidcSetting ''redirect_url''),
             ensure (''openid'' \<in> set (woidc_scopes oc)) (UnsafeValue ''webui.oidc.scopes'')]
        else Inr ()]"

definition ensure_webui_valid :: "webui_config \<Rightarrow> config_error + unit" where
  "ensure_webui_valid w =
     first_error
       [ensure_range ''webui.session_ttl_seconds'' (web_session_ttl_seconds w) 300 31536000,
        ensure_range ''webui.request_body_limit_bytes'' (web_request_body_limit w) 4096 1048576,
        ensure_path_opt ''webui.dev_dist_dir'' (web_dev_dist_dir w),
        ensure_webui_oidc_valid (web_oidc w)]"

definition ensure_endpoints_valid :: "config \<Rightarrow> config_error + unit" where
  "ensure_endpoints_valid c =
     first_error
       [ensure_url ''oidc.issuer'' (oidc_issuer (cfg_oidc c)),
        ensure_url ''oidc.jwks_url'' (oidc_jwks_url (cfg_oidc c)),
        ensure_url ''forgejo.api_url'' (fj_api_url (cfg_forgejo c)),
        ensure (ends_with (url_path (fj_api_url (cfg_forgejo c))) ''/api/v1/'')
          InvalidForgejoApiUrl,
        ensure_safe_text ''oidc.audience'' (oidc_audience (cfg_oidc c)) 1 256,
        ensure_range ''oidc.jwks_cache_seconds'' (oidc_jwks_cache_seconds (cfg_oidc c)) 30 86400,
        ensure_range ''oidc.clock_skew_seconds'' (oidc_clock_skew_seconds (cfg_oidc c)) 0 300,
        ensure_range ''forgejo.http_timeout_seconds'' (fj_http_timeout_seconds (cfg_forgejo c)) 1 120,
        ensure_path ''forgejo.api_token_file'' (fj_api_token_file (cfg_forgejo c))]"

subsection \<open>Runtime\<close>

definition LIBVIRT_MIN_CLEANUP_TIMEOUT_SECONDS :: u64 where
  "LIBVIRT_MIN_CLEANUP_TIMEOUT_SECONDS = 5 + 1"

definition paths_overlap :: "string \<Rightarrow> string \<Rightarrow> bool" where
  "paths_overlap left right = (path_starts_with left right \<or> path_starts_with right left)"

definition ensure_tart_valid :: "tart_config \<Rightarrow> config_error + unit" where
  "ensure_tart_valid t =
     first_error
       [ensure_path ''runtime.backend.path'' (tart_path t),
        ensure_path_opt ''runtime.backend.runner_host_path'' (tart_runner_host_path t),
        ensure_path_opt ''runtime.backend.home'' (tart_home t)]"

definition ensure_libvirt_valid :: "config \<Rightarrow> libvirt_config \<Rightarrow> config_error + unit" where
  "ensure_libvirt_valid c lv =
     (let state_dir = rt_state_dir (cfg_runtime c);
          sp = libvirt_state_paths_of state_dir
      in first_error
       ([ensure (is_supported_libvirt_uri (lv_uri lv) (lv_allow_insecure_transport lv))
           (UnsafeValue ''runtime.backend.uri''),
         ensure_safe_name ''runtime.backend.pool'' (lv_pool lv) 1 80,
         ensure_safe_name ''runtime.backend.network'' (lv_network lv) 1 80,
         ensure_path ''runtime.backend.image_manifest_dir'' (lv_image_manifest_dir lv)]
        @ map (\<lambda>reserved. ensure (\<not> paths_overlap (lv_image_manifest_dir lv) reserved)
                 (UnsafeValue ''runtime.backend.image_manifest_dir''))
            [lsp_allocations sp, lsp_imports sp, lsp_service_instance sp, lsp_warm sp,
             warm_record_dir state_dir]
        @ [(case lv_image_import_dir lv of None \<Rightarrow> Inr ()
            | Some d \<Rightarrow> first_error
                [ensure_path ''runtime.backend.image_import_dir'' d,
                 ensure (\<not> (paths_overlap d state_dir \<or> paths_overlap d (lv_image_manifest_dir lv)))
                   (UnsafeValue ''runtime.backend.image_import_dir'')]),
           ensure_path ''runtime.backend.qemu_img_path'' (lv_qemu_img_path lv),
           ensure_path ''runtime.backend.virsh_path'' (lv_virsh_path lv),
           ensure_range ''runtime.backend.min_storage_free_mb'' (lv_min_storage_free_mb lv)
             1024 16777216,
           ensure_range ''runtime.backend.warm_capture_timeout_seconds''
             (lv_warm_capture_timeout lv) 60 7200]
        @ map (\<lambda>(name, p). first_error
            [ensure (prof_cleanup_timeout p \<ge> LIBVIRT_MIN_CLEANUP_TIMEOUT_SECONDS)
               (InvalidProfile (profile_str name)
                 ''libvirt cleanup timeout cannot reserve helper completion slack''),
             ensure (prof_network p \<noteq> Softnet)
               (UnsupportedBackendCapability ''libvirt'' ''softnet networking''
                 (Some (profile_str name)))])
            (cfg_profiles c)))"

definition ensure_backend_valid :: "config \<Rightarrow> config_error + unit" where
  "ensure_backend_valid c =
     (case rt_backend (cfg_runtime c) of
        Tart t \<Rightarrow> ensure_tart_valid t
      | Libvirt lv \<Rightarrow> ensure_libvirt_valid c lv)"

text \<open>
  \<open>checked_add\<close> has no value on overflow, and an unset host budget bounds nothing it could
  fit in: both count as exceeding the reserve.
\<close>

definition exceeds_reserved_storage :: "runtime_config \<Rightarrow> profile \<Rightarrow> bool" where
  "exceeds_reserved_storage r p =
     is_some_and (\<lambda>lv.
       let required = unat (prof_storage_mb p) + unat (lv_min_storage_free_mb lv)
       in required \<ge> 2 ^ 64
          \<or> (case rt_host_storage_mb r of None \<Rightarrow> True | Some available \<Rightarrow> required > unat available))
       (rt_libvirt r)"

definition budget_profile :: "runtime_config \<Rightarrow> u8 \<Rightarrow> u32 \<Rightarrow> profile_name \<times> profile \<Rightarrow> config_error + unit" where
  "budget_profile r cpu memory = (\<lambda>(name, p). first_error
     [ensure (\<not> (prof_cpu_count p > cpu \<or> prof_memory_mb p > memory
              \<or> is_some_and (\<lambda>host. prof_storage_mb p > host) (rt_host_storage_mb r)))
        (InvalidProfile (profile_str name)
          ''profile is larger than the host budget and can never be admitted''),
      ensure (\<not> exceeds_reserved_storage r p)
        (InvalidProfile (profile_str name)
          ''profile plus the storage reserve is larger than the host budget and can never be admitted'')])"

definition ensure_host_budget_valid :: "config \<Rightarrow> config_error + unit" where
  "ensure_host_budget_valid c =
     (let r = cfg_runtime c; is_libvirt = (backend_kind_of (rt_backend r) = LibvirtBackend)
      in if rt_host_cpu_count r = None \<and> rt_host_memory_mb r = None
            \<and> rt_host_storage_mb r = None \<and> \<not> is_libvirt
         then Inr ()
         else case (rt_host_cpu_count r, rt_host_memory_mb r) of
             (Some _, None) \<Rightarrow> Inl (OutOfRange ''runtime.host_cpu_count'')
           | (None, Some _) \<Rightarrow> Inl (OutOfRange ''runtime.host_memory_mb'')
           | (None, None) \<Rightarrow> Inl (OutOfRange ''runtime.host_cpu_count'')
           | (Some cpu, Some memory) \<Rightarrow>
               first_error
                 ([ensure (\<not> (is_libvirt \<and> rt_host_storage_mb r = None))
                     (OutOfRange ''runtime.host_storage_mb''),
                   ensure_range ''runtime.host_cpu_count'' cpu 1 255,
                   ensure_range ''runtime.host_memory_mb'' memory 2048 1048576,
                   (case rt_host_storage_mb r of None \<Rightarrow> Inr ()
                    | Some s \<Rightarrow> ensure_range ''runtime.host_storage_mb'' s 16384 16777216)]
                  @ map (budget_profile r cpu memory) (cfg_profiles c)
                  @ [case rt_libvirt r of None \<Rightarrow> Inr ()
                     | Some lv \<Rightarrow>
                         ensure (lv_min_storage_free_mb lv < unwrap_or 0 (rt_host_storage_mb r))
                           (OutOfRange ''runtime.backend.min_storage_free_mb'')]))"

definition declares_warm :: "config \<Rightarrow> bool" where
  "declares_warm c = list_ex (\<lambda>(_, p). prof_warm_template p \<noteq> None) (cfg_profiles c)"

definition ensure_tart_home_present :: "config \<Rightarrow> config_error + unit" where
  "ensure_tart_home_present c =
     ensure (\<not> (is_some_and (\<lambda>t. tart_home t = None) (rt_tart (cfg_runtime c)) \<and> declares_warm c))
       (MissingRuntimeSetting ''backend.home'')"

definition ensure_libvirt_warm_valid :: "config \<Rightarrow> config_error + unit" where
  "ensure_libvirt_warm_valid c =
     ensure (\<not> (backend_kind_of (rt_backend (cfg_runtime c)) = LibvirtBackend
              \<and> rt_reap_interval_hours (cfg_runtime c) = 0 \<and> declares_warm c))
       (MissingRuntimeSetting ''reap_interval_hours'')"

definition ensure_runtime_valid :: "config \<Rightarrow> config_error + unit" where
  "ensure_runtime_valid c =
     (let r = cfg_runtime c in first_error
       [ensure_path ''runtime.state_dir'' (rt_state_dir r),
        ensure_path ''runtime.ssh_path'' (rt_ssh_path r),
        ensure_path ''runtime.scp_path'' (rt_scp_path r),
        ensure_backend_valid c,
        ensure (is_ok (vm_prefix_ensure_valid (rt_vm_prefix r))) (UnsafeValue ''runtime.vm_prefix''),
        ensure_range ''runtime.max_running_vms'' (rt_max_running_vms r) 1 255,
        ensure_range ''runtime.poll_seconds'' (rt_poll_seconds r) 1 30,
        if rt_reap_interval_hours r \<noteq> 0
        then ensure_range ''runtime.reap_interval_hours'' (rt_reap_interval_hours r) 1 8760
        else Inr (),
        ensure_host_budget_valid c, ensure_tart_home_present c, ensure_libvirt_warm_valid c])"

subsection \<open>Guest and tailscale\<close>

definition ensure_host_key_pinning_valid :: "guest_ssh_config \<Rightarrow> config_error + unit" where
  "ensure_host_key_pinning_valid ssh =
     (if \<not> ssh_verify_host_key ssh then Inr ()
      else case ssh_host_key_alias ssh of
          None \<Rightarrow> Inl (MissingGuestSetting ''host_key_alias'')
        | Some alias \<Rightarrow> first_error
            [ensure_safe_name ''guest.ssh.host_key_alias'' alias 1 128,
             (case ssh_known_hosts_file ssh of
                None \<Rightarrow> Inl (MissingGuestSetting ''known_hosts_file'')
              | Some f \<Rightarrow> ensure_path ''guest.ssh.known_hosts_file'' f)])"

definition ensure_allocation_pinning_valid :: "guest_ssh_config \<Rightarrow> config_error + unit" where
  "ensure_allocation_pinning_valid ssh =
     first_error
       [ensure (ssh_verify_host_key ssh) (UnsafeValue ''guest.ssh.verify_host_key''),
        ensure (ssh_known_hosts_file ssh = None \<and> ssh_host_key_alias ssh = None)
          (UnsafeValue ''guest allocation host-key anchor'')]"

definition ensure_ssh_valid :: "backend_kind \<Rightarrow> guest_ssh_config \<Rightarrow> config_error + unit" where
  "ensure_ssh_valid backend ssh =
     first_error
       [ensure_path ''guest.ssh.identity_file'' (ssh_identity_file ssh),
        ensure_range ''guest.ssh.connect_timeout_seconds'' (ssh_connect_timeout ssh) 1 60,
        (case backend of
           TartBackend \<Rightarrow> ensure_host_key_pinning_valid ssh
         | LibvirtBackend \<Rightarrow> ensure_allocation_pinning_valid ssh)]"

definition ensure_channel_supported :: "config \<Rightarrow> config_error + unit" where
  "ensure_channel_supported c =
     (if guest_channel (cfg_guest c) = Ssh then Inr ()
      else case rt_backend (cfg_runtime c) of
          Tart _ \<Rightarrow> Inl (UnsupportedBackendCapability ''tart'' ''the QEMU guest agent channel'' None)
        | Libvirt lv \<Rightarrow>
            if is_clear_text_transport lv then Inl InsecureGuestChannelTransport else Inr ())"

definition ensure_guest_valid :: "config \<Rightarrow> config_error + unit" where
  "ensure_guest_valid c =
     (let g = cfg_guest c; backend = backend_kind_of (rt_backend (cfg_runtime c))
      in first_error
       [ensure_safe_name ''guest.runner_user'' (guest_runner_user g) 1 64,
        ensure_safe_name ''guest.privileged_user'' (guest_privileged_user g) 1 64,
        ensure (\<not> (guest_privileged_user g = ''root'' \<or> guest_privileged_user g = guest_runner_user g))
          (UnsafeValue ''guest.privileged_user''),
        ensure_path ''guest.forgejo_runner_path'' (guest_forgejo_runner_path g),
        ensure_channel_supported c,
        (case (guest_ssh g, guest_channel g) of
           (Some ssh, _) \<Rightarrow> ensure_ssh_valid backend ssh
         | (None, Agent) \<Rightarrow> Inr ()
         | (None, Ssh) \<Rightarrow> Inl (MissingGuestTable ''guest.ssh'' backend (guest_channel g)))])"

definition is_reserved_argument :: "string \<Rightarrow> bool" where
  "is_reserved_argument argument =
     (case (case strip_prefix ''--'' argument of
              Some rest \<Rightarrow> Some rest | None \<Rightarrow> strip_prefix ''-'' argument) of
        None \<Rightarrow> False
      | Some option \<Rightarrow>
          (case split_once (CHR ''='') option of Some (name, _) \<Rightarrow> name | None \<Rightarrow> option)
          \<in> {''auth-key'', ''authkey'', ''login-server'', ''operator'', ''hostname''})"

definition extra_arguments ::
    "(string \<Rightarrow> string list option) \<Rightarrow> tailscale_config \<Rightarrow> config_error + string list" where
  "extra_arguments split_words ts =
     (if length (ts_extra_args ts) > 4096 \<or> list_ex is_ascii_control (ts_extra_args ts)
      then Inl InvalidTailscaleArguments
      else case split_words (ts_extra_args ts) of
          None \<Rightarrow> Inl InvalidTailscaleArguments
        | Some arguments \<Rightarrow>
            if length arguments > 64
               \<or> list_ex (\<lambda>a. length a > 512 \<or> list_ex (\<lambda>c. c = CHR 0x00 \<or> is_ascii_control c) a
                    \<or> is_reserved_argument a) arguments
            then Inl InvalidTailscaleArguments
            else Inr arguments)"

definition hostname_segment_ok :: "string \<Rightarrow> bool" where
  "hostname_segment_ok seg \<longleftrightarrow> seg \<noteq> [] \<and> length seg \<le> 63 \<and> starts_alphanumeric seg
     \<and> starts_alphanumeric (rev seg) \<and> list_all (\<lambda>c. is_ascii_alphanumeric c \<or> c = CHR ''-'') seg"

definition ensure_hostname :: "string \<Rightarrow> config_error + unit" where
  "ensure_hostname s =
     ensure (length s \<le> 253 \<and> list_all hostname_segment_ok (split_on (CHR ''.'') s))
       (UnsafeValue ''tailscale.hostname'')"

definition ensure_tailscale_valid ::
    "(string \<Rightarrow> string list option) \<Rightarrow> tailscale_config \<Rightarrow> config_error + unit" where
  "ensure_tailscale_valid split_words ts =
     first_error
       [ensure_path_opt ''tailscale.preauth_key_file'' (ts_preauth_key_file ts),
        (case ts_login_server ts of None \<Rightarrow> Inr ()
         | Some u \<Rightarrow> first_error
             [ensure_url ''tailscale.login_server'' u,
              ensure (url_query u = None) (UnsafeValue ''tailscale.login_server'')]),
        (case ts_hostname ts of None \<Rightarrow> Inr () | Some h \<Rightarrow> ensure_hostname h),
        and_then (extra_arguments split_words ts) (\<lambda>_. Inr ()),
        if ts_enabled ts then
          first_error
            [ensure (ts_preauth_key_file ts \<noteq> None) (MissingTailscaleSetting ''preauth_key_file''),
             ensure (ts_login_server ts \<noteq> None) (MissingTailscaleSetting ''login_server'')]
        else Inr ()]"

subsection \<open>Profiles, images, pool bounds\<close>

definition is_safe_workflow_shape :: "string \<Rightarrow> bool \<Rightarrow> bool" where
  "is_safe_workflow_shape s wildcards \<longleftrightarrow>
     s \<noteq> [] \<and> CHR ''/'' \<notin> set s \<and> length s \<le> 128
     \<and> list_all (\<lambda>c. is_name_byte c \<or> (wildcards \<and> c \<in> {CHR ''*'', CHR ''?''})) s"

definition is_safe_workflow :: "string \<Rightarrow> bool" where
  "is_safe_workflow s = is_safe_workflow_shape s False"

definition is_safe_workflow_pattern :: "string \<Rightarrow> bool" where
  "is_safe_workflow_pattern s = is_safe_workflow_shape s True"

definition RESERVED_SUFFIX_LEN :: nat where
  "RESERVED_SUFFIX_LEN = length PREVIOUS_SUFFIX"

definition warm_rules :: "profile \<Rightarrow> string \<Rightarrow> string + unit" where
  "warm_rules p vm_prefix =
     first_error
       [ensure ((prof_warm_template p \<noteq> None) = (prof_regeneration_workflow p \<noteq> None))
          ''warm_template and regeneration_workflow must be declared together'',
        (case prof_warm_template p of None \<Rightarrow> Inr ()
         | Some warm \<Rightarrow> first_error
             [ensure (\<not> starts_with (vm_str warm) vm_prefix)
                ''warm_template cannot use the service-owned VM prefix'',
              ensure (length (vm_str warm) \<le> 80 - RESERVED_SUFFIX_LEN)
                ''warm_template is too long for its reserved suffixes'',
              ensure (warm \<noteq> prof_template p) ''warm_template cannot be the profile template'']),
        (case prof_regeneration_workflow p of None \<Rightarrow> Inr ()
         | Some workflow \<Rightarrow>
             ensure (is_safe_workflow workflow
                     \<and> list_ex (\<lambda>pattern. is_glob_match pattern workflow) (prof_allowed_workflows p))
               ''regeneration_workflow must be an allowed workflow'')]"

definition event_ok :: "string \<Rightarrow> bool" where
  "event_ok s \<longleftrightarrow> s \<noteq> [] \<and> length s \<le> 64
     \<and> list_all (\<lambda>c. is_ascii_alphanumeric c \<or> c = CHR ''_'') s"

definition ensure_profile :: "string \<Rightarrow> profile \<Rightarrow> string \<Rightarrow> config_error + unit" where
  "ensure_profile name p vm_prefix =
     (let invalid = InvalidProfile name
      in first_error
       ([ensure (\<not> starts_with (vm_str (prof_template p)) vm_prefix)
           (invalid ''template cannot use the service-owned VM prefix''),
         ensure (length (label_str (prof_runner_label p)) + 1 + 36 \<le> 64)
           (invalid ''runner label is too long for a per-allocation suffix''),
         ensure (length vm_prefix + length name + 1 + 20 + 1 + 10 \<le> 80)
           (invalid ''generated VM name can exceed its maximum length''),
         ensure (prof_allowed_workflows p \<noteq> [] \<and> prof_allowed_events p \<noteq> [] \<and> prof_allowed_refs p \<noteq> [])
           (invalid ''authorization allowlists cannot be empty''),
         ensure (list_all is_safe_workflow_pattern (prof_allowed_workflows p))
           (invalid ''workflow allowlist contains an unsafe name''),
         (case warm_rules p vm_prefix of Inl message \<Rightarrow> Inl (invalid message) | Inr _ \<Rightarrow> Inr ()),
         ensure (prof_job_name p \<noteq> [] \<and> length (prof_job_name p) \<le> 128
                 \<and> \<not> list_ex is_ascii_control (prof_job_name p))
           (invalid ''job name contains an unsafe value''),
         ensure (list_all event_ok (prof_allowed_events p))
           (invalid ''event allowlist contains an unsafe name''),
         ensure (list_all is_safe_git_ref_pattern (prof_allowed_refs p))
           (invalid ''ref allowlist contains an unsafe value''),
         ensure (1 \<le> prof_cpu_count p \<and> prof_cpu_count p \<le> 64
                 \<and> 2048 \<le> prof_memory_mb p \<and> prof_memory_mb p \<le> 131072
                 \<and> 16384 \<le> prof_storage_mb p \<and> prof_storage_mb p \<le> 1048576)
           (invalid ''CPU, memory, or storage is outside the allowed range'')]
        @ map (\<lambda>(label, timeout, limit). ensure (5 \<le> timeout \<and> timeout \<le> limit)
                 (invalid (label @ '' timeout is outside the allowed range'')))
            [(''boot'', prof_boot_timeout p, 1800), (''idle'', prof_idle_timeout p, 3600),
             (''job'', prof_job_timeout p, 43200), (''cleanup'', prof_cleanup_timeout p, 600)]))"

fun ensure_profiles_from ::
    "string \<Rightarrow> runner_label list \<Rightarrow> (profile_name \<times> profile) list \<Rightarrow> config_error + unit" where
  "ensure_profiles_from vm_prefix labels [] = Inr ()"
| "ensure_profiles_from vm_prefix labels ((name, p) # rest) =
     (case ensure_profile (profile_str name) p vm_prefix of
        Inl e \<Rightarrow> Inl e
      | Inr _ \<Rightarrow>
          if prof_runner_label p \<in> set labels then Inl DuplicateRunnerLabel
          else ensure_profiles_from vm_prefix (prof_runner_label p # labels) rest)"

definition ensure_profiles_valid :: "config \<Rightarrow> config_error + unit" where
  "ensure_profiles_valid c =
     ensure_profiles_from (prefix_str (rt_vm_prefix (cfg_runtime c))) [] (cfg_profiles c)"

definition derived_names :: "vm_name \<Rightarrow> identifier_error + vm_name list" where
  "derived_names warm =
     and_then (with_suffix warm PREVIOUS_SUFFIX)
       (\<lambda>previous. and_then (with_suffix warm STAGING_SUFFIX)
         (\<lambda>staging. Inr [warm, previous, staging]))"

fun reserve_names ::
    "(string \<Rightarrow> config_error) \<Rightarrow> string \<Rightarrow> string list \<Rightarrow> vm_name list \<Rightarrow> vm_name list
      \<Rightarrow> config_error + vm_name list" where
  "reserve_names invalid vm_prefix templates reserved [] = Inr reserved"
| "reserve_names invalid vm_prefix templates reserved (d # ds) =
     (if starts_with (vm_str d) vm_prefix
      then Inl (invalid ''warm image name cannot use the service VM prefix'')
      else if vm_str d \<in> set templates
      then Inl (invalid ''warm image name collides with a configured template'')
      else if d \<in> set reserved
      then Inl (invalid ''warm image name is already reserved by a profile'')
      else reserve_names invalid vm_prefix templates (d # reserved) ds)"

fun ensure_images_from ::
    "string \<Rightarrow> string list \<Rightarrow> vm_name list \<Rightarrow> (profile_name \<times> profile) list
      \<Rightarrow> config_error + unit" where
  "ensure_images_from vm_prefix templates reserved [] = Inr ()"
| "ensure_images_from vm_prefix templates reserved ((name, p) # rest) =
     (case prof_warm_template p of
        None \<Rightarrow> ensure_images_from vm_prefix templates reserved rest
      | Some warm \<Rightarrow>
          (case derived_names warm of
             Inl _ \<Rightarrow> Inl (InvalidProfile (profile_str name) ''warm image name is too long'')
           | Inr ds \<Rightarrow>
               (case reserve_names (InvalidProfile (profile_str name)) vm_prefix templates reserved ds of
                  Inl e \<Rightarrow> Inl e
                | Inr reserved' \<Rightarrow> ensure_images_from vm_prefix templates reserved' rest)))"

definition ensure_images_valid :: "config \<Rightarrow> config_error + unit" where
  "ensure_images_valid c =
     ensure_images_from (prefix_str (rt_vm_prefix (cfg_runtime c)))
       (map (\<lambda>(_, p). vm_str (prof_template p)) (cfg_profiles c)) [] (cfg_profiles c)"

definition ensure_bounds :: "hot_config \<Rightarrow> string + unit" where
  "ensure_bounds h =
     first_error
       [ensure (300 \<le> hc_max_lifetime_seconds h \<and> hc_max_lifetime_seconds h \<le> 604800)
          ''hot.max_lifetime_seconds is outside the allowed range'',
        ensure (30 \<le> hc_idle_ttl_seconds h \<and> hc_idle_ttl_seconds h \<le> 86400)
          ''hot.idle_ttl_seconds is outside the allowed range'',
        ensure (5 \<le> hc_reset_timeout_seconds h \<and> hc_reset_timeout_seconds h \<le> 600)
          ''hot.reset_timeout_seconds is outside the allowed range'',
        ensure (0 \<le> hc_max_jobs h \<and> hc_max_jobs h \<le> 1000)
          ''hot.max_jobs is outside the allowed range'']"

definition ensure_hot_valid :: "config \<Rightarrow> config_error + unit" where
  "ensure_hot_valid c =
     first_error
       (ensure (rt_max_hot_vms (cfg_runtime c) \<le> rt_max_running_vms (cfg_runtime c))
          (OutOfRange ''runtime.max_hot_vms'')
        # map (\<lambda>(name, p). case enabled_hot p of None \<Rightarrow> Inr ()
              | Some h \<Rightarrow> (case ensure_bounds h of
                    Inl message \<Rightarrow> Inl (InvalidProfile (profile_str name) message)
                  | Inr _ \<Rightarrow> Inr ()))
            (cfg_profiles c))"

definition ensure_valid :: "(string \<Rightarrow> string list option) \<Rightarrow> config \<Rightarrow> config_error + unit" where
  "ensure_valid split_words c =
     first_error
       [ensure (cfg_profiles c \<noteq> []) NoProfiles,
        ensure_logging_valid (cfg_logging c),
        ensure_server_valid (cfg_server c),
        ensure_db_valid (cfg_db_path c),
        ensure_webui_valid (cfg_webui c),
        ensure_endpoints_valid c,
        ensure_runtime_valid c,
        ensure_guest_valid c,
        ensure_tailscale_valid split_words (cfg_tailscale c),
        ensure_profiles_valid c,
        ensure_images_valid c,
        ensure_hot_valid c]"

subsection \<open>What a valid configuration guarantees\<close>

definition labels_of :: "(profile_name \<times> profile) list \<Rightarrow> runner_label list" where
  "labels_of ps = map (\<lambda>(_, p). prof_runner_label p) ps"

definition reserved_names :: "(profile_name \<times> profile) list \<Rightarrow> vm_name list" where
  "reserved_names ps = concat (map (\<lambda>(_, p). case prof_warm_template p of None \<Rightarrow> []
     | Some w \<Rightarrow> [w, VmName (vm_str w @ PREVIOUS_SUFFIX), VmName (vm_str w @ STAGING_SUFFIX)]) ps)"

lemma ensure_profiles_from_Inr:
  "ensure_profiles_from pre labels ps = Inr u \<longleftrightarrow>
     (\<forall>(n, p)\<in>set ps. ensure_profile (profile_str n) p pre = Inr ())
     \<and> distinct (labels_of ps) \<and> set (labels_of ps) \<inter> set labels = {}"
  by (induction pre labels ps rule: ensure_profiles_from.induct)
    (auto simp: labels_of_def split: sum.splits)

lemma with_suffix_Inr: "with_suffix n sfx = Inr m \<Longrightarrow> m = VmName (vm_str n @ sfx)"
  by (auto simp: with_suffix_def vm_name_kind.new_ok vm_name.expand)

lemma derived_names_Inr:
  "derived_names w = Inr ds \<Longrightarrow>
     ds = [w, VmName (vm_str w @ PREVIOUS_SUFFIX), VmName (vm_str w @ STAGING_SUFFIX)]"
  by (auto simp: derived_names_def dest!: with_suffix_Inr)

lemma reserve_names_Inr:
  "reserve_names f pre ts reserved ds = Inr r \<longleftrightarrow>
     (\<forall>d\<in>set ds. \<not> starts_with (vm_str d) pre \<and> vm_str d \<notin> set ts)
     \<and> distinct ds \<and> set ds \<inter> set reserved = {} \<and> r = rev ds @ reserved"
  by (induction f pre ts reserved ds rule: reserve_names.induct) auto

lemma ensure_images_from_Inr:
  "ensure_images_from pre ts reserved ps = Inr u \<Longrightarrow>
     (\<forall>d\<in>set (reserved_names ps). \<not> starts_with (vm_str d) pre \<and> vm_str d \<notin> set ts)
     \<and> distinct (reserved_names ps) \<and> set (reserved_names ps) \<inter> set reserved = {}"
proof (induction pre ts reserved ps rule: ensure_images_from.induct)
  case (2 pre ts reserved name p rest)
  show ?case
  proof (cases "prof_warm_template p")
    case None
    with 2 show ?thesis by (simp add: reserved_names_def)
  next
    case (Some w)
    with 2(3) obtain ds r where ds: "derived_names w = Inr ds"
      and r: "reserve_names (InvalidProfile (profile_str name)) pre ts reserved ds = Inr r"
      and rest: "ensure_images_from pre ts r rest = Inr u"
      by (auto split: sum.splits)
    have head: "reserved_names ((name, p) # rest) = ds @ reserved_names rest"
      using Some derived_names_Inr[OF ds] by (simp add: reserved_names_def)
    have "r = rev ds @ reserved" using r by (simp add: reserve_names_Inr)
    with 2(2)[OF Some ds r rest] r show ?thesis
      unfolding head by (auto simp: reserve_names_Inr)
  qed
qed (simp add: reserved_names_def)

lemmas ensure_valid_parts = ensure_valid_def ensure_runtime_valid_def ensure_profiles_valid_def
  ensure_images_valid_def ensure_hot_valid_def

lemma valid_profile:
  assumes "ensure_valid sw c = Inr ()" "(n, p) \<in> set (cfg_profiles c)"
  shows "ensure_profile (profile_str n) p (prefix_str (rt_vm_prefix (cfg_runtime c))) = Inr ()"
proof -
  have "ensure_profiles_valid c = Inr ()" using assms(1) by (simp add: ensure_valid_def)
  then show ?thesis using assms(2) by (auto simp: ensure_profiles_valid_def ensure_profiles_from_Inr)
qed

lemma valid_profile_bounds:
  assumes "ensure_profile n p pre = Inr ()"
  shows "\<not> starts_with (vm_str (prof_template p)) pre"
    and "length (label_str (prof_runner_label p)) \<le> 27"
    and "length pre + length n \<le> 48"
    and "guest_size_validate \<lparr>cpu_count = prof_cpu_count p, memory_mb = prof_memory_mb p,
           storage_mb = prof_storage_mb p\<rparr>"
  using assms by (simp_all add: ensure_profile_def guest_size_validate_def Let_def)

lemma valid_labels: "ensure_valid sw c = Inr () \<Longrightarrow> distinct (labels_of (cfg_profiles c))"
  by (simp add: ensure_valid_def ensure_profiles_valid_def ensure_profiles_from_Inr)

lemma valid_images:
  assumes "ensure_valid sw c = Inr ()"
  shows "distinct (reserved_names (cfg_profiles c))"
    and "d \<in> set (reserved_names (cfg_profiles c)) \<Longrightarrow>
           \<not> starts_with (vm_str d) (prefix_str (rt_vm_prefix (cfg_runtime c)))
           \<and> (\<forall>(n, p)\<in>set (cfg_profiles c). d \<noteq> prof_template p)"
proof -
  have "ensure_images_valid c = Inr ()" using assms by (simp add: ensure_valid_def)
  note * = ensure_images_from_Inr[OF this[unfolded ensure_images_valid_def]]
  show "distinct (reserved_names (cfg_profiles c))" using * by blast
  show "d \<in> set (reserved_names (cfg_profiles c)) \<Longrightarrow>
      \<not> starts_with (vm_str d) (prefix_str (rt_vm_prefix (cfg_runtime c)))
      \<and> (\<forall>(n, p)\<in>set (cfg_profiles c). d \<noteq> prof_template p)"
    using * by fastforce
qed

lemma valid_prefix:
  "ensure_valid sw c = Inr () \<Longrightarrow> ends_with (prefix_str (rt_vm_prefix (cfg_runtime c))) ''-''"
  by (simp add: ensure_valid_def ensure_runtime_valid_def Let_def vm_prefix_ensure_valid_def is_ok_iff)

end
