(* ===== verification/Claims.thy ===== *)
theory Claims
  imports Config_Model
begin

text \<open>
  The signed Forgejo claims and the authorization decision,
  \<open>crates/flanforge-core/src/claims/forgejo.rs\<close>. Authorization is a chain of checks whose
  first failure is the answer; the lemmas characterise the whole chain, with the allowlists
  read through the language of their glob patterns.
\<close>

record forgejo_claims =
  cl_actor :: string
  cl_aud :: string
  cl_event_name :: string
  cl_exp :: u64
  cl_iat :: u64
  cl_iss :: string
  cl_nbf :: u64
  cl_git_ref :: string
  cl_ref_protected :: string
  cl_ref_type :: string
  cl_repository :: string
  cl_repository_owner :: string
  cl_run_attempt :: string
  cl_run_id :: string
  cl_run_number :: string
  cl_sha :: string
  cl_sub :: string
  cl_workflow :: string
  cl_workflow_ref :: string

datatype authorization_error =
    RepositoryDim | RunIdentity | Workflow | Event | GitRef | ProtectedRef | Subject | MalformedClaims

definition validate_text :: "string \<Rightarrow> bool" where
  "validate_text s = list_all (\<lambda>c. \<not> is_ascii_control c) s"

definition validate_token :: "string \<Rightarrow> bool" where
  "validate_token s = list_all (\<lambda>c. is_ascii_alphanumeric c \<or> c = CHR ''_'') s"

definition validate_name :: "string \<Rightarrow> bool" where
  "validate_name s \<longleftrightarrow> starts_alphanumeric s \<and> list_all is_name_byte s"

definition validate_git_ref :: "string \<Rightarrow> bool" where
  "validate_git_ref s = is_safe_git_ref s"

definition validate_boolean :: "string \<Rightarrow> bool" where
  "validate_boolean s \<longleftrightarrow> s = ''true'' \<or> s = ''false''"

definition validate_repository :: "string \<Rightarrow> bool" where
  "validate_repository s = is_ok (repository_name_new s)"

definition validate_positive_decimal :: "string \<Rightarrow> bool" where
  "validate_positive_decimal s \<longleftrightarrow> s \<noteq> [] \<and> length s \<le> 20 \<and> list_all is_ascii_digit s
     \<and> is_some_and (\<lambda>n. n > 0) (parse_uint 64 s)"

definition validate_sha :: "string \<Rightarrow> bool" where
  "validate_sha s \<longleftrightarrow> (length s = 40 \<or> length s = 64) \<and> list_all is_ascii_hexdigit s"

text \<open>\<open>validate(length(min, max))\<close> counts characters, not bytes.\<close>

definition chars_between :: "nat \<Rightarrow> nat \<Rightarrow> string \<Rightarrow> bool" where
  "chars_between lo hi s \<longleftrightarrow> lo \<le> char_count s \<and> char_count s \<le> hi"

definition claims_validate :: "forgejo_claims \<Rightarrow> bool" where
  "claims_validate c \<longleftrightarrow>
     chars_between 1 100 (cl_actor c) \<and> validate_text (cl_actor c)
     \<and> chars_between 1 256 (cl_aud c) \<and> validate_text (cl_aud c)
     \<and> chars_between 1 64 (cl_event_name c) \<and> validate_token (cl_event_name c)
     \<and> 1 \<le> cl_exp c \<and> 1 \<le> cl_iat c
     \<and> chars_between 1 2048 (cl_iss c) \<and> validate_text (cl_iss c)
     \<and> 1 \<le> cl_nbf c
     \<and> validate_git_ref (cl_git_ref c)
     \<and> validate_boolean (cl_ref_protected c)
     \<and> chars_between 0 32 (cl_ref_type c) \<and> validate_token (cl_ref_type c)
     \<and> validate_repository (cl_repository c)
     \<and> chars_between 1 100 (cl_repository_owner c) \<and> validate_name (cl_repository_owner c)
     \<and> validate_positive_decimal (cl_run_attempt c)
     \<and> validate_positive_decimal (cl_run_id c)
     \<and> validate_positive_decimal (cl_run_number c)
     \<and> validate_sha (cl_sha c)
     \<and> chars_between 1 512 (cl_sub c) \<and> validate_text (cl_sub c)
     \<and> chars_between 1 128 (cl_workflow c) \<and> validate_text (cl_workflow c)
     \<and> chars_between 1 512 (cl_workflow_ref c) \<and> validate_text (cl_workflow_ref c)"

definition is_allowed :: "string list \<Rightarrow> string \<Rightarrow> bool" where
  "is_allowed patterns s = list_ex (\<lambda>pattern. is_glob_match pattern s) patterns"

definition workflow_identity :: "forgejo_claims \<Rightarrow> (string \<times> string) option" where
  "workflow_identity c =
     (case strip_prefix (cl_repository c @ ''/.forgejo/workflows/'') (cl_workflow_ref c) of
        None \<Rightarrow> None
      | Some rest \<Rightarrow> split_once (CHR 0x40) rest)"

definition workflow_file :: "forgejo_claims \<Rightarrow> string option" where
  "workflow_file c = map_option fst (workflow_identity c)"

definition parse_bool :: "string \<Rightarrow> bool option" where
  "parse_bool s = (if s = ''true'' then Some True else if s = ''false'' then Some False else None)"

definition is_ref_protected :: "forgejo_claims \<Rightarrow> bool" where
  "is_ref_protected c = unwrap_or False (parse_bool (cl_ref_protected c))"

definition expected_subject :: "forgejo_claims \<Rightarrow> string" where
  "expected_subject c =
     (if cl_event_name c = ''pull_request''
      then ''repo:'' @ cl_repository c @ '':pull_request''
      else ''repo:'' @ cl_repository c @ '':ref:'' @ cl_git_ref c)"

definition ensure_authorized ::
    "forgejo_claims \<Rightarrow> profile \<Rightarrow> allocation_request \<Rightarrow> authorization_error + unit" where
  "ensure_authorized c p r =
     first_error
       [ensure (claims_validate c) MalformedClaims,
        ensure (request_validate r) MalformedClaims,
        ensure (\<not> (cl_repository c \<noteq> repository_str (req_repository r)
                 \<or> cl_repository c \<noteq> repository_str (prof_repository p)
                 \<or> cl_repository_owner c \<noteq> repository_owner (req_repository r)))
          RepositoryDim,
        ensure (\<not> (parse_uint 64 (cl_run_id c) \<noteq> Some (unat (req_run_id r))
                 \<or> parse_uint 32 (cl_run_attempt c) \<noteq> Some (unat (req_run_attempt r))
                 \<or> req_run_id r = 0 \<or> req_run_attempt r = 0))
          RunIdentity,
        ensure (is_some_and (\<lambda>(path, git_ref).
                  is_allowed (prof_allowed_workflows p) path \<and> git_ref = cl_git_ref c)
                  (workflow_identity c))
          Workflow,
        ensure (cl_event_name c \<in> set (prof_allowed_events p)) Event,
        ensure (is_allowed (prof_allowed_refs p) (cl_git_ref c)) GitRef,
        (case parse_bool (cl_ref_protected c) of
           None \<Rightarrow> Inl MalformedClaims
         | Some is_protected \<Rightarrow>
             ensure (\<not> (prof_require_protected_ref p \<and> \<not> is_protected)) ProtectedRef),
        ensure (cl_sub c = expected_subject c) Subject]"

definition normalized :: "forgejo_claims \<Rightarrow> forgejo_claims" where
  "normalized c =
     (if cl_git_ref c = [] \<or> starts_with (cl_git_ref c) ''refs/'' then c
      else
        let full = ''refs/heads/'' @ cl_git_ref c;
            c1 = (case strip_suffix ('':ref:'' @ cl_git_ref c) (cl_sub c) of
                    None \<Rightarrow> c
                  | Some stem \<Rightarrow> c\<lparr>cl_sub := stem @ '':ref:'' @ full\<rparr>);
            c2 = (case strip_suffix (CHR 0x40 # cl_git_ref c) (cl_workflow_ref c) of
                    None \<Rightarrow> c1
                  | Some stem \<Rightarrow> c1\<lparr>cl_workflow_ref := stem @ CHR 0x40 # full\<rparr>)
        in c2\<lparr>cl_git_ref := full\<rparr>)"

subsection \<open>What authorization means\<close>

lemma is_allowed_iff: "is_allowed patterns s \<longleftrightarrow> (\<exists>p\<in>set patterns. s \<in> glob_lang p)"
  by (auto simp: is_allowed_def list_ex_iff is_glob_match_lang)

lemma workflow_identity_Some:
  "workflow_identity c = Some (path, ref) \<longleftrightarrow>
     cl_workflow_ref c = cl_repository c @ ''/.forgejo/workflows/'' @ path @ CHR 0x40 # ref
     \<and> CHR 0x40 \<notin> set path"
  unfolding workflow_identity_def
  by (auto simp: split_once_Some strip_prefix_Some_iff split: option.splits)
    (auto simp: strip_prefix_def prefix_def split: if_splits)

lemma parse_bool_valid: "validate_boolean s \<longleftrightarrow> (\<exists>b. parse_bool s = Some b)"
  by (auto simp: validate_boolean_def parse_bool_def)

lemma valid_ref_starts: "validate_git_ref s \<Longrightarrow> starts_with s ''refs/''"
  by (auto simp: validate_git_ref_def is_safe_git_ref_def is_safe_ref_shape_def split: if_splits)

lemma authorized_workflow:
  "is_some_and (\<lambda>(path, ref). is_allowed ws path \<and> ref = cl_git_ref c) (workflow_identity c) \<longleftrightarrow>
     (\<exists>path w. w \<in> set ws \<and> path \<in> glob_lang w \<and> CHR 0x40 \<notin> set path \<and>
        cl_workflow_ref c
          = cl_repository c @ ''/.forgejo/workflows/'' @ path @ CHR 0x40 # cl_git_ref c)"
proof -
  have "is_some_and (\<lambda>(path, ref). is_allowed ws path \<and> ref = cl_git_ref c) (workflow_identity c)
      \<longleftrightarrow> (\<exists>path. workflow_identity c = Some (path, cl_git_ref c) \<and> is_allowed ws path)"
    by (auto simp: is_some_and_iff)
  then show ?thesis by (auto simp: workflow_identity_Some is_allowed_iff)
qed

lemma normalized_ref: "normalized c = c \<longleftrightarrow> cl_git_ref c = [] \<or> starts_with (cl_git_ref c) ''refs/''"
proof (cases "cl_git_ref c = [] \<or> starts_with (cl_git_ref c) ''refs/''")
  case False
  have "cl_git_ref (normalized c) = ''refs/heads/'' @ cl_git_ref c"
    using False by (auto simp: normalized_def Let_def)
  then have "normalized c \<noteq> c" by auto
  with False show ?thesis by simp
qed (simp add: normalized_def)

lemma normalized_ref_full:
  "cl_git_ref c \<noteq> [] \<Longrightarrow> starts_with (cl_git_ref (normalized c)) ''refs/''"
  by (auto simp: normalized_def Let_def split: option.splits)

end
