(* ===== verification/Samples.thy ===== *)
theory Samples
  imports Config_Validate Claims
begin

text \<open>
  One concrete installation: a project with a warm template and a pool, on a host with a
  budget. The properties of the other theories are applied to it to show that their
  hypotheses can hold together.
\<close>

definition sample_hot :: hot_config where
  "sample_hot = \<lparr>hc_enabled = True, hc_lanes = PolicyAny, hc_max_idle = 1,
     hc_max_lifetime_seconds = 14400, hc_max_jobs = 20, hc_idle_ttl_seconds = 900,
     hc_reset_timeout_seconds = 120, hc_simulator_reset = ResetApps\<rparr>"

definition sample_profile :: profile where
  "sample_profile = \<lparr>prof_repository = RepositoryName ''acme/app'',
     prof_template = VmName ''mac-base'', prof_runner_label = RunnerLabel ''mac-ci'',
     prof_job_name = ''build'', prof_allowed_workflows = [''build.yml'', ''ci-*.yml''],
     prof_allowed_events = [''push'', ''workflow_dispatch''],
     prof_allowed_refs = [''refs/heads/*''], prof_require_protected_ref = True,
     prof_network = NetDefault, prof_cpu_count = 4, prof_memory_mb = 8192,
     prof_storage_mb = 40960, prof_boot_timeout = 300, prof_idle_timeout = 300,
     prof_job_timeout = 3600, prof_cleanup_timeout = 60,
     prof_warm_template = Some (VmName ''mac-warm''),
     prof_regeneration_workflow = Some ''ci-warm.yml'', prof_hot = Some sample_hot,
     prof_reap = True\<rparr>"

definition sample_url :: "string \<Rightarrow> url" where
  "sample_url path = \<lparr>url_scheme = ''https'', url_host = Some ''forge.example'', url_username = [],
     url_password = None, url_path = path, url_query = None, url_fragment = None\<rparr>"

definition sample_runtime :: runtime_config where
  "sample_runtime = \<lparr>rt_state_dir = ''/var/ff'',
     rt_backend = Tart \<lparr>tart_path = ''/bin/tart'', tart_home = Some ''/tart'',
                       tart_runner_host_path = None\<rparr>,
     rt_ssh_path = ''/bin/ssh'', rt_scp_path = ''/bin/scp'', rt_vm_prefix = VmPrefix ''ff-'',
     rt_max_running_vms = 4, rt_max_hot_vms = 2, rt_poll_seconds = 2,
     rt_reap_interval_hours = 168, rt_host_cpu_count = Some 16,
     rt_host_memory_mb = Some 65536, rt_host_storage_mb = Some 524288\<rparr>"

definition sample_config :: config where
  "sample_config = \<lparr>cfg_logging = \<lparr>log_level = ''info'', log_path = None\<rparr>,
     cfg_server = \<lparr>srv_listen = ''127.0.0.1:9843'', srv_request_body_limit = 4096,
                   srv_allocation_wait = 600, srv_shutdown_grace = 30\<rparr>,
     cfg_db_path = None,
     cfg_webui = \<lparr>web_enabled = True, web_public_read_only = False,
        web_session_ttl_seconds = 604800, web_request_body_limit = 65536, web_dev_dist_dir = None,
        web_authdb_enabled = True,
        web_oidc = \<lparr>woidc_enabled = False, woidc_issuer = None, woidc_client_id = None,
           woidc_client_secret_file = None, woidc_redirect_url = None,
           woidc_scopes = [''openid'']\<rparr>\<rparr>,
     cfg_oidc = \<lparr>oidc_issuer = sample_url ''/'', oidc_audience = ''ff'',
        oidc_jwks_url = sample_url ''/jwks'', oidc_jwks_cache_seconds = 300,
        oidc_clock_skew_seconds = 30\<rparr>,
     cfg_forgejo = \<lparr>fj_api_url = sample_url ''/api/v1/'', fj_api_token_file = ''/etc/token'',
        fj_http_timeout_seconds = 15\<rparr>,
     cfg_runtime = sample_runtime,
     cfg_guest = \<lparr>guest_channel = Ssh, guest_runner_user = ''runner'',
        guest_privileged_user = ''prunner'', guest_forgejo_runner_path = ''/bin/runner'',
        guest_ssh = Some \<lparr>ssh_identity_file = ''/etc/id'', ssh_privileged_identity_file = None,
           ssh_known_hosts_file = None, ssh_host_key_alias = None, ssh_connect_timeout = 5,
           ssh_verify_host_key = False\<rparr>\<rparr>,
     cfg_tailscale = \<lparr>ts_enabled = False, ts_preauth_key_file = None, ts_login_server = None,
        ts_hostname = None, ts_extra_args = []\<rparr>,
     cfg_profiles = [(ProfileName ''mac'', sample_profile)]\<rparr>"

definition sample_request :: allocation_request where
  "sample_request = \<lparr>req_profile = ProfileName ''mac'', req_repository = RepositoryName ''acme/app'',
     req_run_id = 42, req_run_attempt = 1\<rparr>"

definition sample_claims :: forgejo_claims where
  "sample_claims = \<lparr>cl_actor = ''dev'', cl_aud = ''ff'', cl_event_name = ''push'', cl_exp = 2000,
     cl_iat = 1000, cl_iss = ''https://forge.example'', cl_nbf = 1000,
     cl_git_ref = ''refs/heads/main'', cl_ref_protected = ''true'', cl_ref_type = ''branch'',
     cl_repository = ''acme/app'', cl_repository_owner = ''acme'', cl_run_attempt = ''1'',
     cl_run_id = ''42'', cl_run_number = ''7'', cl_sha = replicate 40 (CHR ''a''),
     cl_sub = ''repo:acme/app:ref:refs/heads/main'', cl_workflow = ''ci'',
     cl_workflow_ref = ''acme/app/.forgejo/workflows/ci-warm.yml@refs/heads/main''\<rparr>"

lemma sample_valid: "ensure_valid (\<lambda>_. Some []) sample_config = Inr ()"
  by code_simp

lemma sample_authorized: "ensure_authorized sample_claims sample_profile sample_request = Inr ()"
  by code_simp

end
