(* ===== verification/Core_Props.thy ===== *)
theory Core_Props
  imports Samples
begin

text \<open>
  The properties of the core crate and of the string utilities: bounded text, glob matching,
  the two lifecycles, authorization, sizing, fingerprints and what a valid configuration
  guarantees.
\<close>

subsection \<open>Text\<close>

text \<open>
  \<open>bounded_text\<close> cuts a string at the greatest character boundary that is not past the
  limit, and a string within the limit is returned whole.
\<close>

theorem bounded_text_greatest_boundary:
  "bounded_text s n = take (Max {m. m \<le> n \<and> is_char_boundary s m}) s"
proof -
  let ?M = "{m. m \<le> n \<and> is_char_boundary s m}"
  have fin: "finite ?M" by (rule finite_subset[of _ "{..n}"]) auto
  show ?thesis
  proof (cases "length s \<le> n")
    case True
    have "Max ?M = length s"
      using True by (intro Max_eqI[OF fin]) (auto simp: is_char_boundary_def)
    with True show ?thesis by (simp add: bounded_text_def)
  next
    case False
    have "Max ?M = floor_boundary s n"
      by (intro Max_eqI[OF fin])
        (auto simp: floor_boundary_le floor_boundary_is_boundary floor_boundary_greatest)
    with False show ?thesis by (simp add: bounded_text_def)
  qed
qed

text \<open>
  C21. The iterative glob matcher, with its single backtrack point, ends on every input and
  accepts exactly the language of the pattern: each byte denotes itself, \<open>?\<close> one byte and
  \<open>*\<close> any run, and the whole value must be consumed.
\<close>

theorem glob_match_is_language:
  "is_glob_match pattern val \<longleftrightarrow> val \<in> glob_lang pattern"
  by (rule is_glob_match_lang)

text \<open>
  C39. An exact ref in an allowlist authorises that ref and no other: a safe git ref is a safe
  pattern, and as a pattern it matches only itself.
\<close>

theorem safe_ref_matches_itself_only:
  assumes "is_safe_git_ref r"
  shows "is_safe_git_ref_pattern r \<and> (\<forall>v. is_glob_match r v \<longleftrightarrow> v = r)"
  using assms safe_ref_is_pattern safe_ref_no_wildcard[OF assms]
  by (simp add: is_glob_match_lang glob_lang_literal)

theorem safe_ref_matches_itself_only_witness:
  "is_safe_git_ref ''refs/heads/main'' \<and> is_safe_git_ref_pattern ''refs/heads/main''
   \<and> (\<forall>v. is_glob_match ''refs/heads/main'' v \<longleftrightarrow> v = ''refs/heads/main'')"
proof -
  have "is_safe_git_ref ''refs/heads/main''" by code_simp
  with safe_ref_matches_itself_only[of "''refs/heads/main''"] show ?thesis by blast
qed

text \<open>
  A libvirt URI flanforge accepts never carries a query, and without the operator's
  opt-in it is the local socket or one of the two authenticated transports, never clear-text
  TCP.
\<close>

theorem libvirt_uri_transport:
  assumes "is_supported_libvirt_uri uri False"
  shows "CHR ''?'' \<notin> set uri
    \<and> (\<exists>rest. uri = ''qemu:///'' @ rest \<or> uri = ''qemu+unix:///'' @ rest
          \<or> uri = ''qemu+ssh://'' @ rest \<or> uri = ''qemu+tls://'' @ rest)"
proof -
  obtain scheme rest where split: "split_once_str ''://'' uri = Some (scheme, rest)"
    and query: "CHR ''?'' \<notin> set uri"
    using assms by (auto simp: is_supported_libvirt_uri_def split: if_splits option.splits)
  obtain transport where transport: "libvirt_transport scheme = Some transport"
    using assms split by (auto simp: is_supported_libvirt_uri_def split: if_splits option.splits)
  obtain authority path where parts: "split_once (CHR ''/'') rest = Some (authority, path)"
    using assms split transport
    by (auto simp: is_supported_libvirt_uri_def split: if_splits option.splits)
  have auth: "transport = ''unix'' \<and> authority = [] \<or> transport \<in> {''ssh'', ''tls''}"
    using assms split transport parts
    by (simp add: is_supported_libvirt_uri_def split: if_splits)
  have scheme: "scheme = ''qemu'' \<and> transport = ''unix'' \<or> scheme = ''qemu+'' @ transport"
    using transport by (auto simp: libvirt_transport_def strip_prefix_Some_iff split: if_splits)
  have uri: "uri = scheme @ ''://'' @ rest" using split by (rule split_once_str_Some)
  have rest: "rest = authority @ CHR ''/'' # path" using parts by (simp add: split_once_Some)
  show ?thesis using scheme auth query by (auto simp: uri rest)
qed

theorem libvirt_uri_transport_witness:
  "is_supported_libvirt_uri ''qemu+ssh://ops@host/system'' False
   \<and> CHR ''?'' \<notin> set ''qemu+ssh://ops@host/system''"
proof -
  have "is_supported_libvirt_uri ''qemu+ssh://ops@host/system'' False" by code_simp
  with libvirt_uri_transport[of "''qemu+ssh://ops@host/system''"] show ?thesis by blast
qed

subsection \<open>Lifecycles\<close>

text \<open>
  C26. Along any run of allowed transitions an allocation changes state at most eight times,
  never leaves a terminal state, and reaches a terminal state only from \<open>Cleaning\<close>.
\<close>

theorem allocation_lifecycle_monotone:
  assumes "run_from can_transition_to s (xs @ t # ys)"
  shows "changes s (xs @ t # ys) \<le> 8 - allocation_rank s
    \<and> (is_terminal t \<longrightarrow> set ys \<subseteq> {t})
    \<and> (is_terminal t \<and> t \<noteq> last (s # xs) \<longrightarrow> last (s # xs) = Cleaning)"
proof (intro conjI impI)
  show "changes s (xs @ t # ys) \<le> 8 - allocation_rank s"
    using allocation_life.run_rank[OF assms] allocation_rank_le[of "last (s # xs @ t # ys)"]
    by linarith
  have tail: "run_from can_transition_to t ys \<and> can_transition_to (last (s # xs)) t"
    using assms by (induction xs arbitrary: s) auto
  show "is_terminal t \<Longrightarrow> set ys \<subseteq> {t}"
    using tail allocation_life.run_terminal[of t ys] by blast
  show "is_terminal t \<and> t \<noteq> last (s # xs) \<Longrightarrow> last (s # xs) = Cleaning"
    using tail terminal_from_cleaning by metis
qed

theorem allocation_lifecycle_monotone_witness:
  "run_from can_transition_to Requested ([Preparing, Cleaning] @ Failed # [Failed])
   \<and> changes Requested ([Preparing, Cleaning] @ Failed # [Failed]) \<le> 8"
proof -
  have "run_from can_transition_to Requested ([Preparing, Cleaning] @ Failed # [Failed])"
    by code_simp
  with allocation_lifecycle_monotone[of Requested "[Preparing, Cleaning]" Failed "[Failed]"]
  show ?thesis by simp
qed

text \<open>
  C28. The pool guest's claim rule, that a record names a claimant exactly while it is
  \<open>Claimed\<close>, is kept by claiming and by releasing; a bare change of state keeps it exactly
  when it neither enters nor leaves \<open>Claimed\<close>.
\<close>

theorem hot_claim_rule:
  assumes "hot_guest_validate g"
  shows "(ensure_claimed g i now = Inr g1 \<longrightarrow> hot_guest_validate g1)
    \<and> (ensure_released g now = Inr g2 \<longrightarrow> hot_guest_validate g2)
    \<and> (ensure_state g s now = Inr g3 \<longrightarrow>
           (hot_guest_validate g3 \<longleftrightarrow> (hot_state_of g = Claimed \<longleftrightarrow> s = Claimed)))"
  using assms ensure_claimed_validates ensure_released_validates ensure_state_validates_iff
  by blast

definition core_guest :: hot_guest where
  "core_guest = (hot_guest_new (VmName ''ff-mac-41-1'') (ProfileName ''mac'') Protected
     \<lparr>cpu_count = 4, memory_mb = 8192, storage_mb = 40960\<rparr>
     \<lparr>src_name = VmName ''mac-base'', src_kind = TemplateKind, src_base_fingerprint = None,
      src_fallback_reason = None\<rparr> None None 1000)\<lparr>hot_state_of := Idle\<rparr>"

lemma sample_guest_valid: "hot_guest_validate core_guest"
  by code_simp

theorem hot_claim_rule_witness:
  "hot_guest_validate core_guest
   \<and> (\<exists>g1. ensure_claimed core_guest 7 2000 = Inr g1 \<and> hot_guest_validate g1)"
proof -
  obtain g1 where "ensure_claimed core_guest 7 2000 = Inr g1"
    by (auto simp: ensure_claimed_Inr core_guest_def hot_guest_new_def)
  with hot_claim_rule[OF sample_guest_valid] show ?thesis using sample_guest_valid by blast
qed

subsection \<open>Authorization\<close>

text \<open>
  C4. A request is authorised exactly when the signed claims and the request are well formed
  and every dimension agrees: repository and owner, run and attempt, a workflow file of this
  repository that an allowed pattern matches at the claimed ref, an allowed event, an allowed
  ref, a protected ref where the profile requires one, and the subject built from the claims.
\<close>

theorem authorized_iff:
  "ensure_authorized c p r = Inr () \<longleftrightarrow>
     claims_validate c \<and> request_validate r
     \<and> cl_repository c = repository_str (req_repository r)
     \<and> req_repository r = prof_repository p
     \<and> cl_repository_owner c = repository_owner (req_repository r)
     \<and> parse_uint 64 (cl_run_id c) = Some (unat (req_run_id r))
     \<and> parse_uint 32 (cl_run_attempt c) = Some (unat (req_run_attempt r))
     \<and> (\<exists>path w. w \<in> set (prof_allowed_workflows p) \<and> path \<in> glob_lang w \<and> CHR 0x40 \<notin> set path
          \<and> cl_workflow_ref c
            = cl_repository c @ ''/.forgejo/workflows/'' @ path @ CHR 0x40 # cl_git_ref c)
     \<and> cl_event_name c \<in> set (prof_allowed_events p)
     \<and> (\<exists>w\<in>set (prof_allowed_refs p). cl_git_ref c \<in> glob_lang w)
     \<and> (cl_ref_protected c = ''true'' \<or> \<not> prof_require_protected_ref p)
     \<and> cl_sub c = expected_subject c"
proof -
  have prot: "validate_boolean s \<Longrightarrow>
      (case parse_bool s of None \<Rightarrow> Inl MalformedClaims
       | Some b \<Rightarrow> ensure (\<not> (q \<and> \<not> b)) ProtectedRef) = Inr () \<longleftrightarrow> s = ''true'' \<or> \<not> q" for s q
    by (auto simp: validate_boolean_def parse_bool_def)
  have repo: "repository_str a = repository_str b \<longleftrightarrow> a = b" for a b
    by (cases a; cases b) simp
  have positive: "request_validate r \<Longrightarrow> req_run_id r \<noteq> 0 \<and> req_run_attempt r \<noteq> 0"
    by (auto simp: request_validate_def)
  have bool: "claims_validate c \<Longrightarrow> validate_boolean (cl_ref_protected c)"
    by (simp add: claims_validate_def)
  show ?thesis
  proof (cases "claims_validate c \<and> request_validate r")
    case True
    with prot[OF bool] positive show ?thesis
      by (simp add: ensure_authorized_def authorized_workflow) (auto simp: is_allowed_iff repo)
  next
    case False
    then show ?thesis by (auto simp: ensure_authorized_def)
  qed
qed

theorem authorized_iff_witness:
  "ensure_authorized sample_claims sample_profile sample_request = Inr ()
   \<and> cl_sub sample_claims = expected_subject sample_claims"
  using sample_authorized authorized_iff[of sample_claims sample_profile sample_request] by blast



text \<open>
  C20. Only the signed workflow decides who produces images: an authorised request regenerates
  exactly when its claims were signed for the profile's declared regeneration workflow file
  of this repository at the claimed ref, whatever the request body asks for.
\<close>

theorem regenerate_is_signed:
  assumes "ensure_authorized c p r = Inr ()"
  shows "resolve_mode options p (unwrap_or [] (workflow_file c)) = Regenerate \<longleftrightarrow>
    prof_warm_template p \<noteq> None \<and>
    (\<exists>w. prof_regeneration_workflow p = Some w \<and> CHR 0x40 \<notin> set w \<and>
       cl_workflow_ref c = cl_repository c @ ''/.forgejo/workflows/'' @ w @ CHR 0x40 # cl_git_ref c)"
proof -
  obtain path where path: "workflow_identity c = Some (path, cl_git_ref c)"
    using assms by (auto simp: ensure_authorized_def is_some_and_iff)
  then have wf: "workflow_file c = Some path" by (simp add: workflow_file_def)
  have eq: "CHR 0x40 \<notin> set w \<and>
      cl_workflow_ref c = cl_repository c @ ''/.forgejo/workflows/'' @ w @ CHR 0x40 # cl_git_ref c
      \<longleftrightarrow> w = path" for w
  proof -
    have "workflow_identity c = Some (w, cl_git_ref c) \<longleftrightarrow> w = path" using path by auto
    then show ?thesis unfolding workflow_identity_Some by blast
  qed
  show ?thesis unfolding wf unwrap_or_simps resolve_mode_regenerate eq by blast
qed

theorem regenerate_is_signed_witness:
  "ensure_authorized sample_claims sample_profile sample_request = Inr ()
   \<and> resolve_mode \<lparr>opt_warm = True, opt_hot = Untouched, opt_cpu_count = None, opt_memory_mb = None\<rparr>
       sample_profile (unwrap_or [] (workflow_file sample_claims)) = Regenerate"
  using sample_authorized regenerate_is_signed[OF sample_authorized]
  by (simp add: sample_profile_def sample_claims_def)

subsection \<open>Sizing, fingerprints, records\<close>


text \<open>
  C35. A fingerprint made from file metadata is a valid fingerprint and identifies the
  metadata: two pairs of files have the same fingerprint only if lengths and times agree.
\<close>

theorem from_stats_identifies:
  "fingerprint_validate (from_stats d c)
   \<and> (from_stats d c = from_stats d' c' \<longleftrightarrow> d = d' \<and> c = c')"
proof
  show "fingerprint_validate (from_stats d c)"
    by (auto simp: fingerprint_validate_def is_ok_iff fingerprint_new_def from_stats_def
        list_all_iff hex_pad_hexdigit)
  have eq: "a = b \<longleftrightarrow> stat_len a = stat_len b \<and> mtime_secs a = mtime_secs b
      \<and> mtime_nanos a = mtime_nanos b" for a b :: file_stat
    by (cases a; cases b) auto
  show "from_stats d c = from_stats d' c' \<longleftrightarrow> d = d' \<and> c = c'"
    unfolding from_stats_def eq
    by (simp add: hex_u64 hex_u32 conj_assoc)
qed

text \<open>
  C40. Recording a retention outcome bounds its reason, but a reason with a NUL byte within
  the bound yields an outcome its own validation rejects.
\<close>

theorem retention_reason_nul:
  "retention_outcome_validate (retention_outcome_new r ph reason g) \<longleftrightarrow>
     CHR 0x00 \<notin> set (bounded_text reason 256)"
  using retention_new_validates_iff[of r ph reason g] by (simp add: MAX_REASON_LEN_def)

text \<open>
  The tolerant reader of fallback reasons gives back every reason this build writes, and
  reads every other text as \<open>Unknown\<close>.
\<close>

theorem fallback_round_trip:
  "fallback_deserialize (fallback_serialize reason) = reason
   \<and> (fallback_deserialize text = Unknown \<longleftrightarrow>
        (\<forall>r. r \<noteq> Unknown \<longrightarrow> text \<noteq> fallback_serialize r))"
proof
  show trip: "fallback_deserialize (fallback_serialize reason) = reason"
    by (cases reason) (simp_all add: fallback_deserialize_def fallback_names_def)
  have "text = fallback_serialize (fallback_deserialize text)" if "fallback_deserialize text \<noteq> Unknown"
    using that by (auto simp: fallback_deserialize_def fallback_names_def)
  moreover have "fallback_deserialize (fallback_serialize r) = r" for r
    by (cases r) (simp_all add: fallback_deserialize_def fallback_names_def)
  ultimately show "fallback_deserialize text = Unknown \<longleftrightarrow>
      (\<forall>r. r \<noteq> Unknown \<longrightarrow> text \<noteq> fallback_serialize r)" by metis
qed

theorem fallback_round_trip_witness:
  "fallback_deserialize ''from_the_future'' = Unknown
   \<and> ''from_the_future'' \<noteq> fallback_serialize NoRecord"
proof -
  have "fallback_deserialize ''from_the_future'' = Unknown" by code_simp
  with fallback_round_trip[of Unknown "''from_the_future''"] show ?thesis by blast
qed

subsection \<open>Configuration\<close>

text \<open>
  C25. In a configuration that passed validation the names that decide ownership cannot be
  confused: the VM prefix ends in a hyphen, no template and no warm image name starts with
  it, warm image names and the two names derived from each are all different from each other
  and from every template, and no two profiles share a runner label.
\<close>

theorem valid_config_names:
  assumes "ensure_valid sw c = Inr ()"
  shows "ends_with (prefix_str (rt_vm_prefix (cfg_runtime c))) ''-''
    \<and> distinct (labels_of (cfg_profiles c)) \<and> distinct (reserved_names (cfg_profiles c))
    \<and> (\<forall>(n, p)\<in>set (cfg_profiles c).
         \<not> starts_with (vm_str (prof_template p)) (prefix_str (rt_vm_prefix (cfg_runtime c)))
         \<and> prof_template p \<notin> set (reserved_names (cfg_profiles c)))
    \<and> (\<forall>d\<in>set (reserved_names (cfg_profiles c)).
         \<not> starts_with (vm_str d) (prefix_str (rt_vm_prefix (cfg_runtime c))))"
  using valid_prefix[OF assms] valid_labels[OF assms] valid_images[OF assms]
    valid_profile[OF assms] valid_profile_bounds(1)
  by fast

theorem valid_config_names_witness:
  "ensure_valid (\<lambda>_. Some []) sample_config = Inr ()
   \<and> distinct (reserved_names (cfg_profiles sample_config))"
  using sample_valid valid_config_names[OF sample_valid] by blast

end
