(* ===== verification/Manager_State.thy ===== *)
theory Manager_State
  imports Config_Model Claims
begin

text \<open>
  The state of the allocation manager, \<open>crates/flanforge-manager/src\<close>: the record \<open>Inner\<close>
  and its entries (\<open>service.rs\<close>), the values exchanged with the backend (\<open>worker\<close>), the
  errors, and the three durable tables as the manager sees them through the store traits of
  \<open>crates/flanforge-store\<close>.

  Everything outside the manager is the argument \<open>E\<close>, a record of functions over an abstract
  world: the methods of \<open>AllocationWorker\<close>, the clocks, the identifier generator, and
  whether the next database operation or timer fails. The world is part of the state, so a
  theorem for every \<open>E\<close> and every state covers every backend, every schedule of the clock and
  every pattern of failures. An operation is a program of the state monad over this state; a
  failed database operation changes nothing.
\<close>

subsection \<open>Values exchanged with the backend\<close>

datatype machine_state = MachineRunning | MachineStopped | MachineOther
datatype machine_ownership = Owned | Foreign | UnknownOwner

record host_machine =
  mach_name :: string
  mach_state :: machine_state
  mach_age_seconds :: "u64 option"
  mach_size :: "guest_size option"
  mach_ownership :: machine_ownership

datatype worker_error = WorkerFailed string | WorkerCapacity string

fun worker_is_capacity :: "worker_error \<Rightarrow> bool" where
  "worker_is_capacity (WorkerCapacity _) = True"
| "worker_is_capacity (WorkerFailed _) = False"

datatype warm_availability = WarmReady | WarmBusy | WarmAbsent

text \<open>A \<open>Duration\<close> and an \<open>Instant\<close> are milliseconds.\<close>

record cleanup_budget =
  budget_allowance :: nat
  budget_deadline :: "nat option"

definition budget_allow :: "nat \<Rightarrow> cleanup_budget" where
  "budget_allow allowance = \<lparr>budget_allowance = allowance, budget_deadline = None\<rparr>"

definition budget_until :: "cleanup_budget \<Rightarrow> nat \<Rightarrow> cleanup_budget" where
  "budget_until b deadline = b\<lparr>budget_deadline := Some deadline\<rparr>"

definition budget_at_least :: "cleanup_budget \<Rightarrow> nat \<Rightarrow> cleanup_budget" where
  "budget_at_least b floor_ms = b\<lparr>budget_allowance := max (budget_allowance b) floor_ms\<rparr>"

definition budget_is_bounded :: "cleanup_budget \<Rightarrow> bool" where
  "budget_is_bounded b \<longleftrightarrow> budget_deadline b \<noteq> None"

definition budget_remaining :: "cleanup_budget \<Rightarrow> nat \<Rightarrow> nat option" where
  "budget_remaining b now = map_option (\<lambda>deadline. deadline - now) (budget_deadline b)"

definition budget_limit :: "cleanup_budget \<Rightarrow> nat \<Rightarrow> nat \<Rightarrow> nat" where
  "budget_limit b duration now =
     (case budget_remaining b now of None \<Rightarrow> duration | Some remaining \<Rightarrow> min remaining duration)"

definition budget_timeout :: "cleanup_budget \<Rightarrow> nat \<Rightarrow> nat" where
  "budget_timeout b now = budget_limit b (budget_allowance b) now"

record hot_reset =
  reset_simulator :: simulator_reset
  reset_budget :: cleanup_budget

datatype reap_authorization =
    AuthRecord uuid
  | AuthStaging profile_name
  | AuthImage profile_name
  | AuthPrefix

record reap_request =
  reap_name :: vm_name
  reap_authorization_of :: reap_authorization
  reap_profile :: "profile option"
  reap_record :: "warm_image_record option"
  reap_allocation :: "allocation option"
  reap_reserved :: "string list"
  reap_budget :: cleanup_budget

record retired_image =
  ret_img_profile :: profile_name
  ret_img_generation :: u64
  ret_img_age_seconds :: u64
  ret_img_is_deleted :: bool
  ret_img_reason :: string

record image_sweep =
  sweep_is_dry_run :: bool
  sweep_declared :: "(profile_name \<times> vm_name) list"
  sweep_claimed :: "profile_name list"

subsection \<open>Errors\<close>

datatype busy_reason = Serialized | Slots | Budget | ProbeFailed | Regenerating

datatype store_error = DbError

datatype manager_error =
    UnknownProfile string
  | Busy busy_reason "uuid option"
  | NotFound uuid
  | DuplicateAllocation uuid
  | InvalidVmName
  | UnknownHotGuest string
  | InvalidRunnerLabel
  | RequestExceedsProfile
  | InvalidRequest
  | ShuttingDown
  | InvalidRunnerId
  | AuthorizationErr authorization_error
  | TransitionErr transition_error
  | HotTransitionErr hot_transition_error
  | StoreErr store_error
  | WorkerErr worker_error

subsection \<open>The environment\<close>

text \<open>
  The fields \<open>w_\<close> are the methods of the backend, those with \<open>x_\<close> the rest of the outside:
  the wall clock in seconds, the monotonic clock in milliseconds, a fresh identifier and its
  rendering, the rendering of an error (which quotes the database driver), whether the next database operation fails, and whether a timer of the given
  length fires before what it guards.
\<close>

record 'w env =
  w_evidence_deferred :: bool
  w_supports_hot :: bool
  w_supports_warm :: bool
  w_machines :: "'w \<Rightarrow> (worker_error + host_machine list) \<times> 'w"
  w_base_fingerprint :: "vm_name \<Rightarrow> 'w \<Rightarrow> base_fingerprint option \<times> 'w"
  w_base_storage_mb :: "profile_name \<Rightarrow> clone_source \<Rightarrow> 'w \<Rightarrow> u64 option \<times> 'w"
  w_warm_availability ::
    "profile \<Rightarrow> warm_image_record \<Rightarrow> host_machine list \<Rightarrow> 'w \<Rightarrow> (worker_error + warm_availability) \<times> 'w"
  w_is_unclaimed_image :: "vm_name \<Rightarrow> host_machine list \<Rightarrow> 'w \<Rightarrow> (worker_error + bool) \<times> 'w"
  w_warm_retained :: "profile_name \<Rightarrow> 'w \<Rightarrow> u32 option \<times> 'w"
  w_cleanup :: "allocation \<Rightarrow> cleanup_budget \<Rightarrow> 'w \<Rightarrow> (worker_error + unit) \<times> 'w"
  w_ensure_recovered :: "'w \<Rightarrow> (worker_error + unit) \<times> 'w"
  w_ensure_warm_restored :: "profile \<Rightarrow> warm_image_record \<Rightarrow> 'w \<Rightarrow> (worker_error + unit) \<times> 'w"
  w_ensure_hot_retained ::
    "hot_guest \<Rightarrow> allocation \<Rightarrow> profile \<Rightarrow> hot_reset \<Rightarrow> 'w \<Rightarrow> (worker_error + unit) \<times> 'w"
  w_ensure_hot_reset :: "hot_guest \<Rightarrow> hot_reset \<Rightarrow> 'w \<Rightarrow> (worker_error + unit) \<times> 'w"
  w_is_hot_live :: "hot_guest \<Rightarrow> 'w \<Rightarrow> bool \<times> 'w"
  w_ensure_hot_evicted :: "hot_guest \<Rightarrow> cleanup_budget \<Rightarrow> 'w \<Rightarrow> (worker_error + unit) \<times> 'w"
  w_delete_vm :: "reap_request \<Rightarrow> 'w \<Rightarrow> (worker_error + unit) \<times> 'w"
  w_sweep_images :: "image_sweep \<Rightarrow> 'w \<Rightarrow> (worker_error + retired_image list) \<times> 'w"
  x_unix_time :: "'w \<Rightarrow> u64 \<times> 'w"
  x_instant :: "'w \<Rightarrow> nat \<times> 'w"
  x_new_uuid :: "'w \<Rightarrow> uuid \<times> 'w"
  x_uuid_str :: "uuid \<Rightarrow> string"
  x_error_text :: "manager_error \<Rightarrow> string"
  x_db_fails :: "'w \<Rightarrow> bool \<times> 'w"
  x_timer_fires :: "nat \<Rightarrow> 'w \<Rightarrow> bool \<times> 'w"

text \<open>The default methods of the trait that decide something from the listing.\<close>

definition default_warm_availability :: "warm_image_record \<Rightarrow> host_machine list \<Rightarrow> warm_availability" where
  "default_warm_availability r listing =
     (case find (\<lambda>m. mach_name m = vm_str (img_warm_template r)) listing of
        None \<Rightarrow> WarmAbsent
      | Some m \<Rightarrow> if mach_state m = MachineStopped then WarmReady else WarmBusy)"

definition default_is_unclaimed_image :: "vm_name \<Rightarrow> host_machine list \<Rightarrow> bool" where
  "default_is_unclaimed_image name listing = list_ex (\<lambda>m. mach_name m = vm_str name) listing"

definition worker_error_new :: "string \<Rightarrow> worker_error" where
  "worker_error_new message = WorkerFailed (bounded_text message 512)"

definition worker_error_capacity :: "string \<Rightarrow> worker_error" where
  "worker_error_capacity message = WorkerCapacity (bounded_text message 512)"

fun worker_error_text :: "worker_error \<Rightarrow> string" where
  "worker_error_text (WorkerFailed m) = m"
| "worker_error_text (WorkerCapacity m) = m"

subsection \<open>Durable tables\<close>

text \<open>
  A table is an association list keyed by its primary key. A write fails when a counter does
  not fit the signed column, a read fails when the record does not validate, and a listing
  skips what it cannot read; \<open>Orm\<close> relates these tables to the rows of the database.
\<close>

definition fits_i64 :: "u64 \<Rightarrow> bool" where
  "fits_i64 n \<longleftrightarrow> unat n < 2 ^ 63"

type_synonym hot_table = "(vm_name \<times> hot_guest) list"
type_synonym image_table = "(profile_name \<times> warm_image_record) list"
type_synonym allocation_table = "(uuid \<times> allocation) list"

definition hot_storable :: "hot_guest \<Rightarrow> bool" where
  "hot_storable g \<longleftrightarrow> fits_i64 (storage_mb (hot_size g))
     \<and> option_all fits_i64 (hot_warm_generation g) \<and> option_all fits_i64 (hot_age_limit g)
     \<and> fits_i64 (hot_booted_at g) \<and> fits_i64 (hot_updated_at g)"

definition hot_table_load :: "vm_name \<Rightarrow> hot_table \<Rightarrow> store_error + hot_guest option" where
  "hot_table_load n t =
     (case map_of t n of
        None \<Rightarrow> Inr None
      | Some g \<Rightarrow> if hot_guest_validate g then Inr (Some g) else Inl DbError)"

definition hot_table_load_all :: "hot_table \<Rightarrow> hot_guest list" where
  "hot_table_load_all t = filter hot_guest_validate (al_values t)"

definition hot_table_save :: "hot_guest \<Rightarrow> hot_table \<Rightarrow> store_error + hot_table" where
  "hot_table_save g t = (if hot_storable g then Inr (AList.update (hot_vm g) g t) else Inl DbError)"

definition hot_table_remove :: "vm_name \<Rightarrow> hot_table \<Rightarrow> hot_table" where
  "hot_table_remove n t = AList.delete n t"

definition image_storable :: "warm_image_record \<Rightarrow> bool" where
  "image_storable r \<longleftrightarrow> fits_i64 (img_generation r) \<and> fits_i64 (img_produced_at_unix r)"

definition image_table_load :: "profile_name \<Rightarrow> image_table \<Rightarrow> store_error + warm_image_record option" where
  "image_table_load n t =
     (case map_of t n of
        None \<Rightarrow> Inr None
      | Some r \<Rightarrow> if warm_image_validate r then Inr (Some r) else Inl DbError)"

definition image_table_load_all :: "image_table \<Rightarrow> warm_image_record list" where
  "image_table_load_all t = filter warm_image_validate (al_values t)"

definition image_table_save :: "warm_image_record \<Rightarrow> image_table \<Rightarrow> store_error + image_table" where
  "image_table_save r t =
     (if image_storable r then Inr (AList.update (img_profile r) r t) else Inl DbError)"

definition image_table_remove :: "profile_name \<Rightarrow> image_table \<Rightarrow> image_table" where
  "image_table_remove n t = AList.delete n t"

definition allocation_storable :: "allocation \<Rightarrow> bool" where
  "allocation_storable a \<longleftrightarrow> fits_i64 (req_run_id (alloc_request a))
     \<and> fits_i64 (alloc_created_at a) \<and> fits_i64 (alloc_updated_at a)
     \<and> option_all (\<lambda>z. fits_i64 (storage_mb z)) (alloc_size a)
     \<and> option_all fits_i64 (alloc_hot_age a) \<and> option_all fits_i64 (alloc_warm_generation a)"

definition allocation_table_save :: "allocation \<Rightarrow> allocation_table \<Rightarrow> store_error + allocation_table" where
  "allocation_table_save a t =
     (if \<not> allocation_validate a then Inl DbError
      else if \<not> allocation_storable a then Inl DbError
      else Inr (AList.update (alloc_id a) a t))"

text \<open>
  A table is well formed when its keys are distinct and each row is stored under its own key.
\<close>

definition keyed_by :: "('r \<Rightarrow> 'k) \<Rightarrow> ('k \<times> 'r) list \<Rightarrow> bool" where
  "keyed_by key t \<longleftrightarrow> distinct (map fst t) \<and> (\<forall>(k, r)\<in>set t. key r = k)"

lemma keyed_by_map_of: "keyed_by key t \<Longrightarrow> map_of t k = Some r \<Longrightarrow> key r = k"
  by (auto simp: keyed_by_def dest: map_of_SomeD)

lemma keyed_by_Nil [simp]: "keyed_by key []"
  by (simp add: keyed_by_def)

lemma set_update_subset: "x \<in> set (AList.update k v t) \<Longrightarrow> x = (k, v) \<or> x \<in> set t"
  by (induction t) (auto split: if_splits)

lemma keyed_by_update: "keyed_by key t \<Longrightarrow> key r = k \<Longrightarrow> keyed_by key (AList.update k r t)"
  by (auto simp: keyed_by_def distinct_update dest!: set_update_subset)

lemma keyed_by_delete: "keyed_by key t \<Longrightarrow> keyed_by key (AList.delete k t)"
  by (auto simp: keyed_by_def AList.delete_eq distinct_map_filter)

lemma keyed_by_filter: "keyed_by key t \<Longrightarrow> keyed_by key (filter P t)"
  by (auto simp: keyed_by_def distinct_map_filter)

text \<open>
  The contract of a keyed store: what a load returns after a save or a remove, that a listing
  shows exactly the records a load would return, and that the operations keep a table well
  formed.
\<close>

locale keyed_store =
  fixes key :: "'r \<Rightarrow> 'k"
    and readable :: "'r \<Rightarrow> bool"
    and load :: "'k \<Rightarrow> ('k \<times> 'r) list \<Rightarrow> store_error + 'r option"
    and load_all :: "('k \<times> 'r) list \<Rightarrow> 'r list"
    and save :: "'r \<Rightarrow> ('k \<times> 'r) list \<Rightarrow> store_error + ('k \<times> 'r) list"
    and remove :: "'k \<Rightarrow> ('k \<times> 'r) list \<Rightarrow> ('k \<times> 'r) list"
  assumes load_save: "save r t = Inr t' \<Longrightarrow> load k t' =
      (if k = key r then (if readable r then Inr (Some r) else Inl DbError) else load k t)"
    and load_remove: "load k (remove k' t) = (if k = k' then Inr None else load k t)"
    and listed: "keyed_by key t \<Longrightarrow> r \<in> set (load_all t) \<longleftrightarrow> load (key r) t = Inr (Some r)"
    and loaded_key: "keyed_by key t \<Longrightarrow> load k t = Inr (Some r) \<Longrightarrow> key r = k \<and> readable r"
    and save_keyed: "keyed_by key t \<Longrightarrow> save r t = Inr t' \<Longrightarrow> keyed_by key t'"
    and remove_keyed: "keyed_by key t \<Longrightarrow> keyed_by key (remove k t)"
begin

lemma listed_readable: "keyed_by key t \<Longrightarrow> r \<in> set (load_all t) \<Longrightarrow> readable r"
  using listed loaded_key by blast

lemma listed_unique:
  "keyed_by key t \<Longrightarrow> r \<in> set (load_all t) \<Longrightarrow> r' \<in> set (load_all t) \<Longrightarrow> key r = key r' \<Longrightarrow> r = r'"
  by (auto simp: listed)

lemma listed_save:
  assumes "keyed_by key t" "save r t = Inr t'"
  shows "x \<in> set (load_all t') \<longleftrightarrow>
     (if key x = key r then x = r \<and> readable r else x \<in> set (load_all t))"
  using assms by (auto simp: listed[OF save_keyed[OF assms]] listed[OF assms(1)] load_save[OF assms(2)])

lemma listed_remove:
  assumes "keyed_by key t"
  shows "x \<in> set (load_all (remove k t)) \<longleftrightarrow> key x \<noteq> k \<and> x \<in> set (load_all t)"
  using assms by (auto simp: listed[OF remove_keyed[OF assms]] listed[OF assms] load_remove)

text \<open>A record that does not validate is written and can then neither be listed nor loaded.\<close>

lemma unreadable_vanishes:
  assumes "keyed_by key t" "save r t = Inr t'" "\<not> readable r"
  shows "load (key r) t' = Inl DbError" "x \<in> set (load_all t') \<Longrightarrow> key x \<noteq> key r"
  using assms by (auto simp: load_save[OF assms(2)] listed_save[OF assms(1,2)])

end

lemmas hot_table_defs = hot_table_load_def hot_table_load_all_def hot_table_save_def
  hot_table_remove_def
lemmas image_table_defs = image_table_load_def image_table_load_all_def image_table_save_def
  image_table_remove_def

lemma in_filter_al_values:
  assumes "keyed_by key t"
  shows "r \<in> set (filter P (al_values t)) \<longleftrightarrow> map_of t (key r) = Some r \<and> P r"
proof -
  have "distinct (map fst t)" using assms by (simp add: keyed_by_def)
  then have "r \<in> set (al_values t) \<longleftrightarrow> map_of t (key r) = Some r"
    using keyed_by_map_of[OF assms] by (auto simp: set_al_values)
  then show ?thesis by auto
qed

interpretation hot_store: keyed_store hot_vm hot_guest_validate hot_table_load hot_table_load_all
  hot_table_save hot_table_remove
proof unfold_locales
  fix t t' :: hot_table and r k k'
  show "hot_table_save r t = Inr t' \<Longrightarrow> hot_table_load k t' =
      (if k = hot_vm r then (if hot_guest_validate r then Inr (Some r) else Inl DbError)
       else hot_table_load k t)"
    by (auto simp: hot_table_save_def hot_table_load_def map_of_update split: if_splits)
  show "hot_table_load k (hot_table_remove k' t) = (if k = k' then Inr None else hot_table_load k t)"
    by (simp add: hot_table_load_def hot_table_remove_def map_of_delete)
  show "keyed_by hot_vm t \<Longrightarrow>
      r \<in> set (hot_table_load_all t) \<longleftrightarrow> hot_table_load (hot_vm r) t = Inr (Some r)"
    unfolding hot_table_load_all_def in_filter_al_values
    by (auto simp: hot_table_load_def split: option.splits if_splits)
  show "keyed_by hot_vm t \<Longrightarrow> hot_table_load k t = Inr (Some r) \<Longrightarrow> hot_vm r = k \<and> hot_guest_validate r"
    by (auto simp: hot_table_load_def dest: keyed_by_map_of split: option.splits if_splits)
  show "keyed_by hot_vm t \<Longrightarrow> hot_table_save r t = Inr t' \<Longrightarrow> keyed_by hot_vm t'"
    by (auto simp: hot_table_save_def keyed_by_update split: if_splits)
  show "keyed_by hot_vm t \<Longrightarrow> keyed_by hot_vm (hot_table_remove k t)"
    by (simp add: hot_table_remove_def keyed_by_delete)
qed

interpretation image_store: keyed_store img_profile warm_image_validate image_table_load image_table_load_all
  image_table_save image_table_remove
proof unfold_locales
  fix t t' :: image_table and r k k'
  show "image_table_save r t = Inr t' \<Longrightarrow> image_table_load k t' =
      (if k = img_profile r then (if warm_image_validate r then Inr (Some r) else Inl DbError)
       else image_table_load k t)"
    by (auto simp: image_table_save_def image_table_load_def map_of_update split: if_splits)
  show "image_table_load k (image_table_remove k' t) = (if k = k' then Inr None else image_table_load k t)"
    by (simp add: image_table_load_def image_table_remove_def map_of_delete)
  show "keyed_by img_profile t \<Longrightarrow>
      r \<in> set (image_table_load_all t) \<longleftrightarrow> image_table_load (img_profile r) t = Inr (Some r)"
    unfolding image_table_load_all_def in_filter_al_values
    by (auto simp: image_table_load_def split: option.splits if_splits)
  show "keyed_by img_profile t \<Longrightarrow> image_table_load k t = Inr (Some r) \<Longrightarrow> img_profile r = k \<and> warm_image_validate r"
    by (auto simp: image_table_load_def dest: keyed_by_map_of split: option.splits if_splits)
  show "keyed_by img_profile t \<Longrightarrow> image_table_save r t = Inr t' \<Longrightarrow> keyed_by img_profile t'"
    by (auto simp: image_table_save_def keyed_by_update split: if_splits)
  show "keyed_by img_profile t \<Longrightarrow> keyed_by img_profile (image_table_remove k t)"
    by (simp add: image_table_remove_def keyed_by_delete)
qed

subsection \<open>Reports and events\<close>

datatype leak_reason = CleanupFailed | NotTerminal

record allocation_leak =
  leak_id :: uuid
  leak_state :: allocation_state
  leak_repository :: repository_name
  leak_vm_name :: vm_name
  leak_is_vm_created :: bool
  leak_runner_id :: "int option"
  leak_reason_of :: leak_reason

definition allocation_leak_new :: "allocation \<Rightarrow> leak_reason \<Rightarrow> allocation_leak" where
  "allocation_leak_new a reason =
     \<lparr>leak_id = alloc_id a, leak_state = alloc_state a,
      leak_repository = req_repository (alloc_request a), leak_vm_name = alloc_vm_name a,
      leak_is_vm_created = alloc_vm_created a, leak_runner_id = alloc_runner_id a,
      leak_reason_of = reason\<rparr>"

record reap_candidate =
  cand_name :: string
  cand_state :: machine_state
  cand_authorization :: reap_authorization
  cand_age_seconds :: u64

datatype sweep_inert_reason = AgeUndeterminable

record sweep_report =
  rep_planned :: "reap_candidate list"
  rep_deleted :: "string list"
  rep_skipped :: "string list"
  rep_unaged :: "string list"
  rep_pruned_records :: "profile_name list"
  rep_retired_images :: "retired_image list"
  rep_inert_reason :: "sweep_inert_reason option"
  rep_finished_at_unix :: u64

datatype event_kind =
    AllocationStateChanged | AllocationErrorEvent | HotClaimed | HotRecycled | HotEvicted
  | ReaperDeleted | ReaperSweep | ConfigReloadedEvent | ConfigEdited | AllocationLeaked
  | RecoveryCompleted

text \<open>The document attached to an event is not read back by the program and is left out.\<close>

record event =
  ev_occurred_at_unix :: u64
  ev_kind :: event_kind
  ev_allocation :: "uuid option"
  ev_vm_name :: "vm_name option"
  ev_profile :: "profile_name option"

subsection \<open>The manager\<close>

text \<open>
  \<open>e_published\<close> is the value the entry's watch channel holds, \<open>e_cancelled\<close> whether its
  cancellation token has been cancelled.
\<close>

record entry =
  e_allocation :: allocation
  e_published :: allocation
  e_cancelled :: bool
  e_is_supervised :: bool
  e_is_terminalizing :: bool

type_synonym entries = "(uuid \<times> entry) list"

record machine_probe =
  probe_cached :: "(nat \<times> host_machine list) option"
  probe_warned_at :: "nat option"

record config_handle =
  ch_startup :: config
  ch_current :: config
  ch_generation :: u64

record tuning =
  tune_history_limit :: nat
  tune_cleanup_retry_delay :: nat

definition tuning_default :: tuning where
  "tuning_default = \<lparr>tune_history_limit = 1000, tune_cleanup_retry_delay = 1000\<rparr>"

record 'w mgr =
  m_config :: config_handle
  m_store :: allocation_table
  m_images :: image_table
  m_hot :: hot_table
  m_events :: "event list"
  m_entries :: entries
  m_quarantined :: "profile_name list"
  m_last_sweep :: "sweep_report option"
  m_probe :: machine_probe
  m_is_closing :: bool
  m_tuning :: tuning
  m_teardown_deadline :: "nat option"
  m_leaked :: "allocation_leak list"
  m_world :: 'w

type_synonym ('w, 'a) op = "('w mgr, 'a) state"

text \<open>\<open>AllocationManager::build\<close>: nothing resident, over stores that may already hold rows.\<close>

definition mgr_build ::
    "config \<Rightarrow> allocation_table \<Rightarrow> image_table \<Rightarrow> hot_table \<Rightarrow> tuning \<Rightarrow> 'w \<Rightarrow> 'w mgr" where
  "mgr_build config store images hot tun w =
     \<lparr>m_config = \<lparr>ch_startup = config, ch_current = config, ch_generation = 0\<rparr>,
      m_store = store, m_images = images, m_hot = hot, m_events = [], m_entries = [],
      m_quarantined = [], m_last_sweep = None,
      m_probe = \<lparr>probe_cached = None, probe_warned_at = None\<rparr>, m_is_closing = False,
      m_tuning = tun, m_teardown_deadline = None, m_leaked = [], m_world = w\<rparr>"

subsection \<open>Primitive operations\<close>

definition outside :: "('w \<Rightarrow> 'a \<times> 'w) \<Rightarrow> ('w, 'a) op" where
  "outside f = State (\<lambda>s. case f (m_world s) of (a, w) \<Rightarrow> (a, s\<lparr>m_world := w\<rparr>))"

definition current_config :: "('w, config) op" where
  "current_config = gets (\<lambda>s. ch_current (m_config s))"

definition db :: "'w env \<Rightarrow> ('w, store_error + 'a) op \<Rightarrow> ('w, store_error + 'a) op" where
  "db E m = do { failed \<leftarrow> outside (x_db_fails E); if failed then return (Inl DbError) else m }"

definition hot_load :: "'w env \<Rightarrow> vm_name \<Rightarrow> ('w, store_error + hot_guest option) op" where
  "hot_load E n = db E (gets (\<lambda>s. hot_table_load n (m_hot s)))"

definition hot_load_all :: "'w env \<Rightarrow> ('w, store_error + hot_guest list) op" where
  "hot_load_all E = db E (gets (\<lambda>s. Inr (hot_table_load_all (m_hot s))))"

definition hot_save :: "'w env \<Rightarrow> hot_guest \<Rightarrow> ('w, store_error + unit) op" where
  "hot_save E g = db E (do {
     r \<leftarrow> gets (\<lambda>s. hot_table_save g (m_hot s));
     case r of
       Inl e \<Rightarrow> return (Inl e)
     | Inr t \<Rightarrow> do { _ \<leftarrow> modify (\<lambda>s. s\<lparr>m_hot := t\<rparr>); return (Inr ()) } })"

definition hot_remove :: "'w env \<Rightarrow> vm_name \<Rightarrow> ('w, store_error + unit) op" where
  "hot_remove E n = db E (do {
     _ \<leftarrow> modify (\<lambda>s. s\<lparr>m_hot := hot_table_remove n (m_hot s)\<rparr>); return (Inr ()) })"

definition images_load :: "'w env \<Rightarrow> profile_name \<Rightarrow> ('w, store_error + warm_image_record option) op" where
  "images_load E n = db E (gets (\<lambda>s. image_table_load n (m_images s)))"

definition images_load_all :: "'w env \<Rightarrow> ('w, store_error + warm_image_record list) op" where
  "images_load_all E = db E (gets (\<lambda>s. Inr (image_table_load_all (m_images s))))"

definition images_save :: "'w env \<Rightarrow> warm_image_record \<Rightarrow> ('w, store_error + unit) op" where
  "images_save E r = db E (do {
     res \<leftarrow> gets (\<lambda>s. image_table_save r (m_images s));
     case res of
       Inl e \<Rightarrow> return (Inl e)
     | Inr t \<Rightarrow> do { _ \<leftarrow> modify (\<lambda>s. s\<lparr>m_images := t\<rparr>); return (Inr ()) } })"

definition images_remove :: "'w env \<Rightarrow> profile_name \<Rightarrow> ('w, store_error + unit) op" where
  "images_remove E n = db E (do {
     _ \<leftarrow> modify (\<lambda>s. s\<lparr>m_images := image_table_remove n (m_images s)\<rparr>); return (Inr ()) })"

definition store_save :: "'w env \<Rightarrow> allocation \<Rightarrow> ('w, store_error + unit) op" where
  "store_save E a = db E (do {
     res \<leftarrow> gets (\<lambda>s. allocation_table_save a (m_store s));
     case res of
       Inl e \<Rightarrow> return (Inl e)
     | Inr t \<Rightarrow> do { _ \<leftarrow> modify (\<lambda>s. s\<lparr>m_store := t\<rparr>); return (Inr ()) } })"

definition emit ::
    "'w env \<Rightarrow> event_kind \<Rightarrow> uuid option \<Rightarrow> vm_name option \<Rightarrow> profile_name option \<Rightarrow> ('w, unit) op" where
  "emit E kind ident name profile = do {
     now \<leftarrow> outside (x_unix_time E);
     modify (\<lambda>s. s\<lparr>m_events := m_events s @
       [\<lparr>ev_occurred_at_unix = now, ev_kind = kind, ev_allocation = ident,
         ev_vm_name = name, ev_profile = profile\<rparr>]\<rparr>) }"

definition map_err :: "('e \<Rightarrow> 'f) \<Rightarrow> ('s, 'e + 'a) state \<Rightarrow> ('s, 'f + 'a) state" where
  "map_err f m = do { r \<leftarrow> m; return (map_sum f id r) }"

subsection \<open>What the primitives leave alone\<close>

lemma run_state_outside [simp]:
  "run_state (outside f) s = (fst (f (m_world s)), s\<lparr>m_world := snd (f (m_world s))\<rparr>)"
  by (simp add: outside_def split: prod.splits)

lemma keeps_outside [frame_intros]: "(\<And>s w. f (s\<lparr>m_world := w\<rparr>) = f s) \<Longrightarrow> keeps f (outside g)"
  by (simp add: keeps_def)

lemma keeps_current_config [frame_intros]: "keeps f current_config"
  unfolding current_config_def by (rule keeps_gets)

lemma keeps_db [frame_intros]:
  "(\<And>s w. f (s\<lparr>m_world := w\<rparr>) = f s) \<Longrightarrow> keeps f m \<Longrightarrow> keeps f (db E m)"
  unfolding db_def by (intro frame_intros)

lemma keeps_hot_reads [frame_intros]:
  "(\<And>s w. f (s\<lparr>m_world := w\<rparr>) = f s) \<Longrightarrow> keeps f (hot_load E n)"
  "(\<And>s w. f (s\<lparr>m_world := w\<rparr>) = f s) \<Longrightarrow> keeps f (hot_load_all E)"
  "(\<And>s w. f (s\<lparr>m_world := w\<rparr>) = f s) \<Longrightarrow> keeps f (images_load E p)"
  "(\<And>s w. f (s\<lparr>m_world := w\<rparr>) = f s) \<Longrightarrow> keeps f (images_load_all E)"
  unfolding hot_load_def hot_load_all_def images_load_def images_load_all_def
  by (intro frame_intros; assumption)+

lemma keeps_hot_writes [frame_intros]:
  "(\<And>s w. f (s\<lparr>m_world := w\<rparr>) = f s) \<Longrightarrow> (\<And>s t. f (s\<lparr>m_hot := t\<rparr>) = f s) \<Longrightarrow> keeps f (hot_save E g)"
  "(\<And>s w. f (s\<lparr>m_world := w\<rparr>) = f s) \<Longrightarrow> (\<And>s t. f (s\<lparr>m_hot := t\<rparr>) = f s) \<Longrightarrow> keeps f (hot_remove E n)"
  unfolding hot_save_def hot_remove_def by (intro frame_intros keeps_modify; assumption)+

lemma keeps_images_writes [frame_intros]:
  "(\<And>s w. f (s\<lparr>m_world := w\<rparr>) = f s) \<Longrightarrow> (\<And>s t. f (s\<lparr>m_images := t\<rparr>) = f s) \<Longrightarrow> keeps f (images_save E r)"
  "(\<And>s w. f (s\<lparr>m_world := w\<rparr>) = f s) \<Longrightarrow> (\<And>s t. f (s\<lparr>m_images := t\<rparr>) = f s) \<Longrightarrow> keeps f (images_remove E p)"
  unfolding images_save_def images_remove_def by (intro frame_intros keeps_modify; assumption)+

lemma keeps_store_save [frame_intros]:
  "(\<And>s w. f (s\<lparr>m_world := w\<rparr>) = f s) \<Longrightarrow> (\<And>s t. f (s\<lparr>m_store := t\<rparr>) = f s) \<Longrightarrow> keeps f (store_save E a)"
  unfolding store_save_def by (intro frame_intros keeps_modify; assumption)+

lemma keeps_emit [frame_intros]:
  "(\<And>s w. f (s\<lparr>m_world := w\<rparr>) = f s) \<Longrightarrow> (\<And>s t. f (s\<lparr>m_events := t\<rparr>) = f s) \<Longrightarrow> keeps f (emit E k i n p)"
  unfolding emit_def by (intro frame_intros keeps_modify; simp)

lemma keeps_map_err [frame_intros]: "keeps f m \<Longrightarrow> keeps f (map_err g m)"
  unfolding map_err_def by (intro frame_intros)

end
