(* ===== verification/Admission.thy ===== *)
theory Admission
  imports Manager_State
begin

text \<open>
  Admission, \<open>crates/flanforge-manager/src/admission\<close>: what live allocations, surviving guests
  of finished ones, machines of others and pool machines already take from the host
  (\<open>capacity.rs\<close>, \<open>hot.rs\<close>), the floor of a guest's disk (\<open>storage.rs\<close>) and the cached
  listing (\<open>probe.rs\<close>). A set of names is the list of its elements; the order of the entries
  is that of the map's iteration, and nothing proved here depends on it.
\<close>

subsection \<open>Folding the host\<close>

record capacity =
  cap_active :: nat
  cap_cpu :: u32
  cap_memory :: u32
  cap_storage :: u64

definition capacity_default :: capacity where
  "capacity_default = \<lparr>cap_active = 0, cap_cpu = 0, cap_memory = 0, cap_storage = 0\<rparr>"

definition busy :: "busy_reason \<Rightarrow> uuid option \<Rightarrow> manager_error" where
  "busy reason holder = Busy reason holder"

definition entry_allocations :: "entries \<Rightarrow> allocation list" where
  "entry_allocations es = map e_allocation (al_values es)"

definition active_allocations :: "entries \<Rightarrow> allocation list" where
  "active_allocations es = filter (\<lambda>a. \<not> is_terminal (alloc_state a)) (entry_allocations es)"

definition ensure_sole_producer ::
    "entries \<Rightarrow> profile_name \<Rightarrow> allocation_mode \<Rightarrow> manager_error + unit" where
  "ensure_sole_producer es profile mode =
     (if mode \<noteq> Regenerate then Inr ()
      else case find (\<lambda>a. \<not> is_terminal (alloc_state a) \<and> alloc_mode a = Regenerate
                        \<and> req_profile (alloc_request a) = profile) (entry_allocations es) of
          Some holder \<Rightarrow> Inl (busy Regenerating (Some (alloc_id holder)))
        | None \<Rightarrow> Inr ())"

definition is_owned_name :: "host_machine \<Rightarrow> string list \<Rightarrow> bool" where
  "is_owned_name m names \<longleftrightarrow> mach_ownership m = Owned \<and> mach_name m \<in> set names"

definition profile_size :: "config \<Rightarrow> profile_name \<Rightarrow> guest_size option" where
  "profile_size c n = map_option (\<lambda>p. \<lparr>cpu_count = prof_cpu_count p, memory_mb = prof_memory_mb p,
     storage_mb = prof_storage_mb p\<rparr>) (lookup_profile c n)"

definition largest_profile_size :: "config \<Rightarrow> guest_size option" where
  "largest_profile_size c =
     (case al_values (cfg_profiles c) of
        [] \<Rightarrow> None
      | first # rest \<Rightarrow> Some (foldl
          (\<lambda>largest p. \<lparr>cpu_count = max (cpu_count largest) (prof_cpu_count p),
             memory_mb = max (memory_mb largest) (prof_memory_mb p),
             storage_mb = max (storage_mb largest) (prof_storage_mb p)\<rparr>)
          \<lparr>cpu_count = prof_cpu_count first, memory_mb = prof_memory_mb first,
           storage_mb = prof_storage_mb first\<rparr> rest))"

definition or_else :: "'a option \<Rightarrow> 'a option \<Rightarrow> 'a option" where
  "or_else x y = (case x of None \<Rightarrow> y | Some _ \<Rightarrow> x)"

definition charged_size :: "config \<Rightarrow> allocation \<Rightarrow> guest_size option" where
  "charged_size c a = or_else (or_else (alloc_size a) (profile_size c (req_profile (alloc_request a))))
     (largest_profile_size c)"

definition committed_capacity :: "allocation list \<Rightarrow> config \<Rightarrow> capacity" where
  "committed_capacity active c =
     foldl (\<lambda>total z. \<lparr>cap_active = cap_active total,
              cap_cpu = cap_cpu total + ucast (cpu_count z),
              cap_memory = saturating_add (cap_memory total) (memory_mb z),
              cap_storage = saturating_add (cap_storage total) (storage_mb z)\<rparr>)
       (capacity_default\<lparr>cap_active := length active\<rparr>) (List.map_filter (charged_size c) active)"

definition hot_names :: "hot_guest list \<Rightarrow> host_machine list \<Rightarrow> string list" where
  "hot_names hot machines =
     (let owned = map mach_name (filter (\<lambda>m. mach_state m = MachineRunning \<and> mach_ownership m = Owned) machines)
      in filter (\<lambda>name. name \<in> set owned)
           (map (\<lambda>g. vm_str (hot_vm g)) (filter (\<lambda>g. is_holding_machine (hot_state_of g)) hot)))"

definition is_hot_configured :: "config \<Rightarrow> bool" where
  "is_hot_configured c \<longleftrightarrow> rt_max_hot_vms (cfg_runtime c) > 0
     \<or> list_ex (\<lambda>p. is_some_and hc_enabled (prof_hot p)) (al_values (cfg_profiles c))"

definition hot_snapshot ::
    "store_error + hot_guest list \<Rightarrow> config \<Rightarrow> manager_error + hot_guest list" where
  "hot_snapshot loaded c =
     (case loaded of
        Inr hot \<Rightarrow> Inr hot
      | Inl _ \<Rightarrow> if is_hot_configured c then Inl (busy ProbeFailed None) else Inr [])"

definition held_names :: "allocation \<Rightarrow> string list" where
  "held_names a = vm_str (alloc_vm_name a) #
     (case hot_vm_name (alloc_origin a) of None \<Rightarrow> [] | Some n \<Rightarrow> [vm_str n])"

definition hot_capacity :: "hot_guest list \<Rightarrow> allocation list \<Rightarrow> string list \<Rightarrow> capacity" where
  "hot_capacity hot active names =
     (let claimed = concat (map held_names active)
      in foldl (\<lambda>total g. \<lparr>cap_active = cap_active total + 1,
                 cap_cpu = saturating_add (cap_cpu total) (ucast (cpu_count (hot_size g))),
                 cap_memory = saturating_add (cap_memory total) (memory_mb (hot_size g)),
                 cap_storage = saturating_add (cap_storage total) (storage_mb (hot_size g))\<rparr>)
           capacity_default
           (filter (\<lambda>g. vm_str (hot_vm g) \<notin> set claimed)
             (filter (\<lambda>g. vm_str (hot_vm g) \<in> set names \<or> hot_state_of g = Provisioning)
               (filter (\<lambda>g. is_holding_machine (hot_state_of g)) hot))))"

definition foreign_running :: "allocation list \<Rightarrow> host_machine list \<Rightarrow> string list \<Rightarrow> nat" where
  "foreign_running active machines names =
     length (filter (\<lambda>m. mach_name m \<notin> set names)
       (filter (\<lambda>m. \<not> is_owned_name m (map (\<lambda>a. vm_str (alloc_vm_name a)) active))
         (filter (\<lambda>m. mach_state m = MachineRunning) machines)))"

definition terminal_guest :: "allocation \<Rightarrow> bool" where
  "terminal_guest a \<longleftrightarrow> is_terminal (alloc_state a) \<and> alloc_vm_created a"

definition orphan_capacity ::
    "entries \<Rightarrow> allocation list \<Rightarrow> host_machine list \<Rightarrow> config \<Rightarrow> string list \<Rightarrow> capacity" where
  "orphan_capacity es active machines c names =
     committed_capacity
       (List.map_filter
         (\<lambda>m. find (\<lambda>held. terminal_guest held \<and> vm_str (alloc_vm_name held) = mach_name m)
                (entry_allocations es))
         (filter (\<lambda>m. mach_ownership m = Owned)
           (filter (\<lambda>m. mach_name m \<notin> set names)
             (filter (\<lambda>m. \<not> is_owned_name m (map (\<lambda>a. vm_str (alloc_vm_name a)) active))
               (filter (\<lambda>m. mach_state m = MachineRunning) machines))))) c"

definition foreign_capacity ::
    "entries \<Rightarrow> allocation list \<Rightarrow> host_machine list \<Rightarrow> string list \<Rightarrow> capacity \<times> bool" where
  "foreign_capacity es active machines names =
     (let active_names = map (\<lambda>a. vm_str (alloc_vm_name a)) active;
          terminal_names = map (\<lambda>a. vm_str (alloc_vm_name a))
            (filter terminal_guest (entry_allocations es))
      in foldl (\<lambda>(total, unknown) m.
           case mach_size m of
             Some z \<Rightarrow> (\<lparr>cap_active = cap_active total + 1,
                 cap_cpu = saturating_add (cap_cpu total) (ucast (cpu_count z)),
                 cap_memory = saturating_add (cap_memory total) (memory_mb z),
                 cap_storage = saturating_add (cap_storage total) (storage_mb z)\<rparr>, unknown)
           | None \<Rightarrow> (total, True))
         (capacity_default, False)
         (filter (\<lambda>m. mach_state m = MachineRunning \<and> \<not> is_owned_name m active_names
                   \<and> \<not> is_owned_name m terminal_names \<and> mach_name m \<notin> set names) machines))"

definition ensure_capacity ::
    "entries \<Rightarrow> config \<Rightarrow> guest_size \<Rightarrow> host_machine list \<Rightarrow> hot_guest list \<Rightarrow> manager_error + unit" where
  "ensure_capacity es c requested machines hot =
     (let active = active_allocations es;
          holder = map_option alloc_id (case active of [] \<Rightarrow> None | a # _ \<Rightarrow> Some a);
          names = hot_names hot machines;
          foreign = foreign_running active machines names;
          committed = committed_capacity active c;
          orphaned = orphan_capacity es active machines c names;
          pooled = hot_capacity hot active names;
          (foreign_cap, has_unknown_foreign_size) = foreign_capacity es active machines names;
          rt = cfg_runtime c
      in if foreign + cap_active committed + cap_active pooled + 1 > unat (rt_max_running_vms rt)
         then Inl (busy Slots holder)
         else case (rt_host_cpu_count rt, rt_host_memory_mb rt) of
             (Some host_cpu, Some host_memory) \<Rightarrow>
               if has_unknown_foreign_size then Inl (busy Budget holder)
               else
                 let cpu = saturating_add (saturating_add (saturating_add (saturating_add
                       (cap_cpu committed) (cap_cpu orphaned)) (cap_cpu foreign_cap))
                       (cap_cpu pooled)) (ucast (cpu_count requested));
                     memory = saturating_add (saturating_add (saturating_add (saturating_add
                       (cap_memory committed) (cap_memory orphaned)) (cap_memory foreign_cap))
                       (cap_memory pooled)) (memory_mb requested);
                     storage = saturating_add (saturating_add (saturating_add (saturating_add
                       (cap_storage committed) (cap_storage orphaned)) (cap_storage foreign_cap))
                       (cap_storage pooled)) (storage_mb requested);
                     reserve = (case rt_libvirt rt of None \<Rightarrow> 0 | Some lv \<Rightarrow> lv_min_storage_free_mb lv);
                     reserved_storage = saturating_add storage reserve
                 in if cpu > ucast host_cpu \<or> memory > host_memory
                       \<or> is_some_and (\<lambda>host. reserved_storage > host) (rt_host_storage_mb rt)
                    then Inl (busy Budget holder) else Inr ()
           | _ \<Rightarrow> if cap_active committed = 0 then Inr () else Inl (busy Serialized holder))"

definition floored :: "guest_size \<Rightarrow> u64 \<Rightarrow> guest_size" where
  "floored z base_mb = z\<lparr>storage_mb := max (storage_mb z) (min base_mb MAX_STORAGE_MB)\<rparr>"

subsection \<open>The cached listing and the charged size\<close>

definition probe_host :: "'w env \<Rightarrow> ('w, worker_error + host_machine list) op" where
  "probe_host E = do {
     listed \<leftarrow> outside (w_machines E);
     now \<leftarrow> outside (x_instant E);
     case listed of
       Inr machines \<Rightarrow> do {
         _ \<leftarrow> modify (\<lambda>s. s\<lparr>m_probe := (m_probe s)\<lparr>probe_cached := Some (now, machines)\<rparr>\<rparr>);
         return (Inr machines) }
     | Inl e \<Rightarrow> do {
         probe \<leftarrow> gets m_probe;
         _ \<leftarrow> if_then (case probe_warned_at probe of None \<Rightarrow> True | Some at \<Rightarrow> now - at \<ge> 60000)
           (modify (\<lambda>s. s\<lparr>m_probe := (m_probe s)\<lparr>probe_warned_at := Some now\<rparr>\<rparr>));
         return (Inl e) } }"

definition host_machines :: "'w env \<Rightarrow> ('w, worker_error + host_machine list) op" where
  "host_machines E = do {
     c \<leftarrow> current_config;
     probe \<leftarrow> gets m_probe;
     now \<leftarrow> outside (x_instant E);
     case probe_cached probe of
       Some (taken_at, machines) \<Rightarrow>
         if now - taken_at < unat (rt_poll_seconds (cfg_runtime c)) * 1000
         then return (Inr machines) else probe_host E
     | None \<Rightarrow> probe_host E }"

definition effective_size ::
    "'w env \<Rightarrow> guest_size \<Rightarrow> profile_name \<Rightarrow> clone_source \<Rightarrow> ('w, guest_size) op" where
  "effective_size E z profile source = do {
     base \<leftarrow> outside (w_base_storage_mb E profile source);
     return (case base of None \<Rightarrow> z | Some base_mb \<Rightarrow> floored z base_mb) }"

subsection \<open>What the folds add up to\<close>

text \<open>
  The sizes each fold charges, and their totals as natural numbers: the folds saturate, so they
  equal the true total below the maximum of their type.
\<close>

definition total :: "('a \<Rightarrow> 'b::len word) \<Rightarrow> 'a list \<Rightarrow> nat" where
  "total f xs = (\<Sum>x\<leftarrow>xs. unat (f x))"

lemma total_simps [simp]:
  "total f [] = 0" "total f (x # xs) = unat (f x) + total f xs"
  "total f (xs @ ys) = total f xs + total f ys"
  by (simp_all add: total_def)

lemma total_map [simp]: "total f (map g xs) = total (\<lambda>x. f (g x)) xs"
  by (simp add: total_def comp_def)

lemma foldl_proj: "(\<And>a x. p (g a x) = h (p a) x) \<Longrightarrow> p (foldl g a xs) = foldl h (p a) xs"
  by (induction xs arbitrary: a) simp_all

lemma foldl_saturating_add:
  fixes f :: "'a \<Rightarrow> 'b::len word"
  shows "unat (foldl (\<lambda>t x. saturating_add t (f x)) a xs) = min (unat a + total f xs) (2 ^ LENGTH('b) - 1)"
proof (induction xs arbitrary: a)
  case Nil
  have "unat a \<le> 2 ^ LENGTH('b) - 1" using unsigned_less[of a, where 'a = nat] by linarith
  then show ?case by simp
qed (simp add: unat_saturating_add)

lemma foldl_word_add:
  fixes f :: "'a \<Rightarrow> 'b::len word"
  shows "unat a + total f xs < 2 ^ LENGTH('b) \<Longrightarrow>
    unat (foldl (\<lambda>t x. t + f x) a xs) = unat a + total f xs"
proof (induction xs arbitrary: a)
  case (Cons x xs)
  then have "unat (a + f x) = unat a + unat (f x)"
    by (simp add: unat_word_ariths)
  then show ?case using Cons by simp
qed simp

lemma foldl_count: "foldl (\<lambda>t x. t + 1) (n::nat) xs = n + length xs"
  by (induction xs arbitrary: n) simp_all

lemma foldl_const: "foldl (\<lambda>t _. t) a xs = a"
  by (induction xs) simp_all

lemma unat_ucast_u8: "unat (ucast (x::u8) :: u32) = unat x"
  by (simp add: unsigned_ucast_eq take_bit_nat_eq_self unsigned_less[THEN less_le_trans])

lemma total_le: "(\<And>x. x \<in> set xs \<Longrightarrow> unat (f x) \<le> k) \<Longrightarrow> total f xs \<le> k * length xs"
  by (induction xs) (auto simp: add_mono)

lemma unat_u8_le: "unat (x::u8) \<le> 255"
  using unsigned_less[of x, where 'a = nat] by simp

definition pooled_guests :: "hot_guest list \<Rightarrow> allocation list \<Rightarrow> string list \<Rightarrow> hot_guest list" where
  "pooled_guests hot active names =
     filter (\<lambda>g. is_holding_machine (hot_state_of g)
       \<and> (vm_str (hot_vm g) \<in> set names \<or> hot_state_of g = Provisioning)
       \<and> vm_str (hot_vm g) \<notin> set (concat (map held_names active))) hot"

definition foreign_machines ::
    "entries \<Rightarrow> allocation list \<Rightarrow> host_machine list \<Rightarrow> string list \<Rightarrow> host_machine list" where
  "foreign_machines es active machines names =
     filter (\<lambda>m. mach_state m = MachineRunning
       \<and> \<not> is_owned_name m (map (\<lambda>a. vm_str (alloc_vm_name a)) active)
       \<and> \<not> is_owned_name m (map (\<lambda>a. vm_str (alloc_vm_name a))
             (filter terminal_guest (entry_allocations es)))
       \<and> mach_name m \<notin> set names) machines"

definition orphan_guests ::
    "entries \<Rightarrow> allocation list \<Rightarrow> host_machine list \<Rightarrow> string list \<Rightarrow> allocation list" where
  "orphan_guests es active machines names =
     List.map_filter
       (\<lambda>m. find (\<lambda>held. terminal_guest held \<and> vm_str (alloc_vm_name held) = mach_name m)
              (entry_allocations es))
       (filter (\<lambda>m. mach_ownership m = Owned \<and> mach_name m \<notin> set names
          \<and> \<not> is_owned_name m (map (\<lambda>a. vm_str (alloc_vm_name a)) active)
          \<and> mach_state m = MachineRunning) machines)"

definition charges ::
    "entries \<Rightarrow> config \<Rightarrow> guest_size \<Rightarrow> host_machine list \<Rightarrow> hot_guest list \<Rightarrow> guest_size list" where
  "charges es c requested machines hot =
     (let active = active_allocations es; names = hot_names hot machines
      in List.map_filter (charged_size c) active
         @ List.map_filter (charged_size c) (orphan_guests es active machines names)
         @ List.map_filter mach_size (foreign_machines es active machines names)
         @ map hot_size (pooled_guests hot active names) @ [requested])"

lemma length_map_filter: "length (List.map_filter f xs) \<le> length xs"
  by (induction xs) (auto simp: List.map_filter_simps split: option.splits)

lemma committed_active [simp]: "cap_active (committed_capacity as c) = length as"
  unfolding committed_capacity_def
  by (subst foldl_proj[where p = cap_active and h = "\<lambda>n _. n"]) (simp_all add: foldl_const)

lemma committed_memory: "unat (cap_memory (committed_capacity as c)) =
    min (total memory_mb (List.map_filter (charged_size c) as)) (2 ^ 32 - 1)"
  unfolding committed_capacity_def
  by (subst foldl_proj[where p = cap_memory and h = "\<lambda>t z. saturating_add t (memory_mb z)"])
    (simp_all add: foldl_saturating_add capacity_default_def)

lemma committed_storage: "unat (cap_storage (committed_capacity as c)) =
    min (total storage_mb (List.map_filter (charged_size c) as)) (2 ^ 64 - 1)"
  unfolding committed_capacity_def
  by (subst foldl_proj[where p = cap_storage and h = "\<lambda>t z. saturating_add t (storage_mb z)"])
    (simp_all add: foldl_saturating_add capacity_default_def)

lemma total_cpu_le: "total cpu_count zs \<le> 255 * length zs"
  by (rule total_le) (rule unat_u8_le)

lemma committed_cpu:
  assumes "length as < 2 ^ 24"
  shows "unat (cap_cpu (committed_capacity as c)) = total cpu_count (List.map_filter (charged_size c) as)"
proof -
  let ?zs = "List.map_filter (charged_size c) as"
  have t: "total (\<lambda>z. ucast (cpu_count z) :: u32) ?zs = total cpu_count ?zs"
    by (simp add: total_def unat_ucast_u8)
  have "total cpu_count ?zs \<le> 255 * length ?zs" by (rule total_cpu_le)
  also have "\<dots> < 2 ^ 32" using assms length_map_filter[of "charged_size c" as] by simp
  finally have "total cpu_count ?zs < 2 ^ 32" .
  then show ?thesis
    unfolding committed_capacity_def
    by (subst foldl_proj[where p = cap_cpu and h = "\<lambda>t z. t + ucast (cpu_count z)"])
      (simp_all add: foldl_word_add t capacity_default_def)
qed

lemma pooled_fold:
  "cap_active (hot_capacity hot active names) = length (pooled_guests hot active names)"
  "unat (cap_cpu (hot_capacity hot active names)) =
     min (total (\<lambda>g. cpu_count (hot_size g)) (pooled_guests hot active names)) (2 ^ 32 - 1)"
  "unat (cap_memory (hot_capacity hot active names)) =
     min (total (\<lambda>g. memory_mb (hot_size g)) (pooled_guests hot active names)) (2 ^ 32 - 1)"
  "unat (cap_storage (hot_capacity hot active names)) =
     min (total (\<lambda>g. storage_mb (hot_size g)) (pooled_guests hot active names)) (2 ^ 64 - 1)"
proof -
  have eq: "filter (\<lambda>g. vm_str (hot_vm g) \<notin> set (concat (map held_names active)))
             (filter (\<lambda>g. vm_str (hot_vm g) \<in> set names \<or> hot_state_of g = Provisioning)
               (filter (\<lambda>g. is_holding_machine (hot_state_of g)) hot))
      = pooled_guests hot active names"
    unfolding pooled_guests_def by (auto intro: filter_cong)
  have t: "total (\<lambda>g. ucast (cpu_count (hot_size g)) :: u32) gs = total (\<lambda>g. cpu_count (hot_size g)) gs"
    for gs by (simp add: total_def unat_ucast_u8)
  show "cap_active (hot_capacity hot active names) = length (pooled_guests hot active names)"
    unfolding hot_capacity_def Let_def eq
    by (subst foldl_proj[where p = cap_active and h = "\<lambda>n _. n + 1"])
      (simp_all only: capacity.simps foldl_count capacity_default_def add_0)
  show "unat (cap_cpu (hot_capacity hot active names)) =
     min (total (\<lambda>g. cpu_count (hot_size g)) (pooled_guests hot active names)) (2 ^ 32 - 1)"
    unfolding hot_capacity_def Let_def eq
    by (subst foldl_proj[where p = cap_cpu and h = "\<lambda>t g. saturating_add t (ucast (cpu_count (hot_size g)))"])
      (simp_all add: foldl_saturating_add capacity_default_def t)
  show "unat (cap_memory (hot_capacity hot active names)) =
     min (total (\<lambda>g. memory_mb (hot_size g)) (pooled_guests hot active names)) (2 ^ 32 - 1)"
    unfolding hot_capacity_def Let_def eq
    by (subst foldl_proj[where p = cap_memory and h = "\<lambda>t g. saturating_add t (memory_mb (hot_size g))"])
      (simp_all add: foldl_saturating_add capacity_default_def)
  show "unat (cap_storage (hot_capacity hot active names)) =
     min (total (\<lambda>g. storage_mb (hot_size g)) (pooled_guests hot active names)) (2 ^ 64 - 1)"
    unfolding hot_capacity_def Let_def eq
    by (subst foldl_proj[where p = cap_storage and h = "\<lambda>t g. saturating_add t (storage_mb (hot_size g))"])
      (simp_all add: foldl_saturating_add capacity_default_def)
qed

lemma foreign_fold_gen:
  fixes cap :: capacity
  defines "step \<equiv> \<lambda>(total, unknown) m. case mach_size m of
             Some z \<Rightarrow> (\<lparr>cap_active = cap_active total + 1,
                 cap_cpu = saturating_add (cap_cpu total) (ucast (cpu_count z)),
                 cap_memory = saturating_add (cap_memory total) (memory_mb z),
                 cap_storage = saturating_add (cap_storage total) (storage_mb z)\<rparr>, unknown)
           | None \<Rightarrow> (total, True)"
  shows "foldl step (cap, b) ms =
    (foldl (\<lambda>total z. \<lparr>cap_active = cap_active total + 1,
        cap_cpu = saturating_add (cap_cpu total) (ucast (cpu_count z)),
        cap_memory = saturating_add (cap_memory total) (memory_mb z),
        cap_storage = saturating_add (cap_storage total) (storage_mb z)\<rparr>) cap
       (List.map_filter mach_size ms),
     b \<or> list_ex (\<lambda>m. mach_size m = None) ms)"
  by (induction ms arbitrary: cap b)
    (simp_all add: step_def List.map_filter_simps split: option.split)

lemma foreign_fold:
  assumes "foreign_capacity es active machines names = (cap, unknown)"
  defines "ms \<equiv> foreign_machines es active machines names"
  shows "unknown = list_ex (\<lambda>m. mach_size m = None) ms"
    "unat (cap_cpu cap) = min (total cpu_count (List.map_filter mach_size ms)) (2 ^ 32 - 1)"
    "unat (cap_memory cap) = min (total memory_mb (List.map_filter mach_size ms)) (2 ^ 32 - 1)"
    "unat (cap_storage cap) = min (total storage_mb (List.map_filter mach_size ms)) (2 ^ 64 - 1)"
proof -
  let ?step = "\<lambda>total z. \<lparr>cap_active = cap_active total + 1,
        cap_cpu = saturating_add (cap_cpu total) (ucast (cpu_count z)),
        cap_memory = saturating_add (cap_memory total) (memory_mb z),
        cap_storage = saturating_add (cap_storage total) (storage_mb z)\<rparr>"
  have t: "total (\<lambda>z. ucast (cpu_count z) :: u32) zs = total cpu_count zs" for zs
    by (simp add: total_def unat_ucast_u8)
  have eq: "cap = foldl ?step capacity_default (List.map_filter mach_size ms)"
    "unknown = list_ex (\<lambda>m. mach_size m = None) ms"
    using assms(1) unfolding foreign_capacity_def Let_def foreign_fold_gen ms_def foreign_machines_def
    by (simp_all only: prod.inject simp_thms)
  show "unknown = list_ex (\<lambda>m. mach_size m = None) ms" by (rule eq(2))
  show "unat (cap_cpu cap) = min (total cpu_count (List.map_filter mach_size ms)) (2 ^ 32 - 1)"
    unfolding eq(1)
    by (subst foldl_proj[where p = cap_cpu and h = "\<lambda>t z. saturating_add t (ucast (cpu_count z))"])
      (simp_all add: foldl_saturating_add capacity_default_def t)
  show "unat (cap_memory cap) = min (total memory_mb (List.map_filter mach_size ms)) (2 ^ 32 - 1)"
    unfolding eq(1)
    by (subst foldl_proj[where p = cap_memory and h = "\<lambda>t z. saturating_add t (memory_mb z)"])
      (simp_all add: foldl_saturating_add capacity_default_def)
  show "unat (cap_storage cap) = min (total storage_mb (List.map_filter mach_size ms)) (2 ^ 64 - 1)"
    unfolding eq(1)
    by (subst foldl_proj[where p = cap_storage and h = "\<lambda>t z. saturating_add t (storage_mb z)"])
      (simp_all add: foldl_saturating_add capacity_default_def)
qed

lemma orphan_capacity_eq:
  "orphan_capacity es active machines c names = committed_capacity (orphan_guests es active machines names) c"
  unfolding orphan_capacity_def orphan_guests_def by (simp add: conj_ac)

lemma orphans_le_foreign: "length (orphan_guests es active machines names) \<le> foreign_running active machines names"
proof -
  have "length (orphan_guests es active machines names) \<le>
      length (filter (\<lambda>m. mach_ownership m = Owned \<and> mach_name m \<notin> set names
          \<and> \<not> is_owned_name m (map (\<lambda>a. vm_str (alloc_vm_name a)) active)
          \<and> mach_state m = MachineRunning) machines)"
    unfolding orphan_guests_def by (rule length_map_filter)
  also have "\<dots> \<le> foreign_running active machines names"
    unfolding foreign_running_def filter_filter by (induction machines) auto
  finally show ?thesis .
qed

text \<open>A saturated sum is within a bound below the maximum iff the true sum is.\<close>

lemma saturated_add:
  fixes a b :: "'a::len word"
  assumes "unat a = min m (2 ^ LENGTH('a) - 1)" "unat b = min n (2 ^ LENGTH('a) - 1)"
  shows "unat (saturating_add a b) = min (m + n) (2 ^ LENGTH('a) - 1)"
proof -
  have "min (min m M + min n M) M = min (m + n) M" for M :: nat by linarith
  then show ?thesis unfolding unat_saturating_add assms .
qed

lemma saturated_unat: "unat (x :: 'a::len word) = min (unat x) (2 ^ LENGTH('a) - 1)"
  using unsigned_less[of x, where 'a = nat] by linarith

lemma saturated_le:
  fixes a b :: "'a::len word"
  assumes "b \<noteq> - 1" "unat a = min n (2 ^ LENGTH('a) - 1)"
  shows "a \<le> b \<longleftrightarrow> n \<le> unat b"
proof -
  have "unat b \<noteq> unat (- 1 :: 'a word)" using assms(1) by (simp only: word_unat_eq_iff not_False_eq_True)
  moreover have "unat b < 2 ^ LENGTH('a)" by (rule unsigned_less)
  ultimately have "unat b < 2 ^ LENGTH('a) - 1" unfolding unat_minus_one_word by linarith
  then show ?thesis unfolding word_le_nat_alt assms(2) by linarith
qed

lemmas saturated_sum_le = saturated_le[OF _ saturated_add[OF saturated_add[OF saturated_add[OF
  saturated_add]] saturated_unat]]

lemma total_charges:
  "total f (charges es c requested machines hot) =
     (let active = active_allocations es; names = hot_names hot machines
      in total f (List.map_filter (charged_size c) active)
         + total f (List.map_filter (charged_size c) (orphan_guests es active machines names))
         + total f (List.map_filter mach_size (foreign_machines es active machines names))
         + total (\<lambda>g. f (hot_size g)) (pooled_guests hot active names) + unat (f requested))"
  by (simp add: charges_def Let_def)

text \<open>The slots taken, and whether every machine nobody here owns reports its size.\<close>

definition slots_used :: "entries \<Rightarrow> host_machine list \<Rightarrow> hot_guest list \<Rightarrow> nat" where
  "slots_used es machines hot =
     foreign_running (active_allocations es) machines (hot_names hot machines)
     + length (active_allocations es)
     + length (pooled_guests hot (active_allocations es) (hot_names hot machines))"

definition foreign_sized :: "entries \<Rightarrow> host_machine list \<Rightarrow> hot_guest list \<Rightarrow> bool" where
  "foreign_sized es machines hot = list_all (\<lambda>m. mach_size m \<noteq> None)
     (foreign_machines es (active_allocations es) machines (hot_names hot machines))"

definition storage_reserve :: "config \<Rightarrow> nat" where
  "storage_reserve c =
     (case rt_libvirt (cfg_runtime c) of None \<Rightarrow> 0 | Some lv \<Rightarrow> unat (lv_min_storage_free_mb lv))"

lemma ensure_capacity_slots:
  "ensure_capacity es c requested machines hot = Inr () \<Longrightarrow>
     slots_used es machines hot + 1 \<le> unat (rt_max_running_vms (cfg_runtime c))"
  unfolding ensure_capacity_def Let_def slots_used_def
  by (auto simp: pooled_fold split: prod.splits if_splits)

lemma saturated_sum32:
  fixes b a1 a2 a3 a4 x :: u32
  assumes "b \<noteq> - 1" "unat a1 = min n1 (2 ^ 32 - 1)" "unat a2 = min n2 (2 ^ 32 - 1)"
    "unat a3 = min n3 (2 ^ 32 - 1)" "unat a4 = min n4 (2 ^ 32 - 1)"
  shows "saturating_add (saturating_add (saturating_add (saturating_add a1 a2) a3) a4) x \<le> b
    \<longleftrightarrow> n1 + n2 + n3 + n4 + unat x \<le> unat b"
  by (rule saturated_sum_le) (use assms in simp_all)

lemma saturated_sum64:
  fixes b a1 a2 a3 a4 x r :: u64
  assumes "b \<noteq> - 1" "unat a1 = min n1 (2 ^ 64 - 1)" "unat a2 = min n2 (2 ^ 64 - 1)"
    "unat a3 = min n3 (2 ^ 64 - 1)" "unat a4 = min n4 (2 ^ 64 - 1)"
  shows "saturating_add (saturating_add (saturating_add (saturating_add (saturating_add a1 a2) a3) a4) x) r
      \<le> b \<longleftrightarrow> n1 + n2 + n3 + n4 + unat x + unat r \<le> unat b"
  by (rule saturated_le[OF _ saturated_add[OF saturated_add[OF saturated_add[OF saturated_add[OF
        saturated_add]] saturated_unat] saturated_unat]]) (use assms in simp_all)

lemma committed_cpu_saturated:
  "length as < 2 ^ 24 \<Longrightarrow> unat (cap_cpu (committed_capacity as c)) =
    min (total cpu_count (List.map_filter (charged_size c) as)) (2 ^ 32 - 1)"
  using saturated_unat[of "cap_cpu (committed_capacity as c)"] by (simp add: committed_cpu)

lemmas charge_sums = total_charges Let_def orphan_capacity_eq

abbreviation part_sum ::
    "(capacity \<Rightarrow> 'a::len word) \<Rightarrow> entries \<Rightarrow> config \<Rightarrow> host_machine list \<Rightarrow> hot_guest list
      \<Rightarrow> capacity \<Rightarrow> 'a word \<Rightarrow> 'a word" where
  "part_sum f es c machines hot cap x \<equiv>
     saturating_add (saturating_add (saturating_add (saturating_add
       (f (committed_capacity (active_allocations es) c))
       (f (orphan_capacity es (active_allocations es) machines c (hot_names hot machines)))) (f cap))
       (f (hot_capacity hot (active_allocations es) (hot_names hot machines)))) x"

lemma cpu_budget:
  assumes "foreign_capacity es (active_allocations es) machines (hot_names hot machines) = (cap, unknown)"
    and "length (active_allocations es) < 2 ^ 24"
    and "length (orphan_guests es (active_allocations es) machines (hot_names hot machines)) < 2 ^ 24"
  shows "part_sum cap_cpu es c machines hot cap (ucast (cpu_count requested)) \<le> ucast (hc::u8)
    \<longleftrightarrow> total cpu_count (charges es c requested machines hot) \<le> unat hc"
proof -
  have big: "(ucast hc :: u32) \<noteq> - 1"
    using unat_ucast_u8[of hc] unat_u8_le[of hc] by (auto simp: word_unat_eq_iff unat_minus_one_word)
  show ?thesis
    unfolding charge_sums
      saturated_sum32[OF big committed_cpu_saturated[OF assms(2)] committed_cpu_saturated[OF assms(3)]
        foreign_fold(2)[OF assms(1)] pooled_fold(2)] unat_ucast_u8 ..
qed

lemma memory_budget:
  assumes "foreign_capacity es (active_allocations es) machines (hot_names hot machines) = (cap, unknown)"
    and "hm \<noteq> - 1"
  shows "part_sum cap_memory es c machines hot cap (memory_mb requested) \<le> hm
    \<longleftrightarrow> total memory_mb (charges es c requested machines hot) \<le> unat hm"
  unfolding charge_sums
    saturated_sum32[OF assms(2) committed_memory committed_memory foreign_fold(3)[OF assms(1)]
      pooled_fold(3)] ..

lemma storage_budget:
  assumes "foreign_capacity es (active_allocations es) machines (hot_names hot machines) = (cap, unknown)"
    and "hs \<noteq> - 1"
  shows "saturating_add (part_sum cap_storage es c machines hot cap (storage_mb requested)) r \<le> hs
    \<longleftrightarrow> total storage_mb (charges es c requested machines hot) + unat r \<le> unat hs"
  unfolding charge_sums
    saturated_sum64[OF assms(2) committed_storage committed_storage foreign_fold(4)[OF assms(1)]
      pooled_fold(4)] ..

lemma slots_not_exceeded:
  assumes "slots_used es machines hot + 1 \<le> unat (rt_max_running_vms (cfg_runtime c))"
  shows "\<not> foreign_running (active_allocations es) machines (hot_names hot machines)
      + length (active_allocations es)
      + length (pooled_guests hot (active_allocations es) (hot_names hot machines)) + 1
      > unat (rt_max_running_vms (cfg_runtime c))"
  using assms unfolding slots_used_def by simp

lemmas ensure_capacity_unfold = ensure_capacity_def Let_def prod.case committed_active pooled_fold(1)

lemma ensure_capacity_serialized:
  assumes "rt_host_cpu_count (cfg_runtime c) = None \<or> rt_host_memory_mb (cfg_runtime c) = None"
  shows "ensure_capacity es c requested machines hot = Inr () \<longleftrightarrow>
     slots_used es machines hot + 1 \<le> unat (rt_max_running_vms (cfg_runtime c))
     \<and> active_allocations es = []"
proof (cases "slots_used es machines hot + 1 \<le> unat (rt_max_running_vms (cfg_runtime c))")
  case True
  obtain cap unknown where fc: "foreign_capacity es (active_allocations es) machines (hot_names hot machines) = (cap, unknown)"
    by (cases "foreign_capacity es (active_allocations es) machines (hot_names hot machines)")
  show ?thesis
    using assms True unfolding ensure_capacity_unfold fc if_not_P[OF slots_not_exceeded[OF True]]
    by (auto split: option.split)
qed (use ensure_capacity_slots in blast)

lemma ensure_capacity_parts:
  assumes "foreign_capacity es (active_allocations es) machines (hot_names hot machines) = (cap, unknown)"
    and "slots_used es machines hot + 1 \<le> unat (rt_max_running_vms (cfg_runtime c))"
    and "rt_host_cpu_count (cfg_runtime c) = Some hc" "rt_host_memory_mb (cfg_runtime c) = Some hm"
  shows "ensure_capacity es c requested machines hot = Inr () \<longleftrightarrow> \<not> unknown
       \<and> part_sum cap_cpu es c machines hot cap (ucast (cpu_count requested)) \<le> ucast hc
       \<and> part_sum cap_memory es c machines hot cap (memory_mb requested) \<le> hm
       \<and> option_all (\<lambda>hs. saturating_add (part_sum cap_storage es c machines hot cap (storage_mb requested))
           (case rt_libvirt (cfg_runtime c) of None \<Rightarrow> 0 | Some lv \<Rightarrow> lv_min_storage_free_mb lv) \<le> hs)
           (rt_host_storage_mb (cfg_runtime c))"
  unfolding ensure_capacity_unfold assms(1,3,4) if_not_P[OF slots_not_exceeded[OF assms(2)]]
    option.case
  by (cases "rt_host_storage_mb (cfg_runtime c)") (auto simp: not_le)

lemma ensure_capacity_budget:
  assumes cpu: "rt_host_cpu_count (cfg_runtime c) = Some hc"
    and memory: "rt_host_memory_mb (cfg_runtime c) = Some hm" "hm \<noteq> - 1"
    and storage: "option_all (\<lambda>hs. hs \<noteq> - 1) (rt_host_storage_mb (cfg_runtime c))"
  shows "ensure_capacity es c requested machines hot = Inr () \<longleftrightarrow>
     slots_used es machines hot + 1 \<le> unat (rt_max_running_vms (cfg_runtime c))
     \<and> foreign_sized es machines hot
     \<and> total cpu_count (charges es c requested machines hot) \<le> unat hc
     \<and> total memory_mb (charges es c requested machines hot) \<le> unat hm
     \<and> option_all (\<lambda>hs. total storage_mb (charges es c requested machines hot) + storage_reserve c
          \<le> unat hs) (rt_host_storage_mb (cfg_runtime c))"
proof (cases "slots_used es machines hot + 1 \<le> unat (rt_max_running_vms (cfg_runtime c))")
  case True
  obtain cap unknown where fc: "foreign_capacity es (active_allocations es) machines (hot_names hot machines) = (cap, unknown)"
    by (cases "foreign_capacity es (active_allocations es) machines (hot_names hot machines)")
  have "slots_used es machines hot < 2 ^ 24"
    using True unat_u8_le[of "rt_max_running_vms (cfg_runtime c)"] by simp
  then have small: "length (active_allocations es) < 2 ^ 24"
    "length (orphan_guests es (active_allocations es) machines (hot_names hot machines)) < 2 ^ 24"
    using orphans_le_foreign[of es "active_allocations es" machines "hot_names hot machines"]
    unfolding slots_used_def by linarith+
  have sized: "\<not> unknown \<longleftrightarrow> foreign_sized es machines hot"
    by (simp add: foreign_fold(1)[OF fc] foreign_sized_def list_all_iff list_ex_iff)
  have reserve: "unat (case rt_libvirt (cfg_runtime c) of None \<Rightarrow> 0 | Some lv \<Rightarrow> lv_min_storage_free_mb lv)
      = storage_reserve c"
    by (simp add: storage_reserve_def split: option.split)
  show ?thesis
    unfolding ensure_capacity_parts[OF fc True cpu memory(1)] cpu_budget[OF fc small]
      memory_budget[OF fc memory(2)] sized
    using True storage by (cases "rt_host_storage_mb (cfg_runtime c)") (simp_all add: storage_budget[OF fc] reserve)
qed (use ensure_capacity_slots in blast)

subsection \<open>Every running machine takes a slot\<close>

text \<open>The machine an allocation stands for: the pool machine it reuses, or its own clone.\<close>

definition held_name :: "allocation \<Rightarrow> string" where
  "held_name a = (case hot_vm_name (alloc_origin a) of None \<Rightarrow> vm_str (alloc_vm_name a) | Some n \<Rightarrow> vm_str n)"

definition is_running :: "host_machine \<Rightarrow> bool" where
  "is_running m \<longleftrightarrow> mach_state m = MachineRunning"

lemma accounted_name:
  assumes "m \<in> set machines" "is_running m"
    and "is_owned_name m (map (\<lambda>a. vm_str (alloc_vm_name a)) active) \<or> mach_name m \<in> set (hot_names hot machines)"
    and "\<And>a. a \<in> set active \<Longrightarrow> hot_vm_name (alloc_origin a) \<noteq> None \<Longrightarrow> vm_str (alloc_vm_name a) \<noteq> mach_name m"
  shows "mach_name m \<in> held_name ` set active
     \<union> (\<lambda>g. vm_str (hot_vm g)) ` set (pooled_guests hot active (hot_names hot machines))"
proof -
  have held: "mach_name m \<in> held_name ` set active"
    if "a \<in> set active" "mach_name m \<in> set (held_names a)" for a
  proof -
    have "held_name a = mach_name m"
      using that assms(4)[of a]
      by (cases "hot_vm_name (alloc_origin a)") (auto simp: held_names_def held_name_def)
    then show ?thesis using that(1) by (metis image_eqI)
  qed
  show ?thesis
  proof (cases "mach_name m \<in> set (hot_names hot machines)")
    case True
    then obtain g where g: "g \<in> set hot" "is_holding_machine (hot_state_of g)" "vm_str (hot_vm g) = mach_name m"
      by (auto simp: hot_names_def Let_def)
    show ?thesis
    proof (cases "mach_name m \<in> set (concat (map held_names active))")
      case True
      then show ?thesis using held by auto
    next
      case False
      then have "g \<in> set (pooled_guests hot active (hot_names hot machines))"
        using g True by (auto simp: pooled_guests_def)
      then show ?thesis using g by force
    qed
  next
    case False
    then obtain a where "a \<in> set active" "vm_str (alloc_vm_name a) = mach_name m"
      using assms(3) by (auto simp: is_owned_name_def)
    then show ?thesis using held[of a] by (simp add: held_names_def)
  qed
qed

lemma running_accounted:
  assumes "distinct (map mach_name machines)"
    and reuse: "\<And>a m. a \<in> set (active_allocations es) \<Longrightarrow> hot_vm_name (alloc_origin a) \<noteq> None \<Longrightarrow>
      m \<in> set machines \<Longrightarrow> is_running m \<Longrightarrow> vm_str (alloc_vm_name a) \<noteq> mach_name m"
  shows "length (filter is_running machines) \<le> slots_used es machines hot"
proof -
  let ?active = "active_allocations es" and ?names = "hot_names hot machines"
  let ?known = "\<lambda>m. is_owned_name m (map (\<lambda>a. vm_str (alloc_vm_name a)) ?active) \<or> mach_name m \<in> set ?names"
  let ?pool = "pooled_guests hot ?active ?names"
  let ?K = "filter ?known (filter is_running machines)"
  have "length ?K = card (mach_name ` set ?K)"
  proof -
    have "distinct (map mach_name ?K)" using assms(1) by (intro distinct_map_filter)
    then have "card (set (map mach_name ?K)) = length (map mach_name ?K)" by (rule distinct_card)
    then show ?thesis by (simp only: length_map list.set_map)
  qed
  also have "\<dots> \<le> card (held_name ` set ?active \<union> (\<lambda>g. vm_str (hot_vm g)) ` set ?pool)"
  proof (intro card_mono subsetI)
    fix x assume "x \<in> mach_name ` set ?K"
    then obtain m where m: "m \<in> set machines" "is_running m" "?known m" "x = mach_name m" by auto
    show "x \<in> held_name ` set ?active \<union> (\<lambda>g. vm_str (hot_vm g)) ` set ?pool"
      unfolding m(4) by (rule accounted_name[OF m(1-3)]) (erule (1) reuse[OF _ _ m(1,2)])
  qed simp
  also have "\<dots> \<le> length ?active + length ?pool"
    using card_Un_le[of "held_name ` set ?active" "(\<lambda>g. vm_str (hot_vm g)) ` set ?pool"]
      card_image_le[OF List.finite_set, of held_name ?active] card_length[of ?active]
      card_image_le[OF List.finite_set, of "\<lambda>g. vm_str (hot_vm g)" ?pool] card_length[of ?pool]
    by linarith
  finally have "length ?K \<le> length ?active + length ?pool" .
  moreover have "foreign_running ?active machines ?names = length (filter (\<lambda>m. \<not> ?known m) (filter is_running machines))"
    unfolding foreign_running_def is_running_def filter_filter by (rule arg_cong[where f = length], rule filter_cong) auto
  moreover have "length ?K + length (filter (\<lambda>m. \<not> ?known m) (filter is_running machines))
      = length (filter is_running machines)"
    by (rule sum_length_filter_compl)
  ultimately show ?thesis unfolding slots_used_def by linarith
qed

end
