(* ===== verification/Hot_Select.thy ===== *)
theory Hot_Select
  imports Admission
begin

text \<open>
  The decisions about the pool that are pure, \<open>crates/flanforge-manager/src/hot\<close>: when a
  machine must go (\<open>drain_reason\<close>), which one a claim takes (\<open>claimable\<close>), whether the pool
  has room and which idle machines are surplus (\<open>select.rs\<close>), and what one request gets
  (\<open>claim.rs\<close>). A clock read is an argument.
\<close>

subsection \<open>Selection\<close>

record hot_policy =
  pol_hot :: hot_config
  pol_fingerprint :: "base_fingerprint option"
  pol_warm_generation :: "u64 option"
  pol_now :: u64

definition is_base_changed :: "hot_guest \<Rightarrow> hot_policy \<Rightarrow> bool" where
  "is_base_changed g policy =
     (case (src_base_fingerprint (hot_source g), pol_fingerprint policy) of
        (Some recorded, Some current) \<Rightarrow> \<not> is_fingerprint_match (Some recorded) (Some current)
      | _ \<Rightarrow> False)"

definition lifetime_limit :: "hot_guest \<Rightarrow> hot_policy \<Rightarrow> u64" where
  "lifetime_limit g policy =
     min (unwrap_or (hc_max_lifetime_seconds (pol_hot policy)) (hot_age_limit g))
       (hc_max_lifetime_seconds (pol_hot policy))"

definition drain_reason :: "hot_guest \<Rightarrow> hot_policy \<Rightarrow> hot_drain_reason option" where
  "drain_reason g policy =
     (if hot_is_terminal (hot_state_of g) then None
      else if saturating_sub (pol_now policy) (hot_booted_at g) \<ge> lifetime_limit g policy
        then Some MaxLifetime
      else if hot_jobs_served g \<ge> hc_max_jobs (pol_hot policy) then Some MaxJobs
      else if is_base_changed g policy \<or> hot_warm_generation g \<noteq> pol_warm_generation policy
        then Some StaleBase
      else if hot_state_of g = Idle
          \<and> saturating_sub (pol_now policy) (hot_updated_at g) \<ge> hc_idle_ttl_seconds (pol_hot policy)
        then Some IdleTtl
      else None)"

text \<open>\<open>left\<close> compares greater than \<open>right\<close>: more jobs, or as many and the smaller name.\<close>

definition more_worn :: "hot_guest \<Rightarrow> hot_guest \<Rightarrow> bool" where
  "more_worn left right \<longleftrightarrow> hot_jobs_served left > hot_jobs_served right
     \<or> hot_jobs_served left = hot_jobs_served right \<and> vm_str (hot_vm right) > vm_str (hot_vm left)"

definition claimable ::
    "hot_guest list \<Rightarrow> profile_name \<Rightarrow> hot_lane \<Rightarrow> string list \<Rightarrow> hot_policy \<Rightarrow> hot_guest option" where
  "claimable hot profile lane claimed policy =
     max_by more_worn
       (filter (\<lambda>g. drain_reason g policy = None)
         (filter (\<lambda>g. vm_str (hot_vm g) \<notin> set claimed)
           (filter (\<lambda>g. is_serving g profile lane) hot)))"

definition is_pool_expandable :: "hot_guest list \<Rightarrow> u8 \<Rightarrow> profile_name list \<Rightarrow> bool" where
  "is_pool_expandable hot max_hot_vms in_flight \<longleftrightarrow>
     length (filter (\<lambda>g. is_holding_machine (hot_state_of g)) hot) + length in_flight < unat max_hot_vms"

definition surplus_idle ::
    "hot_guest list \<Rightarrow> profile_name \<Rightarrow> hot_lane \<Rightarrow> hot_config \<Rightarrow> hot_guest list" where
  "surplus_idle hot profile lane hot_config =
     (let idle = sort_key (\<lambda>g. (hot_updated_at g, vm_str (hot_vm g)))
            (filter (\<lambda>g. is_serving g profile lane) hot);
          keep = unat (hc_max_idle hot_config)
      in take (length idle - keep) idle)"

subsection \<open>Claims\<close>

record hot_context =
  ctx_hot :: hot_config
  ctx_name :: profile_name
  ctx_lane :: hot_lane
  ctx_fingerprint :: "base_fingerprint option"
  ctx_warm_generation :: "u64 option"
  ctx_max_hot_vms :: u8
  ctx_age_seconds :: "u64 option"

definition context_policy :: "hot_context \<Rightarrow> u64 \<Rightarrow> hot_policy" where
  "context_policy ctx now = \<lparr>pol_hot = ctx_hot ctx, pol_fingerprint = ctx_fingerprint ctx,
     pol_warm_generation = ctx_warm_generation ctx, pol_now = now\<rparr>"

datatype hot_claim = Reused hot_guest allocation_origin clone_source | RetainOwn

definition live_hot_names :: "entries \<Rightarrow> string list" where
  "live_hot_names es = map vm_str (List.map_filter (\<lambda>a. hot_vm_name (alloc_origin a)) (active_allocations es))"

definition in_flight_retentions :: "entries \<Rightarrow> hot_guest list \<Rightarrow> profile_name list" where
  "in_flight_retentions es hot =
     (let recorded = map (\<lambda>g. vm_str (hot_vm g)) (filter (\<lambda>g. is_holding_machine (hot_state_of g)) hot)
      in map (\<lambda>a. req_profile (alloc_request a))
           (filter (\<lambda>a. held_name a \<notin> set recorded)
             (filter (\<lambda>a. alloc_hot_lane a \<noteq> None) (active_allocations es))))"

definition plan_hot_claim ::
    "entries \<Rightarrow> hot_guest list \<Rightarrow> hot_context \<Rightarrow> uuid \<Rightarrow> u64 \<Rightarrow> u64 \<Rightarrow> hot_claim option" where
  "plan_hot_claim es hot ctx ident now claimed_at =
     (case claimable hot (ctx_name ctx) (ctx_lane ctx) (live_hot_names es) (context_policy ctx now) of
        Some g \<Rightarrow>
          (case ensure_claimed g ident claimed_at of
             Inl _ \<Rightarrow> None
           | Inr g' \<Rightarrow>
               let g'' = (if ctx_age_seconds ctx \<noteq> None then g'\<lparr>hot_age_limit := ctx_age_seconds ctx\<rparr> else g')
               in Some (Reused g'' (HotReuse (hot_vm g'') (hot_jobs_served g'') (hot_booted_at g''))
                    (hot_source g'')))
      | None \<Rightarrow>
          if is_pool_expandable hot (ctx_max_hot_vms ctx) (in_flight_retentions es hot)
          then Some RetainOwn else None)"

definition retained_record :: "allocation \<Rightarrow> hot_lane \<Rightarrow> u64 \<Rightarrow> hot_guest option" where
  "retained_record a lane now =
     (case (alloc_size a, alloc_source a) of
        (Some z, Some source) \<Rightarrow>
          Some ((hot_guest_new (alloc_vm_name a) (req_profile (alloc_request a)) lane z source
                   (alloc_warm_generation a) (alloc_hot_age a) now)\<lparr>hot_jobs_served := 1\<rparr>)
      | _ \<Rightarrow> None)"

subsection \<open>What a claim takes\<close>

lemma max_by_greatest:
  assumes "\<And>a b. gt a b \<Longrightarrow> \<not> gt b a" "\<And>a b c. \<not> gt a b \<Longrightarrow> \<not> gt b c \<Longrightarrow> \<not> gt a c"
    and "max_by gt xs = Some x" "y \<in> set xs"
  shows "\<not> gt y x"
proof -
  have fold: "y \<in> insert z (set zs) \<Longrightarrow> \<not> gt y (foldl (\<lambda>a b. if gt a b then a else b) z zs)" for y z zs
  proof (induction zs arbitrary: z y)
    case Nil
    then show ?case using assms(1)[of z z] by auto
  next
    case (Cons v vs)
    let ?w = "if gt z v then z else v"
    let ?r = "foldl (\<lambda>a b. if gt a b then a else b) ?w vs"
    have w: "\<not> gt ?w ?r" by (rule Cons.IH) simp
    have "\<not> gt z ?w" "\<not> gt v ?w" using assms(1)[of z z] assms(1)[of v v] assms(1)[of z v] by auto
    then have zv: "\<not> gt z ?r" "\<not> gt v ?r" using assms(2)[OF _ w] by blast+
    from Cons.prems consider "y = z" | "y = v" | "y \<in> set vs" by auto
    then show ?case
    proof cases
      case 3
      then have "\<not> gt y ?r" by (intro Cons.IH) simp
      then show ?thesis unfolding foldl_Cons .
    qed (use zv in \<open>simp_all only: foldl_Cons not_False_eq_True\<close>)
  qed
  show ?thesis using assms(3,4) fold[of y "hd xs" "tl xs"] by (cases xs) auto
qed

lemma more_worn_asym: "more_worn a b \<Longrightarrow> \<not> more_worn b a"
  by (auto simp: more_worn_def)

lemma not_more_worn:
  "\<not> more_worn a b \<longleftrightarrow> hot_jobs_served a < hot_jobs_served b
     \<or> hot_jobs_served a = hot_jobs_served b \<and> vm_str (hot_vm b) \<le> vm_str (hot_vm a)"
  unfolding more_worn_def
  by (cases rule: linorder_cases[of "hot_jobs_served a" "hot_jobs_served b"]) (auto simp: not_less)

lemma more_worn_neg_trans: "\<not> more_worn a b \<Longrightarrow> \<not> more_worn b c \<Longrightarrow> \<not> more_worn a c"
  unfolding not_more_worn by (elim disjE conjE) (auto intro: order_trans less_trans)

definition eligible ::
    "hot_guest list \<Rightarrow> profile_name \<Rightarrow> hot_lane \<Rightarrow> string list \<Rightarrow> hot_policy \<Rightarrow> hot_guest \<Rightarrow> bool" where
  "eligible hot profile lane claimed policy g \<longleftrightarrow> g \<in> set hot \<and> hot_state_of g = Idle
     \<and> hot_profile g = profile \<and> hot_lane_of g = lane \<and> vm_str (hot_vm g) \<notin> set claimed
     \<and> drain_reason g policy = None"

lemma claimable_Some:
  assumes "claimable hot profile lane claimed policy = Some g"
  shows "eligible hot profile lane claimed policy g"
    and "eligible hot profile lane claimed policy g' \<Longrightarrow> \<not> more_worn g' g"
proof -
  let ?xs = "filter (\<lambda>g. drain_reason g policy = None)
         (filter (\<lambda>g. vm_str (hot_vm g) \<notin> set claimed) (filter (\<lambda>g. is_serving g profile lane) hot))"
  have m: "max_by more_worn ?xs = Some g" using assms by (simp add: claimable_def)
  have in_xs: "eligible hot profile lane claimed policy h \<longleftrightarrow> h \<in> set ?xs" for h
    by (auto simp: eligible_def is_serving_def)
  show "eligible hot profile lane claimed policy g" unfolding in_xs by (rule max_by_mem[OF m])
  show "eligible hot profile lane claimed policy g' \<Longrightarrow> \<not> more_worn g' g"
    unfolding in_xs by (rule max_by_greatest[OF more_worn_asym more_worn_neg_trans m])
qed

lemma claimable_None:
  "claimable hot profile lane claimed policy = None \<longleftrightarrow> (\<forall>g. \<not> eligible hot profile lane claimed policy g)"
  unfolding claimable_def max_by_None eligible_def is_serving_def by (auto simp: filter_empty_conv)

lemma plan_hot_claim_Reused:
  assumes "plan_hot_claim es hot ctx ident now at = Some (Reused g origin source)"
  obtains h where "claimable hot (ctx_name ctx) (ctx_lane ctx) (live_hot_names es) (context_policy ctx now) = Some h"
    and "hot_vm g = hot_vm h" "hot_state_of g = Claimed" "hot_claimed_by g = Some ident"
    and "hot_vm_name origin = Some (hot_vm g)" "source = hot_source h"
    and "hot_profile g = hot_profile h" "hot_lane_of g = hot_lane_of h" "hot_size g = hot_size h"
    and "vm_str (hot_vm g) \<notin> set (live_hot_names es)"
proof -
  from assms obtain h where h: "claimable hot (ctx_name ctx) (ctx_lane ctx) (live_hot_names es)
      (context_policy ctx now) = Some h"
    by (auto simp: plan_hot_claim_def split: option.splits if_splits)
  with claimable_Some(1)[OF h] have "vm_str (hot_vm h) \<notin> set (live_hot_names es)"
    by (simp add: eligible_def)
  then show thesis
    using assms h
    by (intro that[OF h])
      (auto simp: plan_hot_claim_def ensure_claimed_Inr Let_def split: sum.splits if_splits)
qed

lemma plan_hot_claim_Retain:
  "plan_hot_claim es hot ctx ident now at = Some RetainOwn \<Longrightarrow>
     is_pool_expandable hot (ctx_max_hot_vms ctx) (in_flight_retentions es hot)"
  by (auto simp: plan_hot_claim_def Let_def split: option.splits sum.splits if_splits)

text \<open>The claim of an eligible machine never fails: it is idle.\<close>

lemma plan_hot_claim_not_stuck:
  "claimable hot (ctx_name ctx) (ctx_lane ctx) (live_hot_names es) (context_policy ctx now) = Some g \<Longrightarrow>
     \<exists>g' origin source. plan_hot_claim es hot ctx ident now at = Some (Reused g' origin source)"
  using claimable_Some(1)[of hot "ctx_name ctx" "ctx_lane ctx" "live_hot_names es" "context_policy ctx now" g]
  by (auto simp: plan_hot_claim_def Let_def eligible_def ensure_claimed_def ensure_state_def hot_steps)

subsection \<open>Surplus\<close>

lemma surplus_split:
  fixes hc :: hot_config and profile :: profile_name and lane :: hot_lane
  assumes "distinct hot"
  defines "lane_idle \<equiv> filter (\<lambda>g. is_serving g profile lane) hot"
  defines "out \<equiv> surplus_idle hot profile lane hc"
  shows "set out \<subseteq> set lane_idle" and "distinct out"
    and "length out = length lane_idle - unat (hc_max_idle hc)"
    and "g \<in> set out \<Longrightarrow> k \<in> set lane_idle - set out \<Longrightarrow> hot_updated_at g \<le> hot_updated_at k"
proof -
  let ?key = "\<lambda>g. (hot_updated_at g, vm_str (hot_vm g))"
  let ?s = "sort_key ?key lane_idle"
  let ?n = "length ?s - unat (hc_max_idle hc)"
  have out: "out = take ?n ?s" by (simp add: out_def surplus_idle_def Let_def lane_idle_def)
  have d: "distinct ?s" using assms(1) by (simp add: lane_idle_def)
  show "set out \<subseteq> set lane_idle" unfolding out using set_take_subset[of ?n ?s] by (simp only: set_sort)
  show "distinct out" unfolding out using d by simp
  show "length out = length lane_idle - unat (hc_max_idle hc)" unfolding out by simp
  assume g: "g \<in> set out" and k: "k \<in> set lane_idle - set out"
  have "set lane_idle = set (take ?n ?s) \<union> set (drop ?n ?s)"
    by (simp only: set_append[symmetric] append_take_drop_id set_sort)
  then have "k \<in> set (drop ?n ?s)" using k unfolding out by blast
  moreover have "sorted (map ?key (take ?n ?s @ drop ?n ?s))"
    unfolding append_take_drop_id by (rule sorted_sort_key)
  then have "\<forall>x\<in>set (take ?n ?s). \<forall>y\<in>set (drop ?n ?s). ?key x \<le> ?key y"
    unfolding map_append sorted_append by auto
  ultimately have "?key g \<le> ?key k" using g unfolding out by blast
  then show "hot_updated_at g \<le> hot_updated_at k" by (auto simp: less_eq_prod_def)
qed

end
