(* ===== verification/Entries.thy ===== *)
theory Entries
  imports Admission
begin

text \<open>
  The resident allocations, \<open>state.rs\<close> and \<open>resolve.rs\<close> of
  \<open>crates/flanforge-manager/src\<close>: looking one up, every durable update of one, and the bound
  on finished history. The relation \<open>evolves\<close> says how any operation but the admission of a
  new allocation may change the manager: entries keep their identity and move along the
  lifecycle, and what is unfinished in memory and in the database stays the same.
\<close>

subsection \<open>Names\<close>

definition resolve_profile :: "config \<Rightarrow> allocation_request \<Rightarrow> manager_error + profile" where
  "resolve_profile c r =
     (case lookup_profile c (req_profile r) of
        Some p \<Rightarrow> Inr p
      | None \<Rightarrow> Inl (UnknownProfile (profile_str (req_profile r))))"

definition vm_name_text :: "config \<Rightarrow> allocation_request \<Rightarrow> string" where
  "vm_name_text c r = prefix_str (rt_vm_prefix (cfg_runtime c)) @ profile_str (req_profile r)
     @ ''-'' @ nat_str (unat (req_run_id r)) @ ''-'' @ nat_str (unat (req_run_attempt r))"

definition vm_name_of :: "config \<Rightarrow> allocation_request \<Rightarrow> manager_error + vm_name" where
  "vm_name_of c r = map_sum (\<lambda>_. InvalidVmName) id (vm_name_new (vm_name_text c r))"

subsection \<open>Lookup and update\<close>

definition get_allocation :: "uuid \<Rightarrow> ('w, manager_error + allocation) op" where
  "get_allocation ident = gets (\<lambda>s.
     case map_of (m_entries s) ident of
       Some e \<Rightarrow> Inr (e_allocation e)
     | None \<Rightarrow> Inl (NotFound ident))"

text \<open>
  \<open>update\<close>: the change is applied to a copy, saved, and only then written to the entry and
  published. The closure of the source reads the clock; here the reading is its argument.
\<close>

definition set_entry :: "uuid \<Rightarrow> allocation \<Rightarrow> entry \<Rightarrow> 'w mgr \<Rightarrow> 'w mgr" where
  "set_entry ident a e s = s\<lparr>m_entries :=
     AList.update ident (e\<lparr>e_allocation := a, e_published := a\<rparr>) (m_entries s)\<rparr>"

definition update_allocation ::
    "'w env \<Rightarrow> uuid \<Rightarrow> (u64 \<Rightarrow> allocation \<Rightarrow> manager_error + allocation) \<Rightarrow> ('w, manager_error + unit) op" where
  "update_allocation E ident f =
     bind_res (get_allocation ident) (\<lambda>a. do {
       now \<leftarrow> outside (x_unix_time E);
       case f now a of
         Inl e \<Rightarrow> return (Inl e)
       | Inr a' \<Rightarrow> bind_res (map_err StoreErr (store_save E a')) (\<lambda>_. do {
           present \<leftarrow> gets (\<lambda>s. map_of (m_entries s) ident);
           case present of
             None \<Rightarrow> return (Inl (NotFound ident))
           | Some e \<Rightarrow> do { _ \<leftarrow> modify (set_entry ident a' e); return (Inr ()) } }) })"

definition transition_op :: "'w env \<Rightarrow> uuid \<Rightarrow> allocation_state \<Rightarrow> ('w, manager_error + unit) op" where
  "transition_op E ident next =
     bind_res (get_allocation ident) (\<lambda>before.
       bind_res (update_allocation E ident (\<lambda>now a. map_sum TransitionErr id (transition a next now))) (\<lambda>_. do {
         _ \<leftarrow> emit E AllocationStateChanged (Some ident) (Some (alloc_vm_name before))
            (Some (req_profile (alloc_request before)));
         return (Inr ()) }))"

definition set_runner_id_op :: "'w env \<Rightarrow> uuid \<Rightarrow> int \<Rightarrow> ('w, manager_error + unit) op" where
  "set_runner_id_op E ident runner_id =
     (if runner_id \<le> 0 then return (Inl InvalidRunnerId)
      else update_allocation E ident (\<lambda>now a. Inr (set_runner_id runner_id now a)))"

definition set_vm_created_op :: "'w env \<Rightarrow> uuid \<Rightarrow> ('w, manager_error + unit) op" where
  "set_vm_created_op E ident = update_allocation E ident (\<lambda>now a. Inr (set_vm_created now a))"

definition set_source_op :: "'w env \<Rightarrow> uuid \<Rightarrow> clone_source \<Rightarrow> ('w, manager_error + unit) op" where
  "set_source_op E ident source = update_allocation E ident (\<lambda>now a. Inr (set_source source now a))"

definition set_clone_source_op ::
    "'w env \<Rightarrow> uuid \<Rightarrow> clone_source \<Rightarrow> u64 option \<Rightarrow> ('w, manager_error + unit) op" where
  "set_clone_source_op E ident source generation =
     update_allocation E ident (\<lambda>now a. Inr (set_clone_source source generation now a))"

definition set_retention_op :: "'w env \<Rightarrow> uuid \<Rightarrow> retention_outcome \<Rightarrow> ('w, manager_error + unit) op" where
  "set_retention_op E ident outcome =
     update_allocation E ident (\<lambda>now a. Inr (set_retention outcome now a))"

definition set_worker_error_op :: "'w env \<Rightarrow> uuid \<Rightarrow> worker_error \<Rightarrow> ('w, manager_error + unit) op" where
  "set_worker_error_op E ident err =
     bind_res (update_allocation E ident (\<lambda>now a.
       Inr (set_error (worker_error_text err) now
             (if worker_is_capacity err then set_capacity_busy now a else a)))) (\<lambda>_. do {
       _ \<leftarrow> emit E AllocationErrorEvent (Some ident) None None;
       return (Inr ()) })"

definition set_error_op :: "'w env \<Rightarrow> uuid \<Rightarrow> string \<Rightarrow> ('w, manager_error + unit) op" where
  "set_error_op E ident err =
     bind_res (update_allocation E ident (\<lambda>now a. Inr (set_error err now a))) (\<lambda>_. do {
       _ \<leftarrow> emit E AllocationErrorEvent (Some ident) None None;
       return (Inr ()) })"

definition ensure_cleaning :: "'w env \<Rightarrow> uuid \<Rightarrow> ('w, manager_error + unit) op" where
  "ensure_cleaning E ident =
     bind_res (get_allocation ident) (\<lambda>a.
       if alloc_state a = Cleaning \<or> is_terminal (alloc_state a) then return (Inr ())
       else transition_op E ident Cleaning)"

subsection \<open>The bound on finished history\<close>

definition prune_order :: "(uuid \<Rightarrow> string) \<Rightarrow> allocation \<Rightarrow> u64 \<times> u64 \<times> string" where
  "prune_order uuid_str a = (alloc_updated_at a, alloc_created_at a, uuid_str (alloc_id a))"

definition prune_terminal_history :: "(uuid \<Rightarrow> string) \<Rightarrow> nat \<Rightarrow> entries \<Rightarrow> entries" where
  "prune_terminal_history uuid_str limit es =
     (let remove_count = length es - limit
      in if remove_count = 0 then es
         else
           let terminal = sort_key (prune_order uuid_str)
                 (filter (\<lambda>a. is_terminal (alloc_state a)) (entry_allocations es))
           in foldl (\<lambda>es a. AList.delete (alloc_id a) es) es (take remove_count terminal))"

subsection \<open>How an entry may change\<close>

definition same_identity :: "allocation \<Rightarrow> allocation \<Rightarrow> bool" where
  "same_identity a b \<longleftrightarrow> alloc_id b = alloc_id a \<and> alloc_request b = alloc_request a
     \<and> alloc_vm_name b = alloc_vm_name a \<and> alloc_runner_label b = alloc_runner_label a
     \<and> alloc_mode b = alloc_mode a \<and> alloc_created_at b = alloc_created_at a
     \<and> alloc_origin b = alloc_origin a \<and> alloc_hot_lane b = alloc_hot_lane a"

definition allocation_evolves :: "allocation \<Rightarrow> allocation \<Rightarrow> bool" where
  "allocation_evolves a b \<longleftrightarrow> same_identity a b \<and> can_transition_to\<^sup>*\<^sup>* (alloc_state a) (alloc_state b)"

definition entry_evolves :: "entry \<Rightarrow> entry \<Rightarrow> bool" where
  "entry_evolves e e' \<longleftrightarrow> allocation_evolves (e_allocation e) (e_allocation e')
     \<and> (e_cancelled e \<longrightarrow> e_cancelled e')"

definition entries_evolve :: "entries \<Rightarrow> entries \<Rightarrow> bool" where
  "entries_evolve = list_all2 (\<lambda>(k, e) (k', e'). k = k' \<and> entry_evolves e e')"

lemma can_transition_refl [simp]: "can_transition_to s s"
  by (rule allocation_life.step_refl)

lemma transitions_terminal: "can_transition_to\<^sup>*\<^sup>* s t \<Longrightarrow> is_terminal s \<Longrightarrow> t = s"
proof (induction rule: converse_rtranclp_induct)
  case (step y z)
  have "z = y" by (rule allocation_life.terminal_stuck[OF step.prems step.hyps(1)])
  with step show ?case by simp
qed simp

lemma allocation_evolves_refl [simp]: "allocation_evolves a a"
  by (simp add: allocation_evolves_def same_identity_def)

lemma allocation_evolves_trans:
  "allocation_evolves a b \<Longrightarrow> allocation_evolves b c \<Longrightarrow> allocation_evolves a c"
  by (auto simp: allocation_evolves_def same_identity_def)

lemma entry_evolves_refl [simp]: "entry_evolves e e"
  by (simp add: entry_evolves_def)

lemma entry_evolves_trans: "entry_evolves a b \<Longrightarrow> entry_evolves b c \<Longrightarrow> entry_evolves a c"
  by (auto simp: entry_evolves_def intro: allocation_evolves_trans)

lemma entries_evolve_refl [simp]: "entries_evolve es es"
  by (auto simp: entries_evolve_def list_all2_same)

lemma entries_evolve_trans: "entries_evolve a b \<Longrightarrow> entries_evolve b c \<Longrightarrow> entries_evolve a c"
  unfolding entries_evolve_def by (erule (1) list_all2_trans[rotated]) (auto intro: entry_evolves_trans)

lemma entries_evolve_keys: "entries_evolve es es' \<Longrightarrow> map fst es' = map fst es"
  unfolding entries_evolve_def by (induction rule: list_all2_induct) auto

lemma entries_evolve_update:
  "map_of es k = Some e \<Longrightarrow> entry_evolves e e' \<Longrightarrow> distinct (map fst es) \<Longrightarrow>
     entries_evolve es (AList.update k e' es)"
proof (induction es)
  case (Cons x xs)
  obtain j d where x: "x = (j, d)" by (cases x)
  show ?case
  proof (cases "j = k")
    case True
    then show ?thesis using Cons.prems x entries_evolve_refl[of xs] by (simp add: entries_evolve_def)
  next
    case False
    then show ?thesis using Cons x by (simp add: entries_evolve_def)
  qed
qed simp

text \<open>The setters change nothing of the identity and leave the state.\<close>

lemma setter_evolves:
  "allocation_evolves a (set_runner_id i now a)" "allocation_evolves a (set_vm_created now a)"
  "allocation_evolves a (set_source source now a)" "allocation_evolves a (set_clone_source source g now a)"
  "allocation_evolves a (set_retention r now a)" "allocation_evolves a (set_error msg now a)"
  "allocation_evolves a (set_capacity_busy now a)"
  by (auto simp: allocation_evolves_def same_identity_def setter_defs Let_def)

lemma transition_evolves: "transition a t now = Inr a' \<Longrightarrow> allocation_evolves a a'"
  by (auto simp: transition_Inr allocation_evolves_def same_identity_def)

subsection \<open>How the manager may change\<close>

text \<open>
  What is unfinished: in memory, in the database. The two agree, so a restart finds every
  allocation that may still own a machine or a runner, and finds it as it was.
\<close>

definition live_entry :: "'w mgr \<Rightarrow> uuid \<Rightarrow> allocation option" where
  "live_entry s ident = (case map_of (m_entries s) ident of
     None \<Rightarrow> None | Some e \<Rightarrow> if is_terminal (alloc_state (e_allocation e)) then None else Some (e_allocation e))"

definition live_row :: "'w mgr \<Rightarrow> uuid \<Rightarrow> allocation option" where
  "live_row s ident = (case map_of (m_store s) ident of
     None \<Rightarrow> None | Some a \<Rightarrow> if is_terminal (alloc_state a) then None else Some a)"

definition well_formed :: "'w mgr \<Rightarrow> bool" where
  "well_formed s \<longleftrightarrow> keyed_by (\<lambda>e. alloc_id (e_allocation e)) (m_entries s)
     \<and> keyed_by alloc_id (m_store s) \<and> keyed_by hot_vm (m_hot s) \<and> keyed_by img_profile (m_images s)
     \<and> (\<forall>e\<in>set (al_values (m_entries s)). e_published e = e_allocation e)
     \<and> (\<forall>ident. live_row s ident = live_entry s ident)
     \<and> (\<forall>a\<in>set (al_values (m_store s)). allocation_validate a)"

definition evolves :: "'w mgr \<Rightarrow> 'w mgr \<Rightarrow> bool" where
  "evolves s s' \<longleftrightarrow> (well_formed s \<longrightarrow> well_formed s' \<and> entries_evolve (m_entries s) (m_entries s'))
     \<and> m_config s' = m_config s \<and> m_tuning s' = m_tuning s
     \<and> (m_is_closing s \<longrightarrow> m_is_closing s')
     \<and> (m_teardown_deadline s \<noteq> None \<longrightarrow> m_teardown_deadline s' = m_teardown_deadline s)"

interpretation evo: state_preorder evolves
  by unfold_locales (auto simp: evolves_def intro: entries_evolve_trans)

named_theorems evolve_ops \<open>operations after which the manager has evolved\<close>

lemma evolves_same:
  assumes "m_entries s' = m_entries s" "m_store s' = m_store s" "m_config s' = m_config s"
    and "m_tuning s' = m_tuning s" "m_is_closing s' = m_is_closing s"
    and "m_teardown_deadline s' = m_teardown_deadline s"
    and "keyed_by hot_vm (m_hot s) \<Longrightarrow> keyed_by hot_vm (m_hot s')"
    and "keyed_by img_profile (m_images s) \<Longrightarrow> keyed_by img_profile (m_images s')"
  shows "evolves s s'"
  using assms by (auto simp: evolves_def well_formed_def live_row_def live_entry_def)

lemma evolves_outside [evolve_ops]: "rel_op evolves (outside f)"
  by (auto simp: rel_op_def intro!: evolves_same)

lemma evolves_db: "rel_op evolves m \<Longrightarrow> rel_op evolves (db E m)"
  unfolding db_def by (intro evo.rel_intros evolves_outside)

lemma evolves_reads [evolve_ops]:
  "rel_op evolves current_config" "rel_op evolves (hot_load E n)" "rel_op evolves (hot_load_all E)"
  "rel_op evolves (images_load E p)" "rel_op evolves (images_load_all E)"
  unfolding current_config_def hot_load_def hot_load_all_def images_load_def images_load_all_def
  by (intro evo.rel_intros evolves_db)+

lemma evolves_hot_table:
  assumes "keyed_by hot_vm (m_hot s) \<Longrightarrow> keyed_by hot_vm t"
  shows "evolves s (s\<lparr>m_hot := t\<rparr>)"
  using assms by (intro evolves_same) simp_all

lemma evolves_image_table:
  assumes "keyed_by img_profile (m_images s) \<Longrightarrow> keyed_by img_profile t"
  shows "evolves s (s\<lparr>m_images := t\<rparr>)"
  using assms by (intro evolves_same) simp_all

lemma run_state_db: "run_state (db E m) s =
    (let s' = s\<lparr>m_world := snd (x_db_fails E (m_world s))\<rparr>
     in if fst (x_db_fails E (m_world s)) then (Inl DbError, s') else run_state m s')"
  by (simp add: db_def Let_def)

lemma evolves_hot_save [evolve_ops]: "rel_op evolves (hot_save E g)"
  unfolding hot_save_def
proof (rule evolves_db, unfold rel_op_def, intro allI)
  fix s
  show "evolves s (snd (run_state (do { r \<leftarrow> gets (\<lambda>s. hot_table_save g (m_hot s));
     case r of Inl e \<Rightarrow> return (Inl e)
     | Inr t \<Rightarrow> do { _ \<leftarrow> modify (\<lambda>s. s\<lparr>m_hot := t\<rparr>); return (Inr ()) } }) s))"
    using hot_store.save_keyed[of "m_hot s" g]
    by (auto simp: evo.refl intro!: evolves_hot_table split: sum.split)
qed

lemma evolves_images_save [evolve_ops]: "rel_op evolves (images_save E g)"
  unfolding images_save_def
proof (rule evolves_db, unfold rel_op_def, intro allI)
  fix s
  show "evolves s (snd (run_state (do { r \<leftarrow> gets (\<lambda>s. image_table_save g (m_images s));
     case r of Inl e \<Rightarrow> return (Inl e)
     | Inr t \<Rightarrow> do { _ \<leftarrow> modify (\<lambda>s. s\<lparr>m_images := t\<rparr>); return (Inr ()) } }) s))"
    using image_store.save_keyed[of "m_images s" g]
    by (auto simp: evo.refl intro!: evolves_image_table split: sum.split)
qed

lemma evolves_hot_remove [evolve_ops]: "rel_op evolves (hot_remove E n)"
  unfolding hot_remove_def
  by (intro evolves_db evo.rel_intros evo.rel_modify evolves_hot_table hot_store.remove_keyed)

lemma evolves_images_remove [evolve_ops]: "rel_op evolves (images_remove E n)"
  unfolding images_remove_def
  by (intro evolves_db evo.rel_intros evo.rel_modify evolves_image_table image_store.remove_keyed)

lemma evolves_emit [evolve_ops]: "rel_op evolves (emit E k i n p)"
  unfolding emit_def
  by (intro evo.rel_intros evolve_ops evo.rel_modify evolves_same) simp_all

lemma evolves_map_err: "rel_op evolves m \<Longrightarrow> rel_op evolves (map_err f m)"
  unfolding map_err_def by (intro evo.rel_intros)

lemma evolves_get [evolve_ops]: "rel_op evolves (get_allocation ident)"
  unfolding get_allocation_def by (intro evo.rel_intros)

subsection \<open>A durable update\<close>

lemma run_store_save:
  "run_state (store_save E a) s =
     (let s' = s\<lparr>m_world := snd (x_db_fails E (m_world s))\<rparr>
      in if fst (x_db_fails E (m_world s)) then (Inl DbError, s')
         else case allocation_table_save a (m_store s) of
             Inl e \<Rightarrow> (Inl e, s')
           | Inr t \<Rightarrow> (Inr (), s'\<lparr>m_store := t\<rparr>))"
  by (simp add: store_save_def run_state_db Let_def split: sum.split)

text \<open>An update fails and changes nothing but the outside, or changes the row and the entry.\<close>

lemma update_cases:
  assumes "run_state (update_allocation E ident f) s = (r, s')"
  obtains (failed) err w where "r = Inl err" "s' = s\<lparr>m_world := w\<rparr>"
  | (updated) e a' now w t where "r = Inr ()" "map_of (m_entries s) ident = Some e"
      "f now (e_allocation e) = Inr a'" "allocation_table_save a' (m_store s) = Inr t"
      "s' = set_entry ident a' e (s\<lparr>m_world := w, m_store := t\<rparr>)"
proof (cases "map_of (m_entries s) ident")
  case None
  then show ?thesis
    using assms failed[of "NotFound ident" "m_world s"]
    by (simp add: update_allocation_def bind_res_def get_allocation_def)
next
  case (Some e)
  let ?now = "fst (x_unix_time E (m_world s))"
  show ?thesis
  proof (cases "f ?now (e_allocation e)")
    case (Inl err)
    then show ?thesis
      using assms Some failed[of err "snd (x_unix_time E (m_world s))"]
      by (simp add: update_allocation_def bind_res_def get_allocation_def)
  next
    case (Inr a')
    let ?w = "snd (x_db_fails E (snd (x_unix_time E (m_world s))))"
    show ?thesis
    proof (cases "fst (x_db_fails E (snd (x_unix_time E (m_world s))))")
      case True
      then show ?thesis
        using assms Some Inr failed[of "StoreErr DbError" ?w]
        by (simp add: update_allocation_def bind_res_def get_allocation_def map_err_def run_store_save Let_def)
    next
      case False
      show ?thesis
      proof (cases "allocation_table_save a' (m_store s)")
        case (Inl err)
        then show ?thesis
          using assms Some Inr False failed[of "StoreErr err" ?w]
          by (simp add: update_allocation_def bind_res_def get_allocation_def map_err_def run_store_save Let_def)
      next
        case saved: (Inr t)
        then show ?thesis
          using assms Some Inr False updated[OF _ Some Inr saved, of ?w]
          by (simp add: update_allocation_def bind_res_def get_allocation_def map_err_def run_store_save Let_def)
      qed
    qed
  qed
qed

lemma allocation_table_save_Inr:
  "allocation_table_save a t = Inr t' \<longleftrightarrow>
     allocation_validate a \<and> allocation_storable a \<and> t' = AList.update (alloc_id a) a t"
  by (auto simp: allocation_table_save_def)

lemma set_al_values_update: "x \<in> set (al_values (AList.update k v m)) \<Longrightarrow> x = v \<or> x \<in> set (al_values m)"
  by (auto simp: al_values_def dest!: set_update_subset)

lemma well_formed_entry:
  "well_formed s \<Longrightarrow> map_of (m_entries s) ident = Some e \<Longrightarrow> alloc_id (e_allocation e) = ident"
  by (auto simp: well_formed_def dest: keyed_by_map_of)

lemma well_formed_set_entry:
  assumes wf: "well_formed s" and e: "map_of (m_entries s) ident = Some e"
    and evo: "allocation_evolves (e_allocation e) a'"
    and saved: "allocation_table_save a' (m_store s) = Inr t"
  shows "well_formed (set_entry ident a' e (s\<lparr>m_world := w, m_store := t\<rparr>))"
proof -
  have a': "alloc_id a' = ident" "allocation_validate a'" "t = AList.update ident a' (m_store s)"
    using well_formed_entry[OF wf e] evo saved
    by (auto simp: allocation_table_save_Inr allocation_evolves_def same_identity_def)
  let ?e' = "e\<lparr>e_allocation := a', e_published := a'\<rparr>"
  let ?s' = "set_entry ident a' e (s\<lparr>m_world := w, m_store := t\<rparr>)"
  have live: "live_row ?s' i = live_entry ?s' i" for i
    using wf by (simp add: well_formed_def live_row_def live_entry_def set_entry_def a'(3) map_of_update)
  show ?thesis
    using wf live a'
    by (auto simp: well_formed_def set_entry_def intro!: keyed_by_update dest!: set_al_values_update)
qed

lemma evolves_update:
  assumes "\<And>now a a'. f now a = Inr a' \<Longrightarrow> allocation_evolves a a'"
  shows "rel_op evolves (update_allocation E ident f)"
  unfolding rel_op_def
proof (intro allI)
  fix s
  obtain r s' where run: "run_state (update_allocation E ident f) s = (r, s')" by force
  show "evolves s (snd (run_state (update_allocation E ident f) s))"
    using run
  proof (cases rule: update_cases)
    case (failed err w)
    then show ?thesis unfolding run by (auto intro!: evolves_same)
  next
    case (updated e a' now w t)
    note evo = assms[OF updated(3)]
    have "entries_evolve (m_entries s) (m_entries s')" if "well_formed s"
      using that updated(2,5) evo
      by (auto simp: set_entry_def entry_evolves_def well_formed_def keyed_by_def
          intro!: entries_evolve_update)
    then show ?thesis
      using well_formed_set_entry[OF _ updated(2) evo updated(4)] updated(5)
      unfolding run evolves_def by (simp add: set_entry_def)
  qed
qed

lemma evolves_setters [evolve_ops]:
  "rel_op evolves (set_runner_id_op E ident i)" "rel_op evolves (set_vm_created_op E ident)"
  "rel_op evolves (set_source_op E ident source)"
  "rel_op evolves (set_clone_source_op E ident source g)"
  "rel_op evolves (set_retention_op E ident outcome)" "rel_op evolves (set_error_op E ident msg)"
  "rel_op evolves (set_worker_error_op E ident err)" "rel_op evolves (transition_op E ident next)"
  unfolding set_runner_id_op_def set_vm_created_op_def set_source_op_def set_clone_source_op_def
    set_retention_op_def set_error_op_def set_worker_error_op_def transition_op_def
  by (intro evo.rel_intros evolves_update evolve_ops;
      auto simp: map_sum_Inr intro: setter_evolves transition_evolves allocation_evolves_trans)+

lemma evolves_ensure_cleaning [evolve_ops]: "rel_op evolves (ensure_cleaning E ident)"
  unfolding ensure_cleaning_def by (intro evo.rel_intros evolve_ops)

subsection \<open>Pruning\<close>

lemma foldl_delete: "foldl (\<lambda>es x. AList.delete (f x) es) es xs = filter (\<lambda>(k, _). k \<notin> f ` set xs) es"
proof (induction xs arbitrary: es)
  case (Cons x xs)
  have "foldl (\<lambda>es x. AList.delete (f x) es) es (x # xs)
      = filter (\<lambda>(k, _). k \<notin> f ` set xs) (AList.delete (f x) es)"
    by (simp only: foldl_Cons Cons)
  also have "\<dots> = filter (\<lambda>(k, _). k \<notin> f ` set (x # xs)) es"
    unfolding AList.delete_eq filter_filter by (rule filter_cong) auto
  finally show ?case .
qed simp

definition pruned :: "(uuid \<Rightarrow> string) \<Rightarrow> nat \<Rightarrow> entries \<Rightarrow> allocation list" where
  "pruned uuid_str limit es = take (length es - limit)
     (sort_key (prune_order uuid_str) (filter (\<lambda>a. is_terminal (alloc_state a)) (entry_allocations es)))"

lemma prune_filter:
  "prune_terminal_history uuid_str limit es = filter (\<lambda>(k, _). k \<notin> alloc_id ` set (pruned uuid_str limit es)) es"
proof (cases "length es - limit = 0")
  case False
  then show ?thesis by (simp add: prune_terminal_history_def Let_def foldl_delete pruned_def)
qed (simp add: prune_terminal_history_def pruned_def)

lemma pruned_terminal: "a \<in> set (pruned uuid_str limit es) \<Longrightarrow>
    is_terminal (alloc_state a) \<and> a \<in> set (entry_allocations es)"
  unfolding pruned_def by (drule in_set_takeD) (simp del: is_terminal.simps)

abbreviation entries_keyed :: "entries \<Rightarrow> bool" where
  "entries_keyed \<equiv> keyed_by (\<lambda>e. alloc_id (e_allocation e))"

lemma entry_allocation_map_of:
  assumes "entries_keyed es"
  shows "a \<in> set (entry_allocations es) \<longleftrightarrow> (\<exists>e. map_of es (alloc_id a) = Some e \<and> e_allocation e = a)"
proof -
  have "distinct (map fst es)" using assms by (simp add: keyed_by_def)
  then have "a \<in> set (entry_allocations es) \<longleftrightarrow> (\<exists>k e. map_of es k = Some e \<and> e_allocation e = a)"
    unfolding entry_allocations_def list.set_map image_iff Bex_def by (simp only: set_al_values) blast
  also have "\<dots> \<longleftrightarrow> (\<exists>e. map_of es (alloc_id a) = Some e \<and> e_allocation e = a)"
    by (blast dest: keyed_by_map_of[OF assms])
  finally show ?thesis .
qed

lemma distinct_entry_ids: "entries_keyed es \<Longrightarrow> distinct (map alloc_id (entry_allocations es))"
proof -
  assume k: "entries_keyed es"
  then have "map alloc_id (entry_allocations es) = map fst es"
    by (auto simp: keyed_by_def entry_allocations_def al_values_def)
  then show ?thesis using k by (simp add: keyed_by_def)
qed

lemma map_of_prune:
  assumes "entries_keyed es"
  shows "map_of (prune_terminal_history uuid_str limit es) ident =
    (if ident \<in> alloc_id ` set (pruned uuid_str limit es) then None else map_of es ident)"
  unfolding prune_filter by (subst set_filter_fst) simp

lemma prune_keeps_live:
  assumes "entries_keyed es" "map_of es ident = Some e" "\<not> is_terminal (alloc_state (e_allocation e))"
  shows "map_of (prune_terminal_history uuid_str limit es) ident = Some e"
proof -
  have "ident \<notin> alloc_id ` set (pruned uuid_str limit es)"
  proof
    assume "ident \<in> alloc_id ` set (pruned uuid_str limit es)"
    then obtain a where "a \<in> set (pruned uuid_str limit es)" "ident = alloc_id a" by blast
    then have "is_terminal (alloc_state a)" "a = e_allocation e"
      using pruned_terminal[of a uuid_str limit es] entry_allocation_map_of[OF assms(1), of a] assms(2)
      by auto
    then show False using assms(3) by simp
  qed
  then show ?thesis using assms by (simp add: map_of_prune)
qed

lemma length_filter_not_in_image:
  assumes "distinct (map fst es)" "set ids \<subseteq> set (map fst es)" "distinct ids"
  shows "length (filter (\<lambda>(k, _). k \<notin> set ids) es) = length es - length ids"
proof -
  have "length (filter (\<lambda>(k, _). k \<in> set ids) es) = length ids"
  proof -
    have "set (map fst (filter (\<lambda>(k, _). k \<in> set ids) es)) = set ids" using assms(2) by force
    moreover have "distinct (map fst (filter (\<lambda>(k, _). k \<in> set ids) es))"
      using assms(1) by (rule distinct_map_filter)
    ultimately have "length (map fst (filter (\<lambda>(k, _). k \<in> set ids) es)) = length ids"
      using assms(3) by (metis distinct_card)
    then show ?thesis by simp
  qed
  moreover have "length (filter (\<lambda>(k, _). k \<in> set ids) es) + length (filter (\<lambda>(k, _). k \<notin> set ids) es) = length es"
    using sum_length_filter_compl[of "\<lambda>(k, _). k \<in> set ids" es] by (simp add: case_prod_unfold)
  ultimately show ?thesis by linarith
qed

lemma length_prune:
  assumes "entries_keyed es"
  shows "length (prune_terminal_history uuid_str limit es) = length es
     - min (length es - limit) (length (filter (\<lambda>a. is_terminal (alloc_state a)) (entry_allocations es)))"
proof -
  let ?ids = "map alloc_id (pruned uuid_str limit es)"
  let ?t = "filter (\<lambda>a. is_terminal (alloc_state a)) (entry_allocations es)"
  have dt: "distinct (map alloc_id ?t)" by (rule distinct_map_filter[OF distinct_entry_ids[OF assms]])
  have "distinct (map alloc_id (sort_key (prune_order uuid_str) ?t))"
    using dt by (simp only: distinct_map distinct_sort set_sort)
  then have d: "distinct ?ids" unfolding pruned_def take_map[symmetric] by (rule distinct_take)
  have sub: "set ?ids \<subseteq> set (map fst es)"
  proof
    fix i assume "i \<in> set ?ids"
    then obtain a where "a \<in> set (pruned uuid_str limit es)" "i = alloc_id a" by auto
    then show "i \<in> set (map fst es)"
      using pruned_terminal[of a uuid_str limit es] entry_allocation_map_of[OF assms, of a]
      by (auto dest!: map_of_SomeD intro: rev_image_eqI)
  qed
  have k: "distinct (map fst es)" using assms by (simp add: keyed_by_def)
  have "length ?ids = min (length es - limit) (length ?t)" unfolding pruned_def by simp
  then show ?thesis
    using length_filter_not_in_image[OF k sub d] unfolding prune_filter by simp
qed

end
