(* ===== verification/Warm.thy ===== *)
theory Warm
  imports Entries
begin

text \<open>
  Warm images, \<open>crates/flanforge-manager/src/warm\<close>: which source an allocation clones
  (\<open>source.rs\<close>, every refusal naming its reason), the quarantine, and what retention may write
  (\<open>retention.rs\<close>).
\<close>

record source_selection =
  sel_source :: clone_source
  sel_warm_generation :: "u64 option"

definition template_source ::
    "profile \<Rightarrow> base_fingerprint option \<Rightarrow> fallback_reason option \<Rightarrow> clone_source" where
  "template_source p fingerprint reason =
     \<lparr>src_name = prof_template p, src_kind = TemplateKind, src_base_fingerprint = fingerprint,
      src_fallback_reason = reason\<rparr>"

definition is_warm_quarantined :: "profile_name \<Rightarrow> ('w, bool) op" where
  "is_warm_quarantined profile = gets (\<lambda>s. profile \<in> set (m_quarantined s))"

definition quarantine_warm :: "profile_name \<Rightarrow> ('w, unit) op" where
  "quarantine_warm profile = modify (\<lambda>s. s\<lparr>m_quarantined := List.insert profile (m_quarantined s)\<rparr>)"

definition ensure_warm_quarantined :: "uuid \<Rightarrow> ('w, unit) op" where
  "ensure_warm_quarantined ident = do {
     got \<leftarrow> get_allocation ident;
     case got of
       Inl _ \<Rightarrow> return ()
     | Inr a \<Rightarrow>
         if_then (is_some_and (\<lambda>source. src_kind source = WarmKind) (alloc_source a)
                  \<and> alloc_state a \<in> {Preparing, Booting})
           (quarantine_warm (req_profile (alloc_request a))) }"

definition missing_record ::
    "'w env \<Rightarrow> vm_name \<Rightarrow> host_machine list \<Rightarrow> ('w, fallback_reason) op" where
  "missing_record E warm listing = do {
     r \<leftarrow> outside (w_is_unclaimed_image E warm listing);
     return (case r of Inr True \<Rightarrow> Unclaimed | Inr False \<Rightarrow> NoRecord | Inl _ \<Rightarrow> Absent) }"

definition warm_source ::
    "'w env \<Rightarrow> profile_name \<Rightarrow> profile \<Rightarrow> base_fingerprint option
      \<Rightarrow> ('w, fallback_reason + source_selection) op" where
  "warm_source E name p fingerprint =
     (case prof_warm_template p of
        None \<Rightarrow> return (Inl NotDeclared)
      | Some warm \<Rightarrow>
          if \<not> w_supports_warm E then return (Inl Unsupported)
          else do {
            quarantined \<leftarrow> is_warm_quarantined name;
            if quarantined then return (Inl Quarantined)
            else do {
              listed \<leftarrow> host_machines E;
              case listed of
                Inl _ \<Rightarrow> return (Inl Absent)
              | Inr listing \<Rightarrow> do {
                  loaded \<leftarrow> images_load E name;
                  case loaded of
                    Inl _ \<Rightarrow> do { reason \<leftarrow> missing_record E warm listing; return (Inl reason) }
                  | Inr None \<Rightarrow> do { reason \<leftarrow> missing_record E warm listing; return (Inl reason) }
                  | Inr (Some r) \<Rightarrow>
                      if img_warm_template r \<noteq> warm then return (Inl Repointed)
                      else if img_state r \<noteq> Promoted then return (Inl NotPromoted)
                      else do {
                        available \<leftarrow> outside (w_warm_availability E p r listing);
                        return (case available of
                          Inl _ \<Rightarrow> Inl Absent
                        | Inr WarmBusy \<Rightarrow> Inl NotStopped
                        | Inr WarmAbsent \<Rightarrow> Inl Absent
                        | Inr WarmReady \<Rightarrow>
                            (case fingerprint of
                               None \<Rightarrow> Inl FingerprintUnavailable
                             | Some f \<Rightarrow>
                                 if \<not> is_fingerprint_match (Some (img_base_fingerprint r)) (Some f)
                                 then Inl FallbackStaleBase
                                 else Inr \<lparr>sel_source = \<lparr>src_name = warm, src_kind = WarmKind,
                                     src_base_fingerprint = Some (img_base_fingerprint r),
                                     src_fallback_reason = None\<rparr>,
                                   sel_warm_generation = Some (img_generation r)\<rparr>)) } } } })"

definition resolve_source ::
    "'w env \<Rightarrow> profile_name \<Rightarrow> profile \<Rightarrow> allocation_mode \<Rightarrow> ('w, source_selection) op" where
  "resolve_source E name p mode = do {
     fingerprint \<leftarrow> outside (w_base_fingerprint E (prof_template p));
     if mode \<noteq> Warm
     then return \<lparr>sel_source = template_source p fingerprint None, sel_warm_generation = None\<rparr>
     else do {
       r \<leftarrow> warm_source E name p fingerprint;
       return (case r of
         Inr selection \<Rightarrow> selection
       | Inl reason \<Rightarrow> \<lparr>sel_source = template_source p fingerprint (Some reason),
                        sel_warm_generation = None\<rparr>) } }"

subsection \<open>Retention\<close>

record retention_plan_of =
  plan_warm_template :: vm_name
  plan_generation :: u64
  plan_previous :: "warm_generation option"

definition record_warm_image :: "'w env \<Rightarrow> warm_image_record \<Rightarrow> ('w, manager_error + unit) op" where
  "record_warm_image E r = do {
     _ \<leftarrow> if_then (img_state r = Promoted)
       (modify (\<lambda>s. s\<lparr>m_quarantined := removeAll (img_profile r) (m_quarantined s)\<rparr>));
     map_err StoreErr (images_save E r) }"

definition ensure_warm_reverted ::
    "'w env \<Rightarrow> profile_name \<Rightarrow> vm_name \<Rightarrow> warm_generation option \<Rightarrow> ('w, manager_error + unit) op" where
  "ensure_warm_reverted E profile warm previous =
     map_err StoreErr
       (case previous of
          Some g \<Rightarrow> images_save E \<lparr>img_profile = profile, img_warm_template = warm,
            img_generation = gen_generation g, img_base_fingerprint = gen_base_fingerprint g,
            img_produced_by = gen_produced_by g, img_produced_at_unix = gen_produced_at_unix g,
            img_state = Promoted, img_previous = None\<rparr>
        | None \<Rightarrow> images_remove E profile)"

definition retention_plan ::
    "'w env \<Rightarrow> allocation \<Rightarrow> ('w, manager_error + retention_plan_of option) op" where
  "retention_plan E a =
     (if \<not> is_retention_eligible a then return (Inr None)
      else do {
        c \<leftarrow> current_config;
        case lookup_profile c (req_profile (alloc_request a)) of
          None \<Rightarrow> return (Inr None)
        | Some p \<Rightarrow>
            (case prof_warm_template p of
               None \<Rightarrow> return (Inr None)
             | Some warm \<Rightarrow>
                 if prof_regeneration_workflow p = None then return (Inr None)
                 else if \<not> is_some_and (\<lambda>source. src_name source = prof_template p) (alloc_source a)
                 then return (Inr None)
                 else bind_res (map_err StoreErr (images_load E (req_profile (alloc_request a)))) (\<lambda>r.
                   bind_res (map_err WorkerErr (host_machines E)) (\<lambda>listing.
                     bind_res (if r = None
                               then map_err WorkerErr (outside (w_is_unclaimed_image E warm listing))
                               else return (Inr False)) (\<lambda>unclaimed.
                       return (Inr (if unclaimed then None
                         else Some \<lparr>plan_warm_template = warm,
                           plan_generation = (case r of None \<Rightarrow> 1 | Some r \<Rightarrow> img_generation r + 1),
                           plan_previous = map_option (\<lambda>r. \<lparr>gen_generation = img_generation r,
                             gen_base_fingerprint = img_base_fingerprint r,
                             gen_produced_by = img_produced_by r,
                             gen_produced_at_unix = img_produced_at_unix r\<rparr>) r\<rparr>))))) ) })"

text \<open>The reporter a worker holds forwards to these and to the updates of its allocation.\<close>

definition resolve_clone_source :: "'w env \<Rightarrow> uuid \<Rightarrow> profile \<Rightarrow> ('w, manager_error + source_selection) op" where
  "resolve_clone_source E ident p =
     bind_res (get_allocation ident) (\<lambda>a. do {
       selection \<leftarrow> resolve_source E (req_profile (alloc_request a)) p (alloc_mode a);
       return (Inr selection) })"

definition reporter_retention_plan ::
    "'w env \<Rightarrow> uuid \<Rightarrow> ('w, manager_error + retention_plan_of option) op" where
  "reporter_retention_plan E ident = bind_res (get_allocation ident) (retention_plan E)"

subsection \<open>Frames\<close>

lemma keeps_probe_host:
  "(\<And>s w. f (s\<lparr>m_world := w\<rparr>) = f s) \<Longrightarrow> (\<And>s p. f (s\<lparr>m_probe := p\<rparr>) = f s) \<Longrightarrow> keeps f (probe_host E)"
  unfolding probe_host_def by (intro frame_intros keeps_modify; simp)

lemma keeps_host_machines [frame_intros]:
  "(\<And>s w. f (s\<lparr>m_world := w\<rparr>) = f s) \<Longrightarrow> (\<And>s p. f (s\<lparr>m_probe := p\<rparr>) = f s) \<Longrightarrow> keeps f (host_machines E)"
  unfolding host_machines_def by (intro frame_intros keeps_probe_host; simp)

lemma evolves_keeps:
  assumes "keeps (\<lambda>s. (m_entries s, m_store s, m_config s, m_tuning s, m_is_closing s,
      m_teardown_deadline s, m_hot s, m_images s)) m"
  shows "rel_op evolves m"
  unfolding rel_op_def using assms by (auto simp: keeps_def intro!: evolves_same)

lemma evolves_warm [evolve_ops]:
  "rel_op evolves (host_machines E)" "rel_op evolves (effective_size E z profile source)"
  "rel_op evolves (is_warm_quarantined profile)" "rel_op evolves (quarantine_warm profile)"
  "rel_op evolves (missing_record E warm listing)"
  unfolding effective_size_def is_warm_quarantined_def quarantine_warm_def missing_record_def
  by (rule evolves_keeps; intro frame_intros keeps_modify; simp)+

lemma evolves_warm_ops [evolve_ops]:
  "rel_op evolves (ensure_warm_quarantined ident)" "rel_op evolves (warm_source E name p fingerprint)"
  "rel_op evolves (resolve_source E name p mode)"
  unfolding ensure_warm_quarantined_def resolve_source_def warm_source_def
  by (intro evo.rel_intros evolve_ops)+

lemma evolves_retention [evolve_ops]:
  "rel_op evolves (record_warm_image E r)" "rel_op evolves (ensure_warm_reverted E profile warm previous)"
  "rel_op evolves (retention_plan E a)" "rel_op evolves (resolve_clone_source E ident p)"
  "rel_op evolves (reporter_retention_plan E ident)"
  unfolding record_warm_image_def ensure_warm_reverted_def retention_plan_def resolve_clone_source_def
    reporter_retention_plan_def
  by (intro evo.rel_intros evolve_ops evolves_map_err evo.rel_modify evolves_same; simp)+

end
