(* ===== verification/Config_Reload.thy ===== *)
theory Config_Reload
  imports Manager_State Config_Validate
begin

text \<open>
  Replacing the running configuration: which fields only a restart applies
  (\<open>crates/flanforge-core/src/config/reload.rs\<close>), which change of a profile invalidates a
  pool machine, and the handle that validates and swaps
  (\<open>crates/flanforge-manager/src/config_reload.rs\<close>).
\<close>

definition SERVICE_DEFINITION_FIELDS :: "string list" where
  "SERVICE_DEFINITION_FIELDS = [''server.shutdown_grace_seconds'', ''db.db_path'']"

definition is_service_definition_field :: "string \<Rightarrow> bool" where
  "is_service_definition_field f \<longleftrightarrow> f \<in> set SERVICE_DEFINITION_FIELDS"

definition is_hot_draining_change :: "profile \<Rightarrow> profile \<Rightarrow> bool" where
  "is_hot_draining_change old new \<longleftrightarrow> prof_cpu_count old \<noteq> prof_cpu_count new
     \<or> prof_memory_mb old \<noteq> prof_memory_mb new \<or> prof_storage_mb old \<noteq> prof_storage_mb new
     \<or> prof_network old \<noteq> prof_network new \<or> prof_template old \<noteq> prof_template new
     \<or> prof_warm_template old \<noteq> prof_warm_template new \<or> prof_hot old \<noteq> prof_hot new"

definition server_differences :: "config \<Rightarrow> config \<Rightarrow> (bool \<times> string) list" where
  "server_differences old new =
     (let old = cfg_server old; new = cfg_server new
      in [(srv_listen old \<noteq> srv_listen new, ''server.listen''),
          (srv_request_body_limit old \<noteq> srv_request_body_limit new, ''server.request_body_limit_bytes''),
          (srv_allocation_wait old \<noteq> srv_allocation_wait new, ''server.allocation_wait_seconds''),
          (srv_shutdown_grace old \<noteq> srv_shutdown_grace new, ''server.shutdown_grace_seconds'')])"

definition db_differences :: "config \<Rightarrow> config \<Rightarrow> (bool \<times> string) list" where
  "db_differences old new = [(cfg_db_path old \<noteq> cfg_db_path new, ''db.db_path'')]"

definition webui_differences :: "config \<Rightarrow> config \<Rightarrow> (bool \<times> string) list" where
  "webui_differences old new =
     (let old = cfg_webui old; new = cfg_webui new
      in [(web_enabled old \<noteq> web_enabled new, ''webui.enabled''),
          (web_session_ttl_seconds old \<noteq> web_session_ttl_seconds new, ''webui.session_ttl_seconds''),
          (web_request_body_limit old \<noteq> web_request_body_limit new, ''webui.request_body_limit_bytes''),
          (web_dev_dist_dir old \<noteq> web_dev_dist_dir new, ''webui.dev_dist_dir''),
          (web_authdb_enabled old \<noteq> web_authdb_enabled new, ''webui.authdb.enabled''),
          (web_oidc old \<noteq> web_oidc new, ''webui.oidc'')])"

definition endpoint_differences :: "config \<Rightarrow> config \<Rightarrow> (bool \<times> string) list" where
  "endpoint_differences old new =
     (let old_oidc = cfg_oidc old; new_oidc = cfg_oidc new;
          old_forgejo = cfg_forgejo old; new_forgejo = cfg_forgejo new
      in [(oidc_issuer old_oidc \<noteq> oidc_issuer new_oidc, ''oidc.issuer''),
          (oidc_audience old_oidc \<noteq> oidc_audience new_oidc, ''oidc.audience''),
          (oidc_jwks_url old_oidc \<noteq> oidc_jwks_url new_oidc, ''oidc.jwks_url''),
          (oidc_jwks_cache_seconds old_oidc \<noteq> oidc_jwks_cache_seconds new_oidc, ''oidc.jwks_cache_seconds''),
          (oidc_clock_skew_seconds old_oidc \<noteq> oidc_clock_skew_seconds new_oidc, ''oidc.clock_skew_seconds''),
          (fj_api_url old_forgejo \<noteq> fj_api_url new_forgejo, ''forgejo.api_url''),
          (fj_api_token_file old_forgejo \<noteq> fj_api_token_file new_forgejo, ''forgejo.api_token_file''),
          (fj_http_timeout_seconds old_forgejo \<noteq> fj_http_timeout_seconds new_forgejo,
             ''forgejo.http_timeout_seconds'')])"

definition runtime_differences :: "config \<Rightarrow> config \<Rightarrow> (bool \<times> string) list" where
  "runtime_differences old new =
     (let old = cfg_runtime old; new = cfg_runtime new
      in [(rt_state_dir old \<noteq> rt_state_dir new, ''runtime.state_dir''),
          (rt_backend old \<noteq> rt_backend new, ''runtime.backend''),
          (rt_ssh_path old \<noteq> rt_ssh_path new, ''runtime.ssh_path''),
          (rt_scp_path old \<noteq> rt_scp_path new, ''runtime.scp_path''),
          (rt_vm_prefix old \<noteq> rt_vm_prefix new, ''runtime.vm_prefix''),
          (rt_max_running_vms old \<noteq> rt_max_running_vms new, ''runtime.max_running_vms''),
          (rt_poll_seconds old \<noteq> rt_poll_seconds new, ''runtime.poll_seconds''),
          (rt_reap_interval_hours old = 0 \<and> rt_reap_interval_hours new \<noteq> 0,
             ''runtime.reap_interval_hours'')])"

definition is_ssh_field_changed ::
    "guest_ssh_config option \<Rightarrow> guest_ssh_config option \<Rightarrow> (guest_ssh_config \<Rightarrow> 'a) \<Rightarrow> bool" where
  "is_ssh_field_changed old new field =
     (case (old, new) of (Some old, Some new) \<Rightarrow> field old \<noteq> field new | _ \<Rightarrow> False)"

definition guest_differences :: "config \<Rightarrow> config \<Rightarrow> (bool \<times> string) list" where
  "guest_differences old new =
     (let old_guest = cfg_guest old; new_guest = cfg_guest new;
          old_ts = cfg_tailscale old; new_ts = cfg_tailscale new;
          old_ssh = guest_ssh old_guest; new_ssh = guest_ssh new_guest
      in [(guest_channel old_guest \<noteq> guest_channel new_guest, ''guest.channel''),
          (guest_runner_user old_guest \<noteq> guest_runner_user new_guest, ''guest.runner_user''),
          (guest_privileged_user old_guest \<noteq> guest_privileged_user new_guest, ''guest.privileged_user''),
          (guest_forgejo_runner_path old_guest \<noteq> guest_forgejo_runner_path new_guest,
             ''guest.forgejo_runner_path''),
          ((old_ssh \<noteq> None) \<noteq> (new_ssh \<noteq> None), ''guest.ssh''),
          (is_ssh_field_changed old_ssh new_ssh ssh_identity_file, ''guest.ssh.identity_file''),
          (is_ssh_field_changed old_ssh new_ssh ssh_privileged_identity_file,
             ''guest.ssh.privileged_identity_file''),
          (is_ssh_field_changed old_ssh new_ssh ssh_known_hosts_file, ''guest.ssh.known_hosts_file''),
          (is_ssh_field_changed old_ssh new_ssh ssh_host_key_alias, ''guest.ssh.host_key_alias''),
          (is_ssh_field_changed old_ssh new_ssh ssh_connect_timeout, ''guest.ssh.connect_timeout_seconds''),
          (is_ssh_field_changed old_ssh new_ssh ssh_verify_host_key, ''guest.ssh.verify_host_key''),
          (ts_enabled old_ts \<noteq> ts_enabled new_ts, ''tailscale.enabled''),
          (ts_preauth_key_file old_ts \<noteq> ts_preauth_key_file new_ts, ''tailscale.preauth_key_file''),
          (ts_login_server old_ts \<noteq> ts_login_server new_ts, ''tailscale.login_server''),
          (ts_hostname old_ts \<noteq> ts_hostname new_ts, ''tailscale.hostname''),
          (ts_extra_args old_ts \<noteq> ts_extra_args new_ts, ''tailscale.extra_args'')])"

definition restart_only_differences :: "config \<Rightarrow> config \<Rightarrow> string list" where
  "restart_only_differences old new =
     map snd (filter fst
       (server_differences old new @ db_differences old new @ webui_differences old new
        @ endpoint_differences old new @ runtime_differences old new @ guest_differences old new))"

subsection \<open>The handle\<close>

definition config_handle_new :: "config \<Rightarrow> config_handle" where
  "config_handle_new c = \<lparr>ch_startup = c, ch_current = c, ch_generation = 0\<rparr>"

definition restart_pending :: "config_handle \<Rightarrow> string list" where
  "restart_pending h = restart_only_differences (ch_startup h) (ch_current h)"

text \<open>The generation counter is a wrapping atomic; \<open>shell_words\<close> is the splitter validation uses.\<close>

definition config_apply ::
    "(string \<Rightarrow> string list option) \<Rightarrow> config \<Rightarrow> config_handle \<Rightarrow> (config_error + u64) \<times> config_handle" where
  "config_apply shell_words next h =
     (case ensure_valid shell_words next of
        Inl e \<Rightarrow> (Inl e, h)
      | Inr _ \<Rightarrow>
          let h' = h\<lparr>ch_current := next, ch_generation := ch_generation h + 1\<rparr>
          in (Inr (ch_generation h'), h'))"

text \<open>Profiles a reload invalidates: changed past what a running guest absorbs, or gone.\<close>

definition drained_profiles :: "config \<Rightarrow> config \<Rightarrow> profile_name list" where
  "drained_profiles previous next =
     map fst (filter (\<lambda>(name, p).
       case lookup_profile next name of None \<Rightarrow> True | Some replacement \<Rightarrow> is_hot_draining_change p replacement)
       (cfg_profiles previous))"

subsection \<open>Nothing restart-only changes silently\<close>

text \<open>The fields a reload applies, copied from one configuration onto another.\<close>

definition with_reloadable :: "config \<Rightarrow> config \<Rightarrow> config" where
  "with_reloadable old new = old\<lparr>cfg_logging := cfg_logging new, cfg_profiles := cfg_profiles new,
     cfg_webui := (cfg_webui old)\<lparr>web_public_read_only := web_public_read_only (cfg_webui new)\<rparr>,
     cfg_runtime := (cfg_runtime old)\<lparr>rt_max_hot_vms := rt_max_hot_vms (cfg_runtime new),
       rt_reap_interval_hours := rt_reap_interval_hours (cfg_runtime new),
       rt_host_cpu_count := rt_host_cpu_count (cfg_runtime new),
       rt_host_memory_mb := rt_host_memory_mb (cfg_runtime new),
       rt_host_storage_mb := rt_host_storage_mb (cfg_runtime new)\<rparr>\<rparr>"

lemma restart_only_Nil:
  "restart_only_differences old new = [] \<longleftrightarrow>
     list_all (\<lambda>(differs, _). \<not> differs)
       (server_differences old new @ db_differences old new @ webui_differences old new
        @ endpoint_differences old new @ runtime_differences old new @ guest_differences old new)"
  by (simp add: restart_only_differences_def filter_empty_conv list_all_iff case_prod_unfold ball_Un)

lemma ssh_unchanged:
  assumes "(a \<noteq> None) = (b \<noteq> None)" "\<not> is_ssh_field_changed a b ssh_identity_file"
    "\<not> is_ssh_field_changed a b ssh_privileged_identity_file"
    "\<not> is_ssh_field_changed a b ssh_known_hosts_file" "\<not> is_ssh_field_changed a b ssh_host_key_alias"
    "\<not> is_ssh_field_changed a b ssh_connect_timeout" "\<not> is_ssh_field_changed a b ssh_verify_host_key"
  shows "a = b"
  using assms by (cases a; cases b) (auto simp: is_ssh_field_changed_def intro: guest_ssh_config.equality)

lemma section_unchanged:
  "list_all (\<lambda>(d, _). \<not> d) (server_differences old new) \<Longrightarrow> cfg_server old = cfg_server new"
  "list_all (\<lambda>(d, _). \<not> d) (db_differences old new) \<Longrightarrow> cfg_db_path old = cfg_db_path new"
  "list_all (\<lambda>(d, _). \<not> d) (webui_differences old new) \<Longrightarrow>
     (cfg_webui old)\<lparr>web_public_read_only := web_public_read_only (cfg_webui new)\<rparr> = cfg_webui new"
  "list_all (\<lambda>(d, _). \<not> d) (endpoint_differences old new) \<Longrightarrow>
     cfg_oidc old = cfg_oidc new \<and> cfg_forgejo old = cfg_forgejo new"
  "list_all (\<lambda>(d, _). \<not> d) (runtime_differences old new) \<Longrightarrow>
     (cfg_runtime old)\<lparr>rt_max_hot_vms := rt_max_hot_vms (cfg_runtime new),
       rt_reap_interval_hours := rt_reap_interval_hours (cfg_runtime new),
       rt_host_cpu_count := rt_host_cpu_count (cfg_runtime new),
       rt_host_memory_mb := rt_host_memory_mb (cfg_runtime new),
       rt_host_storage_mb := rt_host_storage_mb (cfg_runtime new)\<rparr> = cfg_runtime new"
  by (auto simp: server_differences_def db_differences_def webui_differences_def
      endpoint_differences_def runtime_differences_def Let_def
      intro: server_config.equality webui_config.equality oidc_config.equality
        forgejo_config.equality runtime_config.equality)

lemma guest_unchanged:
  assumes "list_all (\<lambda>(d, _). \<not> d) (guest_differences old new)"
  shows "cfg_guest old = cfg_guest new \<and> cfg_tailscale old = cfg_tailscale new"
proof -
  have "guest_ssh (cfg_guest old) = guest_ssh (cfg_guest new)"
    by (rule ssh_unchanged) (use assms in \<open>auto simp: guest_differences_def Let_def\<close>)
  then show ?thesis
    using assms
    by (auto simp: guest_differences_def Let_def intro: guest_config.equality tailscale_config.equality)
qed

end
