(* ===== verification/Hot_Pool.thy ===== *)
theory Hot_Pool
  imports Hot_Select Warm Config_Reload
begin

text \<open>
  The pool of retained machines, \<open>crates/flanforge-manager/src/hot\<close>: the context of a claim
  (\<open>model.rs\<close>), destroying a machine and retiring its record (\<open>evict.rs\<close>), the lifecycle
  bounds (\<open>bounds.rs\<close>), readiness of a claimed machine (\<open>ready.rs\<close>), releasing one after its
  job (\<open>recycle.rs\<close>), reloads and operator commands (\<open>reload.rs\<close>), and yielding a slot under
  pressure (\<open>yield.rs\<close>).
\<close>

subsection \<open>Budgets and contexts\<close>

text \<open>\<open>teardown_budget\<close> of \<open>shutdown.rs\<close>: the allowance, under the deadline of a shutdown.\<close>

definition teardown_budget :: "nat \<Rightarrow> ('w, cleanup_budget) op" where
  "teardown_budget allowance = gets (\<lambda>s.
     case m_teardown_deadline s of
       None \<Rightarrow> budget_allow allowance
     | Some deadline \<Rightarrow> budget_until (budget_allow allowance) deadline)"

abbreviation from_secs :: "u64 \<Rightarrow> nat" where
  "from_secs n \<equiv> unat n * 1000"

definition promoted_generation :: "'w env \<Rightarrow> profile_name \<Rightarrow> ('w, u64 option) op" where
  "promoted_generation E name = do {
     loaded \<leftarrow> images_load E name;
     return (case loaded of
       Inr (Some r) \<Rightarrow> if img_state r = Promoted then Some (img_generation r) else None
     | _ \<Rightarrow> None) }"

definition hot_context_op ::
    "'w env \<Rightarrow> config \<Rightarrow> profile_name \<Rightarrow> profile \<Rightarrow> hot_lane \<Rightarrow> u64 option \<Rightarrow> ('w, hot_context option) op" where
  "hot_context_op E c name p lane age_seconds =
     (case enabled_hot p of
        None \<Rightarrow> return None
      | Some hot \<Rightarrow>
          if rt_max_hot_vms (cfg_runtime c) = 0 \<or> \<not> is_lane_admitted (hc_lanes hot) lane then return None
          else if \<not> w_supports_hot E then return None
          else do {
            fingerprint \<leftarrow> outside (w_base_fingerprint E (prof_template p));
            generation \<leftarrow> promoted_generation E name;
            return (Some \<lparr>ctx_hot = hot, ctx_name = name, ctx_lane = lane,
              ctx_fingerprint = fingerprint, ctx_warm_generation = generation,
              ctx_max_hot_vms = rt_max_hot_vms (cfg_runtime c), ctx_age_seconds = age_seconds\<rparr>) })"

record hot_guest_status =
  hs_vm_name :: vm_name
  hs_profile :: profile_name
  hs_lane :: hot_lane
  hs_state :: hot_state
  hs_age_seconds :: u64
  hs_idle_seconds :: u64
  hs_jobs_served :: u32
  hs_claimed_by :: "uuid option"
  hs_drain_reason :: "hot_drain_reason option"
  hs_is_machine_present :: bool

definition hot_present_names :: "'w env \<Rightarrow> ('w, string list) op" where
  "hot_present_names E = do {
     listed \<leftarrow> host_machines E;
     return (map mach_name (filter (\<lambda>m. mach_state m = MachineRunning \<and> mach_ownership m = Owned)
       (unwrap_or [] (res_ok listed)))) }"

definition hot_list :: "'w env \<Rightarrow> ('w, hot_guest_status list) op" where
  "hot_list E = do {
     now \<leftarrow> outside (x_unix_time E);
     loaded \<leftarrow> hot_load_all E;
     present \<leftarrow> hot_present_names E;
     return (sort_key (\<lambda>h. (- 1 - hs_age_seconds h, vm_str (hs_vm_name h)))
       (map (\<lambda>g. \<lparr>hs_vm_name = hot_vm g, hs_profile = hot_profile g, hs_lane = hot_lane_of g,
          hs_state = hot_state_of g, hs_age_seconds = saturating_sub now (hot_booted_at g),
          hs_idle_seconds = saturating_sub now (hot_updated_at g),
          hs_jobs_served = hot_jobs_served g, hs_claimed_by = hot_claimed_by g,
          hs_drain_reason = hot_drain_reason_of g,
          hs_is_machine_present = (vm_str (hot_vm g) \<in> set present)\<rparr>)
         (unwrap_or [] (res_ok loaded)))) }"

subsection \<open>Eviction\<close>

definition hot_eviction_seconds :: "config \<Rightarrow> u64" where
  "hot_eviction_seconds c =
     max (case map prof_cleanup_timeout (al_values (cfg_profiles c)) of
            [] \<Rightarrow> LIBVIRT_MIN_CLEANUP_TIMEOUT_SECONDS
          | t # ts \<Rightarrow> foldl max t ts)
       LIBVIRT_MIN_CLEANUP_TIMEOUT_SECONDS"

definition ensure_hot_eviction_pending :: "'w env \<Rightarrow> hot_guest \<Rightarrow> hot_drain_reason \<Rightarrow> ('w, unit) op" where
  "ensure_hot_eviction_pending E g reason =
     (if hot_drain_reason_of g = Some reason then return ()
      else do { _ \<leftarrow> hot_save E (g\<lparr>hot_drain_reason_of := Some reason\<rparr>); return () })"

definition hot_drain_pending :: "'w env \<Rightarrow> vm_name \<Rightarrow> ('w, hot_drain_reason option) op" where
  "hot_drain_pending E name = do {
     loaded \<leftarrow> hot_load E name;
     return (case loaded of Inr (Some g) \<Rightarrow> hot_drain_reason_of g | _ \<Rightarrow> None) }"

definition ensure_hot_evicted :: "'w env \<Rightarrow> hot_guest \<Rightarrow> hot_drain_reason \<Rightarrow> ('w, unit) op" where
  "ensure_hot_evicted E g reason = do {
     c \<leftarrow> current_config;
     budget \<leftarrow> teardown_budget (from_secs (hot_eviction_seconds c));
     r \<leftarrow> outside (w_ensure_hot_evicted E g budget);
     case r of
       Inl _ \<Rightarrow> ensure_hot_eviction_pending E g reason
     | Inr _ \<Rightarrow> do {
         _ \<leftarrow> hot_remove E (hot_vm g);
         emit E HotEvicted None (Some (hot_vm g)) (Some (hot_profile g)) } }"

definition ensure_hot_forgotten :: "'w env \<Rightarrow> hot_guest \<Rightarrow> ('w, unit) op" where
  "ensure_hot_forgotten E g = do {
     _ \<leftarrow> hot_remove E (hot_vm g);
     emit E HotEvicted None (Some (hot_vm g)) (Some (hot_profile g)) }"

subsection \<open>Bounds\<close>

definition ensure_hot_drained :: "'w env \<Rightarrow> hot_guest \<Rightarrow> hot_drain_reason \<Rightarrow> ('w, unit) op" where
  "ensure_hot_drained E g reason =
     (if hot_state_of g = Draining then return ()
      else do {
        now \<leftarrow> outside (x_unix_time E);
        case ensure_state g Draining now of
          Inl _ \<Rightarrow> ensure_hot_eviction_pending E g reason
        | Inr d \<Rightarrow> do {
            let draining = d\<lparr>hot_drain_reason_of := Some reason\<rparr>;
            saved \<leftarrow> hot_save E draining;
            case saved of
              Inl _ \<Rightarrow> return ()
            | Inr _ \<Rightarrow> if_then (hot_claimed_by draining = None) (ensure_hot_evicted E draining reason) } })"

definition hot_claimed_names :: "('w, string list) op" where
  "hot_claimed_names = gets (\<lambda>s. live_hot_names (m_entries s))"

definition ensure_hot_drains_finished :: "'w env \<Rightarrow> hot_guest list \<Rightarrow> ('w, unit) op" where
  "ensure_hot_drains_finished E guests = do {
     claimed \<leftarrow> hot_claimed_names;
     for_each (\<lambda>g. ensure_hot_evicted E g (unwrap_or OperatorRequest (hot_drain_reason_of g)))
       (filter (\<lambda>g. vm_str (hot_vm g) \<notin> set claimed) (filter (\<lambda>g. hot_state_of g = Draining) guests)) }"

definition ensure_hot_evictions_retried :: "'w env \<Rightarrow> hot_guest list \<Rightarrow> ('w, unit) op" where
  "ensure_hot_evictions_retried E guests = do {
     claimed \<leftarrow> hot_claimed_names;
     for_each (\<lambda>g. ensure_hot_evicted E g (unwrap_or OperatorRequest (hot_drain_reason_of g)))
       (filter (\<lambda>g. hot_drain_reason_of g \<noteq> None)
         (filter (\<lambda>g. vm_str (hot_vm g) \<notin> set claimed)
           (filter (\<lambda>g. hot_claimed_by g = None)
             (filter (\<lambda>g. hot_state_of g \<noteq> Draining) guests)))) }"

definition ensure_hot_pool_drained :: "'w env \<Rightarrow> hot_guest list \<Rightarrow> ('w, unit) op" where
  "ensure_hot_pool_drained E guests = do {
     _ \<leftarrow> for_each (\<lambda>g. ensure_hot_drained E g ConfigReloaded)
       (filter (\<lambda>g. \<not> hot_is_terminal (hot_state_of g)) guests);
     _ \<leftarrow> ensure_hot_drains_finished E guests;
     ensure_hot_evictions_retried E guests }"

fun lane_rank :: "hot_lane \<Rightarrow> nat" where
  "lane_rank Protected = 0"
| "lane_rank Unprotected = 1"

text \<open>The ordered set of the lanes that hold an idle machine.\<close>

definition idle_lanes :: "hot_guest list \<Rightarrow> (profile_name \<times> hot_lane) list" where
  "idle_lanes guests = sort_key (\<lambda>(name, lane). (name, lane_rank lane))
     (remdups (map (\<lambda>g. (hot_profile g, hot_lane_of g)) (filter (\<lambda>g. hot_state_of g = Idle) guests)))"

definition live_hot :: "config \<Rightarrow> profile_name \<Rightarrow> hot_config option" where
  "live_hot c name = (case lookup_profile c name of None \<Rightarrow> None | Some p \<Rightarrow> enabled_hot p)"

definition ensure_hot_surplus_retired :: "'w env \<Rightarrow> hot_guest list \<Rightarrow> config \<Rightarrow> ('w, unit) op" where
  "ensure_hot_surplus_retired E guests c =
     for_each (\<lambda>(name, lane).
       case live_hot c name of
         None \<Rightarrow> return ()
       | Some hot \<Rightarrow> for_each (\<lambda>g. ensure_hot_drained E g MaxIdle) (surplus_idle guests name lane hot))
       (idle_lanes guests)"

definition ensure_guest_bounded :: "'w env \<Rightarrow> config \<Rightarrow> u64 \<Rightarrow> hot_guest \<Rightarrow> ('w, unit) op" where
  "ensure_guest_bounded E c now g =
     (if hot_is_terminal (hot_state_of g) then return ()
      else case live_hot c (hot_profile g) of
          None \<Rightarrow> ensure_hot_drained E g ConfigReloaded
        | Some hot \<Rightarrow> do {
            fingerprint \<leftarrow> (case lookup_profile c (hot_profile g) of
                Some p \<Rightarrow> outside (w_base_fingerprint E (prof_template p))
              | None \<Rightarrow> return None);
            generation \<leftarrow> promoted_generation E (hot_profile g);
            case drain_reason g \<lparr>pol_hot = hot, pol_fingerprint = fingerprint,
                pol_warm_generation = generation, pol_now = now\<rparr> of
              Some reason \<Rightarrow> ensure_hot_drained E g reason
            | None \<Rightarrow> return () })"

definition ensure_hot_bounded :: "'w env \<Rightarrow> ('w, unit) op" where
  "ensure_hot_bounded E = do {
     c \<leftarrow> current_config;
     loaded \<leftarrow> hot_load_all E;
     case loaded of
       Inl _ \<Rightarrow> return ()
     | Inr guests \<Rightarrow> do {
         now \<leftarrow> outside (x_unix_time E);
         if rt_max_hot_vms (cfg_runtime c) = 0 then ensure_hot_pool_drained E guests
         else do {
           _ \<leftarrow> for_each (ensure_guest_bounded E c now) guests;
           _ \<leftarrow> ensure_hot_surplus_retired E guests c;
           _ \<leftarrow> ensure_hot_drains_finished E guests;
           ensure_hot_evictions_retried E guests } } }"

subsection \<open>Readiness of a claimed machine\<close>

definition ensure_hot_ready :: "'w env \<Rightarrow> allocation \<Rightarrow> ('w, worker_error + unit) op" where
  "ensure_hot_ready E a =
     (case hot_vm_name (alloc_origin a) of
        None \<Rightarrow> return (Inr ())
      | Some name \<Rightarrow> do {
          loaded \<leftarrow> hot_load E name;
          case loaded of
            Inl _ \<Rightarrow> return (Inl (worker_error_new (x_error_text E (StoreErr DbError))))
          | Inr None \<Rightarrow>
              return (Inl (worker_error_new ''the hot guest record this allocation claimed is gone''))
          | Inr (Some g) \<Rightarrow> do {
              moved \<leftarrow> transition_op E (alloc_id a) Preparing;
              case moved of
                Inl err \<Rightarrow> return (Inl (worker_error_new (x_error_text E err)))
              | Inr _ \<Rightarrow> do {
                  live \<leftarrow> outside (w_is_hot_live E g);
                  if live then return (Inr ())
                  else do {
                    _ \<leftarrow> ensure_hot_evicted E g MachineGone;
                    return (Inl (worker_error_new ''the claimed hot guest is no longer live'')) } } } })"

subsection \<open>Release\<close>

definition hot_reset_of :: "hot_config \<Rightarrow> ('w, hot_reset) op" where
  "hot_reset_of hot = do {
     budget \<leftarrow> teardown_budget (from_secs (hc_reset_timeout_seconds hot));
     return \<lparr>reset_simulator = hc_simulator_reset hot, reset_budget = budget\<rparr> }"

definition ensure_hot_gated :: "'w env \<Rightarrow> hot_guest \<Rightarrow> profile \<Rightarrow> hot_reset option \<Rightarrow> ('w, unit) op" where
  "ensure_hot_gated E g p already_reset =
     (case enabled_hot p of
        None \<Rightarrow> ensure_hot_evicted E g ConfigReloaded
      | Some hot \<Rightarrow> do {
          gate \<leftarrow> (case already_reset of
              Some _ \<Rightarrow> return (Inr ())
            | None \<Rightarrow> do { reset \<leftarrow> hot_reset_of hot; outside (w_ensure_hot_reset E g reset) });
          case gate of
            Inl _ \<Rightarrow> ensure_hot_evicted E g ResetFailed
          | Inr _ \<Rightarrow> do {
              pending \<leftarrow> hot_drain_pending E (hot_vm g);
              case pending of
                Some reason \<Rightarrow> ensure_hot_evicted E g reason
              | None \<Rightarrow> do {
                  now \<leftarrow> outside (x_unix_time E);
                  case ensure_state g Idle now of
                    Inl _ \<Rightarrow> ensure_hot_evicted E g ResetFailed
                  | Inr idle \<Rightarrow> do {
                      saved \<leftarrow> hot_save E idle;
                      case saved of
                        Inl _ \<Rightarrow> ensure_hot_evicted E idle ResetFailed
                      | Inr _ \<Rightarrow> do {
                          _ \<leftarrow> emit E HotRecycled None (Some (hot_vm g)) (Some (hot_profile g));
                          ensure_hot_bounded E } } } } })"

definition ensure_hot_recycled :: "'w env \<Rightarrow> allocation \<Rightarrow> vm_name \<Rightarrow> profile \<Rightarrow> ('w, unit) op" where
  "ensure_hot_recycled E a name p = do {
     loaded \<leftarrow> hot_load E name;
     case loaded of
       Inl _ \<Rightarrow> return ()
     | Inr None \<Rightarrow> return ()
     | Inr (Some g) \<Rightarrow>
         if hot_claimed_by g \<noteq> Some (alloc_id a) then return ()
         else do {
           now \<leftarrow> outside (x_unix_time E);
           case ensure_released g now of
             Inl _ \<Rightarrow> ensure_hot_evicted E g ResetFailed
           | Inr released \<Rightarrow> do {
               saved \<leftarrow> hot_save E released;
               case saved of
                 Inl _ \<Rightarrow> ensure_hot_evicted E released ResetFailed
               | Inr _ \<Rightarrow> ensure_hot_gated E released p None } } }"

definition ensure_hot_retained_op :: "'w env \<Rightarrow> allocation \<Rightarrow> profile \<Rightarrow> hot_lane \<Rightarrow> ('w, unit) op" where
  "ensure_hot_retained_op E a p lane =
     (if \<not> alloc_vm_created a then return ()
      else case enabled_hot p of
          None \<Rightarrow> return ()
        | Some hot \<Rightarrow> do {
            loaded \<leftarrow> hot_load E (alloc_vm_name a);
            case loaded of
              Inr (Some _) \<Rightarrow> return ()
            | _ \<Rightarrow> do {
                now \<leftarrow> outside (x_unix_time E);
                case retained_record a lane now of
                  None \<Rightarrow> return ()
                | Some g \<Rightarrow> do {
                    saved \<leftarrow> hot_save E g;
                    case saved of
                      Inl _ \<Rightarrow> return ()
                    | Inr _ \<Rightarrow> do {
                        reset \<leftarrow> hot_reset_of hot;
                        kept \<leftarrow> outside (w_ensure_hot_retained E g a p reset);
                        case kept of
                          Inl _ \<Rightarrow> do {
                            removed \<leftarrow> hot_remove E (hot_vm g);
                            case removed of
                              Inl _ \<Rightarrow> ensure_hot_eviction_pending E g ResetFailed
                            | Inr _ \<Rightarrow> return () }
                        | Inr _ \<Rightarrow> ensure_hot_gated E g p (Some reset) } } } })"

definition ensure_hot_released :: "'w env \<Rightarrow> allocation \<Rightarrow> profile \<Rightarrow> ('w, unit) op" where
  "ensure_hot_released E a p =
     (case hot_vm_name (alloc_origin a) of
        Some name \<Rightarrow> ensure_hot_recycled E a name p
      | None \<Rightarrow>
          (case alloc_hot_lane a of
             Some lane \<Rightarrow> ensure_hot_retained_op E a p lane
           | None \<Rightarrow> return ()))"

subsection \<open>Reloads, operator commands, yielding\<close>

definition ensure_hot_reloaded :: "'w env \<Rightarrow> profile_name list \<Rightarrow> ('w, unit) op" where
  "ensure_hot_reloaded E changed =
     (if changed = [] then return ()
      else do {
        loaded \<leftarrow> hot_load_all E;
        case loaded of
          Inl _ \<Rightarrow> return ()
        | Inr guests \<Rightarrow> for_each (\<lambda>g. ensure_hot_drained E g ConfigReloaded)
            (filter (\<lambda>g. hot_profile g \<in> set changed)
              (filter (\<lambda>g. is_holding_machine (hot_state_of g)) guests)) })"

definition ensure_hot_evicted_for :: "'w env \<Rightarrow> profile_name \<Rightarrow> hot_drain_reason \<Rightarrow> ('w, unit) op" where
  "ensure_hot_evicted_for E profile reason = do {
     loaded \<leftarrow> hot_load_all E;
     case loaded of
       Inl _ \<Rightarrow> return ()
     | Inr guests \<Rightarrow> for_each (\<lambda>g. ensure_hot_drained E g reason)
         (filter (\<lambda>g. hot_profile g = profile)
           (filter (\<lambda>g. is_holding_machine (hot_state_of g)) guests)) }"

definition named_guest :: "'w env \<Rightarrow> vm_name \<Rightarrow> ('w, manager_error + hot_guest) op" where
  "named_guest E name =
     bind_res (map_err StoreErr (hot_load E name)) (\<lambda>found.
       return (case found of Some g \<Rightarrow> Inr g | None \<Rightarrow> Inl (UnknownHotGuest (vm_str name))))"

definition hot_drain :: "'w env \<Rightarrow> vm_name \<Rightarrow> ('w, manager_error + unit) op" where
  "hot_drain E name = bind_res (named_guest E name) (\<lambda>g. do {
     _ \<leftarrow> ensure_hot_drained E g OperatorRequest; return (Inr ()) })"

definition hot_evict :: "'w env \<Rightarrow> vm_name \<Rightarrow> ('w, manager_error + unit) op" where
  "hot_evict E name = bind_res (named_guest E name) (\<lambda>g. do {
     _ \<leftarrow> ensure_hot_evicted E g OperatorRequest; return (Inr ()) })"

text \<open>One turn of the task that watches the configuration.\<close>

definition hot_reload_turn :: "'w env \<Rightarrow> config \<Rightarrow> config \<Rightarrow> ('w, unit) op" where
  "hot_reload_turn E previous next = do {
     _ \<leftarrow> ensure_hot_reloaded E (drained_profiles previous next);
     ensure_hot_bounded E }"

definition yield_candidate ::
    "entries \<Rightarrow> config \<Rightarrow> guest_size \<Rightarrow> host_machine list \<Rightarrow> hot_guest list \<Rightarrow> hot_guest option" where
  "yield_candidate es c requested machines hot =
     (if is_ok (ensure_capacity es c requested machines hot) then None
      else
        let claimed = live_hot_names es; names = hot_names hot machines;
            busy_names = map (\<lambda>a. vm_str (alloc_vm_name a)) (active_allocations es)
        in min_by_key (\<lambda>g. (hot_updated_at g, vm_str (hot_vm g)))
             (filter (\<lambda>g. vm_str (hot_vm g) \<notin> set busy_names)
               (filter (\<lambda>g. vm_str (hot_vm g) \<notin> set claimed)
                 (filter (\<lambda>g. vm_str (hot_vm g) \<in> set names)
                   (filter (\<lambda>g. hot_state_of g = Idle) hot)))))"

definition yieldable_hot :: "'w env \<Rightarrow> config \<Rightarrow> guest_size \<Rightarrow> ('w, hot_guest option) op" where
  "yieldable_hot E c requested = do {
     listed \<leftarrow> host_machines E;
     case listed of
       Inl _ \<Rightarrow> return None
     | Inr machines \<Rightarrow> do {
         loaded \<leftarrow> hot_load_all E;
         case loaded of
           Inl _ \<Rightarrow> return None
         | Inr hot \<Rightarrow> gets (\<lambda>s. yield_candidate (m_entries s) c requested machines hot) } }"

fun yield_rounds :: "'w env \<Rightarrow> config \<Rightarrow> guest_size \<Rightarrow> nat \<Rightarrow> ('w, unit) op" where
  "yield_rounds E c requested 0 = return ()"
| "yield_rounds E c requested (Suc n) = do {
     found \<leftarrow> yieldable_hot E c requested;
     case found of
       None \<Rightarrow> return ()
     | Some g \<Rightarrow> do {
         _ \<leftarrow> ensure_hot_evicted E g CapacityPressure;
         yield_rounds E c requested n } }"

definition ensure_hot_yielded :: "'w env \<Rightarrow> config \<Rightarrow> guest_size \<Rightarrow> ('w, unit) op" where
  "ensure_hot_yielded E c requested = do {
     loaded \<leftarrow> hot_load_all E;
     yield_rounds E c requested (case loaded of Inl _ \<Rightarrow> 0 | Inr hot \<Rightarrow> length hot) }"

subsection \<open>Every pool operation keeps the entries\<close>

lemma evolves_pool_reads [evolve_ops]:
  "rel_op evolves (teardown_budget n)" "rel_op evolves (promoted_generation E name)"
  "rel_op evolves (hot_claimed_names :: ('w, string list) op)" "rel_op evolves (hot_reset_of hot)"
  "rel_op evolves (hot_drain_pending E vm)" "rel_op evolves (named_guest E vm)"
  unfolding teardown_budget_def promoted_generation_def hot_claimed_names_def hot_reset_of_def
    hot_drain_pending_def named_guest_def
  by (intro evo.rel_intros evolve_ops evolves_map_err)+

lemma evolves_hot_context [evolve_ops]: "rel_op evolves (hot_context_op E c name p lane age)"
  unfolding hot_context_op_def by (intro evo.rel_intros evolve_ops)

lemma evolves_evict [evolve_ops]:
  "rel_op evolves (ensure_hot_eviction_pending E g reason)" "rel_op evolves (ensure_hot_evicted E g reason)"
  "rel_op evolves (ensure_hot_forgotten E g)"
  unfolding ensure_hot_eviction_pending_def ensure_hot_evicted_def ensure_hot_forgotten_def
  by (intro evo.rel_intros evolve_ops)+

lemma evolves_drain [evolve_ops]: "rel_op evolves (ensure_hot_drained E g reason)"
  unfolding ensure_hot_drained_def by (intro evo.rel_intros evolve_ops)

lemma evolves_bounds [evolve_ops]:
  "rel_op evolves (ensure_hot_drains_finished E guests)" "rel_op evolves (ensure_hot_evictions_retried E guests)"
  "rel_op evolves (ensure_hot_pool_drained E guests)" "rel_op evolves (ensure_hot_surplus_retired E guests c)"
  "rel_op evolves (ensure_guest_bounded E c now g)"
  unfolding ensure_hot_pool_drained_def ensure_hot_drains_finished_def ensure_hot_evictions_retried_def
    ensure_hot_surplus_retired_def ensure_guest_bounded_def
  by (intro evo.rel_intros evolve_ops)+

lemma evolves_bounded [evolve_ops]: "rel_op evolves (ensure_hot_bounded E)"
  unfolding ensure_hot_bounded_def by (intro evo.rel_intros evolve_ops)

lemma evolves_ready [evolve_ops]: "rel_op evolves (ensure_hot_ready E a)"
  unfolding ensure_hot_ready_def by (intro evo.rel_intros evolve_ops)

lemma evolves_gated [evolve_ops]: "rel_op evolves (ensure_hot_gated E g p already)"
  unfolding ensure_hot_gated_def by (intro evo.rel_intros evolve_ops)

lemma evolves_release [evolve_ops]:
  "rel_op evolves (ensure_hot_recycled E a name p)" "rel_op evolves (ensure_hot_retained_op E a p lane)"
  "rel_op evolves (ensure_hot_released E a p)"
  unfolding ensure_hot_released_def ensure_hot_recycled_def ensure_hot_retained_op_def
  by (intro evo.rel_intros evolve_ops)+

lemma evolves_reload [evolve_ops]:
  "rel_op evolves (ensure_hot_reloaded E changed)" "rel_op evolves (ensure_hot_evicted_for E profile reason)"
  "rel_op evolves (hot_drain E name)" "rel_op evolves (hot_evict E name)"
  unfolding ensure_hot_reloaded_def ensure_hot_evicted_for_def hot_drain_def hot_evict_def
  by (intro evo.rel_intros evolve_ops)+

lemma evolves_hot_reload_turn [evolve_ops]: "rel_op evolves (hot_reload_turn E previous next)"
  unfolding hot_reload_turn_def by (intro evo.rel_intros evolve_ops)

lemma evolves_yield_rounds [evolve_ops]: "rel_op evolves (yield_rounds E c requested n)"
proof (induction n)
  case (Suc n)
  then show ?case
    unfolding yield_rounds.simps yieldable_hot_def by (intro evo.rel_intros evolve_ops)
qed (simp add: evo.rel_return)

lemma evolves_yield [evolve_ops]: "rel_op evolves (ensure_hot_yielded E c requested)"
  unfolding ensure_hot_yielded_def by (intro evo.rel_intros evolve_ops)

end
