(* ===== verification/Teardown.thy ===== *)
theory Teardown
  imports Hot_Pool
begin

text \<open>
  The end of an allocation, \<open>lifecycle.rs\<close>, \<open>teardown.rs\<close> and \<open>shutdown.rs\<close> of
  \<open>crates/flanforge-manager/src\<close>: driving one to a terminal state, the retries of its cleanup,
  the task of a worker with the guard that ends it, and the shutdown of the manager with the
  report of what it left behind.

  Durations are milliseconds; the grace of a shutdown is configured in whole seconds, so its
  eighth is exact. The body of a worker, \<open>AllocationWorker::run\<close>, is an argument: it acts on the
  manager only through the reporter.
\<close>

subsection \<open>Leaks\<close>

definition BOOKKEEPING_RESERVE :: nat where "BOOKKEEPING_RESERVE = 8"

definition record_leak :: "allocation \<Rightarrow> leak_reason \<Rightarrow> ('w, unit) op" where
  "record_leak a reason = modify (\<lambda>s.
     if list_ex (\<lambda>leak. leak_id leak = alloc_id a) (m_leaked s) then s
     else s\<lparr>m_leaked := m_leaked s @ [allocation_leak_new a reason]\<rparr>)"

definition runner_name :: "(uuid \<Rightarrow> string) \<Rightarrow> allocation_leak \<Rightarrow> string option" where
  "runner_name uuid_str leak = map_option (\<lambda>_. ''flanforged-'' @ uuid_str (leak_id leak)) (leak_runner_id leak)"

subsection \<open>Cleanup\<close>

text \<open>
  With a deadline the attempt is raced against a timer of the remaining length; the timer firing
  first abandons it, whatever it had done by then.
\<close>

definition cleanup_once :: "'w env \<Rightarrow> allocation \<Rightarrow> cleanup_budget \<Rightarrow> ('w, worker_error + unit) op" where
  "cleanup_once E a budget = do {
     now \<leftarrow> outside (x_instant E);
     case budget_remaining budget now of
       None \<Rightarrow> outside (w_cleanup E a budget)
     | Some remaining \<Rightarrow> do {
         r \<leftarrow> outside (w_cleanup E a budget);
         fired \<leftarrow> outside (x_timer_fires E remaining);
         return (if fired
           then Inl (worker_error_new ''cleanup was abandoned when the shutdown grace expired'')
           else r) } }"

text \<open>\<open>cleanup_attempts n\<close>: the loop with \<open>n\<close> attempts left, a sleep between two of them.\<close>

fun cleanup_attempts ::
    "'w env \<Rightarrow> allocation \<Rightarrow> cleanup_budget \<Rightarrow> worker_error \<Rightarrow> nat \<Rightarrow> ('w, worker_error + unit) op" where
  "cleanup_attempts E a budget last_error 0 = return (Inl last_error)"
| "cleanup_attempts E a budget last_error (Suc n) = do {
     r \<leftarrow> cleanup_once E a budget;
     case r of
       Inr _ \<Rightarrow> return (Inr ())
     | Inl err \<Rightarrow> do {
         _ \<leftarrow> if_then (n \<noteq> 0) (do {
           delay \<leftarrow> gets (\<lambda>s. tune_cleanup_retry_delay (m_tuning s));
           _ \<leftarrow> outside (x_timer_fires E delay);
           return () });
         cleanup_attempts E a budget err n } }"

definition cleanup_with_retries :: "'w env \<Rightarrow> allocation \<Rightarrow> profile \<Rightarrow> ('w, worker_error + unit) op" where
  "cleanup_with_retries E a p = do {
     budget \<leftarrow> teardown_budget (from_secs (prof_cleanup_timeout p));
     r \<leftarrow> cleanup_attempts E a budget (worker_error_new ''cleanup failed'')
       (if budget_is_bounded budget then 1 else 3);
     case r of
       Inr _ \<Rightarrow> return (Inr ())
     | Inl err \<Rightarrow> do {
         _ \<leftarrow> if_then (budget_is_bounded budget) (record_leak a CleanupFailed);
         return (Inl err) } }"

subsection \<open>Driving an allocation to its end\<close>

text \<open>What follows the cleanup: the final, durable transition.\<close>

definition finish_terminal ::
    "'w env \<Rightarrow> uuid \<Rightarrow> allocation_state \<Rightarrow> ('w, manager_error + allocation_state) op" where
  "finish_terminal E ident target =
     bind_res (ensure_cleaning E ident) (\<lambda>_.
       bind_res (get_allocation ident) (\<lambda>latest.
         if is_terminal (alloc_state latest) then return (Inr (alloc_state latest))
         else bind_res (transition_op E ident target) (\<lambda>_. return (Inr target))))"

definition ensure_terminal ::
    "'w env \<Rightarrow> allocation \<Rightarrow> profile \<Rightarrow> allocation_state \<Rightarrow> ('w, manager_error + allocation_state) op" where
  "ensure_terminal E fallback p requested = do {
     let ident = alloc_id fallback;
     _ \<leftarrow> ensure_cleaning E ident;
     got \<leftarrow> get_allocation ident;
     let current = (case got of Inr current \<Rightarrow> current | Inl _ \<Rightarrow> fallback);
     if is_terminal (alloc_state current) then return (Inr (alloc_state current))
     else do {
       _ \<leftarrow> if_then (is_hot current) (ensure_hot_released E current p);
       cleaned \<leftarrow> cleanup_with_retries E current p;
       case cleaned of
         Inr _ \<Rightarrow> finish_terminal E ident requested
       | Inl err \<Rightarrow> do {
           latest \<leftarrow> get_allocation ident;
           case latest of
             Inr l \<Rightarrow>
               if is_terminal (alloc_state l) then return (Inr (alloc_state l))
               else do {
                 _ \<leftarrow> set_error_op E ident (''cleanup failed: '' @ worker_error_text err);
                 finish_terminal E ident Failed }
           | Inl _ \<Rightarrow> do {
               _ \<leftarrow> set_error_op E ident (''cleanup failed: '' @ worker_error_text err);
               finish_terminal E ident Failed } } } }"

definition finish_worker ::
    "'w env \<Rightarrow> allocation \<Rightarrow> profile \<Rightarrow> bool \<Rightarrow> worker_error + unit \<Rightarrow> ('w, manager_error + unit) op" where
  "finish_worker E a p is_cancelled run_result =
     bind_res (ensure_terminal E a p
       (if is_cancelled then Cancelled else if is_ok run_result then Completed else Failed))
       (\<lambda>_. return (Inr ()))"

definition alter_entry :: "uuid \<Rightarrow> (entry \<Rightarrow> entry) \<Rightarrow> 'w mgr \<Rightarrow> 'w mgr" where
  "alter_entry ident f s = s\<lparr>m_entries := map (\<lambda>(k, e). (k, if k = ident then f e else e)) (m_entries s)\<rparr>"

definition release_supervision :: "uuid \<Rightarrow> ('w, unit) op" where
  "release_supervision ident = modify (alter_entry ident (\<lambda>e. e\<lparr>e_is_supervised := False\<rparr>))"

definition is_cancelled :: "uuid \<Rightarrow> ('w, bool) op" where
  "is_cancelled ident = gets (\<lambda>s. is_some_and e_cancelled (map_of (m_entries s) ident))"

definition teardown_run ::
    "'w env \<Rightarrow> allocation \<Rightarrow> profile \<Rightarrow> worker_error + unit \<Rightarrow> ('w, unit) op" where
  "teardown_run E a p run_result = do {
     _ \<leftarrow> (case run_result of
         Inr _ \<Rightarrow> return ()
       | Inl err \<Rightarrow> do {
           _ \<leftarrow> if_then (\<not> worker_is_capacity err) (ensure_warm_quarantined (alloc_id a));
           _ \<leftarrow> set_worker_error_op E (alloc_id a) err;
           return () });
     cancelled \<leftarrow> is_cancelled (alloc_id a);
     _ \<leftarrow> finish_worker E a p cancelled run_result;
     release_supervision (alloc_id a) }"

text \<open>
  The task of one worker. \<open>outcome\<close> is how the backend's run ends: \<open>None\<close> when the task is
  unwound or aborted, in which case the guard's drop tears down with its own error.
\<close>

definition worker_task ::
    "'w env \<Rightarrow> allocation \<Rightarrow> profile \<Rightarrow> ('w, (worker_error + unit) option) op \<Rightarrow> ('w, unit) op" where
  "worker_task E a p run = do {
     ready \<leftarrow> ensure_hot_ready E a;
     outcome \<leftarrow> (case ready of Inl err \<Rightarrow> return (Some (Inl err)) | Inr _ \<Rightarrow> run);
     teardown_run E a p (case outcome of
       Some r \<Rightarrow> r
     | None \<Rightarrow> Inl (worker_error_new ''allocation worker task ended without returning'')) }"

subsection \<open>Shutdown\<close>

record shutdown_report =
  shut_leaked :: "allocation_leak list"
  shut_grace :: nat
  shut_spent :: nat

definition is_clean :: "shutdown_report \<Rightarrow> bool" where
  "is_clean r \<longleftrightarrow> shut_leaked r = []"

definition is_awaited :: "entry \<Rightarrow> bool" where
  "is_awaited e \<longleftrightarrow> \<not> is_terminal (alloc_state (e_allocation e)) \<and> (e_is_supervised e \<or> e_is_terminalizing e)"

text \<open>
  \<open>shutdown_begin\<close> is what happens under the entries lock; \<open>shutdown_end\<close> what follows the wait,
  which ends when every awaited allocation is terminal or the grace has passed.
\<close>

definition shutdown_mark :: "nat \<Rightarrow> nat \<Rightarrow> 'w mgr \<Rightarrow> 'w mgr" where
  "shutdown_mark started grace s = s\<lparr>m_is_closing := True,
     m_teardown_deadline := (case m_teardown_deadline s of
         None \<Rightarrow> Some (started + grace - grace div BOOKKEEPING_RESERVE)
       | Some d \<Rightarrow> Some d),
     m_entries := map (\<lambda>(k, e). (k, if is_awaited e then e\<lparr>e_cancelled := True\<rparr> else e)) (m_entries s)\<rparr>"

definition shutdown_begin :: "'w env \<Rightarrow> nat \<Rightarrow> ('w, nat \<times> uuid list) op" where
  "shutdown_begin E grace = do {
     started \<leftarrow> outside (x_instant E);
     _ \<leftarrow> modify (shutdown_mark started grace);
     awaited \<leftarrow> gets (\<lambda>s. map (\<lambda>e. alloc_id (e_allocation e)) (filter is_awaited (al_values (m_entries s))));
     return (started, awaited) }"

definition collect_leak :: "entries \<Rightarrow> allocation_leak list \<Rightarrow> uuid \<Rightarrow> allocation_leak list" where
  "collect_leak es leaked ident =
     (if list_ex (\<lambda>leak. leak_id leak = ident) leaked then leaked
      else case map_of es ident of
          None \<Rightarrow> leaked
        | Some e \<Rightarrow>
            if is_terminal (alloc_state (e_allocation e)) then leaked
            else leaked @ [allocation_leak_new (e_allocation e) NotTerminal])"

definition collect_leaks :: "uuid list \<Rightarrow> ('w, allocation_leak list) op" where
  "collect_leaks awaited = do {
     leaked \<leftarrow> gets m_leaked;
     _ \<leftarrow> modify (\<lambda>s. s\<lparr>m_leaked := []\<rparr>);
     gets (\<lambda>s. foldl (collect_leak (m_entries s)) leaked awaited) }"

definition shutdown_end :: "'w env \<Rightarrow> nat \<Rightarrow> nat \<Rightarrow> uuid list \<Rightarrow> ('w, shutdown_report) op" where
  "shutdown_end E grace started awaited = do {
     leaked \<leftarrow> collect_leaks awaited;
     now \<leftarrow> outside (x_instant E);
     _ \<leftarrow> for_each (\<lambda>leak. emit E AllocationLeaked (Some (leak_id leak)) (Some (leak_vm_name leak)) None) leaked;
     return \<lparr>shut_leaked = leaked, shut_grace = grace, shut_spent = now - started\<rparr> }"

subsection \<open>Ending an allocation only moves it along\<close>

lemma map_of_map_values: "map_of (map (\<lambda>(k, e). (k, f k e)) es) k = map_option (f k) (map_of es k)"
  by (induction es) auto

lemma evolves_map_entries:
  assumes "\<And>k e. entry_evolves e (f k e)" "\<And>k e. e_allocation (f k e) = e_allocation e"
    and "\<And>k e. e_published (f k e) = e_published e"
  shows "evolves s (s\<lparr>m_entries := map (\<lambda>(k, e). (k, f k e)) (m_entries s)\<rparr>)"
proof -
  let ?es = "map (\<lambda>(k, e). (k, f k e)) (m_entries s)"
  have "entries_evolve (m_entries s) ?es"
    using assms(1) by (auto simp: entries_evolve_def list_all2_conv_all_nth split: prod.splits)
  moreover have "keyed_by (\<lambda>e. alloc_id (e_allocation e)) ?es"
    if "keyed_by (\<lambda>e. alloc_id (e_allocation e)) (m_entries s)"
    using that assms(2) by (auto simp: keyed_by_def comp_def case_prod_unfold)
  moreover have "live_entry (s\<lparr>m_entries := ?es\<rparr>) i = live_entry s i" for i
    using assms(2) by (simp add: live_entry_def map_of_map_values split: option.split)
  moreover have "e_published e = e_allocation e"
    if "\<forall>e\<in>set (al_values (m_entries s)). e_published e = e_allocation e" "e \<in> set (al_values ?es)" for e
    using that assms(2,3) by (force simp: al_values_def)
  ultimately have "well_formed (s\<lparr>m_entries := ?es\<rparr>) \<and> entries_evolve (m_entries s) ?es"
    if "well_formed s" using that unfolding well_formed_def live_row_def by simp
  then show ?thesis unfolding evolves_def by simp
qed

lemma evolves_alter_entry:
  assumes "\<And>e. entry_evolves e (f e)" "\<And>e. e_allocation (f e) = e_allocation e"
    and "\<And>e. e_published (f e) = e_published e"
  shows "evolves s (alter_entry ident f s)"
  unfolding alter_entry_def
  using evolves_map_entries[of "\<lambda>k e. if k = ident then f e else e" s] assms by simp

lemma evolves_flags [evolve_ops]:
  "rel_op evolves (release_supervision ident)" "rel_op evolves (is_cancelled ident)"
  "rel_op evolves (modify (alter_entry ident (\<lambda>e. e\<lparr>e_cancelled := True\<rparr>)))"
  "rel_op evolves (modify (alter_entry ident (\<lambda>e. e\<lparr>e_is_terminalizing := b\<rparr>)))"
  unfolding release_supervision_def is_cancelled_def
  by (intro evo.rel_modify evolves_alter_entry evo.rel_gets; simp add: entry_evolves_def)+

lemma evolves_record_leak [evolve_ops]: "rel_op evolves (record_leak a reason)"
  unfolding record_leak_def by (intro evo.rel_modify evolves_same) (simp_all split: if_splits)

lemma evolves_cleanup_once [evolve_ops]: "rel_op evolves (cleanup_once E a budget)"
  unfolding cleanup_once_def by (intro evo.rel_intros evolve_ops)

lemma evolves_cleanup_attempts [evolve_ops]: "rel_op evolves (cleanup_attempts E a budget err n)"
proof (induction n arbitrary: err)
  case (Suc n)
  show ?case unfolding cleanup_attempts.simps by (intro evo.rel_intros evolve_ops Suc)
qed (simp add: evo.rel_return)

lemma evolves_cleanup [evolve_ops]: "rel_op evolves (cleanup_with_retries E a p)"
  unfolding cleanup_with_retries_def by (intro evo.rel_intros evolve_ops)

lemma evolves_terminal [evolve_ops]:
  "rel_op evolves (finish_terminal E ident target)" "rel_op evolves (ensure_terminal E a p requested)"
  unfolding ensure_terminal_def finish_terminal_def by (intro evo.rel_intros evolve_ops)+

lemma evolves_teardown_run [evolve_ops]:
  "rel_op evolves (finish_worker E a p cancelled r)" "rel_op evolves (teardown_run E a p r)"
  unfolding teardown_run_def finish_worker_def by (intro evo.rel_intros evolve_ops)+

lemma evolves_worker_task: "rel_op evolves run \<Longrightarrow> rel_op evolves (worker_task E a p run)"
  unfolding worker_task_def by (intro evo.rel_intros evolve_ops)

lemma evolves_closing:
  "m_teardown_deadline s = None \<or> d = m_teardown_deadline s \<Longrightarrow>
     evolves s (s\<lparr>m_is_closing := True, m_teardown_deadline := d\<rparr>)"
  unfolding evolves_def well_formed_def live_row_def live_entry_def by auto

lemma evolves_shutdown_mark: "evolves s (shutdown_mark started grace s)"
proof -
  let ?f = "\<lambda>(k::uuid) e. if is_awaited e then e\<lparr>e_cancelled := True\<rparr> else e"
  let ?s = "s\<lparr>m_entries := map (\<lambda>(k, e). (k, ?f k e)) (m_entries s)\<rparr>"
  let ?d = "case m_teardown_deadline s of None \<Rightarrow> Some (started + grace - grace div BOOKKEEPING_RESERVE)
     | Some d \<Rightarrow> Some d"
  have 1: "evolves s ?s" by (rule evolves_map_entries) (simp_all add: entry_evolves_def)
  have 2: "evolves ?s (?s\<lparr>m_is_closing := True, m_teardown_deadline := ?d\<rparr>)"
    by (rule evolves_closing) (cases "m_teardown_deadline s"; simp)
  have 3: "shutdown_mark started grace s = ?s\<lparr>m_is_closing := True, m_teardown_deadline := ?d\<rparr>"
    by (simp add: shutdown_mark_def)
  show ?thesis unfolding 3 by (rule evo.trans[OF 1 2])
qed

lemma evolves_shutdown [evolve_ops]:
  "rel_op evolves (shutdown_begin E grace)" "rel_op evolves (collect_leaks awaited)"
  "rel_op evolves (shutdown_end E grace started awaited)"
  unfolding shutdown_begin_def shutdown_end_def collect_leaks_def
  by (intro evo.rel_intros evolve_ops evo.rel_modify evolves_shutdown_mark evolves_same; simp)+

end
