(* ===== verification/Service.thy ===== *)
theory Service
  imports Teardown
begin

text \<open>
  Admission of a request, \<open>service.rs\<close> of \<open>crates/flanforge-manager/src\<close>: policy, the pool's part
  before the entries lock, and the commit under it. \<open>create_prepare\<close> is everything \<open>create\<close> does
  before it takes the lock and \<open>create_commit\<close> everything it does while it holds it, with what
  the first part read as arguments: between the two any other task may run.
\<close>

subsection \<open>Policy\<close>

record resolved =
  rsv_profile :: profile
  rsv_size :: guest_size
  rsv_mode :: allocation_mode
  rsv_source :: source_selection
  rsv_lane :: hot_lane
  rsv_age_seconds :: "u64 option"

definition authorize ::
    "'w env \<Rightarrow> config \<Rightarrow> allocation_request \<Rightarrow> request_options \<Rightarrow> forgejo_claims
      \<Rightarrow> ('w, manager_error + resolved) op" where
  "authorize E c request options claims =
     (if \<not> request_validate request then return (Inl InvalidRequest)
      else case resolve_profile c request of
          Inl err \<Rightarrow> return (Inl err)
        | Inr p \<Rightarrow>
            (case ensure_authorized claims p request of
               Inl err \<Rightarrow> return (Inl (AuthorizationErr err))
             | Inr _ \<Rightarrow>
                 (case resolve_size options p of
                    Inl _ \<Rightarrow> return (Inl RequestExceedsProfile)
                  | Inr sz \<Rightarrow>
                      (case resolve_hot_age (opt_hot options) p of
                         Inl _ \<Rightarrow> return (Inl RequestExceedsProfile)
                       | Inr age \<Rightarrow> do {
                           let mode = resolve_mode options p (unwrap_or [] (workflow_file claims));
                           source \<leftarrow> resolve_source E (req_profile request) p mode;
                           sz \<leftarrow> effective_size E sz (req_profile request) (sel_source source);
                           return (Inr \<lparr>rsv_profile = p, rsv_size = sz, rsv_mode = mode,
                             rsv_source = source,
                             rsv_lane = from_ref_protected (is_ref_protected claims),
                             rsv_age_seconds = age\<rparr>) }))))"

definition prepare_hot ::
    "'w env \<Rightarrow> config \<Rightarrow> allocation_request \<Rightarrow> resolved \<Rightarrow> request_options
      \<Rightarrow> ('w, hot_context option) op" where
  "prepare_hot E c request rsv options = do {
     _ \<leftarrow> if_then (is_evicting (opt_hot options))
       (ensure_hot_evicted_for E (req_profile request) EvictRequested);
     _ \<leftarrow> ensure_hot_yielded E c (rsv_size rsv);
     if rsv_mode rsv \<in> {Cold, Warm} \<and> is_retaining (opt_hot options)
     then hot_context_op E c (req_profile request) (rsv_profile rsv) (rsv_lane rsv) (rsv_age_seconds rsv)
     else return None }"

subsection \<open>The record of a decision\<close>

definition refusal :: "allocation_mode \<Rightarrow> profile \<Rightarrow> hot_lane \<Rightarrow> u8 \<Rightarrow> hot_refusal" where
  "refusal mode p lane max_hot_vms =
     (if mode = Regenerate then RefusalRegeneration
      else case enabled_hot p of
          None \<Rightarrow> NotEnabled
        | Some hot \<Rightarrow>
            if \<not> is_lane_admitted (hc_lanes hot) lane then LaneNotAdmitted
            else if max_hot_vms = 0 then PoolFull
            else RefusalUnsupported)"

definition decision_apply ::
    "hot_claim option \<Rightarrow> hot_context option \<Rightarrow> resolved \<Rightarrow> u8 \<Rightarrow> request_options \<Rightarrow> u64
      \<Rightarrow> allocation \<Rightarrow> allocation" where
  "decision_apply claim ctx rsv max_hot_vms options now a =
     (case claim of
        Some (Reused _ origin source) \<Rightarrow>
          set_hot (Some (rsv_lane rsv)) origin (Some source) (rsv_age_seconds rsv) now a
      | Some RetainOwn \<Rightarrow> set_hot (Some (rsv_lane rsv)) Cloned None (rsv_age_seconds rsv) now a
      | None \<Rightarrow>
          if is_retaining (opt_hot options)
          then set_hot_refused (case ctx of
              Some _ \<Rightarrow> PoolFull
            | None \<Rightarrow> refusal (rsv_mode rsv) (rsv_profile rsv) (rsv_lane rsv) max_hot_vms) now a
          else a)"

definition idempotent :: "entries \<Rightarrow> allocation_request \<Rightarrow> allocation option" where
  "idempotent es request = map_option e_allocation
     (find (\<lambda>e. \<not> is_terminal (alloc_state (e_allocation e))
               \<and> is_same_attempt (alloc_request (e_allocation e)) request) (al_values es))"

definition abandon_hot_claim :: "'w env \<Rightarrow> hot_claim option \<Rightarrow> ('w, unit) op" where
  "abandon_hot_claim E claim =
     (case claim of Some (Reused g _ _) \<Rightarrow> ensure_hot_drained E g ResetFailed | _ \<Rightarrow> return ())"

subsection \<open>Creation\<close>

record created =
  cr_allocation :: allocation
  cr_is_new :: bool

text \<open>What \<open>create\<close> knows when it takes the entries lock.\<close>

record prepared =
  prep_config :: config
  prep_resolved :: resolved
  prep_context :: "hot_context option"
  prep_machines :: "worker_error + host_machine list"
  prep_hot :: "store_error + hot_guest list"

definition create_prepare ::
    "'w env \<Rightarrow> allocation_request \<Rightarrow> request_options \<Rightarrow> forgejo_claims
      \<Rightarrow> ('w, manager_error + prepared) op" where
  "create_prepare E request options claims = do {
     c \<leftarrow> current_config;
     bind_res (authorize E c request options claims) (\<lambda>rsv. do {
       ctx \<leftarrow> prepare_hot E c request rsv options;
       machines \<leftarrow> host_machines E;
       hot \<leftarrow> hot_load_all E;
       return (Inr \<lparr>prep_config = c, prep_resolved = rsv, prep_context = ctx,
         prep_machines = machines, prep_hot = hot\<rparr>) }) }"

text \<open>The checks under the lock, in the order of the source, and the new record.\<close>

definition admit ::
    "entries \<Rightarrow> prepared \<Rightarrow> allocation_request \<Rightarrow> manager_error + hot_guest list" where
  "admit es prep request =
     and_then (ensure_sole_producer es (req_profile request) (rsv_mode (prep_resolved prep))) (\<lambda>_.
       and_then (map_sum (\<lambda>_. busy ProbeFailed None) id (prep_machines prep)) (\<lambda>machines.
         and_then (hot_snapshot (prep_hot prep) (prep_config prep)) (\<lambda>hot.
           and_then (ensure_capacity es (prep_config prep) (rsv_size (prep_resolved prep)) machines hot) (\<lambda>_.
             Inr hot))))"

definition new_runner_label :: "'w env \<Rightarrow> profile \<Rightarrow> uuid \<Rightarrow> manager_error + runner_label" where
  "new_runner_label E p fresh = map_sum (\<lambda>_. InvalidRunnerLabel) id
     (runner_label_new (label_str (prof_runner_label p) @ ''-'' @ x_uuid_str E fresh))"

definition new_allocation ::
    "'w env \<Rightarrow> prepared \<Rightarrow> allocation_request \<Rightarrow> runner_label \<Rightarrow> vm_name \<Rightarrow> uuid \<Rightarrow> u64 \<Rightarrow> u64 \<Rightarrow> allocation" where
  "new_allocation E prep request label name ident now source_at =
     (let rsv = prep_resolved prep;
          a = allocation_new request name label (rsv_mode rsv) (rsv_size rsv) ident now
      in if w_evidence_deferred E then a
         else set_clone_source (sel_source (rsv_source rsv)) (sel_warm_generation (rsv_source rsv)) source_at a)"

definition new_entry :: "allocation \<Rightarrow> entry" where
  "new_entry a = \<lparr>e_allocation = a, e_published = a, e_cancelled = False, e_is_supervised = True,
     e_is_terminalizing = False\<rparr>"

definition insert_entry :: "'w env \<Rightarrow> allocation \<Rightarrow> 'w mgr \<Rightarrow> 'w mgr" where
  "insert_entry E a s = s\<lparr>m_entries := prune_terminal_history (x_uuid_str E)
     (tune_history_limit (m_tuning s)) (AList.update (alloc_id a) (new_entry a) (m_entries s))\<rparr>"

definition commit_claim :: "'w env \<Rightarrow> uuid \<Rightarrow> hot_claim option \<Rightarrow> ('w, manager_error + unit) op" where
  "commit_claim E ident claim =
     (case claim of
        Some (Reused g _ _) \<Rightarrow> bind_res (map_err StoreErr (hot_save E g)) (\<lambda>_. do {
          _ \<leftarrow> emit E HotClaimed (Some ident) (Some (hot_vm g)) (Some (hot_profile g));
          return (Inr ()) })
      | _ \<Rightarrow> return (Inr ()))"

definition commit_allocation ::
    "'w env \<Rightarrow> hot_claim option \<Rightarrow> allocation \<Rightarrow> ('w, manager_error + created) op" where
  "commit_allocation E claim a =
     bind_res (commit_claim E (alloc_id a) claim) (\<lambda>_. do {
       saved \<leftarrow> store_save E a;
       case saved of
         Inl err \<Rightarrow> do { _ \<leftarrow> abandon_hot_claim E claim; return (Inl (StoreErr err)) }
       | Inr _ \<Rightarrow> do {
           _ \<leftarrow> modify (insert_entry E a);
           return (Inr \<lparr>cr_allocation = a, cr_is_new = True\<rparr>) } })"

definition create_commit ::
    "'w env \<Rightarrow> prepared \<Rightarrow> allocation_request \<Rightarrow> request_options \<Rightarrow> ('w, manager_error + created) op" where
  "create_commit E prep request options = do {
     s \<leftarrow> gets (\<lambda>s. (m_is_closing s, m_entries s));
     case s of (is_closing, es) \<Rightarrow>
       if is_closing then return (Inl ShuttingDown)
       else case idempotent es request of
           Some a \<Rightarrow> return (Inr \<lparr>cr_allocation = a, cr_is_new = False\<rparr>)
         | None \<Rightarrow>
             (case admit es prep request of
                Inl err \<Rightarrow> return (Inl err)
              | Inr hot \<Rightarrow> do {
                  fresh \<leftarrow> outside (x_new_uuid E);
                  case new_runner_label E (rsv_profile (prep_resolved prep)) fresh of
                    Inl err \<Rightarrow> return (Inl err)
                  | Inr label \<Rightarrow>
                      (case vm_name_of (prep_config prep) request of
                         Inl err \<Rightarrow> return (Inl err)
                       | Inr name \<Rightarrow> do {
                           ident \<leftarrow> outside (x_new_uuid E);
                           now \<leftarrow> outside (x_unix_time E);
                           source_at \<leftarrow> outside (x_unix_time E);
                           let a = new_allocation E prep request label name ident now source_at;
                           policy_now \<leftarrow> outside (x_unix_time E);
                           claimed_at \<leftarrow> outside (x_unix_time E);
                           let claim = (case prep_context prep of
                               None \<Rightarrow> None
                             | Some ctx \<Rightarrow> plan_hot_claim es hot ctx (alloc_id a) policy_now claimed_at);
                           decided_at \<leftarrow> outside (x_unix_time E);
                           let a = decision_apply claim (prep_context prep) (prep_resolved prep)
                             (rt_max_hot_vms (cfg_runtime (prep_config prep))) options decided_at a;
                           commit_allocation E claim a }) }) }"

text \<open>\<open>create\<close> run without interruption; its worker is spawned after it.\<close>

definition create_op ::
    "'w env \<Rightarrow> allocation_request \<Rightarrow> request_options \<Rightarrow> forgejo_claims
      \<Rightarrow> ('w, manager_error + created) op" where
  "create_op E request options claims =
     bind_res (create_prepare E request options claims) (\<lambda>prep. create_commit E prep request options)"

subsection \<open>Reads and cancellation by a caller\<close>

definition get_authorized ::
    "uuid \<Rightarrow> forgejo_claims \<Rightarrow> ('w, manager_error + allocation) op" where
  "get_authorized ident claims =
     bind_res (get_allocation ident) (\<lambda>a. do {
       c \<leftarrow> current_config;
       return (and_then (resolve_profile c (alloc_request a)) (\<lambda>p.
         and_then (map_sum AuthorizationErr id (ensure_authorized claims p (alloc_request a))) (\<lambda>_.
           Inr a))) })"

definition watch_allocation :: "uuid \<Rightarrow> ('w, allocation option) op" where
  "watch_allocation ident = gets (\<lambda>s. map_option e_published (map_of (m_entries s) ident))"

subsection \<open>Everything but the commit only moves the manager along\<close>

lemma evolves_authorize [evolve_ops]: "rel_op evolves (authorize E c request options claims)"
  unfolding authorize_def by (intro evo.rel_intros evolve_ops)

lemma evolves_prepare [evolve_ops]:
  "rel_op evolves (prepare_hot E c request rsv options)"
  "rel_op evolves (create_prepare E request options claims)"
  unfolding create_prepare_def prepare_hot_def by (intro evo.rel_intros evolve_ops)+

lemma evolves_service_reads [evolve_ops]:
  "rel_op evolves (get_authorized ident claims)" "rel_op evolves (watch_allocation ident)"
  unfolding get_authorized_def watch_allocation_def by (intro evo.rel_intros evolve_ops)+

lemma evolves_claim_option:
  "(\<And>g origin source. x = Some (Reused g origin source) \<Longrightarrow> rel_op evolves (f g origin source)) \<Longrightarrow>
     rel_op evolves m \<Longrightarrow> rel_op evolves (case x of Some (Reused g origin source) \<Rightarrow> f g origin source | _ \<Rightarrow> m)"
  by (auto split: option.split hot_claim.split)

lemma evolves_claims [evolve_ops]:
  "rel_op evolves (abandon_hot_claim E claim)" "rel_op evolves (commit_claim E ident claim)"
  unfolding abandon_hot_claim_def commit_claim_def
  by (intro evolves_claim_option evo.rel_intros evolve_ops evolves_map_err)+

text \<open>A claim is committed without touching the entries or the allocations.\<close>

lemma keeps_claim_option:
  "(\<And>g origin source. keeps f (h g origin source)) \<Longrightarrow> keeps f m \<Longrightarrow>
     keeps f (case x of Some (Reused g origin source) \<Rightarrow> h g origin source | _ \<Rightarrow> m)"
  by (auto split: option.split hot_claim.split)

abbreviation committed_part :: "'w mgr \<Rightarrow> entries \<times> allocation_table \<times> bool \<times> tuning \<times> config_handle" where
  "committed_part s \<equiv> (m_entries s, m_store s, m_is_closing s, m_tuning s, m_config s)"

lemma keeps_commit_claim: "keeps committed_part (commit_claim E ident claim)"
  unfolding commit_claim_def by (intro keeps_claim_option frame_intros; simp)

subsection \<open>What a commit does\<close>

text \<open>
  \<open>admitted E s request prep a\<close>: \<open>a\<close> is a record that the checks under the lock allow to be added
  to the entries of \<open>s\<close>.
\<close>

definition admitted :: "'w mgr \<Rightarrow> prepared \<Rightarrow> allocation_request \<Rightarrow> allocation \<Rightarrow> bool" where
  "admitted s prep request a \<longleftrightarrow> \<not> m_is_closing s \<and> idempotent (m_entries s) request = None
     \<and> is_ok (admit (m_entries s) prep request)
     \<and> alloc_request a = request \<and> alloc_state a = Requested
     \<and> alloc_mode a = rsv_mode (prep_resolved prep) \<and> alloc_size a = Some (rsv_size (prep_resolved prep))
     \<and> vm_name_of (prep_config prep) request = Inr (alloc_vm_name a)
     \<and> (\<forall>n. hot_vm_name (alloc_origin a) = Some n \<longrightarrow> vm_str n \<notin> set (live_hot_names (m_entries s)))
     \<and> allocation_validate a"

lemma commit_allocation_cases:
  assumes "run_state (commit_allocation E claim a) s = (r, s')"
  obtains (refused) err where "r = Inl err" "evolves s s'"
  | (added) s1 t where "r = Inr \<lparr>cr_allocation = a, cr_is_new = True\<rparr>" "evolves s s1"
      "committed_part s1 = committed_part s" "allocation_table_save a (m_store s1) = Inr t"
      "s' = insert_entry E a (s1\<lparr>m_store := t\<rparr>)"
proof -
  obtain r1 s1 where c: "run_state (commit_claim E (alloc_id a) claim) s = (r1, s1)" by force
  have e1: "evolves s s1" by (rule rel_op_run[OF evolves_claims(2) c])
  have k1: "committed_part s1 = committed_part s" by (rule keeps_run[OF keeps_commit_claim c])
  obtain r2 s2 where v: "run_state (store_save E a) s1 = (r2, s2)" by force
  let ?w = "snd (x_db_fails E (m_world s1))"
  have e2: "evolves s1 (s1\<lparr>m_world := ?w\<rparr>)" by (intro evolves_same) simp_all
  show thesis
  proof (cases r1)
    case (Inl err)
    then show thesis using assms c e1 refused[of err] by (simp add: commit_allocation_def bind_res_def)
  next
    case (Inr u)
    show thesis
    proof (cases r2)
      case fail: (Inl err)
      then have s2: "s2 = s1\<lparr>m_world := ?w\<rparr>"
        using v by (auto simp: run_store_save Let_def split: if_splits sum.splits)
      have "evolves s2 (snd (run_state (abandon_hot_claim E claim) s2))" by (rule rel_opD[OF evolves_claims(1)])
      then show thesis
        using assms c v Inr fail e1 e2 s2 refused[of "StoreErr err"]
        by (auto simp: commit_allocation_def bind_res_def split: prod.splits intro: evo.trans)
    next
      case saved: (Inr u')
      then obtain t where "allocation_table_save a (m_store s1) = Inr t" "s2 = s1\<lparr>m_world := ?w, m_store := t\<rparr>"
        using v by (auto simp: run_store_save Let_def split: if_splits sum.splits)
      then show thesis
        using assms c v Inr saved k1 evo.trans[OF e1 e2]
        by (intro added[of "s1\<lparr>m_world := ?w\<rparr>" t]) (auto simp: commit_allocation_def bind_res_def)
    qed
  qed
qed

lemma new_allocation_fields:
  "alloc_id (new_allocation E prep request label name ident now source_at) = ident"
  "alloc_request (new_allocation E prep request label name ident now source_at) = request"
  "alloc_state (new_allocation E prep request label name ident now source_at) = Requested"
  "alloc_mode (new_allocation E prep request label name ident now source_at) = rsv_mode (prep_resolved prep)"
  "alloc_size (new_allocation E prep request label name ident now source_at) = Some (rsv_size (prep_resolved prep))"
  "alloc_vm_name (new_allocation E prep request label name ident now source_at) = name"
  "alloc_origin (new_allocation E prep request label name ident now source_at) = Cloned"
  by (simp_all add: new_allocation_def Let_def allocation_new_def set_clone_source_def)

lemma decision_fields:
  "alloc_id (decision_apply claim ctx rsv max_hot options now a) = alloc_id a"
  "alloc_request (decision_apply claim ctx rsv max_hot options now a) = alloc_request a"
  "alloc_state (decision_apply claim ctx rsv max_hot options now a) = alloc_state a"
  "alloc_mode (decision_apply claim ctx rsv max_hot options now a) = alloc_mode a"
  "alloc_size (decision_apply claim ctx rsv max_hot options now a) = alloc_size a"
  "alloc_vm_name (decision_apply claim ctx rsv max_hot options now a) = alloc_vm_name a"
  "alloc_origin (decision_apply claim ctx rsv max_hot options now a) =
     (case claim of Some (Reused _ origin _) \<Rightarrow> origin | Some RetainOwn \<Rightarrow> Cloned | None \<Rightarrow> alloc_origin a)"
  by (auto simp: decision_apply_def set_hot_def set_hot_refused_def Let_def
      split: option.split hot_claim.split)

lemma decided_claim_free:
  assumes "claim = (case ctx of None \<Rightarrow> None | Some ctx \<Rightarrow> plan_hot_claim es hot ctx ident now at)"
    and "alloc_origin a = Cloned"
    and "hot_vm_name (alloc_origin (decision_apply claim ctx rsv max_hot options now' a)) = Some n"
  shows "vm_str n \<notin> set (live_hot_names es)"
proof -
  from assms(2,3) obtain g origin source where c: "claim = Some (Reused g origin source)"
      and n: "hot_vm_name origin = Some n"
    by (auto simp: decision_fields split: option.splits hot_claim.splits)
  then obtain k where "plan_hot_claim es hot k ident now at = Some (Reused g origin source)"
    using assms(1) by (auto split: option.splits)
  then show ?thesis using n by (cases rule: plan_hot_claim_Reused) auto
qed

lemma create_commit_cases:
  assumes run: "run_state (create_commit E prep request options) s = (r, s')"
  obtains (refused) err where "r = Inl err" "evolves s s'"
  | (existing) a where "r = Inr \<lparr>cr_allocation = a, cr_is_new = False\<rparr>" "s' = s"
      "idempotent (m_entries s) request = Some a" "\<not> m_is_closing s"
  | (added) a s1 t where "r = Inr \<lparr>cr_allocation = a, cr_is_new = True\<rparr>" "admitted s prep request a"
      "evolves s s1" "committed_part s1 = committed_part s" "allocation_table_save a (m_store s) = Inr t"
      "s' = insert_entry E a (s1\<lparr>m_store := t\<rparr>)"
proof (cases "m_is_closing s \<or> idempotent (m_entries s) request \<noteq> None")
  case True
  then show thesis
    using run refused[of ShuttingDown] existing evo.refl by (auto simp: create_commit_def split: if_splits)
next
  case False
  show thesis
  proof (cases "admit (m_entries s) prep request")
    case (Inl err)
    then show thesis using run False refused[of err] evo.refl by (auto simp: create_commit_def)
  next
    case (Inr hot)
    let ?w = "m_world s"
    let ?fresh = "fst (x_new_uuid E ?w)" and ?w1 = "snd (x_new_uuid E ?w)"
    let ?p = "rsv_profile (prep_resolved prep)"
    have world: "evolves s (s\<lparr>m_world := w\<rparr>)" for w by (intro evolves_same) simp_all
    show thesis
    proof (cases "new_runner_label E ?p ?fresh")
      case lab: (Inl err)
      then show thesis using run False Inr refused[of err] world by (auto simp: create_commit_def)
    next
      case label: (Inr label)
      show thesis
      proof (cases "vm_name_of (prep_config prep) request")
        case nm: (Inl err)
        then show thesis using run False Inr label refused[of err] world by (auto simp: create_commit_def)
      next
        case name: (Inr name)
        let ?ident = "fst (x_new_uuid E ?w1)" and ?w2 = "snd (x_new_uuid E ?w1)"
        let ?now = "fst (x_unix_time E ?w2)" and ?w3 = "snd (x_unix_time E ?w2)"
        let ?at = "fst (x_unix_time E ?w3)" and ?w4 = "snd (x_unix_time E ?w3)"
        let ?pol = "fst (x_unix_time E ?w4)" and ?w5 = "snd (x_unix_time E ?w4)"
        let ?cl = "fst (x_unix_time E ?w5)" and ?w6 = "snd (x_unix_time E ?w5)"
        let ?dec = "fst (x_unix_time E ?w6)" and ?w7 = "snd (x_unix_time E ?w6)"
        define a0 where "a0 = new_allocation E prep request label name ?ident ?now ?at"
        define claim where "claim = (case prep_context prep of None \<Rightarrow> None
           | Some ctx \<Rightarrow> plan_hot_claim (m_entries s) hot ctx (alloc_id a0) ?pol ?cl)"
        define a where "a = decision_apply claim (prep_context prep) (prep_resolved prep)
           (rt_max_hot_vms (cfg_runtime (prep_config prep))) options ?dec a0"
        have "run_state (commit_allocation E claim a) (s\<lparr>m_world := ?w7\<rparr>) = (r, s')"
          using run False Inr label name unfolding a_def claim_def a0_def
          by (simp add: create_commit_def Let_def cong: option.case_cong)
        then show thesis
        proof (cases rule: commit_allocation_cases)
          case (refused err)
          then show thesis using that(1)[of err] evo.trans[OF world] by blast
        next
          case (added s1 t)
          have a0: "alloc_origin a0 = Cloned" by (simp add: a0_def new_allocation_fields)
          have "admitted s prep request a"
            using False Inr name added(4) decided_claim_free[OF claim_def a0]
            unfolding admitted_def
            by (auto simp: a_def a0_def decision_fields(1-6) new_allocation_fields(1-6) allocation_table_save_Inr)
          then show thesis using added that(3)[of a s1 t] evo.trans[OF world added(2)] by simp
        qed
      qed
    qed
  qed
qed

end
