(* ===== verification/Reaper.thy ===== *)
theory Reaper
  imports Hot_Pool
begin

text \<open>
  The reaper, \<open>crates/flanforge-manager/src/reaper\<close>: which machines one snapshot of the host
  permits to delete (\<open>plan.rs\<close>), the sweep that deletes them after planning again from fresh
  reads (\<open>sweep.rs\<close>), and the warm image records that are dropped with them (\<open>images.rs\<close>).
  A \<open>BTreeSet\<close> of names is the list of its members.
\<close>

subsection \<open>Planning\<close>

definition MIN_AGE_SECONDS :: u64 where "MIN_AGE_SECONDS = 3600"
definition IMAGE_AGE_SECONDS :: u64 where "IMAGE_AGE_SECONDS = 86400"

record reap_inputs =
  ri_config :: config
  ri_machines :: "host_machine list"
  ri_allocations :: "allocation list"
  ri_images :: "warm_image_record list"
  ri_hot :: "hot_guest list"

definition suffixed :: "vm_name \<Rightarrow> string \<Rightarrow> string option" where
  "suffixed warm sfx = map_option vm_str (res_ok (with_suffix warm sfx))"

definition option_list :: "'a option \<Rightarrow> 'a list" where
  "option_list x = (case x of None \<Rightarrow> [] | Some a \<Rightarrow> [a])"

definition reaped_names :: "vm_name \<Rightarrow> string list" where
  "reaped_names warm = vm_str warm # option_list (suffixed warm PREVIOUS_SUFFIX)
     @ option_list (suffixed warm STAGING_SUFFIX)"

definition reserved_image_names :: "config \<Rightarrow> string list" where
  "reserved_image_names c = concat (map (\<lambda>p. vm_str (prof_template p) #
     (case prof_warm_template p of
        None \<Rightarrow> []
      | Some warm \<Rightarrow> vm_str warm # option_list (suffixed warm PREVIOUS_SUFFIX))) (al_values (cfg_profiles c)))"

definition regenerated_names :: "config \<Rightarrow> allocation \<Rightarrow> string list" where
  "regenerated_names c a =
     (if alloc_mode a = Regenerate
      then case lookup_profile c (req_profile (alloc_request a)) of
          None \<Rightarrow> []
        | Some p \<Rightarrow> (case prof_warm_template p of None \<Rightarrow> [] | Some warm \<Rightarrow> reaped_names warm)
      else [])"

definition protected_names :: "reap_inputs \<Rightarrow> string list" where
  "protected_names i =
     concat (map (\<lambda>a. vm_str (alloc_vm_name a) # regenerated_names (ri_config i) a)
       (filter (\<lambda>a. \<not> is_terminal (alloc_state a)) (ri_allocations i)))
     @ map (\<lambda>g. vm_str (hot_vm g)) (filter (\<lambda>g. is_holding_machine (hot_state_of g)) (ri_hot i))
     @ reserved_image_names (ri_config i)"

definition clone_authorization :: "reap_inputs \<Rightarrow> string \<Rightarrow> reap_authorization" where
  "clone_authorization i name =
     (case find (\<lambda>a. is_terminal (alloc_state a) \<and> alloc_vm_created a \<and> vm_str (alloc_vm_name a) = name)
             (ri_allocations i) of
        None \<Rightarrow> AuthPrefix
      | Some a \<Rightarrow> AuthRecord (alloc_id a))"

definition is_reapable_profile :: "config \<Rightarrow> profile_name \<Rightarrow> bool" where
  "is_reapable_profile c name = option_all prof_reap (lookup_profile c name)"

definition is_staging_of :: "profile \<Rightarrow> string \<Rightarrow> bool" where
  "is_staging_of p name = is_some_and (\<lambda>warm. is_some_and (\<lambda>v. v = name) (suffixed warm STAGING_SUFFIX))
     (prof_warm_template p)"

definition image_authorization :: "reap_inputs \<Rightarrow> string \<Rightarrow> u64 \<Rightarrow> reap_authorization option" where
  "image_authorization i name age =
     (case find (\<lambda>(_, p). prof_reap p \<and> is_staging_of p name) (cfg_profiles (ri_config i)) of
        Some (profile_name, _) \<Rightarrow> Some (AuthStaging profile_name)
      | None \<Rightarrow>
          if age < IMAGE_AGE_SECONDS then None
          else map_option (\<lambda>r. AuthImage (img_profile r))
            (find (\<lambda>r. name \<in> set (reaped_names (img_warm_template r)))
              (filter (\<lambda>r. is_reapable_profile (ri_config i) (img_profile r)) (ri_images i))))"

definition candidate :: "reap_inputs \<Rightarrow> host_machine \<Rightarrow> string \<Rightarrow> reap_candidate option" where
  "candidate i m pre =
     (case mach_age_seconds m of
        None \<Rightarrow> None
      | Some age \<Rightarrow>
          if age < MIN_AGE_SECONDS then None
          else map_option (\<lambda>auth. \<lparr>cand_name = mach_name m, cand_state = mach_state m,
              cand_authorization = auth, cand_age_seconds = age\<rparr>)
            (if starts_with (mach_name m) pre then Some (clone_authorization i (mach_name m))
             else image_authorization i (mach_name m) age))"

definition plan_sweep :: "reap_inputs \<Rightarrow> reap_candidate list" where
  "plan_sweep i =
     (let prot = protected_names i; pre = prefix_str (rt_vm_prefix (cfg_runtime (ri_config i)))
      in List.map_filter (\<lambda>m. candidate i m pre)
           (filter (\<lambda>m. mach_name m \<notin> set prot) (ri_machines i)))"

definition unaged_candidates :: "reap_inputs \<Rightarrow> string list" where
  "unaged_candidates i =
     (let prot = protected_names i; pre = prefix_str (rt_vm_prefix (cfg_runtime (ri_config i)))
      in map mach_name (filter (\<lambda>m. mach_age_seconds m = None \<and> starts_with (mach_name m) pre
           \<and> mach_name m \<notin> set prot) (ri_machines i)))"

subsection \<open>Deleting one candidate\<close>

definition allocation_snapshot :: "('w, allocation list) op" where
  "allocation_snapshot = gets (\<lambda>s. entry_allocations (m_entries s))"

definition regenerating_profiles :: "('w, profile_name list) op" where
  "regenerating_profiles = do {
     allocations \<leftarrow> allocation_snapshot;
     return (map (\<lambda>a. req_profile (alloc_request a))
       (filter (\<lambda>a. \<not> is_terminal (alloc_state a) \<and> alloc_mode a = Regenerate) allocations)) }"

definition cleanup_allowance :: "config \<Rightarrow> profile option \<Rightarrow> nat" where
  "cleanup_allowance c p = from_secs
     (max (unwrap_or LIBVIRT_MIN_CLEANUP_TIMEOUT_SECONDS
            (or_else (map_option prof_cleanup_timeout p)
              (case map prof_cleanup_timeout (al_values (cfg_profiles c)) of
                 [] \<Rightarrow> None
               | t # ts \<Rightarrow> Some (foldl max t ts))))
       LIBVIRT_MIN_CLEANUP_TIMEOUT_SECONDS)"

definition inert_reason :: "host_machine list \<Rightarrow> sweep_inert_reason option" where
  "inert_reason machines =
     (if machines \<noteq> [] \<and> list_all (\<lambda>m. mach_age_seconds m = None) machines
      then Some AgeUndeterminable else None)"

fun authorized_profile :: "reap_authorization \<Rightarrow> profile_name option" where
  "authorized_profile (AuthStaging p) = Some p"
| "authorized_profile (AuthImage p) = Some p"
| "authorized_profile _ = None"

fun authorized_record :: "reap_authorization \<Rightarrow> allocation list \<Rightarrow> allocation option" where
  "authorized_record (AuthRecord ident) allocations = find (\<lambda>a. alloc_id a = ident) allocations"
| "authorized_record _ allocations = None"

definition reap_request_of ::
    "config \<Rightarrow> allocation list \<Rightarrow> warm_image_record list \<Rightarrow> vm_name \<Rightarrow> reap_authorization
      \<Rightarrow> profile option \<Rightarrow> cleanup_budget \<Rightarrow> reap_request" where
  "reap_request_of c allocations images name auth p budget =
     \<lparr>reap_name = name, reap_authorization_of = auth, reap_profile = p,
      reap_record = (case authorized_profile auth of
          None \<Rightarrow> None
        | Some profile \<Rightarrow> find (\<lambda>r. img_profile r = profile) images),
      reap_allocation = authorized_record auth allocations,
      reap_reserved = reserved_image_names c, reap_budget = budget\<rparr>"

definition reaped_profile :: "config \<Rightarrow> allocation list \<Rightarrow> reap_authorization \<Rightarrow> profile option" where
  "reaped_profile c allocations auth =
     (case authorized_record auth allocations of
        Some a \<Rightarrow> lookup_profile c (req_profile (alloc_request a))
      | None \<Rightarrow> (case authorized_profile auth of None \<Rightarrow> None | Some profile \<Rightarrow> lookup_profile c profile))"

definition reap :: "'w env \<Rightarrow> reap_candidate \<Rightarrow> ('w, manager_error + bool) op" where
  "reap E cand =
     (case vm_name_new (cand_name cand) of
        Inl _ \<Rightarrow> return (Inr False)
      | Inr name \<Rightarrow> do {
          c \<leftarrow> current_config;
          bind_res (map_err StoreErr (images_load_all E)) (\<lambda>images.
            bind_res (map_err StoreErr (hot_load_all E)) (\<lambda>hot. do {
              allocations \<leftarrow> allocation_snapshot;
              bind_res (map_err WorkerErr (outside (w_machines E))) (\<lambda>machines.
                let fresh = plan_sweep \<lparr>ri_config = c, ri_machines = machines,
                      ri_allocations = allocations, ri_images = images, ri_hot = hot\<rparr>
                in if \<not> list_ex (\<lambda>k. cand_name k = cand_name cand
                          \<and> cand_authorization k = cand_authorization cand) fresh
                   then return (Inr False)
                   else do {
                     let auth = cand_authorization cand;
                     let p = reaped_profile c allocations auth;
                     budget \<leftarrow> teardown_budget (cleanup_allowance c p);
                     bind_res (map_err WorkerErr (outside (w_delete_vm E
                         (reap_request_of c allocations images name auth p budget)))) (\<lambda>_.
                       return (Inr True)) }) })) })"

subsection \<open>Warm image records\<close>

definition is_present :: "warm_image_record \<Rightarrow> host_machine list \<Rightarrow> bool" where
  "is_present r machines =
     list_ex (\<lambda>name. list_ex (\<lambda>m. mach_name m = vm_str name) machines)
       [img_warm_template r,
        unwrap_or (img_warm_template r) (res_ok (staging_name r)),
        unwrap_or (img_warm_template r) (res_ok (previous_name r))]"

record prune_plan =
  prune_prunable :: "profile_name list"
  prune_claimed :: "profile_name list"

definition is_record_referenced :: "config \<Rightarrow> warm_image_record \<Rightarrow> bool" where
  "is_record_referenced c r =
     is_some_and (\<lambda>p. is_some_and (\<lambda>warm. warm = img_warm_template r) (prof_warm_template p))
       (lookup_profile c (img_profile r))"

definition is_record_prunable ::
    "config \<Rightarrow> profile_name list \<Rightarrow> host_machine list \<Rightarrow> warm_image_record \<Rightarrow> bool" where
  "is_record_prunable c regenerating machines r \<longleftrightarrow> \<not> is_record_referenced c r
     \<and> \<not> is_present r machines \<and> img_profile r \<notin> set regenerating"

definition plan_pruned_records ::
    "warm_image_record list \<Rightarrow> host_machine list \<Rightarrow> ('w, prune_plan) op" where
  "plan_pruned_records images machines = do {
     c \<leftarrow> current_config;
     regenerating \<leftarrow> regenerating_profiles;
     let prunable = is_record_prunable c regenerating machines;
     return \<lparr>prune_prunable = map img_profile (filter prunable images),
       prune_claimed = map img_profile (filter (\<lambda>r. \<not> prunable r) images)\<rparr> }"

fun apply_pruned_records :: "'w env \<Rightarrow> profile_name list \<Rightarrow> ('w, profile_name list) op" where
  "apply_pruned_records E [] = return []"
| "apply_pruned_records E (profile # rest) = do {
     removed \<leftarrow> images_remove E profile;
     pruned \<leftarrow> apply_pruned_records E rest;
     return (if is_ok removed then profile # pruned else pruned) }"

definition sweep_warm_images :: "'w env \<Rightarrow> bool \<Rightarrow> profile_name list \<Rightarrow> ('w, retired_image list) op" where
  "sweep_warm_images E is_dry_run claimed = do {
     c \<leftarrow> current_config;
     let declared = List.map_filter (\<lambda>(name, p). map_option (\<lambda>warm. (name, warm)) (prof_warm_template p))
           (cfg_profiles c);
     swept \<leftarrow> outside (w_sweep_images E
       \<lparr>sweep_is_dry_run = is_dry_run, sweep_declared = declared, sweep_claimed = claimed\<rparr>);
     return (unwrap_or [] (res_ok swept)) }"

subsection \<open>One sweep\<close>

fun reap_all :: "'w env \<Rightarrow> reap_candidate list \<Rightarrow> ('w, string list \<times> string list) op" where
  "reap_all E [] = return ([], [])"
| "reap_all E (cand # rest) = do {
     r \<leftarrow> reap E cand;
     (deleted, skipped) \<leftarrow> reap_all E rest;
     return (if r = Inr True then (cand_name cand # deleted, skipped)
             else (deleted, cand_name cand # skipped)) }"

definition sweep_finish :: "'w env \<Rightarrow> sweep_report \<Rightarrow> ('w, unit) op" where
  "sweep_finish E report = do {
     _ \<leftarrow> modify (\<lambda>s. s\<lparr>m_last_sweep := Some report\<rparr>);
     _ \<leftarrow> for_each (\<lambda>_. emit E ReaperDeleted None None None) (rep_deleted report);
     emit E ReaperSweep None None None }"

definition sweep :: "'w env \<Rightarrow> bool \<Rightarrow> ('w, manager_error + sweep_report) op" where
  "sweep E is_dry_run = do {
     _ \<leftarrow> if_then (\<not> is_dry_run) (ensure_hot_bounded E);
     c \<leftarrow> current_config;
     bind_res (map_err StoreErr (images_load_all E)) (\<lambda>images.
       bind_res (map_err StoreErr (hot_load_all E)) (\<lambda>hot.
         bind_res (map_err WorkerErr (outside (w_machines E))) (\<lambda>machines. do {
           allocations \<leftarrow> allocation_snapshot;
           let inputs = \<lparr>ri_config = c, ri_machines = machines, ri_allocations = allocations,
             ri_images = images, ri_hot = hot\<rparr>;
           let planned = plan_sweep inputs;
           (deleted, skipped) \<leftarrow> (if is_dry_run then return ([], []) else reap_all E planned);
           plan \<leftarrow> plan_pruned_records images machines;
           pruned \<leftarrow> (if is_dry_run then return [] else apply_pruned_records E (prune_prunable plan));
           retired \<leftarrow> sweep_warm_images E is_dry_run (prune_claimed plan);
           now \<leftarrow> outside (x_unix_time E);
           let report = \<lparr>rep_planned = planned, rep_deleted = deleted, rep_skipped = skipped,
             rep_unaged = unaged_candidates inputs, rep_pruned_records = pruned,
             rep_retired_images = retired, rep_inert_reason = inert_reason machines,
             rep_finished_at_unix = now\<rparr>;
           _ \<leftarrow> if_then (\<not> is_dry_run) (sweep_finish E report);
           return (Inr report) }))) }"

definition last_sweep :: "('w, sweep_report option) op" where
  "last_sweep = gets m_last_sweep"

subsection \<open>The sweep keeps the entries\<close>

lemma evolves_reaper_reads [evolve_ops]:
  "rel_op evolves (allocation_snapshot :: ('w, allocation list) op)"
  "rel_op evolves (regenerating_profiles :: ('w, profile_name list) op)"
  "rel_op evolves (plan_pruned_records images machines)" "rel_op evolves (sweep_warm_images E dry claimed)"
  unfolding regenerating_profiles_def allocation_snapshot_def plan_pruned_records_def sweep_warm_images_def
  by (intro evo.rel_intros evolve_ops)+

lemma evolves_reap [evolve_ops]: "rel_op evolves (reap E cand)"
  unfolding reap_def by (intro evo.rel_intros evolve_ops evolves_map_err)

lemma evolves_reap_all [evolve_ops]: "rel_op evolves (reap_all E cands)"
  by (induction cands) (simp_all add: evo.rel_return evo.rel_bind evo.rel_prod evolves_reap)

lemma evolves_apply_pruned [evolve_ops]: "rel_op evolves (apply_pruned_records E profiles)"
  by (induction profiles) (simp_all add: evo.rel_return evo.rel_bind evolves_images_remove)

lemma evolves_sweep [evolve_ops]: "rel_op evolves (sweep E is_dry_run)"
  unfolding sweep_def sweep_finish_def
  by (intro evo.rel_intros evolve_ops evolves_map_err evo.rel_modify evolves_same; simp)

subsection \<open>What a plan may contain\<close>

text \<open>The names nothing may delete, read from the inputs.\<close>

definition reap_protected :: "reap_inputs \<Rightarrow> string \<Rightarrow> bool" where
  "reap_protected i name \<longleftrightarrow>
     (\<exists>a\<in>set (ri_allocations i). \<not> is_terminal (alloc_state a) \<and>
        (vm_str (alloc_vm_name a) = name \<or> name \<in> set (regenerated_names (ri_config i) a)))
     \<or> (\<exists>g\<in>set (ri_hot i). is_holding_machine (hot_state_of g) \<and> vm_str (hot_vm g) = name)
     \<or> name \<in> set (reserved_image_names (ri_config i))"

lemma protected_names_iff: "name \<in> set (protected_names i) \<longleftrightarrow> reap_protected i name"
  unfolding protected_names_def reap_protected_def
  by (auto simp del: is_terminal.simps)

lemma candidate_fields:
  "candidate i m pre = Some k \<Longrightarrow> cand_name k = mach_name m \<and> cand_state k = mach_state m
     \<and> mach_age_seconds m = Some (cand_age_seconds k) \<and> MIN_AGE_SECONDS \<le> cand_age_seconds k"
  by (auto simp: candidate_def split: option.splits if_splits)

lemma set_map_filter: "y \<in> set (List.map_filter f xs) \<longleftrightarrow> (\<exists>x\<in>set xs. f x = Some y)"
  by (induction xs) (auto simp: List.map_filter_simps split: option.splits)

lemma plan_sweep_iff:
  "k \<in> set (plan_sweep i) \<longleftrightarrow> (\<exists>m\<in>set (ri_machines i). \<not> reap_protected i (mach_name m)
     \<and> candidate i m (prefix_str (rt_vm_prefix (cfg_runtime (ri_config i)))) = Some k)"
  by (auto simp: plan_sweep_def Let_def set_map_filter protected_names_iff)

end
