(* ===== verification/Recovery.thy ===== *)
theory Recovery
  imports Service Reaper
begin

text \<open>
  Startup, \<open>crates/flanforge-manager/src/recovery\<close>: loading what the database holds, ending every
  interrupted allocation (\<open>allocations.rs\<close>), reconciling the pool with the host (\<open>hot.rs\<close>) and
  the warm images with the backend (\<open>warm.rs\<close>). \<open>load_recent\<close> is the read of
  \<open>crates/flanforge-orm/src/stores/allocations.rs\<close>: all unfinished rows first, then the newest
  finished ones up to the limit.
\<close>

subsection \<open>Loading\<close>

definition FALLBACK_CLEANUP_TIMEOUT_SECONDS :: u64 where "FALLBACK_CLEANUP_TIMEOUT_SECONDS = 300"

definition cleanup_only_profile :: "allocation \<Rightarrow> profile" where
  "cleanup_only_profile a =
     \<lparr>prof_repository = req_repository (alloc_request a), prof_template = alloc_vm_name a,
      prof_runner_label = alloc_runner_label a, prof_job_name = [], prof_allowed_workflows = [],
      prof_allowed_events = [], prof_allowed_refs = [], prof_require_protected_ref = True,
      prof_network = NetDefault, prof_cpu_count = 1, prof_memory_mb = 2048,
      prof_storage_mb = 40960, prof_boot_timeout = FALLBACK_CLEANUP_TIMEOUT_SECONDS,
      prof_idle_timeout = FALLBACK_CLEANUP_TIMEOUT_SECONDS,
      prof_job_timeout = FALLBACK_CLEANUP_TIMEOUT_SECONDS,
      prof_cleanup_timeout = FALLBACK_CLEANUP_TIMEOUT_SECONDS, prof_warm_template = None,
      prof_regeneration_workflow = None, prof_hot = None, prof_reap = False\<rparr>"

definition recovered_entry :: "allocation \<Rightarrow> entry" where
  "recovered_entry a = \<lparr>e_allocation = a, e_published = a, e_cancelled = False,
     e_is_supervised = False, e_is_terminalizing = False\<rparr>"

definition ensure_entry_loaded :: "allocation \<Rightarrow> ('w, manager_error + unit) op" where
  "ensure_entry_loaded a = do {
     present \<leftarrow> gets (\<lambda>s. map_of (m_entries s) (alloc_id a) \<noteq> None);
     if present then return (Inl (DuplicateAllocation (alloc_id a)))
     else do {
       _ \<leftarrow> modify (\<lambda>s. s\<lparr>m_entries := AList.update (alloc_id a) (recovered_entry a) (m_entries s)\<rparr>);
       return (Inr ()) } }"

definition ensure_entries_loaded :: "allocation list \<Rightarrow> ('w, manager_error + unit) op" where
  "ensure_entries_loaded = try_each ensure_entry_loaded"

definition recover_allocation :: "'w env \<Rightarrow> config \<Rightarrow> allocation \<Rightarrow> ('w, manager_error + unit) op" where
  "recover_allocation E c a = do {
     let p = (case resolve_profile c (alloc_request a) of
         Inr p \<Rightarrow> p | Inl _ \<Rightarrow> cleanup_only_profile a);
     _ \<leftarrow> set_error_op E (alloc_id a) ''daemon restarted during allocation'';
     bind_res (ensure_terminal E a p Failed) (\<lambda>_. return (Inr ())) }"

subsection \<open>The pool\<close>

definition is_hot_adoptable :: "'w env \<Rightarrow> hot_guest \<Rightarrow> bool \<Rightarrow> profile option \<Rightarrow> ('w, bool) op" where
  "is_hot_adoptable E g present p =
     (if \<not> present then do { _ \<leftarrow> ensure_hot_forgotten E g; return False }
      else case hot_drain_reason_of g of
          Some reason \<Rightarrow> do { _ \<leftarrow> ensure_hot_evicted E g reason; return False }
        | None \<Rightarrow>
            (case (case p of None \<Rightarrow> None | Some p \<Rightarrow> enabled_hot p) of
               None \<Rightarrow> do { _ \<leftarrow> ensure_hot_evicted E g ConfigReloaded; return False }
             | Some hot \<Rightarrow> do {
                 reset \<leftarrow> hot_reset_of hot;
                 gate \<leftarrow> outside (w_ensure_hot_reset E g reset);
                 case gate of
                   Inl _ \<Rightarrow> do { _ \<leftarrow> ensure_hot_evicted E g Unverifiable; return False }
                 | Inr _ \<Rightarrow> do {
                     released_at \<leftarrow> outside (x_unix_time E);
                     now \<leftarrow> outside (x_unix_time E);
                     let released = (if hot_state_of g = Claimed
                       then unwrap_or g (res_ok (ensure_released g released_at)) else g);
                     case ensure_state released Idle now of
                       Inl _ \<Rightarrow> do { _ \<leftarrow> ensure_hot_evicted E g Unverifiable; return False }
                     | Inr adopted \<Rightarrow> do {
                         saved \<leftarrow> hot_save E adopted;
                         case saved of
                           Inl _ \<Rightarrow> do { _ \<leftarrow> ensure_hot_evicted E g Unverifiable; return False }
                         | Inr _ \<Rightarrow> return True } } }))"

definition reconcile_guest :: "'w env \<Rightarrow> config \<Rightarrow> host_machine list \<Rightarrow> hot_guest \<Rightarrow> ('w, unit) op" where
  "reconcile_guest E c machines g =
     (if hot_is_terminal (hot_state_of g) then do { _ \<leftarrow> hot_remove E (hot_vm g); return () }
      else do {
        _ \<leftarrow> is_hot_adoptable E g (list_ex (\<lambda>m. mach_name m = vm_str (hot_vm g)) machines)
          (lookup_profile c (hot_profile g));
        return () })"

definition ensure_hot_consistent :: "'w env \<Rightarrow> ('w, manager_error + unit) op" where
  "ensure_hot_consistent E =
     bind_res (map_err StoreErr (hot_load_all E)) (\<lambda>guests.
       if guests = [] then return (Inr ())
       else do {
         c \<leftarrow> current_config;
         bind_res (map_err WorkerErr (outside (w_machines E))) (\<lambda>machines. do {
           _ \<leftarrow> for_each (reconcile_guest E c machines) guests;
           return (Inr ()) }) })"

subsection \<open>Warm images\<close>

definition revert_record :: "'w env \<Rightarrow> warm_image_record \<Rightarrow> ('w, manager_error + unit) op" where
  "revert_record E r = ensure_warm_reverted E (img_profile r) (img_warm_template r) (img_previous r)"

definition finalize_record :: "'w env \<Rightarrow> warm_image_record \<Rightarrow> ('w, manager_error + unit) op" where
  "finalize_record E r = map_err StoreErr (images_save E (r\<lparr>img_state := Promoted\<rparr>))"

definition restore_warm :: "'w env \<Rightarrow> profile \<Rightarrow> warm_image_record \<Rightarrow> ('w, unit) op" where
  "restore_warm E p r = do {
     _ \<leftarrow> outside (w_ensure_warm_restored E p r);
     _ \<leftarrow> revert_record E r;
     return () }"

definition delete_staged ::
    "'w env \<Rightarrow> profile_name \<Rightarrow> profile \<Rightarrow> warm_image_record \<Rightarrow> vm_name \<Rightarrow> ('w, unit) op" where
  "delete_staged E name p r staging = do {
     c \<leftarrow> current_config;
     budget \<leftarrow> teardown_budget (from_secs (prof_cleanup_timeout p));
     _ \<leftarrow> outside (w_delete_vm E \<lparr>reap_name = staging, reap_authorization_of = AuthStaging name,
       reap_profile = Some p, reap_record = Some r, reap_allocation = None,
       reap_reserved = reserved_image_names c, reap_budget = budget\<rparr>);
     return () }"

definition mark_retention_interrupted :: "'w env \<Rightarrow> warm_image_record \<Rightarrow> ('w, unit) op" where
  "mark_retention_interrupted E r = do {
     _ \<leftarrow> set_retention_op E (img_produced_by r) (retention_outcome_new ResFailed Promote
       ''the daemon restarted during promotion'' (Some (img_generation r)));
     return () }"

text \<open>The four cases of one record, and what is left to do after any of them.\<close>

definition settle_record ::
    "'w env \<Rightarrow> profile \<Rightarrow> warm_image_record \<Rightarrow> bool \<Rightarrow> bool \<Rightarrow> ('w, manager_error + unit) op" where
  "settle_record E p r warm_present staging_present =
     (if warm_present \<and> staging_present \<and> img_state r = Promoted then return (Inr ())
      else if warm_present \<and> img_state r = Staging \<and> \<not> staging_present then finalize_record E r
      else if warm_present \<and> img_state r = Staging
      then do { _ \<leftarrow> revert_record E r; return (Inr ()) }
      else if \<not> warm_present then do { _ \<leftarrow> restore_warm E p r; return (Inr ()) }
      else return (Inr ()))"

definition reconcile_image ::
    "'w env \<Rightarrow> host_machine list \<Rightarrow> profile_name \<Rightarrow> profile \<Rightarrow> warm_image_record \<Rightarrow> ('w, manager_error + unit) op" where
  "reconcile_image E machines name p r =
     (case (staging_name r, previous_name r) of
        (Inr staging, Inr _) \<Rightarrow> do {
          available \<leftarrow> outside (w_warm_availability E p r machines);
          case available of
            Inl _ \<Rightarrow> return (Inr ())
          | Inr availability \<Rightarrow> do {
              let warm_present = (availability = WarmReady \<or> availability = WarmBusy);
              let staging_present = list_ex (\<lambda>m. mach_name m = vm_str staging) machines;
              bind_res (settle_record E p r warm_present staging_present) (\<lambda>_. do {
                _ \<leftarrow> if_then staging_present (delete_staged E name p r staging);
                _ \<leftarrow> if_then (img_state r = Staging) (mark_retention_interrupted E r);
                return (Inr ()) }) } }
      | _ \<Rightarrow> return (Inr ()))"

definition ensure_warm_consistent :: "'w env \<Rightarrow> config \<Rightarrow> ('w, manager_error + unit) op" where
  "ensure_warm_consistent E c =
     bind_res (map_err WorkerErr (outside (w_machines E))) (\<lambda>machines.
       try_each (\<lambda>(name, p).
         if prof_warm_template p = None then return (Inr ())
         else bind_res (map_err StoreErr (images_load E name)) (\<lambda>found.
           case found of
             None \<Rightarrow> return (Inr ())
           | Some r \<Rightarrow> reconcile_image E machines name p r)) (cfg_profiles c))"

subsection \<open>Recovery\<close>

text \<open>
  \<open>load_recent\<close>: the newest rows whatever their state, then every unfinished row beyond them; a
  row that cannot be decoded is skipped.
\<close>

definition newest_rows :: "(uuid \<Rightarrow> string) \<Rightarrow> nat \<Rightarrow> allocation_table \<Rightarrow> allocation list" where
  "newest_rows uuid_str limit t =
     take limit (rev (sort_key (\<lambda>a. (alloc_updated_at a, uuid_str (alloc_id a))) (al_values t)))"

definition live_rows :: "allocation_table \<Rightarrow> allocation list" where
  "live_rows t = filter (\<lambda>a. \<not> is_terminal (alloc_state a)) (al_values t)"

definition decode_rows :: "allocation list \<Rightarrow> allocation list" where
  "decode_rows = filter allocation_validate"

definition push_unseen :: "allocation list \<Rightarrow> allocation \<Rightarrow> allocation list" where
  "push_unseen seen a = (if list_ex (\<lambda>b. alloc_id b = alloc_id a) seen then seen else seen @ [a])"

definition load_recent :: "'w env \<Rightarrow> nat \<Rightarrow> ('w, store_error + allocation list) op" where
  "load_recent E limit =
     bind_res (db E (gets (\<lambda>s. Inr (newest_rows (x_uuid_str E) limit (m_store s))))) (\<lambda>newest.
       bind_res (db E (gets (\<lambda>s. Inr (live_rows (m_store s))))) (\<lambda>live.
         return (Inr (foldl push_unseen (decode_rows newest) (decode_rows live)))))"

definition recover :: "'w env \<Rightarrow> ('w, manager_error + unit) op" where
  "recover E = do {
     c \<leftarrow> current_config;
     limit \<leftarrow> gets (\<lambda>s. tune_history_limit (m_tuning s));
     bind_res (map_err StoreErr (load_recent E limit)) (\<lambda>allocations.
       bind_res (ensure_entries_loaded allocations) (\<lambda>_. do {
         _ \<leftarrow> for_each (\<lambda>a. do { _ \<leftarrow> recover_allocation E c a; return () })
           (filter (\<lambda>a. \<not> is_terminal (alloc_state a)) allocations);
         _ \<leftarrow> outside (w_ensure_recovered E);
         _ \<leftarrow> ensure_hot_consistent E;
         bind_res (ensure_warm_consistent E c) (\<lambda>_. do {
           _ \<leftarrow> emit E RecoveryCompleted None None None;
           return (Inr ()) }) })) }"

subsection \<open>Reconciliation only moves the manager along\<close>

lemma evolves_try_each: "(\<And>x. rel_op evolves (body x)) \<Longrightarrow> rel_op evolves (try_each body xs)"
  by (induction xs) (simp_all add: evo.rel_return evo.rel_bind_res)

lemma evolves_recover_allocation [evolve_ops]: "rel_op evolves (recover_allocation E c a)"
  unfolding recover_allocation_def by (intro evo.rel_intros evolve_ops)

lemma evolves_adopt [evolve_ops]:
  "rel_op evolves (is_hot_adoptable E g present p)" "rel_op evolves (reconcile_guest E c machines g)"
  "rel_op evolves (ensure_hot_consistent E)"
  unfolding ensure_hot_consistent_def reconcile_guest_def is_hot_adoptable_def
  by (intro evo.rel_intros evolve_ops evolves_map_err)+

lemma evolves_warm_records [evolve_ops]:
  "rel_op evolves (revert_record E r)" "rel_op evolves (finalize_record E r)"
  "rel_op evolves (restore_warm E p r)" "rel_op evolves (delete_staged E name p r staging)"
  "rel_op evolves (mark_retention_interrupted E r)"
  unfolding revert_record_def finalize_record_def restore_warm_def delete_staged_def
    mark_retention_interrupted_def
  by (intro evo.rel_intros evolve_ops evolves_map_err)+

lemma evolves_reconcile_image [evolve_ops]:
  "rel_op evolves (settle_record E p r warm staging)" "rel_op evolves (reconcile_image E machines name p r)"
  unfolding reconcile_image_def settle_record_def by (intro evo.rel_intros evolve_ops)+

lemma evolves_warm_consistent [evolve_ops]: "rel_op evolves (ensure_warm_consistent E c)"
  unfolding ensure_warm_consistent_def
  by (intro evo.rel_intros evolve_ops evolves_map_err evolves_try_each)

lemma evolves_load_recent [evolve_ops]: "rel_op evolves (load_recent E limit)"
  unfolding load_recent_def by (intro evo.rel_intros evolves_db)

end
