(* ===== verification/Operator.thy ===== *)
theory Operator
  imports Recovery
begin

text \<open>
  The operator's view and commands, \<open>crates/flanforge-manager/src/operator\<close>: the list of
  allocations and cancellation by identifier (\<open>control.rs\<close>), the status document (\<open>status.rs\<close>)
  and the host credential (\<open>token.rs\<close>), with \<open>cancel_authorized\<close> of \<open>service.rs\<close>.
\<close>

subsection \<open>Listing\<close>

record allocation_summary =
  sum_id :: uuid
  sum_profile :: profile_name
  sum_repository :: repository_name
  sum_run_id :: u64
  sum_run_attempt :: u32
  sum_state :: allocation_state
  sum_age_seconds :: u64
  sum_vm_name :: vm_name
  sum_mode :: allocation_mode
  sum_size :: "guest_size option"
  sum_source :: "clone_source option"

definition summarize :: "allocation \<Rightarrow> u64 \<Rightarrow> allocation_summary" where
  "summarize a now = \<lparr>sum_id = alloc_id a, sum_profile = req_profile (alloc_request a),
     sum_repository = req_repository (alloc_request a), sum_run_id = req_run_id (alloc_request a),
     sum_run_attempt = req_run_attempt (alloc_request a), sum_state = alloc_state a,
     sum_age_seconds = saturating_sub now (alloc_created_at a), sum_vm_name = alloc_vm_name a,
     sum_mode = alloc_mode a, sum_size = alloc_size a, sum_source = alloc_source a\<rparr>"

definition list_allocations :: "'w env \<Rightarrow> ('w, allocation_summary list) op" where
  "list_allocations E = do {
     now \<leftarrow> outside (x_unix_time E);
     gets (\<lambda>s. sort_key (\<lambda>r. (- 1 - sum_age_seconds r, x_uuid_str E (sum_id r)))
       (map (\<lambda>a. summarize a now) (entry_allocations (m_entries s)))) }"

subsection \<open>Cancellation\<close>

text \<open>
  What one call decides under the entries lock: to answer at once, to wait for the caller that is
  already ending the allocation, or to end it itself.
\<close>

datatype cancel_path = CancelAnswer "manager_error + allocation" | CancelWait | CancelDrive allocation

definition cancel_begin :: "uuid \<Rightarrow> ('w, cancel_path) op" where
  "cancel_begin ident = do {
     found \<leftarrow> gets (\<lambda>s. map_of (m_entries s) ident);
     case found of
       None \<Rightarrow> return (CancelAnswer (Inl (NotFound ident)))
     | Some e \<Rightarrow>
         if is_terminal (alloc_state (e_allocation e))
         then return (CancelAnswer (Inr (e_allocation e)))
         else do {
           _ \<leftarrow> modify (alter_entry ident (\<lambda>e. e\<lparr>e_cancelled := True\<rparr>));
           if e_is_supervised e then return (CancelAnswer (Inr (e_allocation e)))
           else if e_is_terminalizing e then return CancelWait
           else do {
             _ \<leftarrow> modify (alter_entry ident (\<lambda>e. e\<lparr>e_is_terminalizing := True\<rparr>));
             return (CancelDrive (e_allocation e)) } } }"

definition cancel_drive :: "'w env \<Rightarrow> allocation \<Rightarrow> ('w, manager_error + allocation) op" where
  "cancel_drive E a = do {
     c \<leftarrow> current_config;
     let p = (case resolve_profile c (alloc_request a) of Inr p \<Rightarrow> p | Inl _ \<Rightarrow> cleanup_only_profile a);
     terminalized \<leftarrow> ensure_terminal E a p Cancelled;
     _ \<leftarrow> modify (alter_entry (alloc_id a) (\<lambda>e. e\<lparr>e_is_terminalizing := False\<rparr>));
     case terminalized of
       Inl err \<Rightarrow> return (Inl err)
     | Inr _ \<Rightarrow> get_allocation (alloc_id a) }"

text \<open>
  \<open>cancel_by_id\<close> for a caller that need not wait; one that does waits until the published
  allocation is terminal and then reads it, which is \<open>get_allocation\<close> in that later state.
\<close>

definition cancel_by_id :: "'w env \<Rightarrow> uuid \<Rightarrow> ('w, (manager_error + allocation) option) op" where
  "cancel_by_id E ident = do {
     path \<leftarrow> cancel_begin ident;
     case path of
       CancelAnswer r \<Rightarrow> return (Some r)
     | CancelWait \<Rightarrow> return None
     | CancelDrive a \<Rightarrow> do { r \<leftarrow> cancel_drive E a; return (Some r) } }"

definition cancel_authorized ::
    "'w env \<Rightarrow> uuid \<Rightarrow> forgejo_claims \<Rightarrow> ('w, (manager_error + allocation) option) op" where
  "cancel_authorized E ident claims = do {
     got \<leftarrow> get_authorized ident claims;
     case got of
       Inl err \<Rightarrow> return (Some (Inl err))
     | Inr a \<Rightarrow>
         if is_terminal (alloc_state a) then return (Some (Inr a)) else cancel_by_id E ident }"

subsection \<open>Status\<close>

record capacity_status =
  cs_active_allocations :: u32
  cs_foreign_running :: u32
  cs_hot_running :: u32
  cs_max_hot_vms :: u8
  cs_max_running_vms :: u8
  cs_committed_cpu_count :: u32
  cs_committed_memory_mb :: u32
  cs_committed_storage_mb :: u64
  cs_host_cpu_count :: "u8 option"
  cs_host_memory_mb :: "u32 option"
  cs_host_storage_mb :: "u64 option"
  cs_is_host_visible :: bool

record warm_image_status =
  wi_profile :: profile_name
  wi_warm_template :: vm_name
  wi_generation :: u64
  wi_state :: warm_image_state
  wi_produced_at_unix :: u64
  wi_is_referenced :: bool
  wi_is_quarantined :: bool
  wi_retained_generations :: "u32 option"

text \<open>The runtime's own status is a document of the backend and is left out.\<close>

record operator_status =
  st_capacity :: capacity_status
  st_config_generation :: u64
  st_restart_pending :: "string list"
  st_warm_images :: "warm_image_status list"
  st_is_warm_image_store_visible :: bool
  st_last_sweep :: "sweep_report option"

definition bounded_count :: "nat \<Rightarrow> u32" where
  "bounded_count n = of_nat (min n 65535)"

definition capacity_status_of ::
    "entries \<Rightarrow> config \<Rightarrow> host_machine list option \<Rightarrow> hot_guest list \<Rightarrow> capacity_status" where
  "capacity_status_of es c machines hot =
     (let names = hot_names hot (unwrap_or [] machines);
          active = active_allocations es;
          committed = committed_capacity active c;
          pooled = hot_capacity hot active names;
          rt = cfg_runtime c
      in \<lparr>cs_active_allocations = bounded_count (cap_active committed),
          cs_foreign_running = bounded_count (case machines of
            None \<Rightarrow> 0 | Some ms \<Rightarrow> foreign_running active ms names),
          cs_hot_running = bounded_count (cap_active pooled), cs_max_hot_vms = rt_max_hot_vms rt,
          cs_max_running_vms = rt_max_running_vms rt, cs_committed_cpu_count = cap_cpu committed,
          cs_committed_memory_mb = cap_memory committed,
          cs_committed_storage_mb = cap_storage committed,
          cs_host_cpu_count = rt_host_cpu_count rt, cs_host_memory_mb = rt_host_memory_mb rt,
          cs_host_storage_mb = rt_host_storage_mb rt, cs_is_host_visible = (machines \<noteq> None)\<rparr>)"

definition capacity_status_op ::
    "config \<Rightarrow> host_machine list option \<Rightarrow> hot_guest list \<Rightarrow> ('w, capacity_status) op" where
  "capacity_status_op c machines hot = gets (\<lambda>s. capacity_status_of (m_entries s) c machines hot)"

definition warm_image_status_op ::
    "'w env \<Rightarrow> config \<Rightarrow> warm_image_record list \<Rightarrow> ('w, warm_image_status list) op" where
  "warm_image_status_op E c records = do {
     quarantined \<leftarrow> gets m_quarantined;
     map_each (\<lambda>r. do {
       retained \<leftarrow> outside (w_warm_retained E (img_profile r));
       return \<lparr>wi_profile = img_profile r, wi_warm_template = img_warm_template r,
         wi_generation = img_generation r, wi_state = img_state r,
         wi_produced_at_unix = img_produced_at_unix r,
         wi_is_referenced = is_record_referenced c r,
         wi_is_quarantined = (img_profile r \<in> set quarantined),
         wi_retained_generations = retained\<rparr> }) records }"

definition status_snapshot :: "'w env \<Rightarrow> ('w, operator_status) op" where
  "status_snapshot E = do {
     c \<leftarrow> current_config;
     machines \<leftarrow> host_machines E;
     images \<leftarrow> images_load_all E;
     hot \<leftarrow> hot_load_all E;
     capacity \<leftarrow> capacity_status_op c (res_ok machines) (unwrap_or [] (res_ok hot));
     handle \<leftarrow> gets m_config;
     warm \<leftarrow> warm_image_status_op E c (unwrap_or [] (res_ok images));
     swept \<leftarrow> last_sweep;
     return \<lparr>st_capacity = capacity, st_config_generation = ch_generation handle,
       st_restart_pending = restart_pending handle, st_warm_images = warm,
       st_is_warm_image_store_visible = is_ok images, st_last_sweep = swept\<rparr> }"

subsection \<open>The host credential\<close>

text \<open>The fold of the comparison visits every byte.\<close>

definition token_difference :: "string \<Rightarrow> string \<Rightarrow> u8" where
  "token_difference presented expected =
     foldl (\<lambda>difference (l, r). or difference (xor (of_char l) (of_char r))) 0 (zip presented expected)"

definition is_token_match :: "string \<Rightarrow> string \<Rightarrow> bool" where
  "is_token_match presented expected =
     (if length presented \<noteq> length expected \<or> expected = [] then False
      else token_difference presented expected = 0)"

datatype token_error = TokenNotRegular | TokenPermissions | TokenIo | TokenMissing

text \<open>
  What the file system answers for the credential's path: nothing there, an error, or a file with
  its type, its mode and the result of reading it, which a removal in between may turn into none.
\<close>

datatype token_text = ReadText string | ReadGone | ReadFailed
datatype token_file = NoFile | FileError | TokenFile bool u32 token_text

definition read_token :: "token_file \<Rightarrow> token_error + string option" where
  "read_token f = (case f of
     NoFile \<Rightarrow> Inr None
   | FileError \<Rightarrow> Inl TokenIo
   | TokenFile is_file mode content \<Rightarrow>
       if \<not> is_file then Inl TokenNotRegular
       else if and mode 0x3F \<noteq> 0 then Inl TokenPermissions
       else case content of
           ReadFailed \<Rightarrow> Inl TokenIo
         | ReadGone \<Rightarrow> Inr None
         | ReadText text \<Rightarrow> Inr (let token = trim text in if token = [] then None else Some token))"

definition read_operator_token :: "token_file \<Rightarrow> token_error + string" where
  "read_operator_token f = and_then (read_token f) (\<lambda>found.
     case found of Some token \<Rightarrow> Inr token | None \<Rightarrow> Inl TokenMissing)"

text \<open>
  \<open>write_private\<close> truncates what is there and keeps its mode; a new file gets \<open>0o600\<close>.
  \<open>ensure_operator_token\<close> returns the token and what is on disk afterwards.
\<close>

definition write_private :: "token_file \<Rightarrow> string \<Rightarrow> token_file" where
  "write_private f token = TokenFile True (case f of TokenFile _ mode ReadGone \<Rightarrow> 0x180
     | TokenFile _ mode _ \<Rightarrow> mode | _ \<Rightarrow> 0x180) (ReadText token)"

definition ensure_operator_token ::
    "token_file \<Rightarrow> string \<Rightarrow> string \<Rightarrow> token_error + string \<times> token_file" where
  "ensure_operator_token f first second = and_then (read_token f) (\<lambda>found.
     case found of
       Some token \<Rightarrow> Inr (token, f)
     | None \<Rightarrow> Inr (first @ second, write_private f (first @ second)))"

subsection \<open>The operator's commands only move the manager along\<close>

lemma evolves_cancel_begin [evolve_ops]: "rel_op evolves (cancel_begin ident)"
  unfolding cancel_begin_def by (intro evo.rel_intros evolve_ops)

lemma evolves_cancel_drive [evolve_ops]: "rel_op evolves (cancel_drive E a)"
  unfolding cancel_drive_def by (intro evo.rel_intros evolve_ops)

lemma evolves_cancel_path:
  "(\<And>r. rel_op evolves (f r)) \<Longrightarrow> rel_op evolves m \<Longrightarrow> (\<And>a. rel_op evolves (g a)) \<Longrightarrow>
     rel_op evolves (case path of CancelAnswer r \<Rightarrow> f r | CancelWait \<Rightarrow> m | CancelDrive a \<Rightarrow> g a)"
  by (cases path) auto

lemma evolves_cancel [evolve_ops]:
  "rel_op evolves (cancel_by_id E ident)" "rel_op evolves (cancel_authorized E ident claims)"
  unfolding cancel_authorized_def cancel_by_id_def
  by (intro evolves_cancel_path evo.rel_intros evolve_ops)+

lemma evolves_map_each: "(\<And>x. rel_op evolves (body x)) \<Longrightarrow> rel_op evolves (map_each body xs)"
  by (induction xs) (simp_all add: evo.rel_return evo.rel_bind)

lemma evolves_status [evolve_ops]:
  "rel_op evolves (list_allocations E)" "rel_op evolves (hot_list E)" "rel_op evolves (status_snapshot E)"
  unfolding list_allocations_def hot_list_def hot_present_names_def status_snapshot_def
    capacity_status_op_def warm_image_status_op_def last_sweep_def
  by (intro evo.rel_intros evolve_ops evolves_map_each)+

end
