(* ===== verification/History.thy ===== *)
theory History
  imports Recovery
begin

text \<open>
  The bound on durable history, \<open>stores/prune.rs\<close> of \<open>crates/flanforge-orm/src\<close>: events by age
  and by count, finished allocations by age and by count. The pass runs at startup and after
  every thousandth event. The event table is the list of its rows in the order of their
  identifiers.
\<close>

definition EVENTS_MAX_ROWS :: nat where "EVENTS_MAX_ROWS = 50000"
definition EVENTS_MAX_AGE_SECONDS :: u64 where "EVENTS_MAX_AGE_SECONDS = 90 * 24 * 3600"
definition ALLOCATIONS_MAX_TERMINAL_ROWS :: nat where "ALLOCATIONS_MAX_TERMINAL_ROWS = 10000"
definition ALLOCATIONS_MAX_AGE_SECONDS :: u64 where "ALLOCATIONS_MAX_AGE_SECONDS = 180 * 24 * 3600"

text \<open>\<open>to_i64\<close> clamps to the greatest \<open>i64\<close>.\<close>

definition to_i64 :: "u64 \<Rightarrow> nat" where
  "to_i64 n = min (unat n) (2 ^ 63 - 1)"

record prune_outcome =
  events_deleted :: nat
  allocations_deleted :: nat

text \<open>A delete removes the rows of its filter and reports how many there were.\<close>

definition delete_events :: "'w env \<Rightarrow> (event list \<Rightarrow> event list) \<Rightarrow> ('w, store_error + nat) op" where
  "delete_events E keep = db E (do {
     before \<leftarrow> gets (\<lambda>s. length (m_events s));
     _ \<leftarrow> modify (\<lambda>s. s\<lparr>m_events := keep (m_events s)\<rparr>);
     after \<leftarrow> gets (\<lambda>s. length (m_events s));
     return (Inr (before - after)) })"

definition delete_allocations :: "'w env \<Rightarrow> (allocation \<Rightarrow> bool) \<Rightarrow> ('w, store_error + nat) op" where
  "delete_allocations E gone = db E (do {
     before \<leftarrow> gets (\<lambda>s. length (m_store s));
     _ \<leftarrow> modify (\<lambda>s. s\<lparr>m_store := filter (\<lambda>(_, a). \<not> gone a) (m_store s)\<rparr>);
     after \<leftarrow> gets (\<lambda>s. length (m_store s));
     return (Inr (before - after)) })"

definition event_age :: "event \<Rightarrow> nat" where
  "event_age e = to_i64 (ev_occurred_at_unix e)"

definition nth_row :: "'a list \<Rightarrow> nat \<Rightarrow> 'a option" where
  "nth_row xs n = (if n < length xs then Some (xs ! n) else None)"

definition newest_terminal :: "allocation_table \<Rightarrow> nat list" where
  "newest_terminal t = rev (sort (map (\<lambda>a. unat (alloc_updated_at a))
     (filter (\<lambda>a. is_terminal (alloc_state a)) (al_values t))))"

definition prune_history :: "'w env \<Rightarrow> ('w, store_error + prune_outcome) op" where
  "prune_history E = do {
     now \<leftarrow> outside (x_unix_time E);
     let event_floor = to_i64 (saturating_sub now EVENTS_MAX_AGE_SECONDS);
     let floor = to_i64 (saturating_sub now ALLOCATIONS_MAX_AGE_SECONDS);
     bind_res (delete_events E (filter (\<lambda>e. \<not> event_age e < event_floor))) (\<lambda>old_events.
       bind_res (db E (gets (\<lambda>s. Inr (EVENTS_MAX_ROWS < length (m_events s))))) (\<lambda>over.
         bind_res (if over then delete_events E (\<lambda>es. drop (length es - EVENTS_MAX_ROWS) es)
                   else return (Inr 0)) (\<lambda>surplus_events.
           bind_res (delete_allocations E (\<lambda>a. is_terminal (alloc_state a) \<and> unat (alloc_updated_at a) < floor)) (\<lambda>old.
             bind_res (db E (gets (\<lambda>s. Inr (nth_row (newest_terminal (m_store s)) ALLOCATIONS_MAX_TERMINAL_ROWS)))) (\<lambda>found.
               bind_res (case found of
                   None \<Rightarrow> return (Inr 0)
                 | Some cutoff \<Rightarrow> delete_allocations E
                     (\<lambda>a. is_terminal (alloc_state a) \<and> unat (alloc_updated_at a) < cutoff)) (\<lambda>surplus.
                 return (Inr \<lparr>events_deleted = old_events + surplus_events,
                   allocations_deleted = old + surplus\<rparr>))))))) }"

subsection \<open>Unfinished work is never pruned\<close>

text \<open>
  \<open>forgets s s'\<close>: the manager is the same but for finished rows that are gone from the database,
  events and the outside.
\<close>

definition forgets :: "'w mgr \<Rightarrow> 'w mgr \<Rightarrow> bool" where
  "forgets s s' \<longleftrightarrow> m_entries s' = m_entries s \<and> m_config s' = m_config s \<and> m_hot s' = m_hot s
     \<and> m_images s' = m_images s \<and> m_is_closing s' = m_is_closing s \<and> m_tuning s' = m_tuning s
     \<and> m_teardown_deadline s' = m_teardown_deadline s
     \<and> (\<exists>gone. (\<forall>a. gone a \<longrightarrow> is_terminal (alloc_state a))
          \<and> m_store s' = filter (\<lambda>(_, a). \<not> gone a) (m_store s))"

interpretation forget: state_preorder forgets
proof unfold_locales
  fix s :: "'w mgr"
  show "forgets s s" by (auto simp: forgets_def intro!: exI[of _ "\<lambda>_. False"])
next
  fix s t u :: "'w mgr"
  assume "forgets s t" "forgets t u"
  then obtain g h where g: "\<forall>a. g a \<longrightarrow> is_terminal (alloc_state a)" "m_store t = filter (\<lambda>(_, a). \<not> g a) (m_store s)"
    and h: "\<forall>a. h a \<longrightarrow> is_terminal (alloc_state a)" "m_store u = filter (\<lambda>(_, a). \<not> h a) (m_store t)"
    and rest: "m_entries u = m_entries s" "m_config u = m_config s" "m_hot u = m_hot s"
      "m_images u = m_images s" "m_is_closing u = m_is_closing s" "m_tuning u = m_tuning s"
      "m_teardown_deadline u = m_teardown_deadline s"
    unfolding forgets_def by metis
  have "m_store u = filter (\<lambda>(_, a). \<not> (g a \<or> h a)) (m_store s)"
    unfolding g(2) h(2) filter_filter by (rule filter_cong) auto
  then show "forgets s u"
    using g(1) h(1) rest unfolding forgets_def by (blast intro: exI[of _ "\<lambda>a. g a \<or> h a"])
qed

lemma forgets_same:
  assumes "m_entries s' = m_entries s" "m_config s' = m_config s" "m_hot s' = m_hot s"
    and "m_images s' = m_images s" "m_is_closing s' = m_is_closing s" "m_tuning s' = m_tuning s"
    and "m_teardown_deadline s' = m_teardown_deadline s" "m_store s' = m_store s"
  shows "forgets s s'"
  using assms by (auto simp: forgets_def intro!: exI[of _ "\<lambda>_. False"])

lemma forgets_db: "rel_op forgets m \<Longrightarrow> rel_op forgets (db E m)"
  unfolding db_def
  by (intro forget.rel_intros) (auto simp: rel_op_def intro: forgets_same)

lemma forgets_outside: "rel_op forgets (outside f)"
  by (auto simp: rel_op_def intro!: forgets_same)

lemma forgets_delete_events: "rel_op forgets (delete_events E keep)"
  unfolding delete_events_def
  by (intro forgets_db forget.rel_intros forget.rel_modify forgets_same) simp_all

lemma forgets_delete_allocations:
  assumes "\<And>a. gone a \<Longrightarrow> is_terminal (alloc_state a)"
  shows "rel_op forgets (delete_allocations E gone)"
  unfolding delete_allocations_def
  by (intro forgets_db forget.rel_intros forget.rel_modify)
    (use assms in \<open>auto simp: forgets_def simp del: is_terminal.simps intro!: exI[of _ gone]\<close>)

lemma forgets_prune: "rel_op forgets (prune_history E)"
  unfolding prune_history_def
  by (intro forget.rel_intros forgets_outside forgets_db forgets_delete_events
      forgets_delete_allocations; simp only:)

lemma map_of_filter_snd:
  "distinct (map fst t) \<Longrightarrow> map_of (filter (\<lambda>(_, a). P a) t) k =
     (case map_of t k of None \<Rightarrow> None | Some a \<Rightarrow> if P a then Some a else None)"
  by (induction t) (auto split: option.split simp: map_of_eq_None_iff)

lemma forgets_well_formed:
  assumes "forgets s s'" "well_formed s"
  shows "well_formed s'" "live_entry s' = live_entry s"
proof -
  obtain gone where gone: "\<And>a. gone a \<Longrightarrow> is_terminal (alloc_state a)"
    and st: "m_store s' = filter (\<lambda>(_, a). \<not> gone a) (m_store s)"
    using assms(1) unfolding forgets_def by blast
  have same: "m_entries s' = m_entries s" "m_hot s' = m_hot s" "m_images s' = m_images s"
    using assms(1) by (simp_all add: forgets_def)
  show le: "live_entry s' = live_entry s" by (rule ext) (simp add: live_entry_def same)
  have d: "distinct (map fst (m_store s))" using assms(2) by (simp add: well_formed_def keyed_by_def)
  have "live_row s' i = live_row s i" for i
    unfolding live_row_def st map_of_filter_snd[OF d] using gone by (auto split: option.split)
  moreover have "keyed_by alloc_id (m_store s')"
    using assms(2) unfolding st by (simp add: well_formed_def keyed_by_filter)
  moreover have "allocation_validate a" if "a \<in> set (al_values (m_store s'))" for a
    using that assms(2) unfolding st by (force simp: well_formed_def al_values_def)
  ultimately show "well_formed s'"
    using assms(2) unfolding well_formed_def same le by simp
qed

end
