(* ===== verification/Manager_Run.thy ===== *)
theory Manager_Run
  imports Operator History
begin

text \<open>
  The manager as a transition system. A step is one operation of the service, the commit of a
  creation whose preparation read an arbitrary earlier state, a reload of the configuration, a
  retention pass over the history, a change of the outside, or a restart of the process over the
  same database. Tasks interleave at these steps: what a request, a cancellation or a shutdown
  does before, under and after the entries lock are different steps.
\<close>

subsection \<open>Operations\<close>

datatype action =
    WorkerReady allocation
  | ReportTransition uuid allocation_state
  | ReportRunnerId uuid int
  | ReportVmCreated uuid
  | ReportSource uuid clone_source
  | ReportCloneSource uuid clone_source "u64 option"
  | ReportRetention uuid retention_outcome
  | ResolveSource uuid profile
  | PlanRetention uuid
  | RecordWarmImage warm_image_record
  | RevertWarm profile_name vm_name "warm_generation option"
  | TeardownRun allocation profile "worker_error + unit"
  | CreatePrepare allocation_request request_options forgejo_claims
  | GetAuthorized uuid forgejo_claims
  | CancelBegin uuid
  | CancelDrive allocation
  | CancelAuthorized uuid forgejo_claims
  | Sweep bool
  | HotReloadTurn config config
  | HotDrain vm_name
  | HotEvict vm_name
  | ShutdownBegin nat
  | ShutdownEnd nat nat "uuid list"
  | ListAllocations
  | HotList
  | StatusSnapshot
  | RecoverAllocation config allocation
  | HotConsistent
  | WarmConsistent config

definition ignore :: "('s, 'a) state \<Rightarrow> ('s, unit) state" where
  "ignore m = do { _ \<leftarrow> m; return () }"

fun perform :: "'w env \<Rightarrow> action \<Rightarrow> ('w, unit) op" where
  "perform E (WorkerReady a) = ignore (ensure_hot_ready E a)"
| "perform E (ReportTransition ident next) = ignore (transition_op E ident next)"
| "perform E (ReportRunnerId ident i) = ignore (set_runner_id_op E ident i)"
| "perform E (ReportVmCreated ident) = ignore (set_vm_created_op E ident)"
| "perform E (ReportSource ident source) = ignore (set_source_op E ident source)"
| "perform E (ReportCloneSource ident source g) = ignore (set_clone_source_op E ident source g)"
| "perform E (ReportRetention ident outcome) = ignore (set_retention_op E ident outcome)"
| "perform E (ResolveSource ident p) = ignore (resolve_clone_source E ident p)"
| "perform E (PlanRetention ident) = ignore (reporter_retention_plan E ident)"
| "perform E (RecordWarmImage r) = ignore (record_warm_image E r)"
| "perform E (RevertWarm profile warm previous) = ignore (ensure_warm_reverted E profile warm previous)"
| "perform E (TeardownRun a p r) = teardown_run E a p r"
| "perform E (CreatePrepare request options claims) = ignore (create_prepare E request options claims)"
| "perform E (GetAuthorized ident claims) = ignore (get_authorized ident claims)"
| "perform E (CancelBegin ident) = ignore (cancel_begin ident)"
| "perform E (CancelDrive a) = ignore (cancel_drive E a)"
| "perform E (CancelAuthorized ident claims) = ignore (cancel_authorized E ident claims)"
| "perform E (Sweep is_dry_run) = ignore (sweep E is_dry_run)"
| "perform E (HotReloadTurn previous next) = hot_reload_turn E previous next"
| "perform E (HotDrain name) = ignore (hot_drain E name)"
| "perform E (HotEvict name) = ignore (hot_evict E name)"
| "perform E (ShutdownBegin grace) = ignore (shutdown_begin E grace)"
| "perform E (ShutdownEnd grace started awaited) = ignore (shutdown_end E grace started awaited)"
| "perform E ListAllocations = ignore (list_allocations E)"
| "perform E HotList = ignore (hot_list E)"
| "perform E StatusSnapshot = ignore (status_snapshot E)"
| "perform E (RecoverAllocation c a) = ignore (recover_allocation E c a)"
| "perform E HotConsistent = ignore (ensure_hot_consistent E)"
| "perform E (WarmConsistent c) = ignore (ensure_warm_consistent E c)"

lemma evolves_ignore: "rel_op evolves m \<Longrightarrow> rel_op evolves (ignore m)"
  unfolding ignore_def by (intro evo.rel_intros)

lemma evolves_perform: "rel_op evolves (perform E act)"
  by (cases act) (simp_all only: perform.simps, (intro evolves_ignore evolve_ops)+)

subsection \<open>Steps\<close>

text \<open>What a process does with the database before it serves: build, then load the entries.\<close>

definition load_entries :: "'w env \<Rightarrow> ('w, manager_error + unit) op" where
  "load_entries E = do {
     limit \<leftarrow> gets (\<lambda>s. tune_history_limit (m_tuning s));
     bind_res (map_err StoreErr (load_recent E limit)) ensure_entries_loaded }"

definition restarted :: "config \<Rightarrow> tuning \<Rightarrow> 'w \<Rightarrow> 'w mgr \<Rightarrow> 'w mgr" where
  "restarted c tun w s = mgr_build c (m_store s) (m_images s) (m_hot s) tun w"

text \<open>The identifier of a new allocation is one no allocation has: it is drawn at random.\<close>

definition is_fresh :: "'w mgr \<Rightarrow> manager_error + created \<Rightarrow> bool" where
  "is_fresh s r \<longleftrightarrow> (case r of
     Inl _ \<Rightarrow> True
   | Inr created \<Rightarrow> cr_is_new created \<longrightarrow>
       map_of (m_entries s) (alloc_id (cr_allocation created)) = None
       \<and> map_of (m_store s) (alloc_id (cr_allocation created)) = None)"

inductive mgr_step :: "'w env \<Rightarrow> 'w mgr \<Rightarrow> 'w mgr \<Rightarrow> bool" for E where
  operation: "mgr_step E s (snd (run_state (perform E act) s))"
| commit: "run_state (create_commit E prep request options) s = (r, s') \<Longrightarrow> is_fresh s r \<Longrightarrow> mgr_step E s s'"
| reload: "config_apply shell_words next (m_config s) = (r, h) \<Longrightarrow> mgr_step E s (s\<lparr>m_config := h\<rparr>)"
| retention: "mgr_step E s (snd (run_state (prune_history E) s))"
| elsewhere: "mgr_step E s (s\<lparr>m_world := w\<rparr>)"
| restart: "run_state (load_entries E) (restarted c tun w s) = (Inr (), s') \<Longrightarrow> mgr_step E s s'"

text \<open>A first start finds no allocations; it may find a pool and images of an earlier installation.\<close>

definition first_start :: "'w mgr \<Rightarrow> bool" where
  "first_start s \<longleftrightarrow> (\<exists>c images hot tun w. s = mgr_build c [] images hot tun w
     \<and> keyed_by img_profile images \<and> keyed_by hot_vm hot)"

definition reachable :: "'w env \<Rightarrow> 'w mgr \<Rightarrow> bool" where
  "reachable E s \<longleftrightarrow> (\<exists>s0. first_start s0 \<and> (mgr_step E)\<^sup>*\<^sup>* s0 s)"

subsection \<open>What is unfinished, after each kind of step\<close>

lemma live_entry_evolves:
  assumes "evolves s s'" "well_formed s" "live_entry s' i = Some b"
  obtains a where "live_entry s i = Some a" "same_identity a b"
proof -
  have ev: "entries_evolve (m_entries s) (m_entries s')" using assms(1,2) by (simp add: evolves_def)
  have "\<exists>e. map_of es i = Some e \<and> entry_evolves e e'"
    if "entries_evolve es es'" "map_of es' i = Some e'" for es es' e'
    using that unfolding entries_evolve_def
    by (induction rule: list_all2_induct) (auto split: if_splits)
  moreover from assms(3) obtain e' where e': "map_of (m_entries s') i = Some e'" "e_allocation e' = b"
      "\<not> is_terminal (alloc_state b)"
    by (auto simp: live_entry_def simp del: is_terminal.simps split: option.splits if_splits)
  ultimately obtain e where e: "map_of (m_entries s) i = Some e" "entry_evolves e e'" using ev by blast
  then have "\<not> is_terminal (alloc_state (e_allocation e))"
    using transitions_terminal e' unfolding entry_evolves_def allocation_evolves_def by metis
  then show thesis
    using e e' that[of "e_allocation e"]
    by (auto simp: live_entry_def entry_evolves_def allocation_evolves_def simp del: is_terminal.simps)
qed

lemma update_absent: "map_of t k = None \<Longrightarrow> AList.update k v t = t @ [(k, v)]"
  by (induction t) (auto split: if_splits)

lemma insert_entry_map_of:
  assumes "entries_keyed (m_entries s)"
  shows "map_of (m_entries (insert_entry E a s)) i =
    (let es = AList.update (alloc_id a) (new_entry a) (m_entries s)
     in if i \<in> alloc_id ` set (pruned (x_uuid_str E) (tune_history_limit (m_tuning s)) es)
        then None else map_of es i)"
proof -
  have "entries_keyed (AList.update (alloc_id a) (new_entry a) (m_entries s))"
    using assms by (intro keyed_by_update) (simp_all add: new_entry_def)
  then show ?thesis by (simp add: insert_entry_def map_of_prune Let_def)
qed

lemma live_entry_insert:
  assumes "entries_keyed (m_entries s)" "\<not> is_terminal (alloc_state a)"
  shows "live_entry (insert_entry E a s) i = (if i = alloc_id a then Some a else live_entry s i)"
proof -
  let ?es = "AList.update (alloc_id a) (new_entry a) (m_entries s)"
  have k: "entries_keyed ?es" using assms(1) by (intro keyed_by_update) (simp_all add: new_entry_def)
  let ?p = "prune_terminal_history (x_uuid_str E) (tune_history_limit (m_tuning s)) ?es"
  have "(case map_of ?p i of None \<Rightarrow> None | Some e \<Rightarrow>
      if is_terminal (alloc_state (e_allocation e)) then None else Some (e_allocation e)) =
    (case map_of ?es i of None \<Rightarrow> None | Some e \<Rightarrow>
      if is_terminal (alloc_state (e_allocation e)) then None else Some (e_allocation e))"
    using prune_keeps_live[OF k, of i] map_of_prune[OF k, of "x_uuid_str E" "tune_history_limit (m_tuning s)" i]
    by (auto split: option.split simp del: is_terminal.simps)
  then show ?thesis
    using assms(2) by (simp add: live_entry_def insert_entry_def map_of_update new_entry_def del: is_terminal.simps)
qed

lemma well_formed_insert:
  assumes wf: "well_formed s" and a: "\<not> is_terminal (alloc_state a)"
    and saved: "allocation_table_save a (m_store s) = Inr t"
  shows "well_formed (insert_entry E a (s\<lparr>m_store := t\<rparr>))"
proof -
  let ?s = "s\<lparr>m_store := t\<rparr>"
  let ?es = "AList.update (alloc_id a) (new_entry a) (m_entries s)"
  let ?p = "prune_terminal_history (x_uuid_str E) (tune_history_limit (m_tuning s)) ?es"
  have t: "t = AList.update (alloc_id a) a (m_store s)" "allocation_validate a"
    using saved by (simp_all add: allocation_table_save_Inr)
  have k: "entries_keyed (m_entries s)" using wf by (simp add: well_formed_def)
  then have "entries_keyed ?p"
    unfolding prune_filter by (intro keyed_by_filter keyed_by_update) (simp_all add: new_entry_def)
  moreover have "e_published e = e_allocation e" if "e \<in> set (al_values ?p)" for e
  proof -
    have "e \<in> set (al_values ?es)" using that unfolding prune_filter al_values_def by auto
    then show ?thesis using wf by (auto simp: well_formed_def new_entry_def dest!: set_al_values_update)
  qed
  moreover have "live_row (insert_entry E a ?s) i = live_entry (insert_entry E a ?s) i" for i
  proof -
    have "live_entry (insert_entry E a ?s) i = (if i = alloc_id a then Some a else live_entry s i)"
      using live_entry_insert[of ?s a E i] k a by (simp add: live_entry_def)
    moreover have "live_row (insert_entry E a ?s) i = (if i = alloc_id a then Some a else live_row s i)"
      using a by (simp add: live_row_def insert_entry_def t(1) map_of_update del: is_terminal.simps)
    ultimately show ?thesis using wf by (simp add: well_formed_def)
  qed
  ultimately show ?thesis
    using wf t by (auto simp: well_formed_def insert_entry_def intro!: keyed_by_update dest!: set_al_values_update)
qed

subsection \<open>Restart\<close>

lemma entries_loaded:
  assumes "run_state (ensure_entries_loaded rows) s = (Inr (), s')" "distinct (map fst (m_entries s))"
  shows "s' = s\<lparr>m_entries := m_entries s @ map (\<lambda>a. (alloc_id a, recovered_entry a)) rows\<rparr>
    \<and> distinct (map fst (m_entries s'))"
  using assms
proof (induction rows arbitrary: s)
  case Nil
  then show ?case by (simp add: ensure_entries_loaded_def)
next
  case (Cons a rows)
  have absent: "map_of (m_entries s) (alloc_id a) = None"
    using Cons.prems(1) by (auto simp: ensure_entries_loaded_def ensure_entry_loaded_def bind_res_def split: if_splits)
  let ?s = "s\<lparr>m_entries := m_entries s @ [(alloc_id a, recovered_entry a)]\<rparr>"
  have run: "run_state (ensure_entries_loaded rows) ?s = (Inr (), s')"
    using Cons.prems(1) absent
    by (simp add: ensure_entries_loaded_def ensure_entry_loaded_def bind_res_def update_absent)
  have "distinct (map fst (m_entries ?s))"
    using Cons.prems(2) absent by (auto simp: map_of_eq_None_iff)
  note IH = Cons.IH[OF run this]
  show ?case using IH[THEN conjunct1] IH[THEN conjunct2] by (intro conjI) (simp, assumption)
qed

lemma push_unseen_fold:
  "set seen \<subseteq> set (foldl push_unseen seen rows)"
  "set (foldl push_unseen seen rows) \<subseteq> set seen \<union> set rows"
  "a \<in> set rows \<Longrightarrow> \<exists>b\<in>set (foldl push_unseen seen rows). alloc_id b = alloc_id a"
  "distinct (map alloc_id seen) \<Longrightarrow> distinct (map alloc_id (foldl push_unseen seen rows))"
proof (induction rows arbitrary: seen)
  case (Cons r rows)
  {
    case 1
    show ?case using Cons(1)[of "push_unseen seen r"] by (auto simp: push_unseen_def split: if_splits)
  next
    case 2
    show ?case using Cons(2)[of "push_unseen seen r"] by (auto simp: push_unseen_def split: if_splits)
  next
    case 3
    have "\<exists>b\<in>set (push_unseen seen r). alloc_id b = alloc_id r"
      by (auto simp: push_unseen_def list_ex_iff)
    then show ?case using 3 Cons(1)[of "push_unseen seen r"] Cons(3)[of "push_unseen seen r"] by auto
  next
    case 4
    then have "distinct (map alloc_id (push_unseen seen r))" by (auto simp: push_unseen_def list_ex_iff)
    then show ?case using Cons(4)[of "push_unseen seen r"] by simp
  }
qed simp_all

definition recovered_rows :: "(uuid \<Rightarrow> string) \<Rightarrow> nat \<Rightarrow> allocation_table \<Rightarrow> allocation list" where
  "recovered_rows uuid_str limit t =
     foldl push_unseen (decode_rows (newest_rows uuid_str limit t)) (decode_rows (live_rows t))"

lemma recovered_rows_stored:
  assumes "keyed_by alloc_id t" "a \<in> set (recovered_rows uuid_str limit t)"
  shows "map_of t (alloc_id a) = Some a"
proof -
  have "a \<in> set (al_values t)"
    using assms(2) push_unseen_fold(2)[of "decode_rows (newest_rows uuid_str limit t)" "decode_rows (live_rows t)"]
    by (auto simp: recovered_rows_def decode_rows_def newest_rows_def live_rows_def dest!: in_set_takeD)
  then show ?thesis using in_filter_al_values[OF assms(1), of a "\<lambda>_. True"] by simp
qed

lemma recovered_rows_live:
  assumes "keyed_by alloc_id t" "map_of t i = Some a" "\<not> is_terminal (alloc_state a)" "allocation_validate a"
  shows "a \<in> set (recovered_rows uuid_str limit t)"
proof -
  have i: "alloc_id a = i" by (rule keyed_by_map_of[OF assms(1,2)])
  then have "a \<in> set (decode_rows (live_rows t))"
    using assms in_filter_al_values[OF assms(1), of a "\<lambda>_. True"]
    by (simp add: decode_rows_def live_rows_def del: is_terminal.simps)
  from push_unseen_fold(3)[OF this, of "decode_rows (newest_rows uuid_str limit t)"]
  obtain b where b: "b \<in> set (recovered_rows uuid_str limit t)" "alloc_id b = alloc_id a"
    by (auto simp: recovered_rows_def)
  then show ?thesis using recovered_rows_stored[OF assms(1) b(1)] assms(2) i by simp
qed

lemma distinct_newest:
  assumes "keyed_by alloc_id t"
  shows "distinct (map alloc_id (decode_rows (newest_rows uuid_str limit t)))"
proof -
  have "map alloc_id (al_values t) = map fst t"
    using assms by (auto simp: keyed_by_def al_values_def)
  then have d: "distinct (map alloc_id (al_values t))" using assms by (simp add: keyed_by_def)
  have "distinct (map alloc_id (sort_key (\<lambda>a. (alloc_updated_at a, uuid_str (alloc_id a))) (al_values t)))"
    using d by (simp only: distinct_map distinct_sort set_sort)
  then have "distinct (map alloc_id (newest_rows uuid_str limit t))"
    unfolding newest_rows_def take_map[symmetric] rev_map[symmetric] by (simp only: distinct_take distinct_rev)
  then show ?thesis unfolding decode_rows_def by (rule distinct_map_filter)
qed

lemma distinct_recovered: "keyed_by alloc_id t \<Longrightarrow> distinct (map alloc_id (recovered_rows uuid_str limit t))"
  unfolding recovered_rows_def by (rule push_unseen_fold(4)[OF distinct_newest])

lemma load_entries_run:
  assumes "m_entries s = []" "keyed_by alloc_id (m_store s)"
  shows "run_state (load_entries E) s = (r, s') \<Longrightarrow>
     (\<exists>w. r = Inl (StoreErr DbError) \<and> s' = s\<lparr>m_world := w\<rparr>)
     \<or> (\<exists>w. r = Inr () \<and> s' = s\<lparr>m_world := w, m_entries := map (\<lambda>a. (alloc_id a, recovered_entry a))
          (recovered_rows (x_uuid_str E) (tune_history_limit (m_tuning s)) (m_store s))\<rparr>)"
proof -
  assume run: "run_state (load_entries E) s = (r, s')"
  let ?limit = "tune_history_limit (m_tuning s)"
  let ?rows = "recovered_rows (x_uuid_str E) ?limit (m_store s)"
  let ?f1 = "fst (x_db_fails E (m_world s))" and ?w1 = "snd (x_db_fails E (m_world s))"
  let ?f2 = "fst (x_db_fails E ?w1)" and ?w2 = "snd (x_db_fails E ?w1)"
  have loaded: "run_state (ensure_entries_loaded rows) t =
      (Inr (), t\<lparr>m_entries := m_entries t @ map (\<lambda>a. (alloc_id a, recovered_entry a)) rows\<rparr>)"
    if "distinct (map alloc_id rows)" "\<And>a. a \<in> set rows \<Longrightarrow> map_of (m_entries t) (alloc_id a) = None"
    for rows and t :: "'a mgr"
    using that
  proof (induction rows arbitrary: t)
    case (Cons a rows)
    let ?t = "t\<lparr>m_entries := m_entries t @ [(alloc_id a, recovered_entry a)]\<rparr>"
    have "map_of (m_entries ?t) (alloc_id b) = None" if "b \<in> set rows" for b
    proof -
      have "alloc_id b \<in> alloc_id ` set rows" using that by simp
      then have "alloc_id b \<noteq> alloc_id a" using Cons.prems(1) by auto
      then show ?thesis using that Cons.prems(2)[of b] by simp
    qed
    then have "run_state (ensure_entries_loaded rows) ?t =
        (Inr (), ?t\<lparr>m_entries := m_entries ?t @ map (\<lambda>a. (alloc_id a, recovered_entry a)) rows\<rparr>)"
      using Cons.prems(1) by (intro Cons.IH) simp_all
    then show ?case
      using Cons.prems(2)[of a]
      by (simp add: ensure_entries_loaded_def ensure_entry_loaded_def bind_res_def update_absent)
  qed (simp add: ensure_entries_loaded_def)
  show ?thesis
  proof (cases "?f1 \<or> ?f2")
    case True
    then show ?thesis
      using run by (auto simp: load_entries_def load_recent_def bind_res_def map_err_def run_state_db Let_def split: if_splits)
  next
    case False
    then show ?thesis
      using run loaded[OF distinct_recovered[OF assms(2)], of "x_uuid_str E" ?limit "s\<lparr>m_world := ?w2\<rparr>"] assms(1)
      by (auto simp: load_entries_def load_recent_def bind_res_def map_err_def run_state_db Let_def recovered_rows_def)
  qed
qed

lemma map_of_recovered:
  assumes "distinct (map alloc_id rows)"
  shows "map_of (map (\<lambda>a. (alloc_id a, recovered_entry a)) rows) i = Some e \<longleftrightarrow>
    (\<exists>a\<in>set rows. alloc_id a = i \<and> e = recovered_entry a)"
proof -
  have "distinct (map fst (map (\<lambda>a. (alloc_id a, recovered_entry a)) rows))" using assms by (simp add: comp_def)
  from map_of_eq_Some_iff[OF this] show ?thesis by auto
qed

lemma restart_keeps:
  assumes wf: "well_formed s" and run: "run_state (load_entries E) (restarted c tun w s) = (Inr (), s')"
  shows "well_formed s'" "live_entry s' = live_entry s"
proof -
  have ks: "keyed_by alloc_id (m_store s)" using wf by (simp add: well_formed_def)
  define rows where "rows = recovered_rows (x_uuid_str E) (tune_history_limit tun) (m_store s)"
  let ?es = "map (\<lambda>a. (alloc_id a, recovered_entry a)) rows"
  have "\<exists>w'. s' = (restarted c tun w s)\<lparr>m_world := w', m_entries := ?es\<rparr>"
    using load_entries_run[OF _ _ run] ks by (auto simp: restarted_def mgr_build_def rows_def)
  then have s': "m_entries s' = ?es" "m_store s' = m_store s" "m_hot s' = m_hot s" "m_images s' = m_images s"
    by (auto simp: restarted_def mgr_build_def)
  have d: "distinct (map alloc_id rows)" unfolding rows_def by (rule distinct_recovered[OF ks])
  have stored: "a \<in> set rows \<Longrightarrow> map_of (m_store s) (alloc_id a) = Some a" for a
    unfolding rows_def by (rule recovered_rows_stored[OF ks])
  have es_row: "map_of ?es i = Some e \<Longrightarrow> \<exists>a\<in>set rows. alloc_id a = i \<and> e = recovered_entry a" for i e
    using map_of_recovered[OF d] by blast
  have row_es: "a \<in> set rows \<Longrightarrow> map_of ?es (alloc_id a) = Some (recovered_entry a)" for a
    using map_of_recovered[OF d] by blast
  have valid: "map_of (m_store s) i = Some a \<Longrightarrow> allocation_validate a" for i a
    using wf by (force simp: well_formed_def al_values_def dest: map_of_SomeD)
  have live: "live_entry s' i = live_row s i" for i
  proof (cases "map_of (m_store s) i")
    case None
    then have "map_of ?es i = None" using es_row stored by (cases "map_of ?es i") fastforce+
    with None show ?thesis by (simp add: live_entry_def live_row_def s')
  next
    case (Some a)
    have i: "alloc_id a = i" by (rule keyed_by_map_of[OF ks Some])
    have "map_of ?es i = (if a \<in> set rows then Some (recovered_entry a) else None)"
    proof (cases "map_of ?es i")
      case None
      then show ?thesis using row_es[of a] i by auto
    next
      case e: (Some e)
      then obtain b where "b \<in> set rows" "alloc_id b = i" "e = recovered_entry b" using es_row by blast
      then show ?thesis using stored[of b] Some e by simp
    qed
    moreover have "\<not> is_terminal (alloc_state a) \<Longrightarrow> a \<in> set rows"
      unfolding rows_def by (rule recovered_rows_live[OF ks Some _ valid[OF Some]])
    ultimately show ?thesis
      using Some by (auto simp: live_entry_def live_row_def s' recovered_entry_def simp del: is_terminal.simps)
  qed
  then show "live_entry s' = live_entry s" using wf by (auto simp: well_formed_def)
  have "entries_keyed ?es" using d by (auto simp: keyed_by_def comp_def recovered_entry_def)
  moreover have "live_row s' i = live_row s i" for i by (simp add: live_row_def s')
  ultimately show "well_formed s'"
    using wf live by (auto simp: well_formed_def s' al_values_def recovered_entry_def)
qed

subsection \<open>Invariants of every run\<close>

text \<open>What the checks under the lock establish about the entries and the record they admit.\<close>

definition admissible :: "entries \<Rightarrow> allocation \<Rightarrow> bool" where
  "admissible es a \<longleftrightarrow> idempotent es (alloc_request a) = None
     \<and> is_ok (ensure_sole_producer es (req_profile (alloc_request a)) (alloc_mode a))
     \<and> (\<forall>n. hot_vm_name (alloc_origin a) = Some n \<longrightarrow> vm_str n \<notin> set (live_hot_names es))"

lemma admitted_admissible: "admitted s prep request a \<Longrightarrow> admissible (m_entries s) a"
  by (auto simp: admitted_def admissible_def admit_def is_ok_iff)

lemma live_entry_active: "live_entry s i = Some a \<Longrightarrow> a \<in> set (active_allocations (m_entries s))"
  by (force simp: live_entry_def active_allocations_def entry_allocations_def al_values_def
      simp del: is_terminal.simps dest: map_of_SomeD split: option.splits if_splits)

text \<open>
  A key that an allocation never changes and that admission keeps apart is held by at most one
  unfinished allocation, whatever the manager does and however often it is restarted.
\<close>

lemma evolves_well_formed: "evolves s s' \<Longrightarrow> well_formed s \<Longrightarrow> well_formed s'"
  by (simp add: evolves_def)

locale exclusive_key =
  fixes key :: "allocation \<Rightarrow> 'k option"
  assumes identity: "same_identity a b \<Longrightarrow> key b = key a"
    and guarded: "admissible es a \<Longrightarrow> b \<in> set (active_allocations es) \<Longrightarrow> key a \<noteq> None \<Longrightarrow> key b \<noteq> key a"
begin

definition held_once :: "'w mgr \<Rightarrow> bool" where
  "held_once s \<longleftrightarrow> (\<forall>i j a b. live_entry s i = Some a \<longrightarrow> live_entry s j = Some b \<longrightarrow>
     key a \<noteq> None \<longrightarrow> key a = key b \<longrightarrow> i = j)"

lemma held_once_evolves:
  assumes "evolves s s'" "well_formed s" "held_once s"
  shows "held_once s'"
  unfolding held_once_def
proof (intro allI impI)
  fix i j a b
  assume *: "live_entry s' i = Some a" "live_entry s' j = Some b" "key a \<noteq> None" "key a = key b"
  obtain a0 where a0: "live_entry s i = Some a0" "same_identity a0 a"
    using assms(1,2) *(1) by (rule live_entry_evolves)
  obtain b0 where b0: "live_entry s j = Some b0" "same_identity b0 b"
    using assms(1,2) *(2) by (rule live_entry_evolves)
  show "i = j"
    using assms(3) a0 b0 *(3,4) identity[OF a0(2)] identity[OF b0(2)] unfolding held_once_def by metis
qed

lemma held_once_same: "live_entry s' = live_entry s \<Longrightarrow> held_once s \<Longrightarrow> held_once s'"
  by (simp add: held_once_def)

lemma held_once_insert:
  assumes "held_once s" "entries_keyed (m_entries s)" "admissible (m_entries s) a" "\<not> is_terminal (alloc_state a)"
  shows "held_once (insert_entry E a s)"
proof -
  have free: "key b \<noteq> key a" if "live_entry s i = Some b" "key a \<noteq> None" for b i
    using guarded[OF assms(3) live_entry_active[OF that(1)] that(2)] .
  show ?thesis
    using assms(1) free unfolding held_once_def live_entry_insert[OF assms(2,4)]
    by (metis option.inject)
qed

lemma held_once_step:
  assumes "mgr_step E s s'" "well_formed s" "held_once s"
  shows "well_formed s' \<and> held_once s'"
  using assms
proof (cases rule: mgr_step.cases)
  case (operation act)
  have ev: "evolves s s'" unfolding operation by (rule rel_opD[OF evolves_perform])
  show ?thesis using evolves_well_formed[OF ev] held_once_evolves[OF ev] assms(2,3) by blast
next
  case (commit prep request options r)
  from commit(1) show ?thesis
  proof (cases rule: create_commit_cases)
    case (refused err)
    show ?thesis using evolves_well_formed[OF refused(2)] held_once_evolves[OF refused(2)] assms(2,3) by blast
  next
    case (existing a)
    then show ?thesis using assms by simp
  next
    case (added a s1 t)
    have live: "\<not> is_terminal (alloc_state a)" using added(2) by (simp add: admitted_def)
    have s1: "well_formed s1" "held_once s1" "m_entries s1 = m_entries s" "m_store s1 = m_store s"
      using evolves_well_formed[OF added(3)] held_once_evolves[OF added(3)] added(4) assms(2,3) by auto
    have "held_once (s1\<lparr>m_store := t\<rparr>)" using s1(2) by (simp add: held_once_def live_entry_def)
    then have "held_once s'"
      unfolding added(6) using s1 admitted_admissible[OF added(2)] live
      by (intro held_once_insert) (simp_all add: well_formed_def)
    then show ?thesis
      using well_formed_insert[OF s1(1) live] added(5,6) s1(4) by simp
  qed
next
  case (reload shell_words "next" r h)
  then show ?thesis using assms by (simp add: held_once_def well_formed_def live_entry_def live_row_def)
next
  case retention
  then show ?thesis
    using forgets_well_formed[OF rel_opD[OF forgets_prune]] assms held_once_same by metis
next
  case (elsewhere w)
  then show ?thesis using assms by (simp add: held_once_def well_formed_def live_entry_def live_row_def)
next
  case (restart c tun w)
  then show ?thesis using restart_keeps[OF assms(2) restart] assms(3) held_once_same by metis
qed

lemma held_once_reachable:
  assumes "reachable E s"
  shows "well_formed s" "held_once s"
proof -
  obtain s0 where s0: "first_start s0" "(mgr_step E)\<^sup>*\<^sup>* s0 s" using assms by (auto simp: reachable_def)
  have init: "well_formed s0 \<and> held_once s0"
    using s0(1) by (auto simp: first_start_def mgr_build_def well_formed_def held_once_def live_entry_def
        live_row_def al_values_def)
  from s0(2) have "well_formed s \<and> held_once s"
    by (induction rule: rtranclp_induct) (use init held_once_step in blast)+
  then show "well_formed s" "held_once s" by simp_all
qed

end

text \<open>
  The three keys: the pool machine an allocation reuses, the profile whose image it produces, the
  attempt it serves.
\<close>

definition machine_key :: "allocation \<Rightarrow> vm_name option" where
  "machine_key a = hot_vm_name (alloc_origin a)"

definition producer_key :: "allocation \<Rightarrow> profile_name option" where
  "producer_key a = (if alloc_mode a = Regenerate then Some (req_profile (alloc_request a)) else None)"

definition attempt_key :: "allocation \<Rightarrow> allocation_request option" where
  "attempt_key a = Some (alloc_request a)"

interpretation machine: exclusive_key machine_key
proof unfold_locales
  fix a b :: allocation and es
  show "same_identity a b \<Longrightarrow> machine_key b = machine_key a" by (simp add: same_identity_def machine_key_def)
  assume "admissible es a" "b \<in> set (active_allocations es)" "machine_key a \<noteq> None"
  then show "machine_key b \<noteq> machine_key a"
    by (force simp: machine_key_def admissible_def live_hot_names_def set_map_filter)
qed

interpretation producer: exclusive_key producer_key
proof unfold_locales
  fix a b :: allocation and es
  show "same_identity a b \<Longrightarrow> producer_key b = producer_key a" by (simp add: same_identity_def producer_key_def)
  assume "admissible es a" "b \<in> set (active_allocations es)" "producer_key a \<noteq> None"
  then show "producer_key b \<noteq> producer_key a"
    by (auto simp: producer_key_def admissible_def ensure_sole_producer_def active_allocations_def
        find_None_iff simp del: is_terminal.simps split: if_splits option.splits)
qed

interpretation attempt: exclusive_key attempt_key
proof unfold_locales
  fix a b :: allocation and es
  show "same_identity a b \<Longrightarrow> attempt_key b = attempt_key a" by (simp add: same_identity_def attempt_key_def)
  assume "admissible es a" "b \<in> set (active_allocations es)" "attempt_key a \<noteq> None"
  then show "attempt_key b \<noteq> attempt_key a"
    by (auto simp: attempt_key_def admissible_def idempotent_def active_allocations_def
        entry_allocations_def find_None_iff is_same_attempt_eq simp del: is_terminal.simps)
qed

end
