(* ===== verification/Sample_World.thy ===== *)
theory Sample_World
  imports Samples Manager_Run
begin

text \<open>
  A concrete outside for the installation of \<open>Samples\<close>: a backend that lists one running pool
  machine and succeeds, a clock and an identifier source that count, and a database that accepts
  every operation. The properties of the manager are applied to runs in it.
\<close>

definition sample_size :: guest_size where
  "sample_size = \<lparr>cpu_count = 4, memory_mb = 8192, storage_mb = 40960\<rparr>"

definition sample_source :: clone_source where
  "sample_source = \<lparr>src_name = VmName ''mac-base'', src_kind = TemplateKind,
     src_base_fingerprint = None, src_fallback_reason = None\<rparr>"

definition sample_guest :: hot_guest where
  "sample_guest = \<lparr>hot_vm = VmName ''ff-mac-7-1'', hot_profile = ProfileName ''mac'',
     hot_lane_of = Protected, hot_state_of = Idle, hot_size = sample_size,
     hot_source = sample_source, hot_warm_generation = None, hot_age_limit = None,
     hot_booted_at = 900, hot_updated_at = 950, hot_jobs_served = 1, hot_claimed_by = None,
     hot_drain_reason_of = None\<rparr>"

definition sample_machine :: host_machine where
  "sample_machine = \<lparr>mach_name = ''ff-mac-7-1'', mach_state = MachineRunning,
     mach_age_seconds = Some 7200, mach_size = Some sample_size, mach_ownership = Owned\<rparr>"

definition sample_env :: "nat env" where
  "sample_env = \<lparr>w_evidence_deferred = False, w_supports_hot = True, w_supports_warm = True,
     w_machines = (\<lambda>w. (Inr [sample_machine], w)), w_base_fingerprint = (\<lambda>_ w. (None, w)),
     w_base_storage_mb = (\<lambda>_ _ w. (None, w)),
     w_warm_availability = (\<lambda>_ _ _ w. (Inr WarmAbsent, w)),
     w_is_unclaimed_image = (\<lambda>_ _ w. (Inr False, w)), w_warm_retained = (\<lambda>_ w. (None, w)),
     w_cleanup = (\<lambda>_ _ w. (Inr (), w)), w_ensure_recovered = (\<lambda>w. (Inr (), w)),
     w_ensure_warm_restored = (\<lambda>_ _ w. (Inr (), w)),
     w_ensure_hot_retained = (\<lambda>_ _ _ _ w. (Inr (), w)), w_ensure_hot_reset = (\<lambda>_ _ w. (Inr (), w)),
     w_is_hot_live = (\<lambda>_ w. (True, w)), w_ensure_hot_evicted = (\<lambda>_ _ w. (Inr (), w)),
     w_delete_vm = (\<lambda>_ w. (Inr (), w)), w_sweep_images = (\<lambda>_ w. (Inr [], w)),
     x_unix_time = (\<lambda>w. (1000, w)), x_instant = (\<lambda>w. (w, w)),
     x_new_uuid = (\<lambda>w. (of_nat (w + 1), w + 1)), x_uuid_str = (\<lambda>u. nat_str (unat u)),
     x_error_text = (\<lambda>_. ''error''), x_db_fails = (\<lambda>w. (False, w)), x_timer_fires = (\<lambda>_ w. (False, w))\<rparr>"

definition sample_start :: "nat mgr" where
  "sample_start = mgr_build sample_config [] [] [(VmName ''ff-mac-7-1'', sample_guest)] tuning_default 0"

definition sample_options :: request_options where
  "sample_options = \<lparr>opt_warm = False, opt_hot = Retain None, opt_cpu_count = None, opt_memory_mb = None\<rparr>"

definition sample_push :: forgejo_claims where
  "sample_push = sample_claims\<lparr>
     cl_workflow_ref := ''acme/app/.forgejo/workflows/build.yml@refs/heads/main''\<rparr>"

text \<open>What \<open>create\<close> has read when it takes the lock, and the allocation it then commits.\<close>

definition sample_context :: hot_context where
  "sample_context = \<lparr>ctx_hot = sample_hot, ctx_name = ProfileName ''mac'', ctx_lane = Protected,
     ctx_fingerprint = None, ctx_warm_generation = None, ctx_max_hot_vms = 2, ctx_age_seconds = None\<rparr>"

definition sample_prepared :: prepared where
  "sample_prepared = \<lparr>prep_config = sample_config,
     prep_resolved = \<lparr>rsv_profile = sample_profile, rsv_size = sample_size, rsv_mode = Warm,
       rsv_source = \<lparr>sel_source = sample_source\<lparr>src_fallback_reason := Some NoRecord\<rparr>,
         sel_warm_generation = None\<rparr>,
       rsv_lane = Protected, rsv_age_seconds = None\<rparr>,
     prep_context = Some sample_context, prep_machines = Inr [sample_machine],
     prep_hot = Inr [sample_guest]\<rparr>"

definition sample_claimed :: hot_guest where
  "sample_claimed = sample_guest\<lparr>hot_state_of := Claimed, hot_claimed_by := Some 2, hot_updated_at := 1000\<rparr>"

definition sample_ready :: "nat mgr" where
  "sample_ready = sample_start\<lparr>m_probe := \<lparr>probe_cached = Some (0, [sample_machine]), probe_warned_at = None\<rparr>\<rparr>"

definition sample_created :: "nat mgr" where
  "sample_created = snd (run_state (create_commit sample_env sample_prepared sample_request sample_options) sample_ready)"

text \<open>The sequence of a program is evaluated from its front only.\<close>

lemma front_cong: "m = n \<Longrightarrow> State_Monad.bind m f = State_Monad.bind n f"
  by simp

lemma sample_outside [simp]:
  "x_new_uuid sample_env = (\<lambda>w. (of_nat (w + 1), w + 1))" "x_unix_time sample_env = (\<lambda>w. (1000, w))"
  "x_instant sample_env = (\<lambda>w. (w, w))" "w_machines sample_env = (\<lambda>w. (Inr [sample_machine], w))"
  "x_db_fails sample_env = (\<lambda>w. (False, w))" "w_evidence_deferred sample_env = False"
  "w_supports_warm sample_env" "w_supports_hot sample_env"
  "w_base_fingerprint sample_env = (\<lambda>_ w. (None, w))" "w_base_storage_mb sample_env = (\<lambda>_ _ w. (None, w))"
  "w_is_unclaimed_image sample_env = (\<lambda>_ _ w. (Inr False, w))"
  by (simp_all add: sample_env_def)

lemma sample_policy:
  "request_validate sample_request" "resolve_profile sample_config sample_request = Inr sample_profile"
  "ensure_authorized sample_push sample_profile sample_request = Inr ()"
  "resolve_size sample_options sample_profile = Inr sample_size"
  "resolve_hot_age (Retain None) sample_profile = Inr None"
  "resolve_mode sample_options sample_profile (unwrap_or [] (workflow_file sample_push)) = Warm"
  "is_ref_protected sample_push"
  by code_simp+

lemma sample_fits: "ensure_capacity [] sample_config sample_size [sample_machine] [sample_guest] = Inr ()"
  by code_simp

lemma sample_start_parts:
  "ch_current (m_config sample_start) = sample_config" "m_entries sample_start = []"
  by (simp_all add: sample_start_def mgr_build_def)

lemma sample_ready_parts:
  "m_entries sample_ready = []" "m_is_closing sample_ready = False" "m_world sample_ready = 0"
  "m_store sample_ready = []"
  by (simp_all add: sample_ready_def sample_start_def mgr_build_def)

lemma sample_parts [simp]:
  "rt_max_hot_vms (cfg_runtime sample_config) = 2" "rt_poll_seconds (cfg_runtime sample_config) = 2"
  "prof_warm_template sample_profile = Some (VmName ''mac-warm'')"
  "prof_template sample_profile = VmName ''mac-base''" "enabled_hot sample_profile = Some sample_hot"
  "req_profile sample_request = ProfileName ''mac''" "opt_hot sample_options = Retain None"
  "is_lane_admitted (hc_lanes sample_hot) Protected"
  by (simp_all add: sample_config_def sample_runtime_def sample_profile_def sample_request_def
      sample_options_def enabled_hot_def sample_hot_def)

lemma sample_authorize:
  "run_state (authorize sample_env sample_config sample_request sample_options sample_push) sample_start =
     (Inr (prep_resolved sample_prepared), sample_ready)"
  by (simp add: authorize_def sample_policy resolve_source_def warm_source_def is_warm_quarantined_def
      host_machines_def probe_host_def missing_record_def images_load_def db_def image_table_load_def
      effective_size_def current_config_def Let_def sample_start_def sample_ready_def mgr_build_def
      sample_prepared_def template_source_def sample_source_def from_ref_protected_def
      cong: front_cong option.case_cong)

lemma sample_readable: "hot_guest_validate sample_guest"
  by code_simp

lemma sample_resolved [simp]:
  "prep_config sample_prepared = sample_config" "prep_context sample_prepared = Some sample_context"
  "rsv_profile (prep_resolved sample_prepared) = sample_profile" "rsv_mode (prep_resolved sample_prepared) = Warm"
  "rsv_size (prep_resolved sample_prepared) = sample_size" "rsv_lane (prep_resolved sample_prepared) = Protected"
  "rsv_age_seconds (prep_resolved sample_prepared) = None"
  by (simp_all add: sample_prepared_def)

lemma sample_listed: "run_state (host_machines sample_env) sample_ready = (Inr [sample_machine], sample_ready)"
  by (simp add: host_machines_def current_config_def sample_ready_def sample_start_def mgr_build_def cong: front_cong)

lemma sample_pool: "run_state (hot_load_all sample_env) sample_ready = (Inr [sample_guest], sample_ready)"
  by (simp add: hot_load_all_def db_def hot_table_load_all_def al_values_def sample_ready_def sample_start_def
      mgr_build_def sample_readable)

lemma sample_not_yielded:
  "run_state (ensure_hot_yielded sample_env sample_config sample_size) sample_ready = ((), sample_ready)"
  by (simp add: ensure_hot_yielded_def sample_pool yieldable_hot_def sample_listed yield_candidate_def is_ok_def
      sample_ready_parts sample_fits cong: front_cong)

lemma sample_prepare:
  "run_state (create_prepare sample_env sample_request sample_options sample_push) sample_start =
     (Inr sample_prepared, sample_ready)"
proof -
  have "run_state (hot_context_op sample_env sample_config (ProfileName ''mac'') sample_profile Protected None)
      sample_ready = (Some sample_context, sample_ready)"
    by (simp add: hot_context_op_def promoted_generation_def images_load_def db_def image_table_load_def
        sample_context_def sample_ready_def sample_start_def mgr_build_def cong: front_cong)
  then have "run_state (prepare_hot sample_env sample_config sample_request (prep_resolved sample_prepared)
      sample_options) sample_ready = (Some sample_context, sample_ready)"
    by (simp add: prepare_hot_def sample_not_yielded cong: front_cong)
  then show ?thesis
    by (simp add: create_prepare_def current_config_def sample_start_parts bind_res_def sample_authorize
        sample_listed sample_pool cong: front_cong) (simp add: sample_prepared_def)
qed

lemma sample_admitted: "admit [] sample_prepared sample_request = Inr [sample_guest]"
  by code_simp

lemma sample_label: "new_runner_label sample_env sample_profile 1 = Inr (RunnerLabel ''mac-ci-1'')"
  by code_simp

lemma sample_name: "vm_name_of sample_config sample_request = Inr (VmName ''ff-mac-42-1'')"
  by code_simp

lemma sample_plan: "plan_hot_claim [] [sample_guest] sample_context 2 1000 1000 =
    Some (Reused sample_claimed (HotReuse (VmName ''ff-mac-7-1'') 1 900) sample_source)"
  by code_simp

definition sample_allocation :: allocation where
  "sample_allocation = decision_apply
     (Some (Reused sample_claimed (HotReuse (VmName ''ff-mac-7-1'') 1 900) sample_source))
     (Some sample_context) (prep_resolved sample_prepared) 2 sample_options 1000
     (new_allocation sample_env sample_prepared sample_request (RunnerLabel ''mac-ci-1'')
       (VmName ''ff-mac-42-1'') 2 1000 1000)"

lemma sample_storable: "allocation_validate sample_allocation" "allocation_storable sample_allocation"
  "hot_guest_validate sample_claimed" "hot_storable sample_claimed"
  by code_simp+

lemma sample_ids:
  "alloc_id sample_allocation = 2" "alloc_state sample_allocation = Requested"
  "alloc_request sample_allocation = sample_request" "hot_vm sample_claimed = VmName ''ff-mac-7-1''"
  by (simp_all add: sample_allocation_def decision_fields new_allocation_fields sample_claimed_def sample_guest_def)

lemma sample_commit:
  "run_state (create_commit sample_env sample_prepared sample_request sample_options) sample_ready =
     run_state (commit_allocation sample_env
       (Some (Reused sample_claimed (HotReuse (VmName ''ff-mac-7-1'') 1 900) sample_source)) sample_allocation)
     (sample_ready\<lparr>m_world := 2\<rparr>)"
  by (simp add: create_commit_def sample_ready_def sample_start_def mgr_build_def idempotent_def al_values_def
      sample_admitted sample_label sample_name sample_plan new_allocation_fields sample_allocation_def
      Let_def del: One_nat_def cong: front_cong option.case_cong sum.case_cong)

lemma sample_committed:
  "run_state (create_commit sample_env sample_prepared sample_request sample_options) sample_ready =
     (Inr \<lparr>cr_allocation = sample_allocation, cr_is_new = True\<rparr>, sample_created)"
  "m_entries sample_created = [(2, new_entry sample_allocation)]"
  "m_store sample_created = [(2, sample_allocation)]"
  "m_hot sample_created = [(VmName ''ff-mac-7-1'', sample_claimed)]"
  unfolding sample_created_def sample_commit
  by (simp_all add: commit_allocation_def commit_claim_def bind_res_def map_err_def hot_save_def
      store_save_def db_def hot_table_save_def allocation_table_save_def sample_storable emit_def
      sample_ready_def sample_start_def mgr_build_def sample_ids insert_entry_def prune_terminal_history_def
      tuning_default_def cong: front_cong)

lemma sample_reachable: "reachable sample_env sample_created"
proof -
  have "first_start sample_start"
    unfolding first_start_def sample_start_def
    by (intro exI conjI, rule refl) (simp_all add: keyed_by_def sample_guest_def)
  moreover have "mgr_step sample_env sample_start sample_ready"
    using mgr_step.operation[of sample_env sample_start "CreatePrepare sample_request sample_options sample_push"]
    by (simp add: ignore_def sample_prepare)
  moreover have "mgr_step sample_env sample_ready sample_created"
    by (rule mgr_step.commit[OF sample_committed(1)])
      (simp add: is_fresh_def sample_ready_def sample_start_def mgr_build_def)
  ultimately show ?thesis unfolding reachable_def by (meson converse_rtranclp_into_rtranclp r_into_rtranclp)
qed

subsection \<open>A second creation\<close>

definition sample_request2 :: allocation_request where
  "sample_request2 = sample_request\<lparr>req_run_id := 43\<rparr>"

definition sample_options2 :: request_options where
  "sample_options2 = sample_options\<lparr>opt_hot := Untouched\<rparr>"

definition sample_prepared2 :: prepared where
  "sample_prepared2 = sample_prepared\<lparr>prep_context := None, prep_hot := Inr [sample_claimed]\<rparr>"

definition sample_allocation2 :: allocation where
  "sample_allocation2 = new_allocation sample_env sample_prepared2 sample_request2
     (RunnerLabel ''mac-ci-3'') (VmName ''ff-mac-43-1'') 4 1000 1000"

definition sample_two :: "nat mgr" where
  "sample_two = snd (run_state (create_commit sample_env sample_prepared2 sample_request2 sample_options2) sample_created)"

lemma sample_second:
  "admit [(2, new_entry sample_allocation)] sample_prepared2 sample_request2 = Inr [sample_claimed]"
  "new_runner_label sample_env sample_profile 3 = Inr (RunnerLabel ''mac-ci-3'')"
  "vm_name_of sample_config sample_request2 = Inr (VmName ''ff-mac-43-1'')"
  "idempotent [(2, new_entry sample_allocation)] sample_request2 = None"
  "allocation_validate sample_allocation2" "allocation_storable sample_allocation2"
  by code_simp+

lemma sample_ids2: "alloc_id sample_allocation2 = 4" "alloc_state sample_allocation2 = Requested"
  by (simp_all add: sample_allocation2_def new_allocation_fields)

lemma sample_prepared2_parts [simp]:
  "prep_config sample_prepared2 = sample_config" "prep_context sample_prepared2 = None"
  "prep_resolved sample_prepared2 = prep_resolved sample_prepared"
  by (simp_all add: sample_prepared2_def)

lemma sample_created_parts:
  "m_is_closing sample_created = False" "m_world sample_created = 2" "m_tuning sample_created = tuning_default"
  unfolding sample_created_def sample_commit
  by (simp_all add: commit_allocation_def commit_claim_def bind_res_def map_err_def hot_save_def
      store_save_def db_def hot_table_save_def allocation_table_save_def sample_storable emit_def
      sample_ready_def sample_start_def mgr_build_def sample_ids insert_entry_def prune_terminal_history_def
      tuning_default_def cong: front_cong)

lemma sample_committed2:
  "run_state (create_commit sample_env sample_prepared2 sample_request2 sample_options2) sample_created =
     (Inr \<lparr>cr_allocation = sample_allocation2, cr_is_new = True\<rparr>, sample_two)"
  "m_entries sample_two = [(2, new_entry sample_allocation), (4, new_entry sample_allocation2)]"
  unfolding sample_two_def
  by (simp_all add: create_commit_def sample_committed sample_created_parts sample_second Let_def
      decision_apply_def sample_options2_def sample_allocation2_def[symmetric]
      commit_allocation_def commit_claim_def bind_res_def store_save_def db_def allocation_table_save_def
      sample_ids2 insert_entry_def prune_terminal_history_def tuning_default_def
      del: One_nat_def cong: front_cong option.case_cong sum.case_cong)

lemma sample_two_reachable: "reachable sample_env sample_two"
proof -
  have "mgr_step sample_env sample_created sample_two"
    by (rule mgr_step.commit[OF sample_committed2(1)])
      (simp add: is_fresh_def sample_committed sample_ids2)
  then show ?thesis using sample_reachable unfolding reachable_def by (meson rtranclp.rtrancl_into_rtrancl)
qed

lemma sample_two_live:
  "live_entry sample_two 2 = Some sample_allocation" "live_entry sample_two 4 = Some sample_allocation2"
  by (simp_all add: live_entry_def sample_committed2 new_entry_def sample_ids sample_ids2)

end
