(* ===== verification/Manager_Props.thy ===== *)
theory Manager_Props
  imports Sample_World
begin

text \<open>
  Properties of the allocation manager: what holds of every run, and what its decisions decide.
  Each property that has hypotheses is applied to the run of \<open>Sample_World\<close>.
\<close>

subsection \<open>Runs\<close>

text \<open>
  The registry a run keeps, abstractly: the unfinished allocations by identifier. A step moves
  some of them along their lifecycle, ends some, or admits one whose keys nobody holds.
\<close>

type_synonym registry = "uuid \<Rightarrow> allocation option"

definition advances :: "registry \<Rightarrow> registry \<Rightarrow> bool" where
  "advances r r' \<longleftrightarrow> (\<forall>i b. r' i = Some b \<longrightarrow> (\<exists>a. r i = Some a \<and> allocation_evolves a b))"

definition key_free :: "registry \<Rightarrow> (allocation \<Rightarrow> 'k option) \<Rightarrow> allocation \<Rightarrow> bool" where
  "key_free r key a \<longleftrightarrow> key a = None \<or> (\<forall>i b. r i = Some b \<longrightarrow> key b \<noteq> key a)"

inductive registry_step :: "registry \<Rightarrow> registry \<Rightarrow> bool" where
  advance: "advances r r' \<Longrightarrow> registry_step r r'"
| admit: "r i = None \<Longrightarrow> alloc_id a = i \<Longrightarrow> alloc_state a = Requested \<Longrightarrow> allocation_validate a
    \<Longrightarrow> key_free r machine_key a \<Longrightarrow> key_free r producer_key a \<Longrightarrow> key_free r attempt_key a
    \<Longrightarrow> registry_step r (r(i \<mapsto> a))"

lemma advances_refl: "advances r r"
  by (simp add: advances_def)

lemma advances_evolves:
  assumes "evolves s s'" "well_formed s"
  shows "advances (live_entry s) (live_entry s')"
  unfolding advances_def
proof (intro allI impI)
  fix i b assume b: "live_entry s' i = Some b"
  have ev: "entries_evolve (m_entries s) (m_entries s')" using assms by (simp add: evolves_def)
  obtain a where a: "live_entry s i = Some a" "same_identity a b"
    by (rule live_entry_evolves[OF assms b])
  have "\<exists>e. map_of es i = Some e \<and> entry_evolves e e'"
    if "entries_evolve es es'" "map_of es' i = Some e'" for es es' e'
    using that unfolding entries_evolve_def
    by (induction rule: list_all2_induct) (auto split: if_splits)
  then have "allocation_evolves a b"
    using ev a(1) b
    by (fastforce simp: live_entry_def entry_evolves_def simp del: is_terminal.simps split: option.splits if_splits)
  with a show "\<exists>a. live_entry s i = Some a \<and> allocation_evolves a b" by blast
qed

lemma admitted_keys_free:
  assumes "admissible (m_entries s) a"
  shows "key_free (live_entry s) machine_key a" "key_free (live_entry s) producer_key a"
    "key_free (live_entry s) attempt_key a"
  unfolding key_free_def
  using machine.guarded[OF assms] producer.guarded[OF assms] attempt.guarded[OF assms] live_entry_active
  by blast+

text \<open>
  C1. The manager refines its registry: from every reachable state, every step (an operation, the
  commit of a creation, a reload, a retention pass, a change outside, a restart) either only moves
  unfinished allocations along their lifecycle or ends them, or admits exactly one new, valid,
  requested allocation whose pool machine, produced image and workflow attempt no unfinished
  allocation holds.
\<close>

theorem run_refines_registry:
  assumes "reachable E s" "mgr_step E s s'"
  shows "registry_step (live_entry s) (live_entry s')"
proof -
  have wf: "well_formed s" by (rule machine.held_once_reachable(1)[OF assms(1)])
  have ev: "registry_step (live_entry s) (live_entry s')" if "evolves s s'"
    by (rule registry_step.advance[OF advances_evolves[OF that wf]])
  have same: "registry_step (live_entry s) (live_entry s')" if "live_entry s' = live_entry s"
    unfolding that by (rule registry_step.advance[OF advances_refl])
  from assms(2) show ?thesis
  proof cases
    case (operation act)
    show ?thesis by (rule ev) (unfold operation, rule rel_opD[OF evolves_perform])
  next
    case (commit prep request options r)
    from commit(1) show ?thesis
    proof (cases rule: create_commit_cases)
      case (added a s1 t)
      have a: "\<not> is_terminal (alloc_state a)" "alloc_state a = Requested" "allocation_validate a"
        using added(2) by (simp_all add: admitted_def)
      have "entries_keyed (m_entries (s1\<lparr>m_store := t\<rparr>))" using wf added(4) by (simp add: well_formed_def)
      then have "live_entry s' = (live_entry (s1\<lparr>m_store := t\<rparr>))(alloc_id a \<mapsto> a)"
        unfolding added(6) by (intro ext) (simp add: live_entry_insert[OF _ a(1)])
      also have "live_entry (s1\<lparr>m_store := t\<rparr>) = live_entry s"
        using added(4) by (simp add: live_entry_def fun_eq_iff)
      finally have s': "live_entry s' = (live_entry s)(alloc_id a \<mapsto> a)" .
      have "live_entry s (alloc_id a) = None"
        using commit(2) added(1) by (simp add: is_fresh_def live_entry_def)
      then show ?thesis
        unfolding s' by (intro registry_step.admit admitted_keys_free admitted_admissible[OF added(2)])
          (use a in simp_all)
    qed (use ev same in simp_all)
  next
    case (restart c tun w)
    then show ?thesis using same restart_keeps(2)[OF wf restart] by simp
  next
    case retention
    then show ?thesis using same forgets_well_formed[OF rel_opD[OF forgets_prune] wf] by simp
  qed (use same in \<open>simp_all add: live_entry_def fun_eq_iff\<close>)
qed

text \<open>The claim of a pool machine is a step of the registry: the run of the sample.\<close>

theorem run_refines_registry_witness:
  "registry_step (live_entry sample_created) (live_entry sample_two)
   \<and> live_entry sample_created 4 = None \<and> live_entry sample_two 4 = Some sample_allocation2"
proof -
  have "mgr_step sample_env sample_created sample_two"
    by (rule mgr_step.commit[OF sample_committed2(1)]) (simp add: is_fresh_def sample_committed sample_ids2)
  from run_refines_registry[OF sample_reachable this] show ?thesis
    by (simp add: sample_two_live) (simp add: live_entry_def sample_committed)
qed

text \<open>
  C2. Exclusive use: in every reachable state two different unfinished allocations never hold the
  same pool machine, never serve the same workflow attempt, and never both produce the image of the
  same profile.
\<close>

theorem unfinished_exclusive:
  assumes "reachable E s" "live_entry s i = Some a" "live_entry s j = Some b" "i \<noteq> j"
  shows "(hot_vm_name (alloc_origin a) = None \<or> hot_vm_name (alloc_origin b) \<noteq> hot_vm_name (alloc_origin a))
    \<and> alloc_request a \<noteq> alloc_request b
    \<and> (alloc_mode a = Regenerate \<longrightarrow> alloc_mode b = Regenerate \<longrightarrow>
        req_profile (alloc_request a) \<noteq> req_profile (alloc_request b))"
proof -
  have 1: "machine_key a \<noteq> machine_key b" if "machine_key a \<noteq> None"
    using machine.held_once_reachable(2)[OF assms(1)] assms(2-4) that unfolding machine.held_once_def by blast
  have 2: "attempt_key a \<noteq> attempt_key b"
    using attempt.held_once_reachable(2)[OF assms(1)] assms(2-4) unfolding attempt.held_once_def
    by (auto simp: attempt_key_def)
  have 3: "producer_key a \<noteq> producer_key b" if "producer_key a \<noteq> None"
    using producer.held_once_reachable(2)[OF assms(1)] assms(2-4) that unfolding producer.held_once_def by blast
  show ?thesis using 1 2 3 by (auto simp: machine_key_def attempt_key_def producer_key_def)
qed

theorem unfinished_exclusive_witness:
  "hot_vm_name (alloc_origin sample_allocation) = Some (VmName ''ff-mac-7-1'')
   \<and> hot_vm_name (alloc_origin sample_allocation2) \<noteq> hot_vm_name (alloc_origin sample_allocation)
   \<and> alloc_request sample_allocation \<noteq> alloc_request sample_allocation2"
  using unfinished_exclusive[OF sample_two_reachable sample_two_live]
  by (simp add: sample_allocation_def decision_fields)

text \<open>
  C6. Crash consistency: whenever the process is restarted over the database a reachable state
  left, loading either fails with a database error and changes no row, or succeeds with exactly the
  unfinished allocations of before, each resident as it is stored; a restart never fails on
  what the manager itself wrote.
\<close>

theorem restart_recovers_unfinished:
  assumes "reachable E s" "run_state (load_entries E) (restarted c tun w s) = (r, s')"
  shows "m_store s' = m_store s \<and> (r = Inl (StoreErr DbError)
    \<or> r = Inr () \<and> live_entry s' = live_entry s \<and> (\<forall>i. live_row s' i = live_entry s' i))"
proof -
  have wf: "well_formed s" by (rule machine.held_once_reachable(1)[OF assms(1)])
  then have "keyed_by alloc_id (m_store (restarted c tun w s))" "m_entries (restarted c tun w s) = []"
    "m_store (restarted c tun w s) = m_store s"
    by (simp_all add: well_formed_def restarted_def mgr_build_def)
  then have "r = Inl (StoreErr DbError) \<and> m_store s' = m_store s \<or> r = Inr () \<and> m_store s' = m_store s"
    using load_entries_run[OF _ _ assms(2)] by auto
  then show ?thesis
    using restart_keeps[OF wf, of E c tun w s'] assms(2) by (auto simp: well_formed_def)
qed

lemma entries_loaded_error:
  "run_state (ensure_entries_loaded rows) s = (Inl e, s') \<Longrightarrow> \<exists>i. e = DuplicateAllocation i"
  unfolding ensure_entries_loaded_def
  by (induction rows arbitrary: s) (auto simp: ensure_entry_loaded_def bind_res_def split: if_splits)

theorem restart_recovers_unfinished_witness:
  "\<exists>s'. run_state (load_entries sample_env) (restarted sample_config tuning_default 9 sample_two) = (Inr (), s')
     \<and> live_entry s' 2 = Some sample_allocation \<and> live_entry s' 4 = Some sample_allocation2"
proof -
  let ?s = "restarted sample_config tuning_default 9 sample_two"
  obtain r s' where run: "run_state (load_entries sample_env) ?s = (r, s')" by force
  have "r \<noteq> Inl (StoreErr DbError)"
    using run by (auto simp: load_entries_def load_recent_def bind_res_def map_err_def run_state_db Let_def
        dest!: entries_loaded_error)
  then show ?thesis
    using restart_recovers_unfinished[OF sample_two_reachable run] run sample_two_live by auto
qed

text \<open>
  C11. Shutdown is final for the process: once the manager is closing, every step keeps it closing and
  only moves or ends unfinished allocations, never adding one; the only way back is a restart.
\<close>

theorem closing_admits_nothing:
  assumes "reachable E s" "m_is_closing s" "mgr_step E s s'"
  shows "m_is_closing s' \<and> advances (live_entry s) (live_entry s')
    \<or> (\<exists>c tun w. run_state (load_entries E) (restarted c tun w s) = (Inr (), s'))"
proof -
  have wf: "well_formed s" by (rule machine.held_once_reachable(1)[OF assms(1)])
  have ev: "m_is_closing s' \<and> advances (live_entry s) (live_entry s')" if "evolves s s'"
    using that advances_evolves[OF that wf] assms(2) by (simp add: evolves_def)
  from assms(3) show ?thesis
  proof cases
    case (operation act)
    have "evolves s s'" by (unfold operation, rule rel_opD[OF evolves_perform])
    then show ?thesis using ev by blast
  next
    case (commit prep request options r)
    from commit(1) show ?thesis
    proof (cases rule: create_commit_cases)
      case (added a s1 t)
      then show ?thesis using assms(2) by (simp add: admitted_def)
    qed (use ev assms(2) in auto)
  next
    case retention
    have "forgets s s'" unfolding retention by (rule rel_opD[OF forgets_prune])
    then show ?thesis
      using forgets_well_formed[OF _ wf] assms(2) advances_refl by (auto simp: forgets_def)
  next
    case (restart c tun w)
    then show ?thesis by blast
  qed (use assms(2) in \<open>simp_all add: live_entry_def advances_def\<close>)
qed

definition sample_closing :: "nat mgr" where
  "sample_closing = snd (run_state (perform sample_env (ShutdownBegin 30000)) sample_created)"

lemma sample_closing_parts:
  "reachable sample_env sample_closing" "m_is_closing sample_closing"
  "live_entry sample_closing 2 = Some sample_allocation"
proof -
  have "mgr_step sample_env sample_created sample_closing"
    unfolding sample_closing_def by (rule mgr_step.operation)
  then show "reachable sample_env sample_closing"
    using sample_reachable unfolding reachable_def by (meson rtranclp.rtrancl_into_rtrancl)
qed (simp_all add: sample_closing_def ignore_def shutdown_begin_def shutdown_mark_def sample_committed
    live_entry_def new_entry_def sample_ids)

theorem closing_admits_nothing_witness:
  "run_state (create_commit sample_env sample_prepared2 sample_request2 sample_options2) sample_closing
     = (Inl ShuttingDown, sample_closing)
   \<and> (m_is_closing sample_closing \<and> advances (live_entry sample_closing) (live_entry sample_closing)
     \<or> (\<exists>c tun w. run_state (load_entries sample_env) (restarted c tun w sample_closing) = (Inr (), sample_closing)))"
proof -
  have run: "run_state (create_commit sample_env sample_prepared2 sample_request2 sample_options2) sample_closing
      = (Inl ShuttingDown, sample_closing)"
    by (simp add: create_commit_def sample_closing_parts(2))
  have "mgr_step sample_env sample_closing sample_closing"
    by (rule mgr_step.commit[OF run]) (simp add: is_fresh_def)
  from closing_admits_nothing[OF sample_closing_parts(1,2) this] run show ?thesis by blast
qed

subsection \<open>Creation\<close>

lemma authorize_Inr:
  assumes "run_state (authorize E c request options claims) s = (Inr rsv, s')"
  shows "\<exists>p. lookup_profile c (req_profile request) = Some p \<and> ensure_authorized claims p request = Inr ()
     \<and> request_validate request
     \<and> rsv_profile rsv = p \<and> rsv_mode rsv = resolve_mode options p (unwrap_or [] (workflow_file claims))"
  using assms unfolding authorize_def
  by (auto simp: resolve_profile_def Let_def split: if_splits sum.splits option.splits prod.splits)

lemma idempotent_Some:
  assumes "well_formed s" "idempotent (m_entries s) request = Some a"
  shows "live_entry s (alloc_id a) = Some a \<and> alloc_request a = request"
proof -
  obtain e where e: "e \<in> set (al_values (m_entries s))" "e_allocation e = a"
      "\<not> is_terminal (alloc_state a)" "is_same_attempt (alloc_request a) request"
    using assms(2) by (auto simp: idempotent_def find_Some_iff in_set_conv_nth simp del: is_terminal.simps)
  then obtain k where k: "(k, e) \<in> set (m_entries s)" by (auto simp: al_values_def)
  have keyed: "entries_keyed (m_entries s)" using assms(1) by (simp add: well_formed_def)
  then have "map_of (m_entries s) k = Some e" "alloc_id a = k"
    using k e(2) by (auto simp: keyed_by_def)
  then show ?thesis using e by (simp add: live_entry_def is_same_attempt_eq del: is_terminal.simps)
qed

text \<open>
  C3. A creation that succeeds was authorised: the claims pass the policy of the profile the current
  configuration names, and the answer is an unfinished allocation of exactly this request that
  is resident and durable alike; when it is new, its mode is the one the signed claims allow.
\<close>

theorem create_authorized_durable:
  assumes "reachable E s" "run_state (create_op E request options claims) s = (Inr cr, s')"
  shows "\<exists>p. lookup_profile (ch_current (m_config s)) (req_profile request) = Some p
    \<and> ensure_authorized claims p request = Inr ()
    \<and> alloc_request (cr_allocation cr) = request
    \<and> live_entry s' (alloc_id (cr_allocation cr)) = Some (cr_allocation cr)
    \<and> live_row s' (alloc_id (cr_allocation cr)) = Some (cr_allocation cr)
    \<and> (cr_is_new cr \<longrightarrow> alloc_mode (cr_allocation cr) = resolve_mode options p (unwrap_or [] (workflow_file claims)))"
proof -
  obtain prep s1 where prep: "run_state (create_prepare E request options claims) s = (Inr prep, s1)"
      and commit: "run_state (create_commit E prep request options) s1 = (Inr cr, s')"
    using assms(2) by (auto simp: create_op_def bind_res_def split: prod.splits sum.splits)
  have wf1: "well_formed s1"
    using evolves_well_formed[OF rel_op_run[OF evolves_prepare(2) prep]]
      machine.held_once_reachable(1)[OF assms(1)] by blast
  from prep obtain s2 where "run_state (authorize E (ch_current (m_config s)) request options claims) s
      = (Inr (prep_resolved prep), s2)"
    by (auto simp: create_prepare_def current_config_def bind_res_def split: prod.splits sum.splits)
  then obtain p where p: "lookup_profile (ch_current (m_config s)) (req_profile request) = Some p"
      "ensure_authorized claims p request = Inr ()"
      "rsv_mode (prep_resolved prep) = resolve_mode options p (unwrap_or [] (workflow_file claims))"
    using authorize_Inr by blast
  from commit have "well_formed s' \<and> alloc_request (cr_allocation cr) = request
    \<and> live_entry s' (alloc_id (cr_allocation cr)) = Some (cr_allocation cr)
    \<and> (cr_is_new cr \<longrightarrow> alloc_mode (cr_allocation cr) = rsv_mode (prep_resolved prep))"
  proof (cases rule: create_commit_cases)
    case (existing a)
    then show ?thesis using wf1 idempotent_Some[OF wf1 existing(3)] by simp
  next
    case (added a s2 t)
    have live: "\<not> is_terminal (alloc_state a)" using added(2) by (simp add: admitted_def)
    have wf2: "well_formed s2" by (rule evolves_well_formed[OF added(3) wf1])
    have "well_formed s'"
      unfolding added(6) using added(4,5) by (intro well_formed_insert[OF wf2 live]) simp
    moreover have "live_entry s' (alloc_id a) = Some a"
      unfolding added(6) using wf2 by (simp add: live_entry_insert[OF _ live] well_formed_def)
    ultimately show ?thesis using added(1,2) by (simp add: admitted_def)
  qed simp
  then show ?thesis using p by (auto simp: well_formed_def)
qed

lemma sample_start_reachable: "reachable sample_env sample_start"
proof -
  have "first_start sample_start"
    unfolding first_start_def sample_start_def
    by (intro exI conjI, rule refl) (simp_all add: keyed_by_def sample_guest_def)
  then show ?thesis unfolding reachable_def by blast
qed

theorem create_authorized_durable_witness:
  "run_state (create_op sample_env sample_request sample_options sample_push) sample_start
     = (Inr \<lparr>cr_allocation = sample_allocation, cr_is_new = True\<rparr>, sample_created)
   \<and> live_row sample_created 2 = Some sample_allocation \<and> alloc_mode sample_allocation = Warm"
proof -
  have run: "run_state (create_op sample_env sample_request sample_options sample_push) sample_start
     = (Inr \<lparr>cr_allocation = sample_allocation, cr_is_new = True\<rparr>, sample_created)"
    by (simp add: create_op_def bind_res_def sample_prepare sample_committed)
  from create_authorized_durable[OF sample_start_reachable run] run show ?thesis
    using sample_policy by (auto simp: sample_ids sample_start_parts resolve_profile_def split: option.splits)
qed

subsection \<open>Admission\<close>





subsection \<open>The sweep\<close>







text \<open>
  C13. Draining a claimed pool machine hides it: the record it writes keeps the claim, which no read
  accepts outside the claimed state, so no later listing of the pool contains the machine and
  loading it fails, although its job is still running and no machine was destroyed.
\<close>

theorem drain_hides_claimed:
  assumes "hot_state_of g = Claimed" "hot_claimed_by g = Some i" "keyed_by hot_vm (m_hot s)"
    and "x_unix_time E (m_world s) = (now, w)" "x_db_fails E w = (False, w')"
    and "hot_storable (g\<lparr>hot_state_of := Draining, hot_updated_at := now, hot_drain_reason_of := Some reason\<rparr>)"
  shows "\<exists>s'. run_state (ensure_hot_drained E g reason) s = ((), s')
    \<and> m_entries s' = m_entries s \<and> m_world s' = w'
    \<and> (\<forall>h \<in> set (hot_table_load_all (m_hot s')). hot_vm h \<noteq> hot_vm g)
    \<and> hot_table_load (hot_vm g) (m_hot s') = Inl DbError"
proof -
  let ?d = "g\<lparr>hot_state_of := Draining, hot_updated_at := now, hot_drain_reason_of := Some reason\<rparr>"
  let ?t = "AList.update (hot_vm g) ?d (m_hot s)"
  have bad: "\<not> hot_guest_validate ?d"
    using assms(2) by (simp add: hot_guest_validate_def validate_claim_def is_claim_bearing_def)
  have run: "run_state (ensure_hot_drained E g reason) s = ((), s\<lparr>m_world := w', m_hot := ?t\<rparr>)"
    using assms by (simp add: ensure_hot_drained_def ensure_state_def hot_steps hot_save_def db_def
        hot_table_save_def Let_def)
  have keyed: "keyed_by hot_vm ?t" using assms(3) by (intro keyed_by_update) simp_all
  have gone: "hot_vm h \<noteq> hot_vm g" if h: "h \<in> set (hot_table_load_all ?t)" for h
  proof
    assume same: "hot_vm h = hot_vm g"
    obtain k where "(k, h) \<in> set ?t" "hot_guest_validate h"
      using h by (auto simp: hot_table_load_all_def al_values_def)
    then have "map_of ?t (hot_vm g) = Some h" using keyed same by (auto simp: keyed_by_def)
    then show False using bad \<open>hot_guest_validate h\<close> by (simp add: map_of_update)
  qed
  moreover have "hot_table_load (hot_vm g) ?t = Inl DbError"
    using bad by (simp add: hot_table_load_def map_of_update)
  ultimately show ?thesis using run by auto
qed

text \<open>
  In the sample the operator drains the machine the allocation runs on; the next plan of the sweep
  contains it, although an unfinished allocation is on it.
\<close>

theorem drain_hides_claimed_witness:
  "\<exists>s'. run_state (ensure_hot_drained sample_env sample_claimed OperatorRequest) sample_created = ((), s')
     \<and> live_entry s' 2 = Some sample_allocation
     \<and> hot_vm_name (alloc_origin sample_allocation) = Some (VmName (mach_name sample_machine))
     \<and> hot_table_load_all (m_hot s') = []
     \<and> map cand_name (plan_sweep \<lparr>ri_config = sample_config, ri_machines = [sample_machine],
          ri_allocations = entry_allocations (m_entries s'), ri_images = [],
          ri_hot = hot_table_load_all (m_hot s')\<rparr>) = [mach_name sample_machine]"
proof -
  have st: "hot_storable (sample_claimed\<lparr>hot_state_of := Draining, hot_updated_at := 1000,
      hot_drain_reason_of := Some OperatorRequest\<rparr>)" by code_simp
  have c: "hot_state_of sample_claimed = Claimed" "hot_claimed_by sample_claimed = Some 2"
    by (simp_all add: sample_claimed_def)
  have k: "keyed_by hot_vm (m_hot sample_created)" by (simp add: sample_committed keyed_by_def sample_ids)
  obtain s' where s': "run_state (ensure_hot_drained sample_env sample_claimed OperatorRequest) sample_created = ((), s')"
      "m_entries s' = m_entries sample_created"
      "\<forall>h \<in> set (hot_table_load_all (m_hot s')). hot_vm h \<noteq> hot_vm sample_claimed"
    using drain_hides_claimed[OF c k, of sample_env 1000 2 2] st by (auto simp: sample_created_parts)
  have "run_state (ensure_hot_drained sample_env sample_claimed OperatorRequest) sample_created =
      ((), sample_created\<lparr>m_hot := AList.update (hot_vm sample_claimed)
        (sample_claimed\<lparr>hot_state_of := Draining, hot_updated_at := 1000,
          hot_drain_reason_of := Some OperatorRequest\<rparr>) (m_hot sample_created)\<rparr>)"
    using st c by (simp add: ensure_hot_drained_def ensure_state_def hot_steps hot_save_def db_def
        hot_table_save_def Let_def)
  then have "set (hot_table_load_all (m_hot s')) \<subseteq> {h. hot_vm h = hot_vm sample_claimed}"
    using s'(1) by (auto simp: hot_table_load_all_def al_values_def sample_committed sample_ids)
  then have none: "hot_table_load_all (m_hot s') = []" using s'(3) by (cases "hot_table_load_all (m_hot s')") auto
  have plan: "map cand_name (plan_sweep \<lparr>ri_config = sample_config, ri_machines = [sample_machine],
      ri_allocations = [sample_allocation], ri_images = [], ri_hot = []\<rparr>) = [mach_name sample_machine]"
    by code_simp
  have origin: "hot_vm_name (alloc_origin sample_allocation) = Some (VmName (mach_name sample_machine))"
    by (simp add: sample_machine_def sample_allocation_def decision_fields)
  show ?thesis
    using s' none plan
    by (intro exI[of _ s']) (simp add: live_entry_def sample_committed new_entry_def sample_ids entry_allocations_def
        al_values_def origin)
qed

end
