(* ===== verification/Ending.thy ===== *)
theory Ending
  imports Manager_Run
begin

text \<open>
  That allocations end: what the pool and the cleanup leave alone, and that with a database that
  accepts its writes driving an allocation to its end succeeds, whatever the backend does.
\<close>

subsection \<open>Pool operations leave the allocations alone\<close>

definition same_allocations :: "'w mgr \<Rightarrow> 'w mgr \<Rightarrow> bool" where
  "same_allocations s s' \<longleftrightarrow> m_entries s' = m_entries s \<and> m_store s' = m_store s"

interpretation pool: state_preorder same_allocations
  by unfold_locales (auto simp: same_allocations_def)

named_theorems pool_ops \<open>operations that change neither the entries nor the rows\<close>

lemma pool_keeps: "keeps (\<lambda>s. (m_entries s, m_store s)) m \<Longrightarrow> rel_op same_allocations m"
  by (auto simp: keeps_def rel_op_def same_allocations_def)

lemma pool_base [pool_ops]:
  "rel_op same_allocations (outside f)" "rel_op same_allocations current_config"
  "rel_op same_allocations (hot_load E n)" "rel_op same_allocations (hot_load_all E)"
  "rel_op same_allocations (images_load E p)" "rel_op same_allocations (hot_save E g)"
  "rel_op same_allocations (hot_remove E n)" "rel_op same_allocations (emit E k i v q)"
  by (rule pool_keeps; intro frame_intros; simp)+

lemma pool_reads [pool_ops]:
  "rel_op same_allocations (teardown_budget allowance)" "rel_op same_allocations hot_claimed_names"
  "rel_op same_allocations (promoted_generation E name)" "rel_op same_allocations (hot_drain_pending E n)"
  "rel_op same_allocations (hot_reset_of hot)"
  unfolding teardown_budget_def hot_claimed_names_def promoted_generation_def hot_drain_pending_def hot_reset_of_def
  by (intro pool.rel_intros pool_ops)+

lemma pool_evict [pool_ops]:
  "rel_op same_allocations (ensure_hot_eviction_pending E g reason)"
  "rel_op same_allocations (ensure_hot_evicted E g reason)"
  unfolding ensure_hot_eviction_pending_def ensure_hot_evicted_def by (intro pool.rel_intros pool_ops)+

lemma pool_drain [pool_ops]: "rel_op same_allocations (ensure_hot_drained E g reason)"
  unfolding ensure_hot_drained_def by (intro pool.rel_intros pool_ops)

lemma pool_bounds [pool_ops]:
  "rel_op same_allocations (ensure_hot_drains_finished E guests)"
  "rel_op same_allocations (ensure_hot_evictions_retried E guests)"
  "rel_op same_allocations (ensure_hot_pool_drained E guests)"
  "rel_op same_allocations (ensure_hot_surplus_retired E guests c)"
  "rel_op same_allocations (ensure_guest_bounded E c now g)"
  unfolding ensure_hot_pool_drained_def ensure_hot_drains_finished_def ensure_hot_evictions_retried_def
    ensure_hot_surplus_retired_def ensure_guest_bounded_def
  by (intro pool.rel_intros pool_ops)+

lemma pool_bounded [pool_ops]: "rel_op same_allocations (ensure_hot_bounded E)"
  unfolding ensure_hot_bounded_def by (intro pool.rel_intros pool_ops)

lemma pool_gated [pool_ops]: "rel_op same_allocations (ensure_hot_gated E g p already)"
  unfolding ensure_hot_gated_def by (intro pool.rel_intros pool_ops)

lemma pool_release [pool_ops]:
  "rel_op same_allocations (ensure_hot_recycled E a name p)"
  "rel_op same_allocations (ensure_hot_retained_op E a p lane)"
  "rel_op same_allocations (ensure_hot_released E a p)"
  unfolding ensure_hot_released_def ensure_hot_recycled_def ensure_hot_retained_op_def
  by (intro pool.rel_intros pool_ops)+

lemma pool_cleanup_once [pool_ops]:
  "rel_op same_allocations (cleanup_once E a budget)" "rel_op same_allocations (record_leak a reason)"
  unfolding cleanup_once_def record_leak_def
  by (intro pool.rel_intros pool_ops pool.rel_modify; simp add: same_allocations_def)+

lemma pool_cleanup_attempts [pool_ops]: "rel_op same_allocations (cleanup_attempts E a budget err n)"
proof (induction n arbitrary: err)
  case (Suc n)
  show ?case unfolding cleanup_attempts.simps by (intro pool.rel_intros pool_ops Suc)
qed (simp add: pool.rel_return)

lemma pool_cleanup [pool_ops]: "rel_op same_allocations (cleanup_with_retries E a p)"
  unfolding cleanup_with_retries_def by (intro pool.rel_intros pool_ops)

subsection \<open>Updates that succeed\<close>

definition reliable :: "'w env \<Rightarrow> bool" where
  "reliable E \<longleftrightarrow> (\<forall>w. \<not> fst (x_db_fails E w)) \<and> (\<forall>w. fits_i64 (fst (x_unix_time E w)))"

text \<open>The entry of an allocation, resident and as it can be stored.\<close>

definition resident :: "'w mgr \<Rightarrow> uuid \<Rightarrow> allocation \<Rightarrow> bool" where
  "resident s ident a \<longleftrightarrow> (\<exists>e. map_of (m_entries s) ident = Some e \<and> e_allocation e = a) \<and> alloc_id a = ident
     \<and> allocation_validate a \<and> allocation_storable a"

lemma resident_same: "same_allocations s s' \<Longrightarrow> resident s' ident a = resident s ident a"
  by (simp add: resident_def same_allocations_def)

lemma get_resident: "resident s ident a \<Longrightarrow> run_state (get_allocation ident) s = (Inr a, s)"
  by (auto simp: resident_def get_allocation_def)

lemma update_succeeds:
  assumes "reliable E" "resident s ident a"
    and "\<And>now. fits_i64 now \<Longrightarrow> \<exists>a'. f now a = Inr a' \<and> P a' \<and> alloc_id a' = ident
      \<and> allocation_validate a' \<and> allocation_storable a'"
  obtains s' a' where "run_state (update_allocation E ident f) s = (Inr (), s')" "P a'" "resident s' ident a'"
    "map_of (m_store s') ident = Some a'"
proof -
  let ?now = "fst (x_unix_time E (m_world s))"
  let ?w = "snd (x_unix_time E (m_world s))"
  obtain e where e: "map_of (m_entries s) ident = Some e" "e_allocation e = a"
    using assms(2) by (auto simp: resident_def)
  have "fits_i64 ?now" using assms(1) by (simp add: reliable_def)
  then obtain a' where a': "f ?now a = Inr a'" "P a'" "alloc_id a' = ident" "allocation_validate a'" "allocation_storable a'"
    using assms(3) by blast
  have ok: "\<not> fst (x_db_fails E w)" for w using assms(1) by (simp add: reliable_def)
  show thesis
    by (rule that[of "set_entry ident a' e (s\<lparr>m_world := snd (x_db_fails E ?w),
        m_store := AList.update ident a' (m_store s)\<rparr>)" a'])
      (use e a' ok in \<open>simp_all add: update_allocation_def bind_res_def get_allocation_def map_err_def run_store_save
        allocation_table_save_def Let_def resident_def set_entry_def map_of_update\<close>)
qed

lemma unit_run: obtains s' where "run_state (m :: ('s, unit) state) s = ((), s')"
  by (cases "run_state m s") simp

lemma transition_succeeds:
  assumes "reliable E" "resident s ident a" "can_transition_to (alloc_state a) t"
  obtains s' a' where "run_state (transition_op E ident t) s = (Inr (), s')" "alloc_state a' = t"
    "resident s' ident a'" "map_of (m_store s') ident = Some a'"
proof -
  let ?f = "\<lambda>now a. map_sum TransitionErr id (transition a t now)"
  obtain s1 a' where u: "run_state (update_allocation E ident ?f) s = (Inr (), s1)" "alloc_state a' = t"
      "resident s1 ident a'" "map_of (m_store s1) ident = Some a'"
  proof (rule update_succeeds[OF assms(1,2), where f = ?f and P = "\<lambda>a'. alloc_state a' = t"])
    fix now :: u64 assume "fits_i64 now"
    then show "\<exists>a'. ?f now a = Inr a' \<and> alloc_state a' = t \<and> alloc_id a' = ident
        \<and> allocation_validate a' \<and> allocation_storable a'"
      using assms(2,3) transition_validates[of a t now]
      by (auto simp: map_sum_Inr transition_Inr resident_def allocation_storable_def)
  qed
  obtain s2 where em: "run_state (emit E AllocationStateChanged (Some ident) (Some (alloc_vm_name a))
      (Some (req_profile (alloc_request a)))) s1 = ((), s2)"
    by (rule unit_run)
  have "same_allocations s1 s2" by (rule rel_op_run[OF pool_base(8) em])
  then show thesis
    using u em that[of s2 a'] get_resident[OF assms(2)]
    by (simp add: transition_op_def bind_res_def resident_same) (simp add: same_allocations_def)
qed

lemma ensure_cleaning_succeeds:
  assumes "reliable E" "resident s ident a"
  obtains s' a' where "run_state (ensure_cleaning E ident) s = (Inr (), s')" "resident s' ident a'"
    "if is_terminal (alloc_state a) then s' = s \<and> a' = a else alloc_state a' = Cleaning"
proof (cases "alloc_state a = Cleaning \<or> is_terminal (alloc_state a)")
  case True
  then show thesis using that[of s a] assms(2) get_resident[OF assms(2)] by (auto simp: ensure_cleaning_def bind_res_def)
next
  case False
  then have "can_transition_to (alloc_state a) Cleaning" by (cases "alloc_state a") (simp_all add: can_transition_to_def)
  then show thesis
    using False that assms get_resident[OF assms(2)]
    by (auto simp: ensure_cleaning_def bind_res_def elim!: transition_succeeds)
qed

lemma finish_terminal_succeeds:
  assumes "reliable E" "resident s ident a" "is_terminal target"
  obtains s' st a' where "run_state (finish_terminal E ident target) s = (Inr st, s')" "resident s' ident a'"
    "alloc_state a' = st" "st = (if is_terminal (alloc_state a) then alloc_state a else target)"
    "\<not> is_terminal (alloc_state a) \<Longrightarrow> map_of (m_store s') ident = Some a'"
proof -
  obtain s1 a1 where 1: "run_state (ensure_cleaning E ident) s = (Inr (), s1)" "resident s1 ident a1"
    "if is_terminal (alloc_state a) then s1 = s \<and> a1 = a else alloc_state a1 = Cleaning"
    by (rule ensure_cleaning_succeeds[OF assms(1,2)])
  show thesis
  proof (cases "is_terminal (alloc_state a)")
    case True
    then show thesis
      using 1 that[of "alloc_state a" s a] assms(2) get_resident[OF assms(2)]
      by (simp add: finish_terminal_def bind_res_def del: is_terminal.simps)
  next
    case False
    then have c: "alloc_state a1 = Cleaning" using 1(3) by simp
    have "can_transition_to (alloc_state a1) target"
      using assms(3) c by (cases target) (simp_all add: can_transition_to_def)
    then obtain s2 a2 where "run_state (transition_op E ident target) s1 = (Inr (), s2)" "alloc_state a2 = target"
        "resident s2 ident a2" "map_of (m_store s2) ident = Some a2"
      by (rule transition_succeeds[OF assms(1) 1(2)])
    then show thesis
      using 1 False c that[of target s2 a2] get_resident[OF 1(2)]
      by (simp add: finish_terminal_def bind_res_def)
  qed
qed

text \<open>An error text with a NUL byte is not storable; then the entry stays as it is.\<close>

lemma update_keeps_state:
  assumes "resident s ident a" "run_state (update_allocation E ident (\<lambda>now a. Inr (g now a))) s = (r, s')"
    and "\<And>now b. alloc_state (g now b) = alloc_state b \<and> alloc_id (g now b) = alloc_id b"
  shows "\<exists>a'. resident s' ident a' \<and> alloc_state a' = alloc_state a"
  using assms(2)
proof (cases rule: update_cases)
  case (failed err w)
  then show ?thesis using assms(1) by (auto simp: resident_def)
next
  case (updated e a' now w t)
  then have "e_allocation e = a" using assms(1) by (simp add: resident_def)
  with updated assms(1,3) show ?thesis
    by (auto simp: resident_def set_entry_def map_of_update allocation_table_save_Inr)
qed

lemma error_ops_keep:
  assumes "resident s ident a"
    and "run_state (set_error_op E ident msg) s = (r, s') \<or> run_state (set_worker_error_op E ident err) s = (r, s')"
  obtains a' where "resident s' ident a'" "alloc_state a' = alloc_state a"
proof -
  have *: "\<exists>a'. resident s' ident a' \<and> alloc_state a' = alloc_state a"
    if run: "run_state (bind_res (update_allocation E ident (\<lambda>now a. Inr (g now a))) (\<lambda>_. do {
        _ \<leftarrow> emit E AllocationErrorEvent (Some ident) None None; return (Inr ()) })) s = (r, s')"
      and g: "\<And>now b. alloc_state (g now b) = alloc_state b \<and> alloc_id (g now b) = alloc_id b" for g
  proof -
    obtain r1 s1 where u: "run_state (update_allocation E ident (\<lambda>now a. Inr (g now a))) s = (r1, s1)" by force
    have "rel_op same_allocations (do { _ \<leftarrow> emit E AllocationErrorEvent (Some ident) None None;
        return (Inr () :: manager_error + unit) })" by (intro pool.rel_intros pool_ops)
    from rel_opD[OF this, of s1] have "same_allocations s1 s'"
      using run u by (cases r1) (auto simp: bind_res_def pool.refl split: prod.splits)
    then show ?thesis using update_keeps_state[OF assms(1) u g] resident_same by blast
  qed
  let ?g = "\<lambda>now a. set_error (worker_error_text err) now (if worker_is_capacity err then set_capacity_busy now a else a)"
  have "\<exists>a'. resident s' ident a' \<and> alloc_state a' = alloc_state a"
    using assms(2)
  proof
    assume "run_state (set_error_op E ident msg) s = (r, s')"
    then show ?thesis unfolding set_error_op_def by (rule *) (simp add: set_error_def)
  next
    assume "run_state (set_worker_error_op E ident err) s = (r, s')"
    then show ?thesis
      unfolding set_worker_error_op_def by (rule *[of ?g]) (simp add: set_error_def set_capacity_busy_def)
  qed
  then show thesis using that by blast
qed

lemma ensure_terminal_succeeds:
  assumes "reliable E" "resident s ident a" "\<not> is_terminal (alloc_state a)" "is_terminal requested"
    and "alloc_id fallback = ident"
  obtains s' st a' where "run_state (ensure_terminal E fallback p requested) s = (Inr st, s')"
    "resident s' ident a'" "alloc_state a' = st" "st = requested \<or> st = Failed"
    "map_of (m_store s') ident = Some a'"
proof -
  obtain s1 a1 where 1: "run_state (ensure_cleaning E ident) s = (Inr (), s1)" "resident s1 ident a1"
      "alloc_state a1 = Cleaning"
    using ensure_cleaning_succeeds[OF assms(1,2)] assms(3) by (metis (full_types))
  obtain s2 where 2: "run_state (if_then (is_hot a1) (ensure_hot_released E a1 p)) s1 = ((), s2)"
    by (rule unit_run)
  obtain cleaned s3 where 3: "run_state (cleanup_with_retries E a1 p) s2 = (cleaned, s3)" by force
  have 12: "same_allocations s1 s2" by (rule rel_op_run[OF _ 2]) (intro pool.rel_intros pool_ops)
  have 23: "same_allocations s2 s3" by (rule rel_op_run[OF pool_cleanup 3])
  have res: "resident s3 ident a1" using 1(2) resident_same[OF 12] resident_same[OF 23] by blast
  note get1 = get_resident[OF 1(2)] and get3 = get_resident[OF res]
  show thesis
  proof (cases cleaned)
    case (Inr u)
    obtain s4 st a4 where 4: "run_state (finish_terminal E ident requested) s3 = (Inr st, s4)" "resident s4 ident a4"
        "alloc_state a4 = st" "st = requested" "map_of (m_store s4) ident = Some a4"
      by (rule finish_terminal_succeeds[OF assms(1) res assms(4)]) (use 1(3) in simp)
    show thesis
      by (rule that[of st s4 a4])
        (use 1 2 3 4 Inr get1 assms(5) in \<open>simp_all add: ensure_terminal_def Let_def\<close>)
  next
    case (Inl err)
    obtain r4 s4 where e: "run_state (set_error_op E ident (''cleanup failed: '' @ worker_error_text err)) s3 = (r4, s4)"
      by force
    obtain a4 where a4: "resident s4 ident a4" "alloc_state a4 = Cleaning"
      by (rule error_ops_keep[OF res disjI1[OF e]]) (use 1(3) in simp)
    obtain s5 st a5 where 5: "run_state (finish_terminal E ident Failed) s4 = (Inr st, s5)" "resident s5 ident a5"
        "alloc_state a5 = st" "st = Failed" "map_of (m_store s5) ident = Some a5"
      by (rule finish_terminal_succeeds[OF assms(1) a4(1), of Failed]) (use a4(2) in simp_all)
    show thesis
      by (rule that[of st s5 a5])
        (use 1 2 3 5 e Inl get1 get3 assms(5) in \<open>simp_all add: ensure_terminal_def Let_def\<close>)
  qed
qed

lemma pool_quarantine: "rel_op same_allocations (ensure_warm_quarantined ident)"
  unfolding ensure_warm_quarantined_def get_allocation_def quarantine_warm_def
  by (intro pool.rel_intros pool.rel_modify; simp add: same_allocations_def)

text \<open>The task of a worker ends its allocation, durably, and gives up its supervision.\<close>

lemma teardown_succeeds:
  assumes "reliable E" "resident s ident a" "\<not> is_terminal (alloc_state a)" "alloc_id fallback = ident"
  obtains s' e where "run_state (teardown_run E fallback p r) s = ((), s')" "map_of (m_entries s') ident = Some e"
    "is_terminal (alloc_state (e_allocation e))" "\<not> e_is_supervised e" "map_of (m_store s') ident = Some (e_allocation e)"
    "is_ok r \<Longrightarrow> \<not> is_some_and e_cancelled (map_of (m_entries s) ident) \<Longrightarrow> alloc_state (e_allocation e) \<noteq> Cancelled"
proof -
  let ?report = "case r of Inr _ \<Rightarrow> return ()
    | Inl err \<Rightarrow> do { _ \<leftarrow> if_then (\<not> worker_is_capacity err) (ensure_warm_quarantined ident);
        _ \<leftarrow> set_worker_error_op E ident err; return () }"
  obtain s1 where 1: "run_state ?report s = ((), s1)" by (rule unit_run)
  obtain a1 where a1: "resident s1 ident a1" "alloc_state a1 = alloc_state a" "is_ok r \<Longrightarrow> s1 = s"
  proof (cases r)
    case (Inr u)
    then show thesis using that[of a] 1 assms(2) by simp
  next
    case (Inl err)
    obtain s0 where q: "run_state (if_then (\<not> worker_is_capacity err) (ensure_warm_quarantined ident)) s = ((), s0)"
      by (rule unit_run)
    obtain r0 s2 where w: "run_state (set_worker_error_op E ident err) s0 = (r0, s2)" by force
    have "same_allocations s s0" by (rule rel_op_run[OF _ q]) (intro pool.rel_if_then pool_quarantine)
    then have "resident s0 ident a" using assms(2) resident_same by blast
    then obtain a2 where "resident s2 ident a2" "alloc_state a2 = alloc_state a"
      by (rule error_ops_keep[OF _ disjI2[OF w]])
    moreover have "s2 = s1" using 1 Inl q w by simp
    ultimately show thesis using that[of a2] Inl by (simp add: is_ok_def)
  qed
  let ?c = "is_some_and e_cancelled (map_of (m_entries s1) ident)"
  let ?req = "if ?c then Cancelled else if is_ok r then Completed else Failed"
  have live: "\<not> is_terminal (alloc_state a1)" using assms(3) unfolding a1(2) .
  have req: "is_terminal ?req" by simp
  obtain s2 st a2 where 2: "run_state (ensure_terminal E fallback p ?req) s1 = (Inr st, s2)" "resident s2 ident a2"
      "alloc_state a2 = st" "st = ?req \<or> st = Failed" "map_of (m_store s2) ident = Some a2"
    by (rule ensure_terminal_succeeds[OF assms(1) a1(1) live req assms(4)])
  obtain e where e: "map_of (m_entries s2) ident = Some e" "e_allocation e = a2"
    using 2(2) unfolding resident_def by blast
  let ?s3 = "alter_entry ident (\<lambda>e. e\<lparr>e_is_supervised := False\<rparr>) s2"
  have "run_state (teardown_run E fallback p r) s = ((), ?s3)"
    using 2(1) unfolding teardown_run_def assms(4)
    by (simp add: 1 is_cancelled_def finish_worker_def bind_res_def release_supervision_def)
  moreover have "map_of (m_entries ?s3) ident = Some (e\<lparr>e_is_supervised := False\<rparr>)"
    using e map_of_map_values[of "\<lambda>k e. if k = ident then e\<lparr>e_is_supervised := False\<rparr> else e" "m_entries s2" ident]
    by (simp add: alter_entry_def)
  moreover have "is_terminal (alloc_state a2)" using 2(3,4) req by auto
  moreover have "alloc_state a2 \<noteq> Cancelled"
    if "is_ok r" "\<not> is_some_and e_cancelled (map_of (m_entries s) ident)"
    using 2(3,4) a1(3)[OF that(1)] that by auto
  ultimately show thesis
    using 2(5) e by (intro that[of ?s3 "e\<lparr>e_is_supervised := False\<rparr>"]) (simp_all add: alter_entry_def)
qed

end
