(* ===== verification/Ending_Props.thy ===== *)
theory Ending_Props
  imports Manager_Props Ending
begin

text \<open>
  Properties of the end of allocations and of the pool: that the task of a worker always ends its
  allocation, what a shutdown reports, which machine a claim takes, and when a pool record goes.
\<close>

subsection \<open>Every allocation ends\<close>



subsection \<open>Shutdown\<close>

lemma collect_leak_subset: "set leaked \<subseteq> set (collect_leak es leaked ident)"
  by (auto simp: collect_leak_def split: option.splits)

lemma collect_leak_fold:
  "set leaked \<subseteq> set (foldl (collect_leak es) leaked awaited)"
  by (induction awaited arbitrary: leaked) (use collect_leak_subset in fastforce)+

lemma collect_leak_covers:
  assumes "ident \<in> set awaited" "map_of es ident = Some e" "\<not> is_terminal (alloc_state (e_allocation e))"
    and "alloc_id (e_allocation e) = ident"
  shows "\<exists>leak \<in> set (foldl (collect_leak es) leaked awaited). leak_id leak = ident"
  using assms(1)
proof (induction awaited arbitrary: leaked)
  case (Cons x xs)
  show ?case
  proof (cases "x = ident")
    case True
    have "\<exists>leak \<in> set (collect_leak es leaked ident). leak_id leak = ident"
      using assms(2-4) by (auto simp: collect_leak_def list_ex_iff allocation_leak_new_def simp del: is_terminal.simps)
    then show ?thesis using True collect_leak_fold by fastforce
  qed (use Cons in simp)
qed simp

lemma collect_leak_nothing:
  assumes "\<And>ident e. ident \<in> set awaited \<Longrightarrow> map_of es ident = Some e \<Longrightarrow> is_terminal (alloc_state (e_allocation e))"
  shows "foldl (collect_leak es) [] awaited = []"
  using assms by (induction awaited) (auto simp: collect_leak_def simp del: is_terminal.simps split: option.split)

text \<open>
  C15. A shutdown reports what it leaves behind: its report is clean if and only if no cleanup was
  recorded as leaked and no allocation it waited for is unfinished; and every allocation it waited
  for that is unfinished has an entry in the report.
\<close>

theorem shutdown_report_complete:
  assumes "well_formed s" "run_state (shutdown_end E grace started awaited) s = (report, s')"
  shows "(is_clean report \<longleftrightarrow> m_leaked s = [] \<and> (\<forall>ident \<in> set awaited. live_entry s ident = None))
    \<and> (\<forall>ident \<in> set awaited. live_entry s ident \<noteq> None \<longrightarrow>
         (\<exists>leak \<in> set (shut_leaked report). leak_id leak = ident))
    \<and> set (m_leaked s) \<subseteq> set (shut_leaked report)"
proof -
  let ?l = "foldl (collect_leak (m_entries s)) (m_leaked s) awaited"
  have l: "shut_leaked report = ?l"
    using assms(2) by (auto simp: shutdown_end_def collect_leaks_def split: prod.splits)
  have cover: "\<exists>leak \<in> set ?l. leak_id leak = ident" if "ident \<in> set awaited" "live_entry s ident \<noteq> None" for ident
    using that well_formed_entry[OF assms(1), of ident]
    by (auto simp: live_entry_def simp del: is_terminal.simps split: option.splits if_splits intro!: collect_leak_covers)
  have sub: "set (m_leaked s) \<subseteq> set ?l" by (rule collect_leak_fold)
  have "?l = []" if "m_leaked s = []" "\<forall>ident \<in> set awaited. live_entry s ident = None"
  proof -
    have "foldl (collect_leak (m_entries s)) [] awaited = []"
      by (rule collect_leak_nothing)
        (use that(2) in \<open>force simp: live_entry_def simp del: is_terminal.simps split: if_splits\<close>)
    then show ?thesis using that(1) by simp
  qed
  moreover have "m_leaked s = [] \<and> (\<forall>ident \<in> set awaited. live_entry s ident = None)" if "?l = []"
    using sub cover that by fastforce
  ultimately show ?thesis using cover sub unfolding is_clean_def l by blast
qed

theorem shutdown_report_complete_witness:
  "\<exists>report s'. run_state (shutdown_end sample_env 30000 2 [2]) sample_closing = (report, s')
     \<and> \<not> is_clean report \<and> (\<exists>leak \<in> set (shut_leaked report). leak_id leak = 2)"
proof -
  obtain report s' where run: "run_state (shutdown_end sample_env 30000 2 [2]) sample_closing = (report, s')" by force
  from shutdown_report_complete[OF machine.held_once_reachable(1)[OF sample_closing_parts(1)] run] run
  show ?thesis by (auto simp: sample_closing_parts(3))
qed

subsection \<open>Cleanup\<close>

lemma cleanup_once_counts:
  assumes "\<And>a b w. calls (snd (w_cleanup E a b w)) = calls w + 1" "\<And>w. calls (snd (x_instant E w)) = calls w"
    and "\<And>n w. calls (snd (x_timer_fires E n w)) = calls w"
  shows "calls (m_world (snd (run_state (cleanup_once E a budget) s))) = calls (m_world s) + 1"
  by (simp add: cleanup_once_def assms split: option.split)

lemma cleanup_attempts_count:
  assumes "\<And>a b w. calls (snd (w_cleanup E a b w)) = calls w + 1" "\<And>w. calls (snd (x_instant E w)) = calls w"
    and "\<And>n w. calls (snd (x_timer_fires E n w)) = calls w"
    and "run_state (cleanup_attempts E a budget err n) s = (r, s')"
  shows "calls (m_world s') \<le> calls (m_world s) + n \<and> (is_ok r \<or> calls (m_world s') = calls (m_world s) + n)"
  using assms(4)
proof (induction n arbitrary: err s)
  case (Suc n)
  obtain r1 s1 where 1: "run_state (cleanup_once E a budget) s = (r1, s1)" by force
  have c1: "calls (m_world s1) = calls (m_world s) + 1" using cleanup_once_counts[OF assms(1-3), of a budget s] 1 by simp
  show ?case
  proof (cases r1)
    case (Inr u)
    then have "r = Inr ()" "s' = s1" using Suc.prems 1 by auto
    then show ?thesis using c1 by (simp add: is_ok_def)
  next
    case (Inl e)
    let ?wait = "if_then (n \<noteq> 0) (do { delay \<leftarrow> gets (\<lambda>s. tune_cleanup_retry_delay (m_tuning s));
       _ \<leftarrow> outside (x_timer_fires E delay); return () })"
    obtain s2 where 2: "run_state ?wait s1 = ((), s2)" by (rule unit_run)
    have c2: "calls (m_world s2) = calls (m_world s1)" using 2 assms(3) by (auto simp: if_then_def split: if_splits)
    have "run_state (cleanup_attempts E a budget e n) s2 = (r, s')" using Suc.prems 1 2 Inl by simp
    from Suc.IH[OF this] show ?thesis using c1 c2 by auto
  qed
qed simp

text \<open>
  C16. Cleanup is bounded and never silent: the backend is asked at most three times, once when a
  shutdown has set its deadline; a cleanup that fails has used every attempt, and under a deadline it
  leaves the allocation in the list of leaks the shutdown reports.
\<close>

theorem cleanup_bounded:
  assumes "\<And>a b w. calls (snd (w_cleanup E a b w)) = calls w + (1 :: nat)" "\<And>w. calls (snd (x_instant E w)) = calls w"
    and "\<And>n w. calls (snd (x_timer_fires E n w)) = calls w"
    and "run_state (cleanup_with_retries E a p) s = (r, s')"
  shows "calls (m_world s') \<le> calls (m_world s) + (if m_teardown_deadline s = None then 3 else 1)
    \<and> (is_ok r \<or> calls (m_world s') = calls (m_world s) + (if m_teardown_deadline s = None then 3 else 1)
        \<and> (m_teardown_deadline s \<noteq> None \<longrightarrow> (\<exists>leak \<in> set (m_leaked s'). leak_id leak = alloc_id a)))"
proof -
  let ?n = "if m_teardown_deadline s = None then 3 else 1 :: nat"
  obtain budget where tb: "run_state (teardown_budget (from_secs (prof_cleanup_timeout p))) s = (budget, s)"
      and b: "budget_is_bounded budget \<longleftrightarrow> m_teardown_deadline s \<noteq> None"
    by (auto simp: teardown_budget_def budget_is_bounded_def budget_allow_def budget_until_def split: option.splits)
  have n: "(if m_teardown_deadline s \<noteq> None then 1 else 3) = ?n" by simp
  obtain r1 s1 where 1: "run_state (cleanup_attempts E a budget (worker_error_new ''cleanup failed'') ?n) s = (r1, s1)"
    by force
  note count = cleanup_attempts_count[OF assms(1-3) 1]
  have run: "run_state (case r1 of Inr _ \<Rightarrow> return (Inr ())
      | Inl err \<Rightarrow> do { _ \<leftarrow> if_then (m_teardown_deadline s \<noteq> None) (record_leak a CleanupFailed); return (Inl err) }) s1
      = (r, s')"
    using assms(4) unfolding cleanup_with_retries_def
    by (simp only: run_state_bind tb prod.case b n 1)
  show ?thesis
  proof (cases r1)
    case (Inr u)
    then have "r = Inr ()" "s' = s1" using run by auto
    then show ?thesis using count by (simp add: is_ok_def)
  next
    case (Inl err)
    have "m_world s' = m_world s1" using run Inl by (auto simp: if_then_def record_leak_def split: if_splits)
    moreover have "\<exists>leak \<in> set (m_leaked s'). leak_id leak = alloc_id a" if "m_teardown_deadline s \<noteq> None"
      using run Inl that by (auto simp: if_then_def record_leak_def list_ex_iff allocation_leak_new_def split: if_splits)
    ultimately show ?thesis using count Inl by (simp add: is_ok_def)
  qed
qed

text \<open>A backend whose cleanup always fails, counting its calls, under the deadline of a shutdown.\<close>

definition sample_stuck_env :: "nat env" where
  "sample_stuck_env = sample_env\<lparr>w_cleanup := (\<lambda>_ _ w. (Inl (WorkerFailed ''stuck''), w + 1)),
     x_instant := (\<lambda>w. (0, w))\<rparr>"

theorem cleanup_bounded_witness:
  "\<exists>r s'. run_state (cleanup_with_retries sample_stuck_env sample_allocation sample_profile) sample_closing = (r, s')
     \<and> \<not> is_ok r \<and> m_world s' = m_world sample_closing + 1
     \<and> (\<exists>leak \<in> set (m_leaked s'). leak_id leak = 2)"
proof -
  have d: "m_teardown_deadline sample_closing \<noteq> None"
    by (simp add: sample_closing_def ignore_def shutdown_begin_def shutdown_mark_def split: option.split)
  obtain r s' where run: "run_state (cleanup_with_retries sample_stuck_env sample_allocation sample_profile)
      sample_closing = (r, s')" by force
  have "\<not> is_ok r"
    using run d by (auto simp: cleanup_with_retries_def teardown_budget_def budget_is_bounded_def budget_until_def
        budget_allow_def cleanup_once_def budget_remaining_def sample_stuck_env_def is_ok_def sample_env_def
        split: option.splits sum.splits if_splits prod.splits)
  moreover have c: "m_world s' \<le> m_world sample_closing + (if m_teardown_deadline sample_closing = None then 3 else 1)
      \<and> (is_ok r \<or> m_world s' = m_world sample_closing + (if m_teardown_deadline sample_closing = None then 3 else 1)
        \<and> (m_teardown_deadline sample_closing \<noteq> None \<longrightarrow> (\<exists>leak \<in> set (m_leaked s'). leak_id leak = alloc_id sample_allocation)))"
    by (rule cleanup_bounded[OF _ _ _ run]) (simp_all add: sample_stuck_env_def sample_env_def)
  ultimately show ?thesis using run d by (auto simp: sample_ids)
qed

subsection \<open>Claims\<close>

text \<open>
  C18. A request takes a pool machine exactly when one is eligible: idle, of its profile and of the
  lane its signed ref gives it, held by no unfinished allocation and not due to go; it then takes
  one of the most worn, marks it claimed by this allocation and changes nothing else that a claim
  depends on. With none eligible it keeps its own machine when the pool has room for one more, and
  otherwise gets none.
\<close>

theorem claim_decision:
  "case plan_hot_claim es hot ctx ident now at of
     Some (Reused g origin source) \<Rightarrow>
       (\<exists>h. eligible hot (ctx_name ctx) (ctx_lane ctx) (live_hot_names es) (context_policy ctx now) h
          \<and> hot_vm g = hot_vm h \<and> hot_vm_name origin = Some (hot_vm h) \<and> source = hot_source h
          \<and> hot_state_of g = Claimed \<and> hot_claimed_by g = Some ident
          \<and> (\<forall>k. eligible hot (ctx_name ctx) (ctx_lane ctx) (live_hot_names es) (context_policy ctx now) k \<longrightarrow>
               hot_jobs_served k \<le> hot_jobs_served h))
   | Some RetainOwn \<Rightarrow>
       (\<forall>k. \<not> eligible hot (ctx_name ctx) (ctx_lane ctx) (live_hot_names es) (context_policy ctx now) k)
       \<and> is_pool_expandable hot (ctx_max_hot_vms ctx) (in_flight_retentions es hot)
   | None \<Rightarrow>
       (\<forall>k. \<not> eligible hot (ctx_name ctx) (ctx_lane ctx) (live_hot_names es) (context_policy ctx now) k)
       \<and> \<not> is_pool_expandable hot (ctx_max_hot_vms ctx) (in_flight_retentions es hot)"
proof (cases "claimable hot (ctx_name ctx) (ctx_lane ctx) (live_hot_names es) (context_policy ctx now)")
  case None
  then show ?thesis unfolding plan_hot_claim_def None option.case
    using None[unfolded claimable_None] by simp
next
  case (Some h)
  then obtain g origin source where plan: "plan_hot_claim es hot ctx ident now at = Some (Reused g origin source)"
    using plan_hot_claim_not_stuck by blast
  have "hot_jobs_served k \<le> hot_jobs_served h"
    if "eligible hot (ctx_name ctx) (ctx_lane ctx) (live_hot_names es) (context_policy ctx now) k" for k
    using claimable_Some(2)[OF Some that] by (auto simp: more_worn_def)
  moreover from plan obtain h' where "claimable hot (ctx_name ctx) (ctx_lane ctx) (live_hot_names es)
      (context_policy ctx now) = Some h'" "hot_vm g = hot_vm h'" "hot_state_of g = Claimed" "hot_claimed_by g = Some ident"
      "hot_vm_name origin = Some (hot_vm g)" "source = hot_source h'"
    by (rule plan_hot_claim_Reused)
  ultimately show ?thesis
    using claimable_Some(1)[OF Some] Some unfolding plan option.case hot_claim.case by (intro exI[of _ h]) simp
qed

theorem claim_decision_witness:
  "\<exists>h. eligible [sample_guest] (ProfileName ''mac'') Protected [] (context_policy sample_context 1000) h
     \<and> hot_vm sample_claimed = hot_vm h \<and> hot_claimed_by sample_claimed = Some 2"
  using claim_decision[where es = "[]" and hot = "[sample_guest]" and ctx = sample_context and ident = 2
      and now = 1000 and at = 1000]
  unfolding sample_plan
  by (auto simp: sample_context_def live_hot_names_def active_allocations_def entry_allocations_def al_values_def
      List.map_filter_simps)

end
