(* ===== verification/Policy_Props.thy ===== *)
theory Policy_Props
  imports Ending_Props
begin

text \<open>
  Properties of the manager's decisions outside the lifecycle: clone sources, eviction, reloads,
  history, machine names, the operator's credential and the profile recovery falls back to.
\<close>

subsection \<open>Pool records\<close>

text \<open>
  C24. A pool record outlives its machine and never the reverse: an eviction removes the record only
  when the backend reported the machine destroyed; otherwise the record stays, carrying the reason
  for the next attempt.
\<close>

theorem evict_keeps_record:
  assumes "run_state (ensure_hot_evicted E g reason) s = ((), s')"
    and "map_of (m_hot s) (hot_vm g) \<noteq> None" "map_of (m_hot s') (hot_vm g) = None"
  shows "\<exists>budget w. w_ensure_hot_evicted E g budget (m_world s) = (Inr (), w)"
proof -
  let ?budget = "fst (run_state (teardown_budget (from_secs (hot_eviction_seconds (ch_current (m_config s))))) s)"
  obtain r w where ev: "w_ensure_hot_evicted E g ?budget (m_world s) = (r, w)" by force
  have "r = Inr ()"
  proof (cases r)
    case (Inl e)
    have "run_state (ensure_hot_eviction_pending E g reason) (s\<lparr>m_world := w\<rparr>) = ((), s')"
      using assms(1) ev Inl
      by (simp add: ensure_hot_evicted_def current_config_def teardown_budget_def)
    then have "map_of (m_hot s') (hot_vm g) \<noteq> None"
      using assms(2)
      by (auto simp: ensure_hot_eviction_pending_def hot_save_def run_state_db hot_table_save_def Let_def
          map_of_update split: if_splits sum.splits)
    then show ?thesis using assms(3) by simp
  qed simp
  then show ?thesis using ev by blast
qed

theorem evict_keeps_record_witness:
  "\<exists>s' budget w. run_state (ensure_hot_evicted sample_env sample_claimed OperatorRequest) sample_created = ((), s')
     \<and> map_of (m_hot s') (hot_vm sample_claimed) = None
     \<and> w_ensure_hot_evicted sample_env sample_claimed budget (m_world sample_created) = (Inr (), w)"
proof -
  obtain s' where run: "run_state (ensure_hot_evicted sample_env sample_claimed OperatorRequest) sample_created = ((), s')"
    by (rule unit_run)
  have "map_of (m_hot s') (hot_vm sample_claimed) = None"
    using run
    by (auto simp: ensure_hot_evicted_def current_config_def teardown_budget_def sample_env_def hot_remove_def
        run_state_db hot_table_remove_def emit_def sample_committed sample_ids Let_def)
  then show ?thesis
    using run evict_keeps_record[OF run] by (auto simp: sample_committed sample_ids)
qed

subsection \<open>Clone sources\<close>









subsection \<open>Reloads\<close>

lemma ssh_field_same: "\<not> is_ssh_field_changed a a f"
  by (simp add: is_ssh_field_changed_def split: option.split)

text \<open>
  C30. The list of settings a reload cannot apply is complete and exact: it is empty if and only if
  the new configuration differs from the running one in nothing but the settings a reload does
  apply, and does not switch a disabled periodic sweep on; so no change that needs a restart is
  ever swallowed silently.
\<close>

theorem restart_only_exact:
  "restart_only_differences old new = [] \<longleftrightarrow> with_reloadable old new = new
     \<and> \<not> (rt_reap_interval_hours (cfg_runtime old) = 0 \<and> rt_reap_interval_hours (cfg_runtime new) \<noteq> 0)"
  (is "?l \<longleftrightarrow> ?same \<and> ?sweep")
proof
  assume "restart_only_differences old new = []"
  then have d: "list_all (\<lambda>(d, _). \<not> d) (server_differences old new)" "list_all (\<lambda>(d, _). \<not> d) (db_differences old new)"
    "list_all (\<lambda>(d, _). \<not> d) (webui_differences old new)" "list_all (\<lambda>(d, _). \<not> d) (endpoint_differences old new)"
    "list_all (\<lambda>(d, _). \<not> d) (runtime_differences old new)" "list_all (\<lambda>(d, _). \<not> d) (guest_differences old new)"
    unfolding restart_only_Nil list_all_append by blast+
  have ?sweep using d(5) by (auto simp: runtime_differences_def Let_def)
  moreover have ?same
    unfolding with_reloadable_def
    using section_unchanged(1)[OF d(1)] section_unchanged(2)[OF d(2)] section_unchanged(3)[OF d(3)]
      section_unchanged(4)[OF d(4)] section_unchanged(5)[OF d(5)] guest_unchanged[OF d(6)]
    by (intro config.equality) simp_all
  ultimately show "?same \<and> ?sweep" by blast
next
  assume a: "?same \<and> ?sweep"
  then obtain l ps ro mh ri hc hm hs where new: "new = old\<lparr>cfg_logging := l, cfg_profiles := ps,
      cfg_webui := (cfg_webui old)\<lparr>web_public_read_only := ro\<rparr>,
      cfg_runtime := (cfg_runtime old)\<lparr>rt_max_hot_vms := mh, rt_reap_interval_hours := ri,
        rt_host_cpu_count := hc, rt_host_memory_mb := hm, rt_host_storage_mb := hs\<rparr>\<rparr>"
    unfolding with_reloadable_def by metis
  then have sweep: "rt_reap_interval_hours (cfg_runtime old) = 0 \<Longrightarrow> ri = 0" using a by simp
  show "restart_only_differences old new = []"
    unfolding restart_only_Nil new server_differences_def db_differences_def webui_differences_def
      endpoint_differences_def runtime_differences_def guest_differences_def Let_def
    by (simp add: ssh_field_same sweep)
qed

subsection \<open>Finished history\<close>

lemma take_sorted_least:
  assumes "a \<in> set (take n (sort_key f xs))" "b \<in> set xs" "b \<notin> set (take n (sort_key f xs))"
  shows "f a \<le> f b"
proof -
  let ?s = "sort_key f xs"
  have "set xs = set (take n ?s) \<union> set (drop n ?s)"
    by (simp only: set_append[symmetric] append_take_drop_id set_sort)
  then have "b \<in> set (drop n ?s)" using assms(2,3) by blast
  moreover have "sorted (map f (take n ?s @ drop n ?s))"
    unfolding append_take_drop_id by (rule sorted_sort_key)
  then have "\<forall>x\<in>set (take n ?s). \<forall>y\<in>set (drop n ?s). f x \<le> f y"
    unfolding map_append sorted_append by auto
  ultimately show ?thesis using assms(1) by blast
qed

lemma pruned_oldest:
  assumes "a \<in> set (pruned uuid_str limit es)" "b \<in> set (entry_allocations es)"
    "b \<notin> set (pruned uuid_str limit es)" "is_terminal (alloc_state b)"
  shows "alloc_updated_at a \<le> alloc_updated_at b"
proof -
  have "b \<in> set (filter (\<lambda>a. is_terminal (alloc_state a)) (entry_allocations es))"
    using assms(2,4) unfolding set_filter by blast
  then have "prune_order uuid_str a \<le> prune_order uuid_str b"
    using assms(1,3) unfolding pruned_def by (intro take_sorted_least)
  then show ?thesis by (auto simp: prune_order_def less_eq_prod_def)
qed

text \<open>
  C29. The resident history is bounded by its limit or, when more are unfinished, by those; pruning
  drops no unfinished allocation, and of the finished ones it drops the least recently updated.
\<close>

theorem history_bounded:
  assumes "keyed_by (\<lambda>e. alloc_id (e_allocation e)) es"
  shows "length (prune_terminal_history uuid_str limit es) \<le> max limit (length (active_allocations es))
    \<and> set (active_allocations es) \<subseteq> set (entry_allocations (prune_terminal_history uuid_str limit es))
    \<and> (\<forall>a \<in> set (entry_allocations es) - set (entry_allocations (prune_terminal_history uuid_str limit es)).
         \<forall>b \<in> set (entry_allocations (prune_terminal_history uuid_str limit es)).
           is_terminal (alloc_state b) \<longrightarrow> alloc_updated_at a \<le> alloc_updated_at b)"
proof -
  let ?p = "prune_terminal_history uuid_str limit es"
  let ?t = "filter (\<lambda>a. is_terminal (alloc_state a)) (entry_allocations es)"
  have keyed: "entries_keyed ?p" unfolding prune_filter by (rule keyed_by_filter[OF assms])
  have in_p: "a \<in> set (entry_allocations ?p) \<longleftrightarrow> a \<in> set (entry_allocations es)
      \<and> alloc_id a \<notin> alloc_id ` set (pruned uuid_str limit es)" for a
    unfolding entry_allocation_map_of[OF keyed] entry_allocation_map_of[OF assms] map_of_prune[OF assms] by auto
  have same: "x = y"
    if xy: "x \<in> set (entry_allocations es)" "y \<in> set (entry_allocations es)" "alloc_id x = alloc_id y" for x y
  proof -
    obtain e where e: "map_of es (alloc_id x) = Some e" "e_allocation e = x"
      using xy(1) unfolding entry_allocation_map_of[OF assms] by blast
    obtain f where f: "map_of es (alloc_id y) = Some f" "e_allocation f = y"
      using xy(2) unfolding entry_allocation_map_of[OF assms] by blast
    have "e = f" using e(1) f(1) unfolding xy(3) by simp
    then show ?thesis using e(2) f(2) by simp
  qed
  have by_id: "x \<in> set (pruned uuid_str limit es)"
    if x: "x \<in> set (entry_allocations es)" "alloc_id x \<in> alloc_id ` set (pruned uuid_str limit es)" for x
  proof -
    from x(2) obtain c where c: "c \<in> set (pruned uuid_str limit es)" "alloc_id x = alloc_id c" by blast
    have "x = c" by (rule same[OF x(1) _ c(2)]) (use pruned_terminal[OF c(1)] in blast)
    then show ?thesis using c(1) by simp
  qed
  have len: "length (active_allocations es) + length ?t = length es"
    using sum_length_filter_compl[of "\<lambda>a. is_terminal (alloc_state a)" "entry_allocations es"]
    by (simp add: active_allocations_def entry_allocations_def al_values_def del: is_terminal.simps)
  have "length ?p \<le> max limit (length (active_allocations es))"
    unfolding length_prune[OF assms] using len by linarith
  moreover have "set (active_allocations es) \<subseteq> set (entry_allocations ?p)"
  proof
    fix a assume a: "a \<in> set (active_allocations es)"
    then have "a \<in> set (entry_allocations es)" "\<not> is_terminal (alloc_state a)"
      by (simp_all add: active_allocations_def del: is_terminal.simps)
    then show "a \<in> set (entry_allocations ?p)"
      using by_id[of a] pruned_terminal[of a uuid_str limit es] unfolding in_p by blast
  qed
  moreover have "alloc_updated_at a \<le> alloc_updated_at b"
    if a: "a \<in> set (entry_allocations es) - set (entry_allocations ?p)"
      and b: "b \<in> set (entry_allocations ?p)" "is_terminal (alloc_state b)" for a b
  proof -
    have "alloc_id a \<in> alloc_id ` set (pruned uuid_str limit es)" using a in_p[of a] by simp
    then have 1: "a \<in> set (pruned uuid_str limit es)" using a by (intro by_id) simp_all
    have 2: "b \<in> set (entry_allocations es)" "b \<notin> set (pruned uuid_str limit es)"
      using b(1) in_p[of b] by auto
    show ?thesis by (rule pruned_oldest[OF 1 2 b(2)])
  qed
  ultimately show ?thesis by (intro conjI ballI impI)
qed

theorem history_bounded_witness:
  "length (prune_terminal_history (x_uuid_str sample_env) 1 (m_entries sample_two)) \<le> 2"
proof -
  have "entries_keyed (m_entries sample_two)"
    using machine.held_once_reachable(1)[OF sample_two_reachable] by (simp add: well_formed_def)
  from history_bounded[OF this, of "x_uuid_str sample_env" 1]
  have "length (prune_terminal_history (x_uuid_str sample_env) 1 (m_entries sample_two))
      \<le> max 1 (length (active_allocations (m_entries sample_two)))" by blast
  then show ?thesis
    by (simp add: sample_committed2 active_allocations_def entry_allocations_def al_values_def new_entry_def
        sample_ids sample_ids2)
qed

subsection \<open>Machine names\<close>

lemma dash_not_digit: "CHR ''-'' \<notin> set (nat_str n)"
  using nat_str_digits[of "CHR ''-''" n] by (auto simp: is_ascii_digit_def)

lemma last_number_inject:
  assumes "a @ ''-'' @ nat_str m = b @ ''-'' @ nat_str n"
  shows "a = b \<and> m = n"
proof -
  have "takeWhile (\<lambda>c. c \<noteq> CHR ''-'') (rev (x @ ''-'' @ nat_str k)) = rev (nat_str k)" for x k
    using dash_not_digit[of k] by (auto simp: takeWhile_append)
  then have "rev (nat_str m) = rev (nat_str n)" using assms by metis
  then have "m = n" by simp
  then show ?thesis using assms by simp
qed

text \<open>
  C31. Machine names identify their work: under one configuration two requests are given the same
  machine name only when they agree in profile, run and attempt, although profile names may
  themselves contain dashes and digits; and every name starts with the configured prefix.
\<close>

theorem vm_name_identifies:
  assumes "vm_name_of c r = Inr n" "vm_name_of c r' = Inr n"
  shows "req_profile r = req_profile r' \<and> req_run_id r = req_run_id r' \<and> req_run_attempt r = req_run_attempt r'
    \<and> starts_with (vm_str n) (prefix_str (rt_vm_prefix (cfg_runtime c)))"
proof -
  have n: "vm_str n = vm_name_text c r" "vm_str n = vm_name_text c r'"
    using assms by (auto simp: vm_name_of_def map_sum_Inr vm_name_new_def identifier_new_def split: if_splits)
  let ?head = "\<lambda>r. profile_str (req_profile r) @ ''-'' @ nat_str (unat (req_run_id r))"
  have "?head r @ ''-'' @ nat_str (unat (req_run_attempt r)) = ?head r' @ ''-'' @ nat_str (unat (req_run_attempt r'))"
    using n by (simp add: vm_name_text_def)
  from last_number_inject[OF this] have "?head r = ?head r'" "unat (req_run_attempt r) = unat (req_run_attempt r')"
    by simp_all
  with last_number_inject[OF this(1)] have "profile_str (req_profile r) = profile_str (req_profile r')"
    "unat (req_run_id r) = unat (req_run_id r')" by simp_all
  then show ?thesis
    using n \<open>unat (req_run_attempt r) = unat (req_run_attempt r')\<close>
    by (simp add: profile_name.expand vm_name_text_def word_unat_eq_iff)
qed

theorem vm_name_identifies_witness:
  "vm_name_of sample_config sample_request = Inr (VmName ''ff-mac-42-1'')
   \<and> starts_with (vm_str (VmName ''ff-mac-42-1'')) (prefix_str (rt_vm_prefix (cfg_runtime sample_config)))"
  using vm_name_identifies[OF sample_name sample_name] sample_name by blast

subsection \<open>The operator's credential\<close>

lemma or_zero_iff: "or a b = 0 \<longleftrightarrow> a = 0 \<and> b = (0 :: 'a::len word)"
  by (auto simp: bit_eq_iff bit_or_iff)

lemma xor_zero_iff: "xor a b = 0 \<longleftrightarrow> a = (b :: 'a::len word)"
  by (auto simp: bit_eq_iff bit_xor_iff)

lemma byte_inject: "(of_char c :: u8) = of_char d \<longleftrightarrow> c = d"
proof
  assume "(of_char c :: u8) = of_char d"
  then have "unat (of_char c :: u8) = unat (of_char d :: u8)" by simp
  moreover have "unat (of_char x :: u8) = (of_char x :: nat)" for x
  proof -
    have "(of_char x :: nat) < 2 ^ LENGTH(8)" by simp
    then have "unat (of_nat (of_char x) :: u8) = (of_char x :: nat)" by (simp add: unsigned_of_nat take_bit_nat_eq_self)
    then show ?thesis by (simp only: of_nat_of_char)
  qed
  ultimately show "c = d" by simp
qed simp

text \<open>
  C32. Comparing the operator's credential without an early exit decides equality: the fold over all
  byte pairs is zero exactly when the two texts are equal, and an empty credential matches nothing.
\<close>

theorem token_match_exact: "is_token_match presented expected \<longleftrightarrow> presented = expected \<and> expected \<noteq> []"
proof -
  have fold: "foldl (\<lambda>d (l, r). or d (xor (of_char l) (of_char r))) (d :: u8) (zip xs ys) = 0 \<longleftrightarrow> d = 0 \<and> xs = ys"
    if "length xs = length ys" for d and xs ys :: string
    using that
  proof (induction xs ys arbitrary: d rule: list_induct2)
    case (Cons x xs y ys)
    then show ?case by (auto simp: or_zero_iff xor_zero_iff byte_inject)
  qed simp
  then show ?thesis by (auto simp: is_token_match_def token_difference_def)
qed

subsection \<open>The fallback profile of recovery\<close>


end
