(* ===== verification/Interrupts.thy ===== *)
theory Interrupts
  imports Manager_State
begin

text \<open>
  Work that may be cut short. The runtimes run their steps inside \<open>tokio::select!\<close> and
  \<open>tokio::time::timeout\<close> (\<open>GuestJob::phase\<close> of \<open>crates/flanforge-runtime/src/job/model.rs\<close>),
  so a cancellation or a deadline may end a step at any of its await points, with the effects
  up to that point done and those after it not. A task returns a value, or halts: interrupted,
  out of the fuel of a polling loop, or with an error of its own. The outside decides at every
  await point whether the interruption comes there, so a theorem about a task covers an
  interruption at each of them, and none.
\<close>

datatype interruption = TokenCancelled | DeadlinePassed | ChildExited

datatype 'e halt = Interrupted interruption | Unfinished | Raised 'e

type_synonym ('s, 'e, 'a) task = "('s, 'e halt + 'a) state"

type_synonym 's cuts = "'s \<Rightarrow> interruption option \<times> 's"

definition raise_err :: "'e \<Rightarrow> ('s, 'e, 'a) task" where
  "raise_err e = return (Inl (Raised e))"

definition from_res :: "'e + 'a \<Rightarrow> ('s, 'e, 'a) task" where
  "from_res r = return (map_sum Raised id r)"

text \<open>One await point: the effect of the awaited call, then possibly the interruption.\<close>

definition awaited :: "'s cuts \<Rightarrow> ('s \<Rightarrow> 'a \<times> 's) \<Rightarrow> ('s, 'e, 'a) task" where
  "awaited intr f = do {
     a \<leftarrow> State f;
     c \<leftarrow> State intr;
     return (case c of Some i \<Rightarrow> Inl (Interrupted i) | None \<Rightarrow> Inr a) }"

text \<open>Code that looks at a \<open>Result\<close> sees the errors of the call, never an interruption.\<close>

definition attempt :: "('s, 'e, 'a) task \<Rightarrow> ('s, 'f, 'e + 'a) task" where
  "attempt m = do {
     r \<leftarrow> m;
     return (case r of
       Inr a \<Rightarrow> Inr (Inr a)
     | Inl (Raised e) \<Rightarrow> Inr (Inl e)
     | Inl (Interrupted i) \<Rightarrow> Inl (Interrupted i)
     | Inl Unfinished \<Rightarrow> Inl Unfinished) }"

definition map_raised :: "('e \<Rightarrow> 'f) \<Rightarrow> ('s, 'e, 'a) task \<Rightarrow> ('s, 'f, 'a) task" where
  "map_raised f m = bind_res (attempt m) (\<lambda>r. from_res (map_sum f id r))"

text \<open>
  \<open>GuestJob::phase\<close>: the token may already be cancelled, or be cancelled, or the deadline may
  pass, while the step is at an await point; each has its own message. During a Tart boot the
  exit of the machine's process ends the step too.
\<close>

definition interruption_error :: "string \<Rightarrow> interruption \<Rightarrow> worker_error" where
  "interruption_error timeout_message i =
     (case i of
        TokenCancelled \<Rightarrow> worker_error_new ''allocation was cancelled''
      | DeadlinePassed \<Rightarrow> worker_error_new timeout_message
      | ChildExited \<Rightarrow> worker_error_new ''Tart VM exited before obtaining an IP address'')"

definition phase ::
    "'s cuts \<Rightarrow> string \<Rightarrow> ('s, worker_error, 'a) task \<Rightarrow> ('s, worker_error, 'a) task" where
  "phase intr timeout_message m = do {
     c \<leftarrow> State intr;
     case c of
       Some i \<Rightarrow> raise_err (interruption_error timeout_message i)
     | None \<Rightarrow> do {
         r \<leftarrow> m;
         return (case r of
           Inl (Interrupted i) \<Rightarrow> Inl (Raised (interruption_error timeout_message i))
         | _ \<Rightarrow> r) } }"

text \<open>\<open>tokio::time::timeout\<close> mapped to one error: only the deadline can interrupt.\<close>

definition with_timeout :: "'e \<Rightarrow> ('s, 'e, 'a) task \<Rightarrow> ('s, 'e, 'a) task" where
  "with_timeout err m = do {
     r \<leftarrow> m;
     return (case r of Inl (Interrupted _) \<Rightarrow> Inl (Raised err) | _ \<Rightarrow> r) }"

text \<open>Outside every phase and timeout nothing interrupts.\<close>

definition no_cuts :: "'s cuts" where
  "no_cuts s = (None, s)"

text \<open>
  A polling loop: a step that returns the answer or nothing, a look at the clock, a pause. The
  fuel bounds the turns of the model; \<open>poll_loop_finishes\<close> of \<open>Timely\<close> shows how much is enough.
\<close>

record 's clock =
  k_now :: "'s \<Rightarrow> nat \<times> 's"
  k_sleep :: "nat \<Rightarrow> 's \<Rightarrow> 's"

fun poll_loop ::
    "nat \<Rightarrow> 's cuts \<Rightarrow> 's clock \<Rightarrow> nat \<Rightarrow> (nat \<Rightarrow> bool) \<Rightarrow> 'e
      \<Rightarrow> ('s, 'e, 'a option) task \<Rightarrow> ('s, 'e, 'a) task" where
  "poll_loop 0 intr K pause expired err m = return (Inl Unfinished)"
| "poll_loop (Suc fuel) intr K pause expired err m =
     bind_res m (\<lambda>r.
       case r of
         Some a \<Rightarrow> return (Inr a)
       | None \<Rightarrow> do {
           now \<leftarrow> State (k_now K);
           if expired now then raise_err err
           else bind_res (awaited intr (\<lambda>s. ((), k_sleep K pause s))) (\<lambda>_.
             poll_loop fuel intr K pause expired err m) })"

subsection \<open>Runs of tasks\<close>

lemmas task_defs = raise_err_def from_res_def attempt_def map_raised_def phase_def with_timeout_def

lemma run_awaited:
  "run_state (awaited intr f) s =
     (case fst (intr (snd (f s))) of Some i \<Rightarrow> Inl (Interrupted i) | None \<Rightarrow> Inr (fst (f s)),
      snd (intr (snd (f s))))"
  by (auto simp: awaited_def split: prod.splits option.splits)

lemma run_awaited_no_cuts [simp]: "run_state (awaited no_cuts f) s = (Inr (fst (f s)), snd (f s))"
  by (simp add: run_awaited no_cuts_def)

end
