(* ===== verification/Guest_Channel.thy ===== *)
theory Guest_Channel
  imports Interrupts Config_Validate
begin

text \<open>
  How the daemon reaches a guest, \<open>crates/flanforge-runtime/src\<close>: the commands a channel
  carries and their bounds (\<open>channel\<close>), shell quoting and the scripts built with it
  (\<open>guest/script.rs\<close>, \<open>guest/tailscale.rs\<close>), sessions and the trust they pin
  (\<open>guest/session.rs\<close>), and the channel over an SSH client (\<open>guest/ssh\<close>). The operating
  system, which starts processes and reads files, is the argument \<open>S\<close>.
\<close>

subsection \<open>The operating system\<close>

text \<open>
  A finished process has a code or a signal. \<open>o_output\<close> starts a command, waits and returns its
  status and output; \<open>o_spawn\<close> starts one that keeps running, \<open>o_write\<close>, \<open>o_read\<close>, \<open>o_wait\<close>,
  \<open>o_try_wait\<close> and \<open>o_kill\<close> act on it. \<open>o_ip\<close> parses an address literal and returns its
  canonical text; \<open>o_url\<close> is the URL parser.
\<close>

datatype exit_status = ExitCode int | ExitSignal int

definition status_success :: "exit_status \<Rightarrow> bool" where
  "status_success st \<longleftrightarrow> st = ExitCode 0"

record os_command =
  cmd_path :: string
  cmd_args :: "string list"
  cmd_env :: "(string \<times> string) list"

record metadata =
  meta_is_file :: bool
  meta_len :: u64
  meta_mode :: u32
  meta_modified :: "(u64 \<times> u32) option"

datatype url_host_kind = HostDomain string | HostIpv4 bool | HostIpv6 bool

record parsed_url =
  purl_scheme :: string
  purl_host :: "url_host_kind option"
  purl_username :: string
  purl_has_password :: bool
  purl_has_fragment :: bool

record 'w os =
  o_cuts :: "'w cuts"
  o_clock :: "'w clock"
  o_output :: "os_command \<Rightarrow> 'w \<Rightarrow> (exit_status \<times> string) option \<times> 'w"
  o_spawn :: "os_command \<Rightarrow> 'w \<Rightarrow> nat option \<times> 'w"
  o_write :: "nat \<Rightarrow> string \<Rightarrow> 'w \<Rightarrow> bool \<times> 'w"
  o_read :: "nat \<Rightarrow> nat \<Rightarrow> 'w \<Rightarrow> string option \<times> 'w"
  o_wait :: "nat \<Rightarrow> 'w \<Rightarrow> exit_status option \<times> 'w"
  o_try_wait :: "nat \<Rightarrow> 'w \<Rightarrow> exit_status option option \<times> 'w"
  o_kill :: "nat \<Rightarrow> 'w \<Rightarrow> unit \<times> 'w"
  o_metadata :: "string \<Rightarrow> 'w \<Rightarrow> metadata option \<times> 'w"
  o_symlink_metadata :: "string \<Rightarrow> 'w \<Rightarrow> metadata option \<times> 'w"
  o_read_file :: "string \<Rightarrow> 'w \<Rightarrow> string option \<times> 'w"
  o_unix_time :: "'w \<Rightarrow> u64 option \<times> 'w"
  o_timer_fires :: "nat \<Rightarrow> 'w \<Rightarrow> bool \<times> 'w"
  o_ip :: "string \<Rightarrow> string option"
  o_url :: "string \<Rightarrow> parsed_url option"
  o_is_uuid :: "string \<Rightarrow> bool"
  o_is_utf8 :: "string \<Rightarrow> bool"
  o_lossy :: "string \<Rightarrow> string"
  o_split_words :: "string \<Rightarrow> string list option"

type_synonym ('w, 'a) work = "('w, worker_error, 'a) task"

abbreviation fail :: "string \<Rightarrow> ('s, worker_error, 'a) task" where
  "fail message \<equiv> raise_err (worker_error_new message)"

definition or_fail :: "string \<Rightarrow> 'a option \<Rightarrow> ('s, worker_error, 'a) task" where
  "or_fail message r = (case r of None \<Rightarrow> fail message | Some a \<Rightarrow> return (Inr a))"

subsection \<open>Commands\<close>

datatype guest_program = Script string | Program string "string list"
datatype guest_capture = Discard | Bounded nat

text \<open>A secret is stored with the newline the guest's \<open>read\<close> needs.\<close>

datatype guest_secret = GuestSecret (secret_bytes: string)

definition secret_line :: "string \<Rightarrow> worker_error + guest_secret" where
  "secret_line value =
     (if value = [] \<or> 1024 < length value \<or> list_ex (\<lambda>b. \<not> is_ascii_graphic b) value
      then Inl (worker_error_new ''guest secret is structurally invalid'')
      else Inr (GuestSecret (value @ [CHR 0x0A])))"

record guest_command =
  gc_program :: guest_program
  gc_stdin :: "guest_secret option"
  gc_capture :: guest_capture

definition is_normal_absolute :: "string \<Rightarrow> bool" where
  "is_normal_absolute value \<longleftrightarrow> value \<noteq> [] \<and> length value \<le> 4096 \<and> CHR 0x00 \<notin> set value
     \<and> is_absolute value \<and> \<not> list_ex (\<lambda>c. c = ParentDir) (components value)"

text \<open>\<open>try_fold(0_usize, checked_add)\<close> on a 64-bit target.\<close>

definition checked_sum :: "nat list \<Rightarrow> nat option" where
  "checked_sum ns = foldl (\<lambda>acc n. case acc of None \<Rightarrow> None
     | Some t \<Rightarrow> if t + n < 2 ^ 64 then Some (t + n) else None) (Some 0) ns"

definition program_is_valid :: "guest_program \<Rightarrow> bool" where
  "program_is_valid program =
     (case program of
        Script script \<Rightarrow> script \<noteq> [] \<and> length script \<le> 64 * 1024 \<and> CHR 0x00 \<notin> set script
      | Program path arguments \<Rightarrow> is_normal_absolute path \<and> length arguments \<le> 16
          \<and> is_some_and (\<lambda>t. t \<le> 128 * 1024) (checked_sum (map length arguments))
          \<and> \<not> list_ex (\<lambda>a. CHR 0x00 \<in> set a) arguments)"

definition guest_command_new ::
    "guest_program \<Rightarrow> guest_secret option \<Rightarrow> guest_capture \<Rightarrow> worker_error + guest_command" where
  "guest_command_new program stdin capture =
     (if \<not> program_is_valid program
      then Inl (worker_error_new ''guest daemon script is structurally invalid'')
      else if stdin \<noteq> None \<and> capture \<noteq> Discard
      then Inl (worker_error_new ''a guest command carrying a secret cannot capture output'')
      else Inr \<lparr>gc_program = program, gc_stdin = stdin, gc_capture = capture\<rparr>)"

definition guest_command_quiet :: "string \<Rightarrow> worker_error + guest_command" where
  "guest_command_quiet script = guest_command_new (Script script) None Discard"

record guest_spawn =
  gs_command :: guest_command
  gs_handle :: uuid
  gs_lifetime :: nat

definition guest_spawn_new :: "guest_command \<Rightarrow> uuid \<Rightarrow> nat \<Rightarrow> worker_error + guest_spawn" where
  "guest_spawn_new command handle lifetime =
     (if handle = 0 \<or> lifetime = 0
      then Inl (worker_error_new ''guest spawn identity or lifetime is structurally invalid'')
      else if gc_capture command \<noteq> Discard
      then Inl (worker_error_new ''a supervised guest command cannot capture output'')
      else Inr \<lparr>gs_command = command, gs_handle = handle, gs_lifetime = lifetime\<rparr>)"

datatype guest_exit = ExitedCode int | ExitedSignal int | Lost

definition exit_is_success :: "guest_exit \<Rightarrow> bool" where
  "exit_is_success e \<longleftrightarrow> e = ExitedCode 0"

definition exit_is_verdict :: "guest_exit \<Rightarrow> bool" where
  "exit_is_verdict e \<longleftrightarrow> e \<noteq> Lost"

definition exit_code :: "guest_exit \<Rightarrow> int option" where
  "exit_code e = (case e of ExitedCode code \<Rightarrow> Some code | _ \<Rightarrow> None)"

definition exit_of_status :: "exit_status \<Rightarrow> guest_exit" where
  "exit_of_status st = (case st of ExitCode c \<Rightarrow> ExitedCode c | ExitSignal s \<Rightarrow> ExitedSignal s)"

record guest_output =
  go_exit :: guest_exit
  go_stdout :: string
  go_is_truncated :: bool

subsection \<open>Quoting and scripts\<close>

definition squote :: char where "squote = CHR 0x27"
definition dquote :: char where "dquote = CHR 0x22"
definition backslash :: char where "backslash = CHR 0x5C"

definition shell_quote :: "string \<Rightarrow> string" where
  "shell_quote value =
     [squote] @ concat (map (\<lambda>c. if c = squote then [squote, backslash, squote, squote] else [c]) value)
     @ [squote]"

definition in_dquotes :: "string \<Rightarrow> string" where
  "in_dquotes s = [dquote] @ s @ [dquote]"

fun join_words :: "string list \<Rightarrow> string" where
  "join_words [] = []"
| "join_words [w] = w"
| "join_words (w # ws) = w @ '' '' @ join_words ws"

definition TOKEN_TEMPLATE :: string where
  "TOKEN_TEMPLATE = ''/tmp/flanforged-one-job-token.XXXXXX''"
definition TAILSCALE_KEY_TEMPLATE :: string where
  "TAILSCALE_KEY_TEMPLATE = ''/tmp/flanforged-tailscale-preauth-key.XXXXXX''"
definition RUNNER_BASE :: string where
  "RUNNER_BASE = ''/tmp/flanforged-forgejo-runner''"
definition RUNNER_TEMPLATE :: string where
  "RUNNER_TEMPLATE = ''/tmp/flanforged-forgejo-runner.XXXXXX''"

definition runner_command :: "string \<Rightarrow> string \<Rightarrow> string \<Rightarrow> string \<Rightarrow> string \<Rightarrow> string" where
  "runner_command runner_path url_text uuid label handle =
     shell_quote runner_path @ '' one-job --url '' @ shell_quote url_text @ '' --uuid ''
     @ shell_quote uuid @ '' --token-url '' @ in_dquotes ''file://$token_path'' @ '' --label ''
     @ shell_quote label @ '' --handle '' @ shell_quote handle @ '' --wait''"

definition runner_script_with_token_template ::
    "string \<Rightarrow> string \<Rightarrow> string \<Rightarrow> string \<Rightarrow> string \<Rightarrow> string \<Rightarrow> string" where
  "runner_script_with_token_template runner_path url_text uuid label handle token_template =
     ''umask 077; token_path=$(/usr/bin/mktemp '' @ shell_quote token_template
     @ '') || exit 1; /bin/chmod 0600 '' @ in_dquotes ''$token_path'' @ '' || { /bin/rm -f ''
     @ in_dquotes ''$token_path'' @ ''; exit 1; }; cleanup() { /bin/rm -f '' @ in_dquotes ''$token_path''
     @ ''; }; IFS= read -r token || { cleanup; exit 1; }; /usr/bin/printf %s '' @ in_dquotes ''$token''
     @ '' > '' @ in_dquotes ''$token_path'' @ '' || { cleanup; exit 1; }; unset token; ''
     @ runner_command runner_path url_text uuid label handle
     @ '' & runner_pid=$!; on_signal() { /bin/kill '' @ in_dquotes ''$runner_pid'' @ '' 2>/dev/null; wait ''
     @ in_dquotes ''$runner_pid'' @ ''; cleanup; exit 1; }; trap on_signal HUP INT TERM; wait ''
     @ in_dquotes ''$runner_pid'' @ ''; status=$?; cleanup; exit '' @ in_dquotes ''$status''"

definition runner_script :: "string \<Rightarrow> string \<Rightarrow> string \<Rightarrow> string \<Rightarrow> string \<Rightarrow> string" where
  "runner_script runner_path url_text uuid label handle =
     runner_script_with_token_template runner_path url_text uuid label handle TOKEN_TEMPLATE"

definition retention_marker_script :: string where
  "retention_marker_script =
     ''marker='' @ in_dquotes ''$HOME/'' @ shell_quote ''.flanforge-regeneration-complete''
     @ ''; test -f '' @ in_dquotes ''$marker'' @ '' && test ! -L '' @ in_dquotes ''$marker''"

definition tailscale_arguments :: "string \<Rightarrow> string option \<Rightarrow> string list \<Rightarrow> string \<Rightarrow> string list" where
  "tailscale_arguments login_server hostname extra_args operator =
     extra_args @ [''--login-server='' @ login_server, ''--operator='' @ operator]
     @ (case hostname of None \<Rightarrow> [] | Some h \<Rightarrow> [''--hostname='' @ h])"

definition tailscale_script ::
    "string \<Rightarrow> string \<Rightarrow> string option \<Rightarrow> string list \<Rightarrow> string \<Rightarrow> string" where
  "tailscale_script tailscale_path login_server hostname extra_args operator =
     (let arguments = join_words (map shell_quote
            (tailscale_arguments login_server hostname extra_args operator));
          tailscale = shell_quote tailscale_path;
          key_path = in_dquotes ''$key_path''
      in ''umask 077; key_path=$(/usr/bin/mktemp '' @ shell_quote TAILSCALE_KEY_TEMPLATE
         @ '') || exit 1; /bin/chmod 0600 '' @ key_path @ '' || { /bin/rm -f '' @ key_path
         @ ''; exit 1; }; cleanup() { /bin/rm -f '' @ key_path
         @ ''; }; on_signal() { cleanup; trap - EXIT; exit 1; }; trap cleanup EXIT; ''
         @ ''trap on_signal HUP INT TERM; IFS= read -r key || exit 1; /usr/bin/printf %s ''
         @ in_dquotes ''$key'' @ '' > '' @ key_path @ '' || exit 1; unset key; '' @ tailscale
         @ '' logout >/dev/null 2>&1 && '' @ tailscale @ '' up '' @ arguments @ '' ''
         @ in_dquotes ''--auth-key=file:$key_path'' @ '' >/dev/null && '' @ tailscale
         @ '' status --json | /usr/bin/grep -Eq '' @ [squote] @ in_dquotes ''BackendState''
         @ ''[[:space:]]*:[[:space:]]*'' @ in_dquotes ''Running'' @ [squote])"

fun tailscale_path :: "backend_kind \<Rightarrow> string" where
  "tailscale_path TartBackend = ''/opt/homebrew/bin/tailscale''"
| "tailscale_path LibvirtBackend = ''/usr/bin/tailscale''"

subsection \<open>Sessions\<close>

datatype guest_trust = Configured | AllocationPinned string string

record guest_session =
  gs_address :: "string option"
  gs_trust :: guest_trust

definition validate_absolute_path :: "string \<Rightarrow> bool" where
  "validate_absolute_path value \<longleftrightarrow> length value \<le> 1024
     \<and> list_all (\<lambda>b. \<not> is_ascii_control b) value \<and> is_absolute value
     \<and> \<not> list_ex (\<lambda>c. c = ParentDir) (components value)"

definition session_configured :: "'w os \<Rightarrow> string \<Rightarrow> worker_error + guest_session" where
  "session_configured S address =
     (case o_ip S address of
        None \<Rightarrow> Inl (worker_error_new ''guest IP address is structurally invalid'')
      | Some ip \<Rightarrow> Inr \<lparr>gs_address = Some ip, gs_trust = Configured\<rparr>)"

definition allocation_trust :: "string \<Rightarrow> string \<Rightarrow> worker_error + guest_trust" where
  "allocation_trust known_hosts_file alias =
     (if \<not> validate_absolute_path known_hosts_file
      then Inl (worker_error_new ''allocation host-key path is structurally invalid'')
      else if alias = [] \<or> 128 < length alias
        \<or> \<not> list_all (\<lambda>b. is_ascii_alphanumeric b \<or> b \<in> {CHR ''-'', CHR ''_'', CHR ''.''}) alias
      then Inl (worker_error_new ''allocation host-key alias is structurally invalid'')
      else Inr (AllocationPinned known_hosts_file alias))"

definition session_allocation_pinned ::
    "string \<Rightarrow> string \<Rightarrow> string \<Rightarrow> worker_error + guest_session" where
  "session_allocation_pinned address known_hosts_file alias =
     and_then (allocation_trust known_hosts_file alias)
       (\<lambda>trust. Inr \<lparr>gs_address = Some address, gs_trust = trust\<rparr>)"

definition session_agent_pinned :: "string \<Rightarrow> string \<Rightarrow> worker_error + guest_session" where
  "session_agent_pinned known_hosts_file alias =
     and_then (allocation_trust known_hosts_file alias)
       (\<lambda>trust. Inr \<lparr>gs_address = None, gs_trust = trust\<rparr>)"

definition is_allocation_pinned :: "guest_session \<Rightarrow> bool" where
  "is_allocation_pinned session =
     (case gs_trust session of AllocationPinned _ _ \<Rightarrow> True | Configured \<Rightarrow> False)"

subsection \<open>The SSH client\<close>

record ssh_settings =
  set_user :: string
  set_identity_file :: string
  set_connect_timeout :: u64
  set_verify_host_key :: bool
  set_known_hosts_file :: "string option"
  set_host_key_alias :: "string option"

definition settings_from_config :: "guest_config \<Rightarrow> worker_error + ssh_settings" where
  "settings_from_config g =
     (case guest_ssh g of
        None \<Rightarrow> Inl (worker_error_new ''the SSH guest channel needs a [guest.ssh] configuration'')
      | Some ssh \<Rightarrow> Inr \<lparr>set_user = guest_runner_user g, set_identity_file = ssh_identity_file ssh,
          set_connect_timeout = ssh_connect_timeout ssh, set_verify_host_key = ssh_verify_host_key ssh,
          set_known_hosts_file = ssh_known_hosts_file ssh, set_host_key_alias = ssh_host_key_alias ssh\<rparr>)"

definition privileged_from_config :: "guest_config \<Rightarrow> worker_error + ssh_settings" where
  "privileged_from_config g =
     (case guest_ssh g of
        None \<Rightarrow> Inl (worker_error_new ''the SSH guest channel needs a [guest.ssh] configuration'')
      | Some ssh \<Rightarrow> Inr \<lparr>set_user = guest_privileged_user g,
          set_identity_file = unwrap_or (ssh_identity_file ssh) (ssh_privileged_identity_file ssh),
          set_connect_timeout = ssh_connect_timeout ssh, set_verify_host_key = ssh_verify_host_key ssh,
          set_known_hosts_file = ssh_known_hosts_file ssh, set_host_key_alias = ssh_host_key_alias ssh\<rparr>)"

definition settings_pinned :: "ssh_settings \<Rightarrow> string \<Rightarrow> string \<Rightarrow> ssh_settings" where
  "settings_pinned st known_hosts_file alias =
     st\<lparr>set_verify_host_key := True, set_known_hosts_file := Some known_hosts_file,
        set_host_key_alias := Some alias\<rparr>"

definition host_key_arguments :: "ssh_settings \<Rightarrow> string list" where
  "host_key_arguments st =
     (if \<not> set_verify_host_key st
      then [''-o'', ''StrictHostKeyChecking=no'', ''-o'', ''UserKnownHostsFile=/dev/null'']
      else [''-o'', ''StrictHostKeyChecking=yes'', ''-o'',
            ''UserKnownHostsFile='' @ in_dquotes (unwrap_or ''/dev/null'' (set_known_hosts_file st))]
         @ (case set_host_key_alias st of None \<Rightarrow> [] | Some a \<Rightarrow> [''-o'', ''HostKeyAlias='' @ a]))"

definition base_arguments :: "ssh_settings \<Rightarrow> string list" where
  "base_arguments st =
     [''-F'', ''/dev/null'', ''-o'', ''GlobalKnownHostsFile=/dev/null'', ''-o'', ''BatchMode=yes'',
      ''-o'', ''IdentitiesOnly=yes'', ''-o'', ''ForwardAgent=no'', ''-o'', ''ForwardX11=no'',
      ''-o'', ''ControlMaster=no'', ''-o'', ''ControlPath=none'', ''-o'', ''PermitLocalCommand=no'',
      ''-o'', ''ProxyCommand=none'', ''-o'', ''LogLevel=ERROR'']
     @ host_key_arguments st
     @ [''-o'', ''ConnectTimeout='' @ nat_str (unat (set_connect_timeout st)),
        ''-i'', set_identity_file st]"

definition connection_arguments :: "ssh_settings \<Rightarrow> string \<Rightarrow> string list" where
  "connection_arguments st ip = base_arguments st @ [set_user st @ ''@'' @ ip]"

record ssh_channel =
  sc_settings :: ssh_settings
  sc_privileged :: ssh_settings
  sc_ssh_path :: string
  sc_scp_path :: string

definition ssh_channel_new :: "guest_config \<Rightarrow> string \<Rightarrow> string \<Rightarrow> worker_error + ssh_channel" where
  "ssh_channel_new g ssh_path scp_path =
     and_then (settings_from_config g) (\<lambda>st.
     and_then (privileged_from_config g) (\<lambda>privileged.
       Inr \<lparr>sc_settings = st, sc_privileged = privileged, sc_ssh_path = ssh_path,
            sc_scp_path = scp_path\<rparr>))"

definition settings_resolved :: "ssh_settings \<Rightarrow> guest_session \<Rightarrow> ssh_settings" where
  "settings_resolved base session =
     (case gs_trust session of
        Configured \<Rightarrow> base
      | AllocationPinned known_hosts_file alias \<Rightarrow> settings_pinned base known_hosts_file alias)"

definition ssh_command :: "ssh_channel \<Rightarrow> ssh_settings \<Rightarrow> string \<Rightarrow> os_command" where
  "ssh_command c st ip =
     \<lparr>cmd_path = sc_ssh_path c, cmd_args = connection_arguments st ip, cmd_env = []\<rparr>"

definition scp_command :: "ssh_channel \<Rightarrow> ssh_settings \<Rightarrow> os_command" where
  "scp_command c st = \<lparr>cmd_path = sc_scp_path c, cmd_args = base_arguments st, cmd_env = []\<rparr>"

definition with_args :: "os_command \<Rightarrow> string list \<Rightarrow> os_command" where
  "with_args command args = command\<lparr>cmd_args := cmd_args command @ args\<rparr>"

fun remote_command :: "guest_program \<Rightarrow> string" where
  "remote_command (Script script) = script"
| "remote_command (Program path arguments) = join_words (map shell_quote (path # arguments))"

definition session_address :: "guest_session \<Rightarrow> ('w, string) work" where
  "session_address session =
     or_fail ''guest session has no address for the SSH channel'' (gs_address session)"

definition ssh_start ::
    "'w os \<Rightarrow> ssh_channel \<Rightarrow> ssh_settings \<Rightarrow> guest_session \<Rightarrow> guest_command \<Rightarrow> ('w, nat) work" where
  "ssh_start S c st session command =
     bind_res (session_address session) (\<lambda>ip. do {
       child \<leftarrow> State (o_spawn S (with_args (ssh_command c st ip) [remote_command (gc_program command)]));
       or_fail ''cannot start guest command'' child })"

definition ssh_deliver :: "'w os \<Rightarrow> nat \<Rightarrow> guest_secret option \<Rightarrow> ('w, unit) work" where
  "ssh_deliver S child secret =
     (case secret of
        None \<Rightarrow> return (Inr ())
      | Some secret \<Rightarrow>
          bind_res (awaited (o_cuts S) (o_write S child (secret_bytes secret))) (\<lambda>written.
            if written then return (Inr ()) else fail ''cannot deliver guest command input''))"

definition ssh_ready_probe :: "'w os \<Rightarrow> os_command \<Rightarrow> ('w, unit option) work" where
  "ssh_ready_probe S command =
     bind_res (awaited (o_cuts S) (o_output S (with_args command [''true'']))) (\<lambda>r.
       return (Inr (if is_some_and (\<lambda>(st, _). status_success st) r then Some () else None)))"

definition ssh_ensure_ready ::
    "nat \<Rightarrow> 'w os \<Rightarrow> ssh_channel \<Rightarrow> guest_session \<Rightarrow> nat \<Rightarrow> ('w, unit) work" where
  "ssh_ensure_ready fuel S c session timeout =
     bind_res (session_address session) (\<lambda>ip. do {
       start \<leftarrow> State (k_now (o_clock S));
       poll_loop fuel (o_cuts S) (o_clock S) 2000 (\<lambda>now. start + timeout \<le> now)
         (worker_error_new ''guest SSH did not become ready'')
         (ssh_ready_probe S (ssh_command c (settings_resolved (sc_settings c) session) ip)) })"

definition ssh_wait :: "'w os \<Rightarrow> nat \<Rightarrow> ('w, exit_status) work" where
  "ssh_wait S child =
     bind_res (awaited (o_cuts S) (o_wait S child)) (or_fail ''cannot wait for guest command'')"

definition ssh_run_resolved ::
    "'w os \<Rightarrow> ssh_channel \<Rightarrow> ssh_settings \<Rightarrow> guest_session \<Rightarrow> guest_command \<Rightarrow> ('w, guest_output) work" where
  "ssh_run_resolved S c st session command =
     bind_res (ssh_start S c st session command) (\<lambda>child.
     bind_res (ssh_deliver S child (gc_stdin command)) (\<lambda>_.
       case gc_capture command of
         Discard \<Rightarrow>
           bind_res (ssh_wait S child) (\<lambda>status.
             return (Inr \<lparr>go_exit = exit_of_status status, go_stdout = [], go_is_truncated = False\<rparr>))
       | Bounded limit \<Rightarrow>
           bind_res (awaited (o_cuts S) (o_read S child (limit + 1))) (\<lambda>out.
           bind_res (or_fail ''cannot read guest command output'' out) (\<lambda>stdout.
           bind_res (ssh_wait S child) (\<lambda>status.
             return (Inr \<lparr>go_exit = exit_of_status status, go_stdout = take limit stdout,
               go_is_truncated = limit < length stdout\<rparr>))))))"

definition ssh_run :: "'w os \<Rightarrow> ssh_channel \<Rightarrow> guest_session \<Rightarrow> guest_command \<Rightarrow> ('w, guest_output) work" where
  "ssh_run S c session command =
     ssh_run_resolved S c (settings_resolved (sc_settings c) session) session command"

definition ssh_run_privileged ::
    "'w os \<Rightarrow> ssh_channel \<Rightarrow> guest_session \<Rightarrow> guest_command \<Rightarrow> ('w, guest_output) work" where
  "ssh_run_privileged S c session command =
     ssh_run_resolved S c (settings_resolved (sc_privileged c) session) session command"

definition ssh_spawn :: "'w os \<Rightarrow> ssh_channel \<Rightarrow> guest_session \<Rightarrow> guest_spawn \<Rightarrow> ('w, nat) work" where
  "ssh_spawn S c session spawn =
     bind_res (ssh_start S c (settings_resolved (sc_settings c) session) session (gs_command spawn)) (\<lambda>child.
     bind_res (ssh_deliver S child (gc_stdin (gs_command spawn))) (\<lambda>_.
       return (Inr child)))"

definition ssh_try_exit :: "'w os \<Rightarrow> nat \<Rightarrow> ('w, guest_exit option) work" where
  "ssh_try_exit S child = do {
     r \<leftarrow> State (o_try_wait S child);
     case r of
       None \<Rightarrow> fail ''cannot inspect guest runner''
     | Some status \<Rightarrow> return (Inr (map_option exit_of_status status)) }"

definition ssh_ensure_stopped :: "'w os \<Rightarrow> nat \<Rightarrow> ('w, unit) work" where
  "ssh_ensure_stopped S child = awaited (o_cuts S) (o_kill S child)"

subsection \<open>Delivery of the host's runner\<close>

text \<open>\<open>str::lines\<close>: the pieces between line feeds, a final empty one dropped.\<close>

definition text_lines :: "string \<Rightarrow> string list" where
  "text_lines s =
     (let ls = split_on (CHR 0x0A) s;
          ls = (if last ls = [] then butlast ls else ls)
      in map (\<lambda>l. if l \<noteq> [] \<and> last l = CHR 0x0D then butlast l else l) ls)"

definition staging_path_of :: "'w os \<Rightarrow> string \<Rightarrow> worker_error + string" where
  "staging_path_of S stdout =
     (let invalid = worker_error_new ''guest runner staging path is invalid''
      in if \<not> o_is_utf8 S stdout then Inl invalid
         else case find (\<lambda>l. l \<noteq> []) (rev (map trim (text_lines stdout))) of
           None \<Rightarrow> Inl invalid
         | Some path \<Rightarrow>
             (case strip_prefix (RUNNER_BASE @ ''.'') path of
                None \<Rightarrow> Inl invalid
              | Some rest \<Rightarrow>
                  if length rest < 6 \<or> 32 < length rest \<or> \<not> list_all is_ascii_alphanumeric rest
                  then Inl invalid else Inr path))"

definition allocate_staging_script :: string where
  "allocate_staging_script =
     ''umask 077; path=$(/usr/bin/mktemp '' @ RUNNER_TEMPLATE @ '') || exit 1; /bin/chmod 0600 ''
     @ in_dquotes ''$path'' @ '' || exit 1; /usr/bin/printf '' @ [squote] @ ''%s'' @ [backslash] @ ''n''
     @ [squote] @ '' '' @ in_dquotes ''$path''"

definition allocate_staging_file :: "'w os \<Rightarrow> ssh_channel \<Rightarrow> guest_session \<Rightarrow> ('w, string) work" where
  "allocate_staging_file S c session =
     bind_res (from_res (guest_command_new (Script allocate_staging_script) None (Bounded 256))) (\<lambda>command.
     bind_res (map_raised (\<lambda>_. worker_error_new ''cannot reserve guest runner staging file'')
       (ssh_run S c session command)) (\<lambda>out.
       if \<not> exit_is_success (go_exit out) \<or> go_is_truncated out
       then fail ''cannot reserve guest runner staging file''
       else from_res (staging_path_of S (go_stdout out))))"

definition ssh_quiet :: "'w os \<Rightarrow> ssh_channel \<Rightarrow> guest_session \<Rightarrow> string \<Rightarrow> ('w, guest_exit) work" where
  "ssh_quiet S c session script =
     bind_res (from_res (guest_command_quiet script)) (\<lambda>command.
     bind_res (ssh_run S c session command) (\<lambda>out. return (Inr (go_exit out))))"

definition ssh_remove_file :: "'w os \<Rightarrow> ssh_channel \<Rightarrow> guest_session \<Rightarrow> string \<Rightarrow> ('w, unit) work" where
  "ssh_remove_file S c session path =
     bind_res (attempt (ssh_quiet S c session (''/bin/rm -f '' @ shell_quote path))) (\<lambda>_.
       return (Inr ()))"

text \<open>\<open>Path::parent\<close> of an absolute path, the root standing in for none.\<close>

definition parent_dir :: "string \<Rightarrow> string" where
  "parent_dir path =
     (let trimmed = rev (dropWhile (\<lambda>c. c = CHR ''/'') (rev path));
          dir = rev (dropWhile (\<lambda>c. c = CHR ''/'') (dropWhile (\<lambda>c. c \<noteq> CHR ''/'') (rev trimmed)))
      in if dir = [] then ''/'' else dir)"

definition install_script :: "string \<Rightarrow> string \<Rightarrow> string" where
  "install_script temporary destination =
     ''{ /bin/mkdir -p '' @ shell_quote (parent_dir destination) @ '' && /usr/bin/install -m 0700 ''
     @ shell_quote temporary @ '' '' @ shell_quote destination @ ''; } 2>&1; status=$?; /bin/rm -f ''
     @ shell_quote temporary @ ''; exit '' @ in_dquotes ''$status''"

definition ssh_install_file ::
    "'w os \<Rightarrow> ssh_channel \<Rightarrow> guest_session \<Rightarrow> string \<Rightarrow> string \<Rightarrow> ('w, unit) work" where
  "ssh_install_file S c session source destination =
     (if \<not> validate_absolute_path source then fail ''runner source path is structurally invalid''
      else if \<not> validate_absolute_path destination
      then fail ''guest runner path is structurally invalid''
      else
        bind_res (allocate_staging_file S c session) (\<lambda>temporary.
        bind_res (session_address session) (\<lambda>address.
          let st = settings_resolved (sc_settings c) session;
              target = (if CHR '':'' \<in> set address
                then set_user st @ ''@['' @ address @ '']:'' @ temporary
                else set_user st @ ''@'' @ address @ '':'' @ temporary)
          in bind_res (awaited (o_cuts S) (o_output S (with_args (scp_command c st) [source, target]))) (\<lambda>r.
             bind_res (or_fail ''cannot copy Forgejo Runner into guest'' r) (\<lambda>(status, _).
               if \<not> status_success status
               then bind_res (ssh_remove_file S c session temporary) (\<lambda>_.
                 fail ''cannot copy Forgejo Runner into guest'')
               else
                 bind_res (from_res (guest_command_new (Script (install_script temporary destination))
                   None (Bounded 4096))) (\<lambda>command.
                 bind_res (map_raised (\<lambda>_. worker_error_new ''cannot install guest runner'')
                   (ssh_run S c session command)) (\<lambda>out.
                   if exit_is_success (go_exit out) then return (Inr ())
                   else fail ''cannot install guest runner'')))))))"

subsection \<open>The pinned host keys\<close>

text \<open>\<open>str::split_whitespace\<close>, over the white space of \<open>str::trim\<close>.\<close>

function fields_from :: "string \<Rightarrow> string \<Rightarrow> string list" where
  "fields_from acc [] = (if acc = [] then [] else [rev acc])"
| "fields_from acc (c # s) =
     (case find (\<lambda>w. w \<noteq> [] \<and> prefix w (c # s)) whitespace_seqs of
        Some w \<Rightarrow> (if acc = [] then [] else [rev acc]) @ fields_from [] (drop (length w) (c # s))
      | None \<Rightarrow> fields_from (c # acc) s)"
  by pat_completeness auto
termination
proof (relation "measure (\<lambda>(acc, s). length s)", goal_cases)
  case (3 acc c s w)
  then have "w \<noteq> []" by (auto simp: find_Some_iff)
  then show ?case by (cases w) auto
qed simp_all

declare fields_from.simps(2) [simp del]

definition split_whitespace :: "string \<Rightarrow> string list" where
  "split_whitespace s = fields_from [] s"

definition line_pins_alias :: "string \<Rightarrow> string \<Rightarrow> bool" where
  "line_pins_alias alias line =
     (case split_whitespace line of
        [] \<Rightarrow> False
      | first # rest \<Rightarrow>
          if starts_with first ''#'' then False
          else if starts_with first ''@''
          then (case rest of hosts # _ # _ \<Rightarrow> list_ex (\<lambda>h. h = alias) (split_on (CHR '','') hosts)
                | _ \<Rightarrow> False)
          else (case rest of _ # _ \<Rightarrow> list_ex (\<lambda>h. h = alias) (split_on (CHR '','') first)
                | [] \<Rightarrow> False))"

definition is_alias_pinned :: "string \<Rightarrow> string \<Rightarrow> bool" where
  "is_alias_pinned contents alias = list_ex (line_pins_alias alias) (text_lines contents)"

definition known_hosts_missing :: "string \<Rightarrow> worker_error" where
  "known_hosts_missing path =
     worker_error_new (''guest known-hosts file '' @ path @ '' is missing or unusable'')"

definition ensure_guest_known_hosts :: "'w os \<Rightarrow> guest_config \<Rightarrow> ('w, unit) work" where
  "ensure_guest_known_hosts S g =
     (case guest_ssh g of
        None \<Rightarrow> return (Inr ())
      | Some ssh \<Rightarrow>
          if \<not> ssh_verify_host_key ssh then return (Inr ())
          else case (ssh_known_hosts_file ssh, ssh_host_key_alias ssh) of
            (Some path, Some alias) \<Rightarrow>
              bind_res (awaited (o_cuts S) (o_symlink_metadata S path)) (\<lambda>meta.
                case meta of
                  None \<Rightarrow> raise_err (known_hosts_missing path)
                | Some meta \<Rightarrow>
                    if \<not> meta_is_file meta \<or> 1048576 < meta_len meta
                    then raise_err (known_hosts_missing path)
                    else if and (meta_mode meta) 0x12 \<noteq> 0
                    then fail (''guest known-hosts file '' @ path @ '' is group- or world-writable'')
                    else bind_res (awaited (o_cuts S) (o_read_file S path)) (\<lambda>contents.
                      case contents of
                        None \<Rightarrow> raise_err (known_hosts_missing path)
                      | Some contents \<Rightarrow>
                          if \<not> o_is_utf8 S contents then raise_err (known_hosts_missing path)
                          else if is_alias_pinned contents alias then return (Inr ())
                          else fail (''guest known-hosts file '' @ path
                            @ '' has no entry for host-key alias '' @ alias)))
          | _ \<Rightarrow> fail ''guest host-key verification needs both a known-hosts file and a host-key alias'')"

end
