(* ===== verification/Tart_Client.thy ===== *)
theory Tart_Client
  imports Guest_Channel
begin

text \<open>
  The client of the \<open>tart\<close> command, \<open>crates/flanforge-runtime-tart/src/tart\<close>: the listing
  (\<open>client.rs\<close>), machines of an allocation (\<open>machines.rs\<close>), warm images (\<open>images.rs\<close>), the
  choice of a clone source (\<open>sources.rs\<close>) and disk sizes (\<open>storage.rs\<close>). The command itself is
  a process of the operating system \<open>S\<close>; the decoder of its JSON listing is the argument
  \<open>decode\<close> stored in the client.
\<close>

record tart_machine =
  tm_name :: string
  tm_state :: string

definition eq_ignore_ascii_case :: "string \<Rightarrow> string \<Rightarrow> bool" where
  "eq_ignore_ascii_case a b \<longleftrightarrow> map to_ascii_lowercase a = map to_ascii_lowercase b"

definition tm_is_stopped :: "tart_machine \<Rightarrow> bool" where
  "tm_is_stopped m \<longleftrightarrow> tm_state m = ''stopped''"

definition tm_machine_state :: "tart_machine \<Rightarrow> machine_state" where
  "tm_machine_state m =
     (if eq_ignore_ascii_case (tm_state m) ''running'' then MachineRunning
      else if tm_is_stopped m then MachineStopped
      else MachineOther)"

record tart_client =
  tc_config :: runtime_config
  tc_tart :: tart_config
  tc_library :: "string option"
  tc_decode :: "string \<Rightarrow> tart_machine list option"

definition library_home :: "string option \<Rightarrow> string option \<Rightarrow> string option \<Rightarrow> string option" where
  "library_home configured env_home service_home =
     (case configured of
        Some path \<Rightarrow> Some path
      | None \<Rightarrow>
          (case env_home of
             Some path \<Rightarrow> if is_absolute path then Some path else None
           | None \<Rightarrow> map_option (\<lambda>home. path_join home ''.tart'') service_home))"

definition tart_client_new ::
    "(string \<Rightarrow> tart_machine list option) \<Rightarrow> string option \<Rightarrow> string option \<Rightarrow> runtime_config \<Rightarrow> tart_config
      \<Rightarrow> tart_client" where
  "tart_client_new decode env_home service_home rt tart =
     \<lparr>tc_config = rt, tc_tart = tart,
      tc_library = library_home (tart_home tart) env_home service_home, tc_decode = decode\<rparr>"

subsection \<open>Running the command\<close>

definition tart_command :: "tart_client \<Rightarrow> string list \<Rightarrow> os_command" where
  "tart_command t args =
     \<lparr>cmd_path = tart_path (tc_tart t), cmd_args = args,
      cmd_env = (case tart_home (tc_tart t) of None \<Rightarrow> [] | Some home \<Rightarrow> [(''TART_HOME'', home)])\<rparr>"

definition run_checked :: "'w os \<Rightarrow> tart_client \<Rightarrow> string list \<Rightarrow> ('w, unit) work" where
  "run_checked S t args =
     bind_res (awaited (o_cuts S) (o_output S (tart_command t args))) (\<lambda>r.
     bind_res (or_fail ''cannot invoke Tart'' r) (\<lambda>(status, _).
       if status_success status then return (Inr ()) else fail ''Tart operation failed''))"

text \<open>
  \<open>list\<close>: an invocation that cannot be started is tried once more after a pause; one that
  outlives its own timeout is an error.
\<close>

definition LIST_TIMEOUT :: nat where
  "LIST_TIMEOUT = 30000"

fun list_attempts :: "nat \<Rightarrow> 'w os \<Rightarrow> tart_client \<Rightarrow> ('w, exit_status \<times> string) work" where
  "list_attempts 0 S t = fail ''cannot inspect Tart VMs''"
| "list_attempts (Suc n) S t =
     bind_res (awaited (o_cuts S) (o_output S (tart_command t [''list'', ''--format'', ''json'']))) (\<lambda>r. do {
       timed_out \<leftarrow> State (o_timer_fires S LIST_TIMEOUT);
       if timed_out then fail ''Tart machine inspection timed out''
       else case r of
         Some out \<Rightarrow> return (Inr out)
       | None \<Rightarrow>
           if n = 0 then fail ''cannot inspect Tart VMs''
           else bind_res (awaited (o_cuts S) (\<lambda>w. ((), k_sleep (o_clock S) 10 w))) (\<lambda>_.
             list_attempts n S t) })"

definition tart_list :: "'w os \<Rightarrow> tart_client \<Rightarrow> ('w, tart_machine list) work" where
  "tart_list S t =
     bind_res (list_attempts 2 S t) (\<lambda>(status, stdout).
       if \<not> status_success status \<or> 1048576 < length stdout then fail ''cannot inspect Tart VMs''
       else or_fail ''Tart returned invalid VM state'' (tc_decode t stdout))"

definition is_absent :: "'w os \<Rightarrow> tart_client \<Rightarrow> string \<Rightarrow> ('w, bool) work" where
  "is_absent S t name =
     bind_res (attempt (tart_list S t)) (\<lambda>r.
       return (Inr (case r of Inl _ \<Rightarrow> False | Inr ms \<Rightarrow> \<not> list_ex (\<lambda>m. tm_name m = name) ms)))"

definition remove_named :: "'w os \<Rightarrow> tart_client \<Rightarrow> vm_name \<Rightarrow> string \<Rightarrow> ('w, unit) work" where
  "remove_named S t name state =
     bind_res (if eq_ignore_ascii_case state ''running''
               then bind_res (attempt (run_checked S t [''stop'', vm_str name])) (\<lambda>_. return (Inr ()))
               else return (Inr ())) (\<lambda>_.
     bind_res (attempt (run_checked S t [''delete'', vm_str name])) (\<lambda>r.
       case r of
         Inr _ \<Rightarrow> return (Inr ())
       | Inl e \<Rightarrow> bind_res (is_absent S t (vm_str name)) (\<lambda>absent.
           if absent then return (Inr ()) else raise_err e)))"

subsection \<open>Ownership\<close>

definition tart_owned_name :: "tart_client \<Rightarrow> string \<Rightarrow> bool" where
  "tart_owned_name t name = starts_with name (prefix_str (rt_vm_prefix (tc_config t)))"

definition is_owned :: "tart_client \<Rightarrow> vm_name \<Rightarrow> bool" where
  "is_owned t name = tart_owned_name t (vm_str name)"

definition tart_ensure_owned :: "tart_client \<Rightarrow> allocation \<Rightarrow> worker_error + unit" where
  "tart_ensure_owned t a =
     (if \<not> allocation_validate a then Inl (worker_error_new ''allocation is structurally invalid'')
      else if is_owned t (alloc_vm_name a) then Inr ()
      else Inl (worker_error_new ''refusing to modify an unowned Tart VM''))"

definition ensure_owned_name :: "tart_client \<Rightarrow> vm_name \<Rightarrow> worker_error + unit" where
  "ensure_owned_name t name =
     (if is_owned t name then Inr ()
      else Inl (worker_error_new ''refusing to modify an unowned Tart VM''))"

abbreviation owning :: "tart_client \<Rightarrow> allocation \<Rightarrow> ('w, 'a) work \<Rightarrow> ('w, 'a) work" where
  "owning t a m \<equiv> bind_res (from_res (tart_ensure_owned t a)) (\<lambda>_. m)"

definition remove_machine :: "'w os \<Rightarrow> tart_client \<Rightarrow> allocation \<Rightarrow> string \<Rightarrow> ('w, unit) work" where
  "remove_machine S t a state = owning t a (remove_named S t (alloc_vm_name a) state)"

subsection \<open>Files of the library\<close>

definition library_vm_directory :: "tart_client \<Rightarrow> string \<Rightarrow> string option" where
  "library_vm_directory t name =
     map_option (\<lambda>home. path_join (path_join home ''vms'') name) (tc_library t)"

definition configured_vm_directory :: "tart_client \<Rightarrow> string \<Rightarrow> string option" where
  "configured_vm_directory t name =
     map_option (\<lambda>home. path_join (path_join home ''vms'') name)
       (case rt_tart (tc_config t) of None \<Rightarrow> None | Some tart \<Rightarrow> tart_home tart)"

definition machine_age_seconds :: "'w os \<Rightarrow> tart_client \<Rightarrow> string \<Rightarrow> ('w, u64 option) work" where
  "machine_age_seconds S t name =
     (case library_vm_directory t name of
        None \<Rightarrow> return (Inr None)
      | Some directory \<Rightarrow>
          bind_res (awaited (o_cuts S) (o_metadata S directory)) (\<lambda>meta.
            case meta of
              None \<Rightarrow> return (Inr None)
            | Some meta \<Rightarrow> do {
                now \<leftarrow> State (o_unix_time S);
                return (Inr (case (now, meta_modified meta) of
                  (Some now, Some (secs, _)) \<Rightarrow> Some (saturating_sub now secs)
                | _ \<Rightarrow> None)) }))"

fun host_machines_of ::
    "'w os \<Rightarrow> tart_client \<Rightarrow> tart_machine list \<Rightarrow> ('w, host_machine list) work" where
  "host_machines_of S t [] = return (Inr [])"
| "host_machines_of S t (m # ms) =
     bind_res (machine_age_seconds S t (tm_name m)) (\<lambda>age.
     bind_res (host_machines_of S t ms) (\<lambda>rest.
       return (Inr (\<lparr>mach_name = tm_name m, mach_state = tm_machine_state m, mach_age_seconds = age,
         mach_size = None, mach_ownership = (if tart_owned_name t (tm_name m) then Owned else Foreign)\<rparr>
         # rest))))"

definition tart_host_machines :: "'w os \<Rightarrow> tart_client \<Rightarrow> ('w, host_machine list) work" where
  "tart_host_machines S t = bind_res (tart_list S t) (host_machines_of S t)"

definition file_stat_of :: "'w os \<Rightarrow> string \<Rightarrow> ('w, file_stat option) work" where
  "file_stat_of S path =
     bind_res (awaited (o_cuts S) (o_metadata S path)) (\<lambda>meta.
       return (Inr (case meta of
         None \<Rightarrow> None
       | Some meta \<Rightarrow> map_option (\<lambda>(secs, nanos). \<lparr>stat_len = meta_len meta, mtime_secs = secs,
           mtime_nanos = nanos\<rparr>) (meta_modified meta))))"

definition tart_fingerprint :: "'w os \<Rightarrow> tart_client \<Rightarrow> vm_name \<Rightarrow> ('w, base_fingerprint option) work" where
  "tart_fingerprint S t template =
     (case configured_vm_directory t (vm_str template) of
        None \<Rightarrow> return (Inr None)
      | Some directory \<Rightarrow>
          bind_res (file_stat_of S (path_join directory ''disk.img'')) (\<lambda>disk.
            case disk of
              None \<Rightarrow> return (Inr None)
            | Some disk \<Rightarrow> bind_res (file_stat_of S (path_join directory ''config.json'')) (\<lambda>conf.
                return (Inr (map_option (from_stats disk) conf)))))"

subsection \<open>Disk sizes\<close>

definition MIB :: u64 where "MIB = 1048576"
definition DISK_SIZE_BYTES :: nat where "DISK_SIZE_BYTES = 1000000000"

text \<open>\<open>u64::div_ceil\<close>, and \<open>u16::try_from\<close>.\<close>

definition div_ceil :: "nat \<Rightarrow> nat \<Rightarrow> nat" where
  "div_ceil a b = a div b + (if a mod b = 0 then 0 else 1)"

definition disk_size_argument :: "u64 \<Rightarrow> u64 \<Rightarrow> u16 option" where
  "disk_size_argument requested_bytes base_bytes =
     (if requested_bytes \<le> base_bytes then None
      else
        let gigabytes = div_ceil (unat requested_bytes) DISK_SIZE_BYTES
        in if gigabytes < 2 ^ 16 then Some (of_nat gigabytes) else None)"

definition disk_bytes :: "'w os \<Rightarrow> tart_client \<Rightarrow> string \<Rightarrow> ('w, u64 option) work" where
  "disk_bytes S t name =
     (case library_vm_directory t name of
        None \<Rightarrow> return (Inr None)
      | Some directory \<Rightarrow>
          bind_res (awaited (o_cuts S) (o_metadata S (path_join directory ''disk.img''))) (\<lambda>meta.
            return (Inr (map_option meta_len meta))))"

definition tart_base_storage_mb :: "'w os \<Rightarrow> tart_client \<Rightarrow> string \<Rightarrow> ('w, u64 option) work" where
  "tart_base_storage_mb S t name =
     bind_res (disk_bytes S t name) (\<lambda>bytes. return (Inr (map_option (\<lambda>b. b div MIB) bytes)))"

definition disk_size_gb :: "'w os \<Rightarrow> tart_client \<Rightarrow> allocation \<Rightarrow> u64 \<Rightarrow> ('w, u16 option) work" where
  "disk_size_gb S t a mb =
     bind_res (disk_bytes S t (vm_str (alloc_vm_name a))) (\<lambda>base.
       return (Inr (case base of
         None \<Rightarrow> None
       | Some base \<Rightarrow> disk_size_argument (saturating_mul mb MIB) base)))"

subsection \<open>Machines of an allocation\<close>

definition tart_clone :: "'w os \<Rightarrow> tart_client \<Rightarrow> allocation \<Rightarrow> vm_name \<Rightarrow> ('w, unit) work" where
  "tart_clone S t a source =
     owning t a (run_checked S t [''clone'', vm_str source, vm_str (alloc_vm_name a)])"

definition tart_configure :: "'w os \<Rightarrow> tart_client \<Rightarrow> allocation \<Rightarrow> profile \<Rightarrow> ('w, unit) work" where
  "tart_configure S t a p = owning t a
     (let cpu = (case alloc_size a of None \<Rightarrow> prof_cpu_count p | Some z \<Rightarrow> cpu_count z);
          memory = (case alloc_size a of None \<Rightarrow> prof_memory_mb p | Some z \<Rightarrow> memory_mb z);
          storage = (case alloc_size a of None \<Rightarrow> prof_storage_mb p | Some z \<Rightarrow> storage_mb z)
      in bind_res (disk_size_gb S t a storage) (\<lambda>disk.
        run_checked S t ([''set'', vm_str (alloc_vm_name a), ''--cpu'', nat_str (unat cpu),
            ''--memory'', nat_str (unat memory)]
          @ (case disk of None \<Rightarrow> [] | Some gb \<Rightarrow> [''--disk-size'', nat_str (unat gb)]))))"

definition tart_start :: "'w os \<Rightarrow> tart_client \<Rightarrow> allocation \<Rightarrow> profile \<Rightarrow> ('w, nat) work" where
  "tart_start S t a p = owning t a (do {
     child \<leftarrow> State (o_spawn S (tart_command t ([''run'', vm_str (alloc_vm_name a), ''--no-graphics'']
       @ (if prof_network p = Softnet then [''--net-softnet''] else []))));
     or_fail ''cannot start Tart VM'' child })"

definition ip_probe :: "'w os \<Rightarrow> tart_client \<Rightarrow> vm_name \<Rightarrow> ('w, string option) work" where
  "ip_probe S t name =
     bind_res (awaited (o_cuts S) (o_output S (tart_command t [''ip'', vm_str name]))) (\<lambda>r.
       return (Inr (case r of
         None \<Rightarrow> None
       | Some (status, stdout) \<Rightarrow>
           let value = trim (o_lossy S stdout)
           in if status_success status \<and> o_ip S value \<noteq> None then Some value else None)))"

definition poll_pause :: "tart_client \<Rightarrow> nat" where
  "poll_pause t = unat (rt_poll_seconds (tc_config t)) * 1000"

definition address_poll ::
    "nat \<Rightarrow> 'w os \<Rightarrow> tart_client \<Rightarrow> vm_name \<Rightarrow> nat \<Rightarrow> string \<Rightarrow> ('w, string) work" where
  "address_poll fuel S t name timeout message = do {
     start \<leftarrow> State (k_now (o_clock S));
     poll_loop fuel (o_cuts S) (o_clock S) (poll_pause t) (\<lambda>now. start + timeout \<le> now)
       (worker_error_new message) (ip_probe S t name) }"

definition wait_for_ip :: "nat \<Rightarrow> 'w os \<Rightarrow> tart_client \<Rightarrow> allocation \<Rightarrow> nat \<Rightarrow> ('w, string) work" where
  "wait_for_ip fuel S t a timeout =
     owning t a (address_poll fuel S t (alloc_vm_name a) timeout ''Tart VM did not obtain an IP address'')"

definition address_of :: "nat \<Rightarrow> 'w os \<Rightarrow> tart_client \<Rightarrow> vm_name \<Rightarrow> nat \<Rightarrow> ('w, string) work" where
  "address_of fuel S t name timeout =
     bind_res (from_res (ensure_owned_name t name)) (\<lambda>_.
       address_poll fuel S t name timeout ''the hot guest did not report an address'')"

definition tart_ensure_stopped :: "nat \<Rightarrow> 'w os \<Rightarrow> tart_client \<Rightarrow> allocation \<Rightarrow> nat \<Rightarrow> ('w, unit) work" where
  "tart_ensure_stopped fuel S t a timeout = owning t a
     (bind_res (attempt (run_checked S t [''stop'', vm_str (alloc_vm_name a)])) (\<lambda>_. do {
       start \<leftarrow> State (k_now (o_clock S));
       poll_loop fuel (o_cuts S) (o_clock S) (poll_pause t) (\<lambda>now. start + timeout \<le> now)
         (worker_error_new ''Tart VM did not stop in time'')
         (bind_res (tart_list S t) (\<lambda>ms. return (Inr
           (if list_ex (\<lambda>m. tm_name m = vm_str (alloc_vm_name a) \<and> tm_is_stopped m) ms
            then Some () else None)))) }))"

definition tart_remove_owned :: "'w os \<Rightarrow> tart_client \<Rightarrow> allocation \<Rightarrow> ('w, unit) work" where
  "tart_remove_owned S t a = owning t a
     (bind_res (tart_list S t) (\<lambda>ms.
       case find (\<lambda>m. tm_name m = vm_str (alloc_vm_name a)) ms of
         Some m \<Rightarrow> remove_machine S t a (tm_state m)
       | None \<Rightarrow> return (Inr ())))"

definition tart_is_running :: "'w os \<Rightarrow> tart_client \<Rightarrow> vm_name \<Rightarrow> ('w, bool) work" where
  "tart_is_running S t name =
     bind_res (attempt (tart_list S t)) (\<lambda>r.
       return (Inr (case r of
         Inl _ \<Rightarrow> False
       | Inr ms \<Rightarrow> list_ex (\<lambda>m. tm_name m = vm_str name \<and> \<not> tm_is_stopped m) ms)))"

subsection \<open>Warm images\<close>

definition image_suffixed :: "vm_name \<Rightarrow> string \<Rightarrow> vm_name option" where
  "image_suffixed warm sfx = res_ok (with_suffix warm sfx)"

definition image_derived_names :: "vm_name \<Rightarrow> vm_name list" where
  "image_derived_names warm = List.map_filter id
     [Some warm, image_suffixed warm PREVIOUS_SUFFIX, image_suffixed warm STAGING_SUFFIX]"

definition ensure_image_writable ::
    "tart_client \<Rightarrow> vm_name \<Rightarrow> profile option \<Rightarrow> warm_image_record option \<Rightarrow> worker_error + unit" where
  "ensure_image_writable t name p r =
     (if is_owned t name
      then Inl (worker_error_new ''refusing to write an image inside the service VM prefix'')
      else if is_some_and (\<lambda>p. name = prof_template p) p
      then Inl (worker_error_new ''refusing to overwrite a configured template'')
      else if name \<in> set ((case p of None \<Rightarrow> [] | Some p \<Rightarrow>
            (case prof_warm_template p of None \<Rightarrow> [] | Some warm \<Rightarrow> image_derived_names warm))
          @ (case r of None \<Rightarrow> [] | Some r \<Rightarrow> image_derived_names (img_warm_template r)))
      then Inr ()
      else Inl (worker_error_new ''refusing to write an undeclared image name''))"

definition clone_image ::
    "'w os \<Rightarrow> tart_client \<Rightarrow> vm_name \<Rightarrow> vm_name \<Rightarrow> profile \<Rightarrow> warm_image_record option \<Rightarrow> ('w, unit) work" where
  "clone_image S t source destination p r =
     bind_res (from_res (ensure_image_writable t destination (Some p) r)) (\<lambda>_.
     bind_res (from_res (if is_owned t source then Inr ()
                         else ensure_image_writable t source (Some p) r)) (\<lambda>_.
       run_checked S t [''clone'', vm_str source, vm_str destination]))"

definition remove_listed :: "'w os \<Rightarrow> tart_client \<Rightarrow> vm_name \<Rightarrow> ('w, unit) work" where
  "remove_listed S t name =
     bind_res (tart_list S t) (\<lambda>ms.
       case find (\<lambda>m. tm_name m = vm_str name) ms of
         None \<Rightarrow> return (Inr ())
       | Some m \<Rightarrow> remove_named S t name (tm_state m))"

definition delete_image ::
    "'w os \<Rightarrow> tart_client \<Rightarrow> vm_name \<Rightarrow> profile option \<Rightarrow> warm_image_record option \<Rightarrow> ('w, unit) work" where
  "delete_image S t name p r =
     bind_res (from_res (ensure_image_writable t name p r)) (\<lambda>_. remove_listed S t name)"

definition delete_owned :: "'w os \<Rightarrow> tart_client \<Rightarrow> vm_name \<Rightarrow> ('w, unit) work" where
  "delete_owned S t name =
     (if \<not> is_owned t name then fail ''refusing to delete an unowned Tart VM''
      else remove_listed S t name)"

definition is_stopped_image :: "'w os \<Rightarrow> tart_client \<Rightarrow> vm_name \<Rightarrow> ('w, bool) work" where
  "is_stopped_image S t name =
     bind_res (attempt (tart_list S t)) (\<lambda>r.
       return (Inr (case r of
         Inl _ \<Rightarrow> False
       | Inr ms \<Rightarrow> list_ex (\<lambda>m. tm_name m = vm_str name \<and> tm_is_stopped m) ms)))"

definition is_absent_image :: "'w os \<Rightarrow> tart_client \<Rightarrow> vm_name \<Rightarrow> ('w, bool) work" where
  "is_absent_image S t name = is_absent S t (vm_str name)"

subsection \<open>The clone source\<close>

definition tart_resolve_source :: "tart_client \<Rightarrow> allocation \<Rightarrow> profile \<Rightarrow> tart_machine list \<Rightarrow> clone_source" where
  "tart_resolve_source t a p ms =
     (let template = \<lparr>src_name = prof_template p, src_kind = TemplateKind,
            src_base_fingerprint = (case alloc_source a of None \<Rightarrow> None | Some s \<Rightarrow> src_base_fingerprint s),
            src_fallback_reason = Some Absent\<rparr>
      in case alloc_source a of
           None \<Rightarrow> template\<lparr>src_fallback_reason := None\<rparr>
         | Some source \<Rightarrow>
             if src_kind source = TemplateKind then source
             else if is_owned t (src_name source) then template
             else case find (\<lambda>m. tm_name m = vm_str (src_name source)) ms of
                    Some m \<Rightarrow> if tm_is_stopped m then source
                      else template\<lparr>src_fallback_reason := Some NotStopped\<rparr>
                  | None \<Rightarrow> template)"

definition is_slot_free :: "tart_client \<Rightarrow> allocation \<Rightarrow> tart_machine list \<Rightarrow> bool" where
  "is_slot_free t a ms \<longleftrightarrow>
     length (filter (\<lambda>m. tm_name m \<noteq> vm_str (alloc_vm_name a)
        \<and> eq_ignore_ascii_case (tm_state m) ''running'') ms)
     < unat (rt_max_running_vms (tc_config t))"

definition ensure_name_free ::
    "'w os \<Rightarrow> tart_client \<Rightarrow> allocation \<Rightarrow> tart_machine list \<Rightarrow> ('w, unit) work" where
  "ensure_name_free S t a ms =
     (case find (\<lambda>m. tm_name m = vm_str (alloc_vm_name a)) ms of
        Some m \<Rightarrow> remove_machine S t a (tm_state m)
      | None \<Rightarrow> return (Inr ()))"

definition ensure_can_clone_now ::
    "'w os \<Rightarrow> tart_client \<Rightarrow> allocation \<Rightarrow> profile \<Rightarrow> ('w, clone_source) work" where
  "ensure_can_clone_now S t a p = owning t a
     (bind_res (tart_list S t) (\<lambda>ms.
       let source = tart_resolve_source t a p ms
       in case find (\<lambda>m. tm_name m = vm_str (src_name source)) ms of
            None \<Rightarrow> fail ''configured Tart template is missing''
          | Some listed \<Rightarrow>
              if \<not> tm_is_stopped listed then fail ''configured Tart template is not stopped''
              else if \<not> is_slot_free t a ms
              then raise_err (worker_error_capacity ''Tart VM capacity is unavailable'')
              else bind_res (ensure_name_free S t a ms) (\<lambda>_. return (Inr source))))"

definition ensure_can_clone ::
    "nat \<Rightarrow> 'w os \<Rightarrow> tart_client \<Rightarrow> allocation \<Rightarrow> profile \<Rightarrow> nat \<Rightarrow> ('w, clone_source) work" where
  "ensure_can_clone fuel S t a p deadline = owning t a
     (let pause = max (unat (rt_poll_seconds (tc_config t))) 1 * 1000
      in poll_loop fuel (o_cuts S) (o_clock S) pause (\<lambda>now. deadline \<le> now + pause)
           (worker_error_capacity ''Tart VM capacity is unavailable'')
           (bind_res (attempt (ensure_can_clone_now S t a p)) (\<lambda>r.
             case r of
               Inr source \<Rightarrow> return (Inr (Some source))
             | Inl e \<Rightarrow> if worker_is_capacity e then return (Inr None) else raise_err e)))"

end
