(* ===== verification/Forgejo.thy ===== *)
theory Forgejo
  imports Interrupts
begin

text \<open>
  The Forgejo client, \<open>crates/flanforge-forgejo/src\<close>: the shape of the responses
  (\<open>models.rs\<close>), the selection of the one waiting job an allocation may run and the diagnosis
  of an empty search (\<open>jobs.rs\<close>, \<open>jobs/diagnosis.rs\<close>), and the runner operations
  (\<open>client.rs\<close>). The HTTP transport, the JSON decoder and the URL library are the argument
  \<open>H\<close>.
\<close>

subsection \<open>Errors\<close>

datatype forgejo_error =
    Unavailable | Transient nat | ResourceAbsent | Malformed | Api | ConfigurationInvalid
  | CredentialInvalid

definition is_retryable :: "forgejo_error \<Rightarrow> bool" where
  "is_retryable e = (case e of Unavailable \<Rightarrow> True | Transient _ \<Rightarrow> True | _ \<Rightarrow> False)"

definition is_rejection :: "forgejo_error \<Rightarrow> bool" where
  "is_rejection e \<longleftrightarrow> e \<in> {ResourceAbsent, Api, ConfigurationInvalid, CredentialInvalid}"

text \<open>The rendering of a status is that of the HTTP library.\<close>

definition forgejo_error_text :: "(nat \<Rightarrow> string) \<Rightarrow> forgejo_error \<Rightarrow> string" where
  "forgejo_error_text status_text e =
     (case e of
        Unavailable \<Rightarrow> ''Forgejo is unavailable''
      | Transient status \<Rightarrow> ''Forgejo returned a transient failure ('' @ status_text status @ '')''
      | ResourceAbsent \<Rightarrow> ''Forgejo has no such resource''
      | Malformed \<Rightarrow> ''Forgejo returned a response this client cannot read''
      | Api \<Rightarrow> ''Forgejo rejected the runner operation''
      | ConfigurationInvalid \<Rightarrow> ''Forgejo configuration is invalid''
      | CredentialInvalid \<Rightarrow> ''Forgejo credential file is invalid'')"

subsection \<open>Records of the responses\<close>

record runner_credentials =
  cred_id :: int
  cred_uuid :: string
  cred_token :: string

record runner_record =
  run_rec_id :: int
  run_rec_name :: string
  run_rec_status :: string

record action_run_job =
  job_attempt :: u32
  job_run_id :: "int option"
  job_handle_of :: string
  job_name :: string
  job_runs_on :: "string list"
  job_status :: string

definition is_opaque_token :: "string \<Rightarrow> bool" where
  "is_opaque_token value \<longleftrightarrow> value \<noteq> [] \<and> length value \<le> 128
     \<and> list_all (\<lambda>b. is_ascii_alphanumeric b \<or> b \<in> {CHR ''-'', CHR ''_'', CHR ''.'', CHR '':''}) value"

definition validate_runner_token :: "string \<Rightarrow> bool" where
  "validate_runner_token value \<longleftrightarrow> length value = 40 \<and> list_all is_ascii_hexdigit value"

definition record_text_valid :: "string \<Rightarrow> bool" where
  "record_text_valid value = list_all (\<lambda>b. \<not> is_ascii_control b) value"

definition record_token_valid :: "string \<Rightarrow> bool" where
  "record_token_valid value = list_all (\<lambda>b. is_ascii_alphanumeric b \<or> b = CHR ''_'') value"

definition validate_runner_labels :: "string list \<Rightarrow> bool" where
  "validate_runner_labels values \<longleftrightarrow>
     \<not> (values = [] \<or> 32 < length values \<or> \<not> list_all is_opaque_token values)"

text \<open>The \<open>Validate\<close> derives; a length bound of a \<open>String\<close> counts characters.\<close>

definition credentials_validate :: "(string \<Rightarrow> bool) \<Rightarrow> runner_credentials \<Rightarrow> bool" where
  "credentials_validate is_uuid c \<longleftrightarrow> 1 \<le> cred_id c \<and> is_uuid (cred_uuid c)
     \<and> validate_runner_token (cred_token c)"

definition runner_record_validate :: "runner_record \<Rightarrow> bool" where
  "runner_record_validate r \<longleftrightarrow> 1 \<le> run_rec_id r
     \<and> char_count (run_rec_name r) \<le> 255 \<and> record_text_valid (run_rec_name r)
     \<and> 1 \<le> char_count (run_rec_status r) \<and> char_count (run_rec_status r) \<le> 32
     \<and> record_token_valid (run_rec_status r)"

definition job_validate :: "action_run_job \<Rightarrow> bool" where
  "job_validate j \<longleftrightarrow> 1 \<le> job_attempt j \<and> is_opaque_token (job_handle_of j)
     \<and> 1 \<le> char_count (job_name j) \<and> char_count (job_name j) \<le> 128 \<and> record_text_valid (job_name j)
     \<and> validate_runner_labels (job_runs_on j)
     \<and> 1 \<le> char_count (job_status j) \<and> char_count (job_status j) \<le> 32 \<and> record_token_valid (job_status j)"

text \<open>A list is sent as \<open>null\<close> when empty; only its length is validated.\<close>

definition list_validate :: "'a list option \<Rightarrow> bool" where
  "list_validate items \<longleftrightarrow> \<not> is_some_and (\<lambda>xs. 1000 < length xs) items"

definition into_inner :: "'a list option \<Rightarrow> 'a list" where
  "into_inner items = unwrap_or [] items"

datatype runner_status = Offline | Idle_runner | Active_runner

subsection \<open>Selecting the waiting job\<close>

record job_binding =
  bind_label :: string
  bind_job_name :: string
  bind_run_id :: u64

definition is_only_label :: "string list \<Rightarrow> string \<Rightarrow> bool" where
  "is_only_label runs_on label = (case runs_on of [only] \<Rightarrow> only = label | _ \<Rightarrow> False)"

text \<open>A positive \<open>i64\<close> always fits \<open>u64\<close>.\<close>

definition run_id :: "action_run_job \<Rightarrow> u64 option" where
  "run_id j = (case job_run_id j of
     None \<Rightarrow> None
   | Some value \<Rightarrow> if 0 < value then Some (word_of_int value) else None)"

datatype job_reject = RejectStructure | RejectName | RejectStatus | RejectLabel | RejectHandle

definition job_reject_of :: "action_run_job \<Rightarrow> job_binding \<Rightarrow> job_reject option" where
  "job_reject_of j binding =
     (if \<not> job_validate j then Some RejectStructure
      else if job_name j \<noteq> bind_job_name binding then Some RejectName
      else if job_status j \<noteq> ''waiting'' then Some RejectStatus
      else if \<not> is_only_label (job_runs_on j) (bind_label binding) then Some RejectLabel
      else if \<not> is_opaque_token (job_handle_of j) then Some RejectHandle
      else None)"

definition select_job_handle ::
    "action_run_job list \<Rightarrow> job_binding \<Rightarrow> forgejo_error + string option" where
  "select_job_handle jobs binding =
     (if jobs = [] then Inr None
      else
        let binds_run = list_ex (\<lambda>j. job_run_id j \<noteq> None) jobs;
            authorized = (if binds_run
              then filter (\<lambda>j. run_id j = Some (bind_run_id binding)) jobs else jobs)
        in case authorized of
             [] \<Rightarrow> Inr None
           | [j] \<Rightarrow> (case job_reject_of j binding of
               Some _ \<Rightarrow> Inl Api
             | None \<Rightarrow> Inr (Some (job_handle_of j)))
           | _ \<Rightarrow> Inl Api)"

datatype job_diagnosis = Pending | Unattributed | AmbiguousJobs | RunsOnMismatch "string list"

definition diagnosis_reason :: "job_diagnosis \<Rightarrow> string" where
  "diagnosis_reason d =
     (case d of
        Pending \<Rightarrow> ''no waiting job with the configured job name is queued for this run''
      | Unattributed \<Rightarrow>
          ''a waiting job with the configured job name is queued outside the signed run''
      | AmbiguousJobs \<Rightarrow>
          ''more than one waiting job with the configured job name is queued in this run''
      | RunsOnMismatch _ \<Rightarrow> ''the dependent job's runs-on is not the allocation label alone'')"

definition is_dependent_job :: "action_run_job \<Rightarrow> job_binding \<Rightarrow> bool" where
  "is_dependent_job j binding \<longleftrightarrow>
     job_validate j \<and> job_name j = bind_job_name binding \<and> job_status j = ''waiting''"

definition diagnose_jobs :: "action_run_job list \<Rightarrow> job_binding \<Rightarrow> job_diagnosis" where
  "diagnose_jobs jobs binding =
     (let named = filter (\<lambda>j. is_dependent_job j binding) jobs
      in if named = [] then Pending
         else case filter (\<lambda>j. run_id j = Some (bind_run_id binding)) named of
           [] \<Rightarrow> Unattributed
         | [j] \<Rightarrow> if is_only_label (job_runs_on j) (bind_label binding) then Pending
                  else RunsOnMismatch (job_runs_on j)
         | _ \<Rightarrow> AmbiguousJobs)"

subsection \<open>The client\<close>

datatype http_method = GET | POST | DELETE

record http_request =
  rq_method :: http_method
  rq_url :: url
  rq_runner_name :: "string option"

text \<open>
  A response is its status and the chunks of its body, a failed read being \<open>None\<close>; the reads
  after the last chunk are not observable.
\<close>

record http_response =
  rs_status :: nat
  rs_chunks :: "string option list"

record 'w http =
  h_send :: "http_request \<Rightarrow> 'w \<Rightarrow> http_response option \<times> 'w"
  h_cut :: "'w cuts"
  h_extend :: "url \<Rightarrow> string list \<Rightarrow> url option"
  h_query :: "url \<Rightarrow> (string \<times> string) list \<Rightarrow> url"
  h_status_text :: "nat \<Rightarrow> string"
  h_is_uuid :: "string \<Rightarrow> bool"
  h_jobs :: "string \<Rightarrow> action_run_job list option option"
  h_runners :: "string \<Rightarrow> runner_record list option option"
  h_runner :: "string \<Rightarrow> runner_record option"
  h_credentials :: "string \<Rightarrow> runner_credentials option"

type_synonym ('w, 'a) forgejo = "('w, forgejo_error, 'a) task"

definition is_success_status :: "nat \<Rightarrow> bool" where
  "is_success_status status \<longleftrightarrow> 200 \<le> status \<and> status < 300"

definition ensure_success :: "http_response \<Rightarrow> forgejo_error + http_response" where
  "ensure_success response =
     (let status = rs_status response
      in if is_success_status status then Inr response
         else if 500 \<le> status \<and> status < 600 \<or> status = 429 then Inl (Transient status)
         else if status = 404 then Inl ResourceAbsent
         else Inl Api)"

text \<open>\<open>bounded_json\<close>: the body up to 64 KiB, an empty one read as \<open>null\<close>.\<close>

fun read_body :: "string \<Rightarrow> string option list \<Rightarrow> forgejo_error + string" where
  "read_body body [] = Inr body"
| "read_body body (None # chunks) = Inl Unavailable"
| "read_body body (Some chunk # chunks) =
     (if 65536 < length body + length chunk then Inl Malformed else read_body (body @ chunk) chunks)"

definition bounded_json ::
    "(string \<Rightarrow> 'a option) \<Rightarrow> ('a \<Rightarrow> bool) \<Rightarrow> http_response \<Rightarrow> forgejo_error + 'a" where
  "bounded_json decode validate response =
     and_then (read_body [] (rs_chunks response)) (\<lambda>body.
       case decode (if body = [] then ''null'' else body) of
         None \<Rightarrow> Inl Malformed
       | Some value \<Rightarrow> if validate value then Inr value else Inl Malformed)"

definition int_str :: "int \<Rightarrow> string" where
  "int_str i = (if i < 0 then ''-'' @ nat_str (nat (- i)) else nat_str (nat i))"

definition runner_url ::
    "'w http \<Rightarrow> forgejo_config \<Rightarrow> repository_name \<Rightarrow> int option \<Rightarrow> forgejo_error + url" where
  "runner_url H F repository runner =
     (case h_extend H (fj_api_url F)
         ([''repos'', repository_owner repository, repository_part repository, ''actions'', ''runners'']
          @ (case runner of None \<Rightarrow> [] | Some i \<Rightarrow> [int_str i])) of
        None \<Rightarrow> Inl ConfigurationInvalid
      | Some u \<Rightarrow> Inr u)"

definition send :: "'w http \<Rightarrow> http_request \<Rightarrow> ('w, http_response) forgejo" where
  "send H rq =
     bind_res (awaited (h_cut H) (h_send H rq)) (\<lambda>r.
       case r of None \<Rightarrow> raise_err Unavailable | Some response \<Rightarrow> return (Inr response))"

definition create_runner ::
    "'w http \<Rightarrow> forgejo_config \<Rightarrow> repository_name \<Rightarrow> string \<Rightarrow> ('w, runner_credentials) forgejo" where
  "create_runner H F repository name =
     bind_res (from_res (runner_url H F repository None)) (\<lambda>u.
     bind_res (send H \<lparr>rq_method = POST, rq_url = u, rq_runner_name = Some name\<rparr>) (\<lambda>response.
       from_res (and_then (ensure_success response)
         (bounded_json (h_credentials H) (credentials_validate (h_is_uuid H))))))"

definition runner_status_of :: "string \<Rightarrow> forgejo_error + runner_status" where
  "runner_status_of status =
     (if status = ''offline'' then Inr Offline
      else if status = ''idle'' then Inr Idle_runner
      else if status = ''active'' then Inr Active_runner
      else Inl Malformed)"

definition fetch_runner_status ::
    "'w http \<Rightarrow> forgejo_config \<Rightarrow> repository_name \<Rightarrow> int \<Rightarrow> ('w, runner_status) forgejo" where
  "fetch_runner_status H F repository runner =
     bind_res (from_res (runner_url H F repository (Some runner))) (\<lambda>u.
     bind_res (send H \<lparr>rq_method = GET, rq_url = u, rq_runner_name = None\<rparr>) (\<lambda>response.
       from_res (and_then (ensure_success response) (\<lambda>response.
         and_then (bounded_json (h_runner H) runner_record_validate response) (\<lambda>r.
           runner_status_of (run_rec_status r))))))"

definition delete_runner ::
    "'w http \<Rightarrow> forgejo_config \<Rightarrow> repository_name \<Rightarrow> int \<Rightarrow> ('w, unit) forgejo" where
  "delete_runner H F repository runner =
     bind_res (from_res (runner_url H F repository (Some runner))) (\<lambda>u.
     bind_res (send H \<lparr>rq_method = DELETE, rq_url = u, rq_runner_name = None\<rparr>) (\<lambda>response.
       if is_success_status (rs_status response) \<or> rs_status response = 404
       then return (Inr ()) else raise_err Api))"

definition RUNNER_PAGE_BUDGET :: nat where
  "RUNNER_PAGE_BUDGET = 10"

definition runner_page ::
    "'w http \<Rightarrow> forgejo_config \<Rightarrow> repository_name \<Rightarrow> nat \<Rightarrow> ('w, runner_record list) forgejo" where
  "runner_page H F repository page =
     bind_res (from_res (runner_url H F repository None)) (\<lambda>u.
     bind_res (send H \<lparr>rq_method = GET,
         rq_url = h_query H u [(''visible'', ''false''), (''limit'', ''100''), (''page'', nat_str page)],
         rq_runner_name = None\<rparr>) (\<lambda>response.
       from_res (and_then (ensure_success response) (\<lambda>response.
         map_sum id into_inner (bounded_json (h_runners H) list_validate response)))))"

fun matching_runners :: "string \<Rightarrow> runner_record list \<Rightarrow> forgejo_error + int list" where
  "matching_runners name [] = Inr []"
| "matching_runners name (r # rs) =
     (if run_rec_name r \<noteq> name then matching_runners name rs
      else if \<not> runner_record_validate r then Inl Malformed
      else map_sum id ((#) (run_rec_id r)) (matching_runners name rs))"

text \<open>
  The listing loop: the remaining pages, the next page number and what was collected. It
  returns the matching runners and whether an empty page ended the listing.
\<close>

fun list_runners ::
    "'w http \<Rightarrow> forgejo_config \<Rightarrow> repository_name \<Rightarrow> string \<Rightarrow> nat \<Rightarrow> nat \<Rightarrow> int list
      \<Rightarrow> ('w, int list \<times> bool) forgejo" where
  "list_runners H F repository name 0 page ids = return (Inr (ids, False))"
| "list_runners H F repository name (Suc left) page ids =
     bind_res (runner_page H F repository page) (\<lambda>runners.
       if runners = [] then return (Inr (ids, True))
       else bind_res (from_res (matching_runners name runners)) (\<lambda>found.
         list_runners H F repository name left (page + 1) (ids @ found)))"

definition delete_runners_named ::
    "'w http \<Rightarrow> forgejo_config \<Rightarrow> repository_name \<Rightarrow> string \<Rightarrow> ('w, unit) forgejo" where
  "delete_runners_named H F repository name =
     bind_res (list_runners H F repository name RUNNER_PAGE_BUDGET 1 []) (\<lambda>(ids, is_complete).
     bind_res (try_each (delete_runner H F repository) ids) (\<lambda>_.
       if is_complete then return (Inr ()) else raise_err Malformed))"

definition list_jobs ::
    "'w http \<Rightarrow> forgejo_config \<Rightarrow> repository_name \<Rightarrow> string option \<Rightarrow> ('w, action_run_job list) forgejo" where
  "list_jobs H F repository label =
     bind_res (from_res (runner_url H F repository None)) (\<lambda>u.
       case h_extend H u [''jobs''] of
         None \<Rightarrow> raise_err ConfigurationInvalid
       | Some u \<Rightarrow>
           bind_res (send H \<lparr>rq_method = GET,
               rq_url = (case label of None \<Rightarrow> u | Some l \<Rightarrow> h_query H u [(''labels'', l)]),
               rq_runner_name = None\<rparr>) (\<lambda>response.
             from_res (and_then (ensure_success response) (\<lambda>response.
               map_sum id into_inner (bounded_json (h_jobs H) list_validate response)))))"

definition job_handle ::
    "'w http \<Rightarrow> forgejo_config \<Rightarrow> repository_name \<Rightarrow> job_binding \<Rightarrow> ('w, string option) forgejo" where
  "job_handle H F repository binding =
     bind_res (list_jobs H F repository (Some (bind_label binding))) (\<lambda>jobs.
       from_res (select_job_handle jobs binding))"

definition job_diagnosis_of ::
    "'w http \<Rightarrow> forgejo_config \<Rightarrow> repository_name \<Rightarrow> job_binding \<Rightarrow> ('w, job_diagnosis) forgejo" where
  "job_diagnosis_of H F repository binding =
     bind_res (list_jobs H F repository None) (\<lambda>jobs. return (Inr (diagnose_jobs jobs binding)))"

definition server_url :: "forgejo_config \<Rightarrow> url" where
  "server_url F = (fj_api_url F)\<lparr>url_path := ''/'', url_query := None, url_fragment := None\<rparr>"

end
