(* ===== verification/Guest_Job.thy ===== *)
theory Guest_Job
  imports Guest_Channel Forgejo Entries
begin

text \<open>
  One job in one guest, \<open>crates/flanforge-runtime/src\<close>: what the daemon does inside a guest
  (\<open>guest/control.rs\<close>, \<open>guest/runner.rs\<close>, \<open>guest/tailscale.rs\<close>), the life of a runner from
  its registration to its exit (\<open>job\<close>), the supervision deadlines (\<open>supervisor\<close>) and the
  verdict of the recycle gate (\<open>recycle\<close>). A guest channel is the record \<open>C\<close>, which the SSH
  channel and the agent channel of the libvirt backend both provide; a started process is a
  number.
\<close>

subsection \<open>The channel interface\<close>

record 'w channel =
  c_ensure_ready :: "guest_session \<Rightarrow> nat \<Rightarrow> ('w, unit) work"
  c_run :: "guest_session \<Rightarrow> guest_command \<Rightarrow> ('w, guest_output) work"
  c_run_privileged :: "guest_session \<Rightarrow> guest_command \<Rightarrow> ('w, guest_output) work"
  c_spawn :: "guest_session \<Rightarrow> guest_spawn \<Rightarrow> ('w, nat) work"
  c_try_exit :: "nat \<Rightarrow> ('w, guest_exit option) work"
  c_ensure_stopped :: "nat \<Rightarrow> ('w, unit) work"
  c_probe_now :: "nat \<Rightarrow> 'w \<Rightarrow> unit \<times> 'w"
  c_install_file :: "(guest_session \<Rightarrow> string \<Rightarrow> string \<Rightarrow> ('w, unit) work) option"

text \<open>
  The same channel serves steps inside a phase and steps outside every phase, so it is a
  function of the interruptions it is exposed to.
\<close>

definition ssh_as_channel :: "nat \<Rightarrow> 'w os \<Rightarrow> ssh_channel \<Rightarrow> 'w cuts \<Rightarrow> 'w channel" where
  "ssh_as_channel fuel S' c intr =
     (let S = S'\<lparr>o_cuts := intr\<rparr> in
     \<lparr>c_ensure_ready = ssh_ensure_ready fuel S c, c_run = ssh_run S c,
      c_run_privileged = ssh_run_privileged S c, c_spawn = ssh_spawn S c,
      c_try_exit = ssh_try_exit S, c_ensure_stopped = ssh_ensure_stopped S,
      c_probe_now = (\<lambda>_ w. ((), w)), c_install_file = Some (ssh_install_file S c)\<rparr>)"

record 'w guest_control =
  ctl_channel :: "'w cuts \<Rightarrow> 'w channel"
  ctl_runner_path :: string
  ctl_runner_user :: string
  ctl_tailscale :: tailscale_config
  ctl_tailscale_path :: string

definition control_with_channel ::
    "guest_config \<Rightarrow> tailscale_config \<Rightarrow> backend_kind \<Rightarrow> ('w cuts \<Rightarrow> 'w channel) \<Rightarrow> 'w guest_control" where
  "control_with_channel g ts backend channel =
     \<lparr>ctl_channel = channel, ctl_runner_path = guest_forgejo_runner_path g,
      ctl_runner_user = guest_runner_user g, ctl_tailscale = ts,
      ctl_tailscale_path = tailscale_path backend\<rparr>"

definition control_new_for_backend ::
    "nat \<Rightarrow> 'w os \<Rightarrow> guest_config \<Rightarrow> tailscale_config \<Rightarrow> string \<Rightarrow> string \<Rightarrow> backend_kind
      \<Rightarrow> worker_error + 'w guest_control" where
  "control_new_for_backend fuel S g ts ssh_path scp_path backend =
     and_then (ssh_channel_new g ssh_path scp_path) (\<lambda>c.
       Inr (control_with_channel g ts backend (ssh_as_channel fuel S c)))"

definition is_transfer_bound :: "'w guest_control \<Rightarrow> bool" where
  "is_transfer_bound ctl \<longleftrightarrow> c_install_file (ctl_channel ctl no_cuts) \<noteq> None"

subsection \<open>Steps inside the guest\<close>

text \<open>The debug rendering of an exit that carries no code.\<close>

definition exit_label :: "guest_exit \<Rightarrow> string" where
  "exit_label e =
     (case e of
        ExitedCode c \<Rightarrow> int_str c
      | ExitedSignal s \<Rightarrow> ''Signal('' @ int_str s @ '')''
      | Lost \<Rightarrow> ''Lost'')"

definition run_session_script ::
    "'w os \<Rightarrow> 'w guest_control \<Rightarrow> guest_session \<Rightarrow> string \<Rightarrow> ('w, unit) work" where
  "run_session_script S ctl session script =
     bind_res (from_res (guest_command_quiet script)) (\<lambda>command.
     bind_res (map_raised (\<lambda>_. worker_error_new ''cannot execute guest daemon script'')
       (c_run (ctl_channel ctl (o_cuts S)) session command)) (\<lambda>out.
       if exit_is_success (go_exit out) then return (Inr ())
       else fail (''guest daemon script did not complete (exit '' @ exit_label (go_exit out) @ '')'')))"

definition run_privileged_session_script ::
    "'w os \<Rightarrow> 'w guest_control \<Rightarrow> guest_session \<Rightarrow> string \<Rightarrow> ('w, unit) work" where
  "run_privileged_session_script S ctl session script =
     bind_res (from_res (guest_command_quiet script)) (\<lambda>command.
     bind_res (c_run_privileged (ctl_channel ctl (o_cuts S)) session command) (\<lambda>out.
       if exit_is_success (go_exit out) then return (Inr ())
       else fail (''privileged guest script did not complete (exit ''
         @ exit_label (go_exit out) @ '')'')))"

definition run_daemon_script ::
    "'w os \<Rightarrow> 'w guest_control \<Rightarrow> string \<Rightarrow> string \<Rightarrow> ('w, unit) work" where
  "run_daemon_script S ctl address script =
     bind_res (from_res (session_configured S address)) (\<lambda>session.
       run_session_script S ctl session script)"

definition trim_line_end :: "string \<Rightarrow> string" where
  "trim_line_end s = rev (dropWhile (\<lambda>c. c = CHR 0x0D \<or> c = CHR 0x0A) (rev s))"

definition read_preauth_key :: "'w os \<Rightarrow> string \<Rightarrow> ('w, string) work" where
  "read_preauth_key S path =
     bind_res (awaited (o_cuts S) (o_symlink_metadata S path)) (\<lambda>meta.
     bind_res (or_fail ''cannot inspect Tailscale preauth key file'' meta) (\<lambda>meta.
       if \<not> meta_is_file meta \<or> 1024 < meta_len meta
       then fail ''Tailscale preauth key file is invalid''
       else if and (meta_mode meta) 0x3F \<noteq> 0
       then fail ''Tailscale preauth key file permissions are not private''
       else
         bind_res (awaited (o_cuts S) (o_read_file S path)) (\<lambda>bytes.
         bind_res (or_fail ''cannot read Tailscale preauth key file'' bytes) (\<lambda>raw.
           if \<not> o_is_utf8 S raw then fail ''Tailscale preauth key is not UTF-8''
           else
             let key = trim_line_end raw
             in if \<not> (8 \<le> length key \<and> length key \<le> 512)
                  \<or> list_ex (\<lambda>b. is_ascii_whitespace b \<or> \<not> is_ascii_graphic b) key
                then fail ''Tailscale preauth key is structurally invalid''
                else return (Inr key)))))"

definition ensure_tailscale_connected ::
    "'w os \<Rightarrow> (url \<Rightarrow> string) \<Rightarrow> 'w guest_control \<Rightarrow> guest_session \<Rightarrow> ('w, unit) work" where
  "ensure_tailscale_connected S url_text ctl session =
     (let ts = ctl_tailscale ctl
      in if \<not> ts_enabled ts then return (Inr ())
         else
           bind_res (or_fail ''Tailscale preauth key file is not configured'' (ts_preauth_key_file ts)) (\<lambda>path.
           bind_res (or_fail ''Tailscale login server is not configured'' (ts_login_server ts)) (\<lambda>login.
           bind_res (read_preauth_key S path) (\<lambda>key.
           bind_res (from_res (map_sum
             (\<lambda>_. worker_error_new ''Tailscale extra arguments are structurally invalid'') id
             (extra_arguments (o_split_words S) ts))) (\<lambda>extra.
           bind_res (from_res (secret_line key)) (\<lambda>secret.
           bind_res (from_res (guest_command_new (Script (tailscale_script (ctl_tailscale_path ctl)
             (url_text login) (ts_hostname ts) extra (ctl_runner_user ctl))) (Some secret) Discard)) (\<lambda>command.
           bind_res (map_raised (\<lambda>_. worker_error_new ''cannot start guest Tailscale bootstrap'')
             (c_run (ctl_channel ctl (o_cuts S)) session command)) (\<lambda>out.
             if exit_is_success (go_exit out) then return (Inr ())
             else fail ''guest Tailscale bootstrap failed''))))))))"

definition stage_runner ::
    "'w os \<Rightarrow> 'w guest_control \<Rightarrow> guest_session \<Rightarrow> string \<Rightarrow> ('w, unit) work" where
  "stage_runner S ctl session source =
     (case c_install_file (ctl_channel ctl (o_cuts S)) of
        None \<Rightarrow> fail ''the guest control channel cannot deliver a host-copied runner''
      | Some install \<Rightarrow> install session source (ctl_runner_path ctl))"

definition ensure_runner_available ::
    "'w os \<Rightarrow> 'w guest_control \<Rightarrow> guest_session \<Rightarrow> ('w, unit) work" where
  "ensure_runner_available S ctl session =
     (if \<not> validate_absolute_path (ctl_runner_path ctl)
      then fail ''guest runner path is structurally invalid''
      else
        let runner = shell_quote (ctl_runner_path ctl)
        in bind_res (from_res (guest_command_quiet
             (''test -x '' @ runner @ '' && '' @ runner @ '' one-job --help >/dev/null''))) (\<lambda>command.
           bind_res (map_raised (\<lambda>_. worker_error_new ''cannot verify image-installed guest runner'')
             (c_run (ctl_channel ctl (o_cuts S)) session command)) (\<lambda>out.
             if exit_is_success (go_exit out) then return (Inr ())
             else fail ''image-installed guest runner is missing or incompatible'')))"

subsection \<open>Starting the runner\<close>

definition validate_domain :: "string \<Rightarrow> bool" where
  "validate_domain value \<longleftrightarrow> length value \<le> 253
     \<and> list_all hostname_segment_ok (split_on (CHR ''.'') value)"

definition validate_server_url :: "'w os \<Rightarrow> string \<Rightarrow> bool" where
  "validate_server_url S value =
     (case o_url S value of
        None \<Rightarrow> False
      | Some u \<Rightarrow>
          let is_structured = (case purl_host u of
                Some (HostDomain domain) \<Rightarrow> validate_domain domain
              | Some (HostIpv4 _) \<Rightarrow> True | Some (HostIpv6 _) \<Rightarrow> True | None \<Rightarrow> False);
              is_loopback_http = (purl_scheme u = ''http'' \<and> (case purl_host u of
                Some (HostDomain domain) \<Rightarrow> domain = ''localhost''
              | Some (HostIpv4 loopback) \<Rightarrow> loopback | Some (HostIpv6 loopback) \<Rightarrow> loopback
              | None \<Rightarrow> False))
          in is_structured \<and> (purl_scheme u = ''https'' \<or> is_loopback_http)
             \<and> purl_username u = [] \<and> \<not> purl_has_password u \<and> \<not> purl_has_fragment u)"

record runner_input =
  in_runner_path :: string
  in_server_url :: string
  in_uuid :: string
  in_label :: string
  in_handle :: string

definition runner_input_validate :: "'w os \<Rightarrow> runner_input \<Rightarrow> bool" where
  "runner_input_validate S i \<longleftrightarrow> validate_absolute_path (in_runner_path i)
     \<and> validate_server_url S (in_server_url i) \<and> o_is_uuid S (in_uuid i)
     \<and> is_opaque_token (in_label i) \<and> is_opaque_token (in_handle i)"

record runner_spawn =
  sp_server_url :: string
  sp_credentials :: runner_credentials
  sp_label :: string
  sp_handle :: string
  sp_allocation_id :: uuid
  sp_lifetime :: nat

definition spawn_session_runner ::
    "'w os \<Rightarrow> 'w guest_control \<Rightarrow> guest_session \<Rightarrow> runner_spawn \<Rightarrow> ('w, nat) work" where
  "spawn_session_runner S ctl session rq =
     (let cred = sp_credentials rq; label = sp_label rq @ '':host''
      in if \<not> credentials_validate (o_is_uuid S) cred
         then fail ''guest runner credential is structurally invalid''
         else if \<not> runner_input_validate S \<lparr>in_runner_path = ctl_runner_path ctl,
             in_server_url = sp_server_url rq, in_uuid = cred_uuid cred, in_label = label,
             in_handle = sp_handle rq\<rparr>
         then fail ''guest runner command is structurally invalid''
         else
           bind_res (from_res (secret_line (cred_token cred))) (\<lambda>token.
           bind_res (from_res (guest_command_new (Script (runner_script (ctl_runner_path ctl)
             (sp_server_url rq) (cred_uuid cred) label (sp_handle rq))) (Some token) Discard)) (\<lambda>command.
           bind_res (from_res (guest_spawn_new command (sp_allocation_id rq) (sp_lifetime rq))) (\<lambda>spawn.
             map_raised (\<lambda>_. worker_error_new ''cannot start guest runner'')
               (c_spawn (ctl_channel ctl (o_cuts S)) session spawn)))))"

end
