(* ===== verification/Supervision.thy ===== *)
theory Supervision
  imports Guest_Job
begin

text \<open>
  The life of one runner, \<open>crates/flanforge-runtime/src\<close>: registration, delivery and start
  (\<open>job/model.rs\<close>, \<open>job/runner.rs\<close>, \<open>job/registration.rs\<close>), the wait for the authorized job
  (\<open>job/wait.rs\<close>), the supervision window and loop (\<open>supervisor\<close>) and the verdict of the
  recycle gate (\<open>recycle/verdict.rs\<close>). Steps that report to the manager are operations on its
  state; \<open>on_host\<close> runs a step of the outside in it.
\<close>

definition on_host :: "('w, 'a) state \<Rightarrow> ('w, 'a) op" where
  "on_host m = outside (run_state m)"

definition report :: "'w env \<Rightarrow> ('w, manager_error + 'a) op \<Rightarrow> ('w mgr, worker_error, 'a) task" where
  "report E m = do {
     r \<leftarrow> m;
     return (map_sum (\<lambda>e. Raised (worker_error_new (x_error_text E e))) id r) }"

subsection \<open>The job\<close>

datatype runner_delivery = HostCopy string | ImageDelivery

record 'w guest_job =
  jb_guest :: "'w guest_control"
  jb_http :: "'w http"
  jb_forgejo :: forgejo_config
  jb_poll :: nat
  jb_backend :: backend_kind
  jb_delivery :: runner_delivery
  jb_os :: "'w os"
  jb_is_cancelled :: "'w \<Rightarrow> bool \<times> 'w"
  jb_url_text :: "url \<Rightarrow> string"

text \<open>The interruptions of a phase, and the job outside every phase.\<close>

abbreviation jb_cuts :: "'w guest_job \<Rightarrow> 'w cuts" where
  "jb_cuts J \<equiv> o_cuts (jb_os J)"

abbreviation jb_clock :: "'w guest_job \<Rightarrow> 'w clock" where
  "jb_clock J \<equiv> o_clock (jb_os J)"

definition steady :: "'w guest_job \<Rightarrow> 'w guest_job" where
  "steady J = J\<lparr>jb_os := (jb_os J)\<lparr>o_cuts := no_cuts\<rparr>, jb_http := (jb_http J)\<lparr>h_cut := no_cuts\<rparr>\<rparr>"

definition ensure_session :: "'w guest_job \<Rightarrow> guest_session \<Rightarrow> worker_error + unit" where
  "ensure_session J session =
     (if (case jb_delivery J of HostCopy _ \<Rightarrow> True | ImageDelivery \<Rightarrow> False)
        \<and> \<not> is_transfer_bound (jb_guest J)
      then Inl (worker_error_new ''the guest control channel cannot deliver a host-copied runner'')
      else if (case (jb_backend J, jb_delivery J, is_allocation_pinned session) of
           (TartBackend, _, False) \<Rightarrow> True
         | (LibvirtBackend, ImageDelivery, True) \<Rightarrow> True
         | _ \<Rightarrow> False)
      then Inr ()
      else Inl (worker_error_new ''guest trust or runner delivery does not match the runtime backend''))"

definition ensure_channel_ready :: "'w guest_job \<Rightarrow> guest_session \<Rightarrow> nat \<Rightarrow> ('w, unit) work" where
  "ensure_channel_ready J session timeout =
     bind_res (from_res (ensure_session J session)) (\<lambda>_.
       c_ensure_ready (ctl_channel (jb_guest J) (jb_cuts J)) session timeout)"

definition ensure_tailscale_ready :: "'w guest_job \<Rightarrow> guest_session \<Rightarrow> ('w, unit) work" where
  "ensure_tailscale_ready J session =
     bind_res (from_res (ensure_session J session)) (\<lambda>_.
       ensure_tailscale_connected (jb_os J) (jb_url_text J) (jb_guest J) session)"

definition ensure_ready :: "'w guest_job \<Rightarrow> guest_session \<Rightarrow> nat \<Rightarrow> ('w, unit) work" where
  "ensure_ready J session timeout =
     bind_res (ensure_channel_ready J session timeout) (\<lambda>_. ensure_tailscale_ready J session)"

definition job_session_script :: "'w guest_job \<Rightarrow> guest_session \<Rightarrow> string \<Rightarrow> ('w, unit) work" where
  "job_session_script J session script =
     bind_res (from_res (ensure_session J session)) (\<lambda>_.
       run_session_script (jb_os J) (jb_guest J) session script)"

definition job_privileged_script :: "'w guest_job \<Rightarrow> guest_session \<Rightarrow> string \<Rightarrow> ('w, unit) work" where
  "job_privileged_script J session script =
     bind_res (from_res (ensure_session J session)) (\<lambda>_.
       run_privileged_session_script (jb_os J) (jb_guest J) session script)"

definition runner_name_of :: "'w env \<Rightarrow> allocation \<Rightarrow> string" where
  "runner_name_of E a = ''flanforged-'' @ x_uuid_str E (alloc_id a)"

definition forgejo_failed :: "'w guest_job \<Rightarrow> forgejo_error \<Rightarrow> worker_error" where
  "forgejo_failed J e = worker_error_new (forgejo_error_text (h_status_text (jb_http J)) e)"

text \<open>\<open>RunnerRegistration::delete_runner\<close>.\<close>

definition job_delete_runner :: "'w env \<Rightarrow> 'w guest_job \<Rightarrow> allocation \<Rightarrow> ('w, unit) work" where
  "job_delete_runner E J a =
     map_raised (forgejo_failed J)
       (case alloc_runner_id a of
          Some runner \<Rightarrow> delete_runner (jb_http J) (jb_forgejo J) (req_repository (alloc_request a)) runner
        | None \<Rightarrow> delete_runners_named (jb_http J) (jb_forgejo J) (req_repository (alloc_request a))
            (runner_name_of E a))"

subsection \<open>Waiting for the job\<close>

definition NOT_READY :: string where
  "NOT_READY = ''authorized Forgejo job did not become ready''"

definition binding_of :: "allocation \<Rightarrow> profile \<Rightarrow> job_binding" where
  "binding_of a p = \<lparr>bind_label = label_str (alloc_runner_label a), bind_job_name = prof_job_name p,
     bind_run_id = req_run_id (alloc_request a)\<rparr>"

definition mismatch_error :: "job_binding \<Rightarrow> string list \<Rightarrow> worker_error" where
  "mismatch_error binding runs_on = worker_error_new
     (''dependent Forgejo job '' @ in_dquotes (bind_job_name binding) @ '' is queued with runs-on [''
      @ concat (map (\<lambda>(i, l). (if i = 0 then [] else '', '') @ l) (enumerate 0 runs_on))
      @ '']; the allocation label must be its only entry (expected ['' @ in_dquotes (bind_label binding)
      @ ''])'')"

text \<open>
  \<open>diagnose_wait\<close>: the reason now observed, and the error no further polling can change.
\<close>

definition diagnose_wait ::
    "'w guest_job \<Rightarrow> allocation \<Rightarrow> job_binding \<Rightarrow> string option
      \<Rightarrow> ('w, string option \<times> worker_error option) work" where
  "diagnose_wait J a binding observed =
     bind_res (attempt (job_diagnosis_of (jb_http J) (jb_forgejo J) (req_repository (alloc_request a))
       binding)) (\<lambda>r.
       return (Inr (case r of
         Inl _ \<Rightarrow> (observed, None)
       | Inr d \<Rightarrow> (Some (diagnosis_reason d),
           case d of RunsOnMismatch runs_on \<Rightarrow> Some (mismatch_error binding runs_on) | _ \<Rightarrow> None))))"

text \<open>
  \<open>wait_for_job_handle\<close> with its polling loop. An interruption ends the wait: a cancellation
  with its own message, the deadline with the reason last observed.
\<close>

definition wait_interrupted :: "string option \<Rightarrow> interruption \<Rightarrow> worker_error" where
  "wait_interrupted observed i =
     (case i of
        TokenCancelled \<Rightarrow> worker_error_new ''allocation was cancelled''
      | _ \<Rightarrow> worker_error_new (case observed of
          None \<Rightarrow> NOT_READY | Some reason \<Rightarrow> NOT_READY @ '': '' @ reason))"

definition stop_wait :: "string option \<Rightarrow> worker_error halt \<Rightarrow> worker_error halt" where
  "stop_wait observed h =
     (case h of Interrupted i \<Rightarrow> Raised (wait_interrupted observed i) | _ \<Rightarrow> h)"

fun poll_for_job_handle ::
    "nat \<Rightarrow> 'w guest_job \<Rightarrow> allocation \<Rightarrow> job_binding \<Rightarrow> string option \<Rightarrow> ('w, string) work" where
  "poll_for_job_handle 0 J a binding observed = return (Inl Unfinished)"
| "poll_for_job_handle (Suc fuel) J a binding observed = do {
     got \<leftarrow> attempt (job_handle (jb_http J) (jb_forgejo J) (req_repository (alloc_request a)) binding);
     case got of
       Inl h \<Rightarrow> return (Inl (stop_wait observed h))
     | Inr (Inr (Some handle)) \<Rightarrow> return (Inr handle)
     | Inr r \<Rightarrow>
         (case r of
            Inl e \<Rightarrow>
              if is_retryable e then do {
                slept \<leftarrow> awaited (jb_cuts J) (\<lambda>w. ((), k_sleep (jb_clock J) (jb_poll J) w));
                case slept of
                  Inl h \<Rightarrow> return (Inl (stop_wait observed h))
                | Inr _ \<Rightarrow> poll_for_job_handle fuel J a binding observed }
              else raise_err (forgejo_failed J e)
          | Inr _ \<Rightarrow> do {
              diagnosed \<leftarrow> diagnose_wait J a binding observed;
              case diagnosed of
                Inl h \<Rightarrow> return (Inl (stop_wait observed h))
              | Inr (observed', Some e) \<Rightarrow> raise_err e
              | Inr (observed', None) \<Rightarrow> do {
                  slept \<leftarrow> awaited (jb_cuts J) (\<lambda>w. ((), k_sleep (jb_clock J) (jb_poll J) w));
                  case slept of
                    Inl h \<Rightarrow> return (Inl (stop_wait observed' h))
                  | Inr _ \<Rightarrow> poll_for_job_handle fuel J a binding observed' } }) }"

definition wait_for_job_handle ::
    "nat \<Rightarrow> 'w guest_job \<Rightarrow> allocation \<Rightarrow> profile \<Rightarrow> ('w, string) work" where
  "wait_for_job_handle fuel J a p = do {
     c \<leftarrow> State (jb_cuts J);
     case c of
       Some i \<Rightarrow> raise_err (wait_interrupted None i)
     | None \<Rightarrow> poll_for_job_handle fuel J a (binding_of a p) None }"

subsection \<open>Registration and start\<close>

record started_runner =
  sr_process :: nat
  sr_idle_deadline :: nat

definition RELEASED_RUNNER_GRACE :: nat where
  "RELEASED_RUNNER_GRACE = 60000"

definition POST_BINDING_GRACE :: nat where
  "POST_BINDING_GRACE = 60000"

definition millis :: "u64 \<Rightarrow> nat" where
  "millis seconds = unat seconds * 1000"

definition guest_lifetime :: "profile \<Rightarrow> nat" where
  "guest_lifetime p = millis (prof_job_timeout p) + RELEASED_RUNNER_GRACE"

definition register_runner ::
    "'w env \<Rightarrow> 'w guest_job \<Rightarrow> allocation
      \<Rightarrow> ('w mgr, worker_error, runner_credentials \<times> allocation) task" where
  "register_runner E J a =
     bind_res (on_host (phase (jb_cuts J) ''runner registration exceeded its timeout''
       (map_raised (forgejo_failed J) (create_runner (jb_http J) (jb_forgejo J)
         (req_repository (alloc_request a)) (runner_name_of E a))))) (\<lambda>cred. do {
       r \<leftarrow> set_runner_id_op E (alloc_id a) (cred_id cred);
       case r of
         Inl e \<Rightarrow> do {
           _ \<leftarrow> on_host (delete_runner (jb_http (steady J)) (jb_forgejo J)
              (req_repository (alloc_request a)) (cred_id cred));
           raise_err (worker_error_new (x_error_text E e)) }
       | Inr _ \<Rightarrow> do {
           now \<leftarrow> outside (x_unix_time E);
           return (Inr (cred, set_runner_id (cred_id cred) now a)) } })"

definition job_start_runner ::
    "nat \<Rightarrow> 'w env \<Rightarrow> 'w guest_job \<Rightarrow> allocation \<Rightarrow> profile \<Rightarrow> guest_session
      \<Rightarrow> ('w mgr, worker_error, started_runner \<times> allocation) task" where
  "job_start_runner fuel E J a p session =
     bind_res (from_res (ensure_session J session)) (\<lambda>_.
     bind_res (register_runner E J a) (\<lambda>(cred, a).
     bind_res (on_host (phase (jb_cuts J) ''guest runner preparation exceeded its timeout''
       (case jb_delivery J of
          HostCopy source \<Rightarrow> stage_runner (jb_os J) (jb_guest J) session source
        | ImageDelivery \<Rightarrow> ensure_runner_available (jb_os J) (jb_guest J) session))) (\<lambda>_.
     bind_res (report E (transition_op E (alloc_id a) WaitingForJob)) (\<lambda>_. do {
       now \<leftarrow> outside (k_now (jb_clock J));
       bind_res (on_host (wait_for_job_handle fuel J a p)) (\<lambda>handle.
       bind_res (on_host (phase (jb_cuts J) ''guest runner start exceeded its timeout''
         (spawn_session_runner (jb_os J) (jb_guest J) session
           \<lparr>sp_server_url = jb_url_text J (server_url (jb_forgejo J)), sp_credentials = cred,
            sp_label = label_str (alloc_runner_label a), sp_handle = handle,
            sp_allocation_id = alloc_id a, sp_lifetime = guest_lifetime p\<rparr>))) (\<lambda>process.
         return (Inr (\<lparr>sr_process = process,
           sr_idle_deadline = now + millis (prof_idle_timeout p)\<rparr>, a)))) }))))"

subsection \<open>The supervision window\<close>

datatype observed_phase = ObsWaiting | ObsReady | ObsRunning

record supervision_window =
  win_idle_timeout :: nat
  win_job_timeout :: nat
  win_idle_deadline :: nat
  win_supervised_deadline :: nat
  win_job_deadline :: "nat option"
  win_phase :: observed_phase
  win_observation_failures :: u32

definition window_new :: "profile \<Rightarrow> nat \<Rightarrow> nat \<Rightarrow> supervision_window" where
  "window_new p idle_deadline now =
     (let idle_timeout = millis (prof_idle_timeout p); job_timeout = millis (prof_job_timeout p)
      in \<lparr>win_idle_timeout = idle_timeout, win_job_timeout = job_timeout,
          win_idle_deadline = max idle_deadline (now + min idle_timeout POST_BINDING_GRACE),
          win_supervised_deadline = now + job_timeout, win_job_deadline = None,
          win_phase = ObsWaiting, win_observation_failures = 0\<rparr>)"

definition window_is_running :: "supervision_window \<Rightarrow> bool" where
  "window_is_running w \<longleftrightarrow> win_phase w = ObsRunning"

definition start_job :: "nat \<Rightarrow> supervision_window \<Rightarrow> supervision_window" where
  "start_job now w = w\<lparr>win_phase := ObsRunning, win_observation_failures := 0,
     win_job_deadline := Some (now + win_job_timeout w)\<rparr>"

definition window_advance ::
    "runner_status \<Rightarrow> nat \<Rightarrow> supervision_window \<Rightarrow> allocation_state list \<times> supervision_window" where
  "window_advance status now w =
     (case (status, win_phase w) of
        (Idle_runner, ObsWaiting) \<Rightarrow> ([Ready], w\<lparr>win_phase := ObsReady\<rparr>)
      | (Active_runner, ObsWaiting) \<Rightarrow> ([Ready, Running], start_job now w)
      | (Active_runner, ObsReady) \<Rightarrow> ([Running], start_job now w)
      | _ \<Rightarrow> ([], w))"

definition window_observed :: "supervision_window \<Rightarrow> supervision_window" where
  "window_observed w = w\<lparr>win_observation_failures := 0\<rparr>"

definition window_unobserved :: "forgejo_error \<Rightarrow> nat \<Rightarrow> supervision_window \<Rightarrow> supervision_window" where
  "window_unobserved e now w =
     (let w = w\<lparr>win_observation_failures := saturating_add (win_observation_failures w) 1\<rparr>
      in if is_rejection e then w else w\<lparr>win_idle_deadline := now + win_idle_timeout w\<rparr>)"

definition released_deadline :: "nat \<Rightarrow> supervision_window \<Rightarrow> nat" where
  "released_deadline now w = min (now + RELEASED_RUNNER_GRACE) (win_supervised_deadline w)"

definition ensure_exit_completed_a_job :: "guest_exit \<Rightarrow> supervision_window \<Rightarrow> worker_error + unit" where
  "ensure_exit_completed_a_job e w =
     (if exit_is_success e then Inr ()
      else if window_is_running w then Inr ()
      else Inl (worker_error_new ''guest runner exited before completing a job''))"

definition ensure_exit_is_a_verdict :: "guest_exit \<Rightarrow> supervision_window \<Rightarrow> worker_error + unit" where
  "ensure_exit_is_a_verdict e w =
     (if exit_is_verdict e then ensure_exit_completed_a_job e w
      else Inl (worker_error_new ''guest runner became unobservable''))"

definition window_overrun :: "nat \<Rightarrow> supervision_window \<Rightarrow> string option" where
  "window_overrun now w =
     (if win_supervised_deadline w \<le> now then Some ''guest runner exceeded its supervised lifetime''
      else if is_some_and (\<lambda>deadline. deadline \<le> now) (win_job_deadline w)
      then Some ''guest job exceeded its timeout''
      else if \<not> window_is_running w \<and> win_idle_deadline w \<le> now
      then Some ''guest runner did not receive a job before its idle timeout''
      else None)"

subsection \<open>The supervision loop\<close>

abbreviation jb_channel :: "'w guest_job \<Rightarrow> 'w channel" where
  "jb_channel J \<equiv> ctl_channel (jb_guest J) no_cuts"

text \<open>A pause that a cancellation may shorten but not fail.\<close>

definition jb_pause :: "'w guest_job \<Rightarrow> ('w, unit) op" where
  "jb_pause J = do {
     _ \<leftarrow> on_host (awaited (jb_cuts J) (\<lambda>w. ((), k_sleep (jb_clock J) (jb_poll J) w))
            :: ('w, unit) work);
     return () }"

definition stop_and_fail :: "'w guest_job \<Rightarrow> nat \<Rightarrow> string \<Rightarrow> ('w mgr, worker_error, 'a) task" where
  "stop_and_fail J process message = do {
     _ \<leftarrow> on_host (c_ensure_stopped (jb_channel J) process);
     fail message }"

fun await_released_exit ::
    "nat \<Rightarrow> 'w guest_job \<Rightarrow> nat \<Rightarrow> supervision_window \<Rightarrow> nat \<Rightarrow> ('w mgr, worker_error, unit) task" where
  "await_released_exit 0 J process win deadline = return (Inl Unfinished)"
| "await_released_exit (Suc fuel) J process win deadline = do {
     _ \<leftarrow> outside (c_probe_now (jb_channel J) process);
     cancelled \<leftarrow> outside (jb_is_cancelled J);
     if cancelled then stop_and_fail J process ''allocation was cancelled''
     else bind_res (on_host (c_try_exit (jb_channel J) process)) (\<lambda>exited.
       case exited of
         Some e \<Rightarrow> from_res (ensure_exit_is_a_verdict e win)
       | None \<Rightarrow> do {
           now \<leftarrow> outside (k_now (jb_clock J));
           if deadline \<le> now
           then stop_and_fail J process
             ''guest runner did not exit after Forgejo released its registration''
           else do { _ \<leftarrow> jb_pause J; await_released_exit fuel J process win deadline } }) }"

definition ensure_released_runner_exits ::
    "nat \<Rightarrow> 'w guest_job \<Rightarrow> nat \<Rightarrow> supervision_window \<Rightarrow> ('w mgr, worker_error, unit) task" where
  "ensure_released_runner_exits fuel J process win = do {
     now \<leftarrow> outside (k_now (jb_clock J));
     await_released_exit fuel J process win (released_deadline now win) }"

text \<open>What one look at Forgejo decides: the registration is gone, the look was cut short, or the
  window after it.\<close>

datatype observation = ReleasedRunner | CutShort | ObservedWindow supervision_window

definition observe_runner ::
    "'w env \<Rightarrow> 'w guest_job \<Rightarrow> allocation \<Rightarrow> supervision_window
      \<Rightarrow> ('w mgr, worker_error, observation) task" where
  "observe_runner E J a win = do {
     observed \<leftarrow> on_host (fetch_runner_status (jb_http J) (jb_forgejo J)
       (req_repository (alloc_request a)) (unwrap_or 0 (alloc_runner_id a)));
     case observed of
       Inl (Interrupted _) \<Rightarrow> return (Inr CutShort)
     | Inl Unfinished \<Rightarrow> return (Inl Unfinished)
     | Inl (Raised e) \<Rightarrow>
         if e = ResourceAbsent then return (Inr ReleasedRunner)
         else do {
           now \<leftarrow> outside (k_now (jb_clock J));
           return (Inr (ObservedWindow (window_unobserved e now win))) }
     | Inr status \<Rightarrow> do {
         now \<leftarrow> outside (k_now (jb_clock J));
         case window_advance status now (window_observed win) of (states, win) \<Rightarrow>
           bind_res (try_each (\<lambda>state. report E (transition_op E (alloc_id a) state)) states) (\<lambda>_.
             return (Inr (ObservedWindow win))) } }"

fun supervise_loop ::
    "nat \<Rightarrow> 'w env \<Rightarrow> 'w guest_job \<Rightarrow> allocation \<Rightarrow> nat \<Rightarrow> supervision_window
      \<Rightarrow> ('w mgr, worker_error, unit) task" where
  "supervise_loop 0 E J a process win = return (Inl Unfinished)"
| "supervise_loop (Suc fuel) E J a process win = do {
     cancelled \<leftarrow> outside (jb_is_cancelled J);
     if cancelled then stop_and_fail J process ''allocation was cancelled''
     else bind_res (on_host (c_try_exit (jb_channel J) process)) (\<lambda>exited.
       case exited of
         Some e \<Rightarrow> from_res (ensure_exit_is_a_verdict e win)
       | None \<Rightarrow> bind_res (observe_runner E J a win) (\<lambda>seen.
           case seen of
             CutShort \<Rightarrow> supervise_loop fuel E J a process win
           | ReleasedRunner \<Rightarrow> ensure_released_runner_exits fuel J process win
           | ObservedWindow win \<Rightarrow> do {
               now \<leftarrow> outside (k_now (jb_clock J));
               case window_overrun now win of
                 Some message \<Rightarrow> stop_and_fail J process message
               | None \<Rightarrow> do { _ \<leftarrow> jb_pause J; supervise_loop fuel E J a process win } })) }"

definition supervise ::
    "nat \<Rightarrow> 'w env \<Rightarrow> 'w guest_job \<Rightarrow> started_runner \<Rightarrow> allocation \<Rightarrow> profile
      \<Rightarrow> ('w mgr, worker_error, unit) task" where
  "supervise fuel E J started a p = do {
     now \<leftarrow> outside (k_now (jb_clock J));
     supervise_loop fuel E J a (sr_process started) (window_new p (sr_idle_deadline started) now) }"

subsection \<open>The verdict of the recycle gate\<close>

datatype recycle_gate =
    GateAccount | GateSelfTest | GateProcesses | GateClock | GateDisk | GateRunner | GateClean

record recycle_report =
  rep_schema :: u8
  rep_contract :: u8
  rep_clean :: bool
  rep_gate :: recycle_gate
  rep_state :: string
  rep_detail :: string
  rep_free_mb :: u64
  rep_skew_seconds :: u64
  rep_account_name :: string
  rep_account_uid :: u32

record recycle_verdict =
  ver_is_clean :: bool
  ver_gate :: recycle_gate
  ver_state :: string
  ver_detail :: string
  ver_free_mb :: u64
  ver_skew_seconds :: u64
  ver_account_name :: string
  ver_account_uid :: u32

definition is_bounded_text :: "string \<Rightarrow> nat \<Rightarrow> bool" where
  "is_bounded_text value limit \<longleftrightarrow> length value \<le> limit
     \<and> list_all (\<lambda>b. is_ascii_graphic b \<or> b = CHR '' '') value"

definition RECYCLE_MAX_REPORT_BYTES :: nat where
  "RECYCLE_MAX_REPORT_BYTES = 4096"

definition last_report_line :: "string \<Rightarrow> string" where
  "last_report_line bytes =
     unwrap_or [] (find (\<lambda>l. \<not> list_all is_ascii_whitespace l) (rev (split_on (CHR 0x0A) bytes)))"

text \<open>The decoder of one JSON line is the argument \<open>decode\<close>.\<close>

definition verdict_parse ::
    "(string \<Rightarrow> recycle_report option) \<Rightarrow> string \<Rightarrow> u8 \<Rightarrow> worker_error + recycle_verdict" where
  "verdict_parse decode bytes contract_version =
     (if bytes = [] \<or> RECYCLE_MAX_REPORT_BYTES < length bytes
      then Inl (worker_error_new ''recycle verdict size is invalid'')
      else case decode (last_report_line bytes) of
        None \<Rightarrow> Inl (worker_error_new ''recycle verdict is malformed'')
      | Some r \<Rightarrow>
          if rep_schema r \<noteq> 1 \<or> rep_contract r \<noteq> contract_version
          then Inl (worker_error_new ''recycle verdict does not match the image contract'')
          else if \<not> is_bounded_text (rep_state r) 64 \<or> \<not> is_bounded_text (rep_detail r) 256
            \<or> \<not> is_bounded_text (rep_account_name r) 64
          then Inl (worker_error_new ''recycle verdict is not within its own bounds'')
          else if rep_clean r \<and> rep_gate r \<noteq> GateClean
          then Inl (worker_error_new ''recycle verdict claims a clean machine at a gate it did not reach'')
          else Inr \<lparr>ver_is_clean = rep_clean r, ver_gate = rep_gate r, ver_state = rep_state r,
            ver_detail = rep_detail r, ver_free_mb = rep_free_mb r,
            ver_skew_seconds = rep_skew_seconds r, ver_account_name = rep_account_name r,
            ver_account_uid = rep_account_uid r\<rparr>)"

definition gate_text :: "recycle_gate \<Rightarrow> string" where
  "gate_text g =
     (case g of
        GateAccount \<Rightarrow> ''account'' | GateSelfTest \<Rightarrow> ''selftest'' | GateProcesses \<Rightarrow> ''processes''
      | GateClock \<Rightarrow> ''clock'' | GateDisk \<Rightarrow> ''disk'' | GateRunner \<Rightarrow> ''runner'' | GateClean \<Rightarrow> ''clean'')"

definition verdict_cause :: "recycle_verdict \<Rightarrow> string" where
  "verdict_cause v =
     ''the recycle gate failed at '' @ gate_text (ver_gate v) @ '' ('' @ ver_state v @ '')''
     @ (if ver_detail v = [] then [] else '': '' @ ver_detail v)"

end
