(* ===== verification/Tart_Retention.thy ===== *)
theory Tart_Retention
  imports Tart_Client Supervision Warm
begin

text \<open>
  Retaining a finished guest as its profile's warm image,
  \<open>crates/flanforge-runtime-tart/src/retention\<close>: the steps from the verified marker to the
  promoted record (\<open>promote.rs\<close>), each of which may fail or be cut short, and the rollback that
  reconciles the live name with the durable record afterwards (\<open>steps.rs\<close>). The per-profile
  image lock excludes other promotions and clones of the profile for the whole sequence, so
  here its acquisition is only a point at which the wait may be cut short.
\<close>

record 'w tart_worker =
  tw_tart :: tart_client
  tw_job :: "'w guest_job"

abbreviation tw_os :: "'w tart_worker \<Rightarrow> 'w os" where
  "tw_os W \<equiv> jb_os (tw_job W)"

text \<open>The operating system seen outside every phase and timeout.\<close>

definition steady_os :: "'w tart_worker \<Rightarrow> 'w os" where
  "steady_os W = (tw_os W)\<lparr>o_cuts := no_cuts\<rparr>"

definition host_cuts :: "'w os \<Rightarrow> 'w mgr cuts" where
  "host_cuts S s = (case o_cuts S (m_world s) of (c, w) \<Rightarrow> (c, s\<lparr>m_world := w\<rparr>))"

text \<open>A phase around steps of the outside.\<close>

definition host_phase ::
    "'w tart_worker \<Rightarrow> string \<Rightarrow> ('w, 'a) work \<Rightarrow> ('w mgr, worker_error, 'a) task" where
  "host_phase W message m = on_host (phase (o_cuts (tw_os W)) message m)"

text \<open>A wait without an effect of its own, such as for the image lock.\<close>

definition await_lock :: "'w os \<Rightarrow> ('w, unit) work" where
  "await_lock S = awaited (o_cuts S) (\<lambda>w. ((), w))"

subsection \<open>Requests and names\<close>

record retention_request =
  rr_allocation :: allocation
  rr_profile :: profile
  rr_warm_template :: vm_name
  rr_base_fingerprint :: base_fingerprint
  rr_generation :: u64
  rr_previous :: "warm_generation option"

record image_names =
  nm_warm :: vm_name
  nm_staging :: vm_name
  nm_previous :: vm_name

definition derive_names :: "vm_name \<Rightarrow> identifier_error + image_names" where
  "derive_names warm =
     and_then (with_suffix warm STAGING_SUFFIX) (\<lambda>staging.
     and_then (with_suffix warm PREVIOUS_SUFFIX) (\<lambda>previous.
       Inr \<lparr>nm_warm = warm, nm_staging = staging, nm_previous = previous\<rparr>))"

definition ret_outcome_of ::
    "retention_result \<Rightarrow> retention_phase \<Rightarrow> string \<Rightarrow> u64 \<Rightarrow> retention_outcome" where
  "ret_outcome_of result at reason generation = retention_outcome_new result at reason (Some generation)"

subsection \<open>Steps\<close>

definition ensure_retention_marker :: "'w os \<Rightarrow> 'w tart_worker \<Rightarrow> string \<Rightarrow> ('w, unit) work" where
  "ensure_retention_marker S W address =
     map_raised (\<lambda>e. worker_error_new
         (''workflow completion marker did not verify: '' @ worker_error_text e))
       (run_daemon_script S (jb_guest (tw_job W)) address retention_marker_script)"

text \<open>
  \<open>stop_guest\<close>: the ordered stop, then the wait for the child, which its deadline may end
  without failing the step.
\<close>

definition stop_guest ::
    "nat \<Rightarrow> 'w os \<Rightarrow> 'w tart_worker \<Rightarrow> allocation \<Rightarrow> nat \<Rightarrow> nat \<Rightarrow> ('w, unit) work" where
  "stop_guest fuel S W a vm deadline = do {
     now \<leftarrow> State (k_now (o_clock S));
     bind_res (tart_ensure_stopped fuel S (tw_tart W) a (deadline - now)) (\<lambda>_.
     bind_res (awaited (o_cuts S) (o_wait S vm)) (\<lambda>_. return (Inr ()))) }"

definition ensure_staged :: "'w os \<Rightarrow> 'w tart_worker \<Rightarrow> vm_name \<Rightarrow> ('w, unit) work" where
  "ensure_staged S W staging =
     bind_res (is_stopped_image S (tw_tart W) staging) (\<lambda>stopped.
       if stopped then return (Inr ()) else fail ''staged warm image is missing or not stopped'')"

definition retire ::
    "'w os \<Rightarrow> 'w tart_worker \<Rightarrow> retention_request \<Rightarrow> image_names \<Rightarrow> ('w, unit) work" where
  "retire S W rq names =
     bind_res (delete_image S (tw_tart W) (nm_previous names) (Some (rr_profile rq)) None) (\<lambda>_.
     bind_res (is_absent_image S (tw_tart W) (nm_warm names)) (\<lambda>absent.
       if absent then return (Inr ())
       else
         bind_res (clone_image S (tw_tart W) (nm_warm names) (nm_previous names) (rr_profile rq) None) (\<lambda>_.
           delete_image S (tw_tart W) (nm_warm names) (Some (rr_profile rq)) None)))"

definition publish ::
    "'w os \<Rightarrow> 'w tart_worker \<Rightarrow> retention_request \<Rightarrow> image_names \<Rightarrow> ('w, unit) work" where
  "publish S W rq names =
     bind_res (clone_image S (tw_tart W) (nm_staging names) (nm_warm names) (rr_profile rq) None) (\<lambda>_.
       delete_image S (tw_tart W) (nm_staging names) (Some (rr_profile rq)) None)"

definition record_of ::
    "retention_request \<Rightarrow> image_names \<Rightarrow> warm_image_state \<Rightarrow> u64 \<Rightarrow> warm_image_record" where
  "record_of rq names state now =
     \<lparr>img_profile = req_profile (alloc_request (rr_allocation rq)), img_warm_template = nm_warm names,
      img_generation = rr_generation rq, img_base_fingerprint = rr_base_fingerprint rq,
      img_produced_by = alloc_id (rr_allocation rq), img_produced_at_unix = now,
      img_state = state, img_previous = rr_previous rq\<rparr>"

definition record_image ::
    "'w env \<Rightarrow> 'w tart_worker \<Rightarrow> retention_request \<Rightarrow> image_names \<Rightarrow> warm_image_state
      \<Rightarrow> ('w mgr, worker_error, unit) task" where
  "record_image E W rq names state = do {
     now \<leftarrow> outside (o_unix_time (tw_os W));
     report E (record_warm_image E (record_of rq names state (unwrap_or 0 now))) }"

subsection \<open>Promotion\<close>

definition step_at ::
    "retention_phase \<Rightarrow> ('s, worker_error, 'a) task \<Rightarrow> ('s, retention_phase \<times> worker_error, 'a) task" where
  "step_at at m = map_raised (\<lambda>e. (at, e)) m"

definition promote ::
    "nat \<Rightarrow> 'w env \<Rightarrow> 'w tart_worker \<Rightarrow> retention_request \<Rightarrow> image_names \<Rightarrow> nat \<Rightarrow> string \<Rightarrow> nat
      \<Rightarrow> ('w mgr, retention_phase \<times> worker_error, unit) task" where
  "promote fuel E W rq names vm ip deadline =
     (let S = tw_os W; a = rr_allocation rq; t = tw_tart W in
      bind_res (step_at Verify (host_phase W ''retention marker verification exceeded its budget''
        (ensure_retention_marker S W ip))) (\<lambda>_.
      bind_res (step_at Stop (host_phase W ''retention stop exceeded its budget''
        (stop_guest fuel S W a vm deadline))) (\<lambda>_.
      bind_res (step_at Stage (host_phase W ''retention staging exceeded its budget''
        (clone_image S t (alloc_vm_name a) (nm_staging names) (rr_profile rq) None))) (\<lambda>_.
      bind_res (step_at Verify (host_phase W ''retention verification exceeded its budget''
        (ensure_staged S W (nm_staging names)))) (\<lambda>_.
      bind_res (step_at Verify (record_image E W rq names Staging)) (\<lambda>_.
      bind_res (step_at Retire (host_phase W ''retention retirement exceeded its budget''
        (retire S W rq names))) (\<lambda>_.
      bind_res (step_at Promote (host_phase W ''retention promotion exceeded its budget''
        (publish S W rq names))) (\<lambda>_.
        step_at Promote (record_image E W rq names Promoted)))))))))"

subsection \<open>Rollback\<close>

datatype failed_authority = AuthUnchanged | AuthPreviousLive | AuthCandidateLive | AuthLiveAbsent

definition failed_authority_of :: "retention_phase \<Rightarrow> bool \<Rightarrow> failed_authority" where
  "failed_authority_of at is_live =
     (case (at, is_live) of
        (Promote, True) \<Rightarrow> AuthCandidateLive
      | (Retire, True) \<Rightarrow> AuthPreviousLive
      | (Retire, False) \<Rightarrow> AuthLiveAbsent
      | (Promote, False) \<Rightarrow> AuthLiveAbsent
      | _ \<Rightarrow> AuthUnchanged)"

definition drop_candidate ::
    "'w tart_worker \<Rightarrow> retention_request \<Rightarrow> image_names \<Rightarrow> ('w, unit) op" where
  "drop_candidate W rq names = do {
     _ \<leftarrow> on_host (delete_image (tw_os W) (tw_tart W) (nm_staging names) (Some (rr_profile rq)) None
            :: ('w, unit) work);
     return () }"

definition ensure_previous_restored ::
    "'w tart_worker \<Rightarrow> retention_request \<Rightarrow> image_names \<Rightarrow> ('w, unit) work" where
  "ensure_previous_restored W rq names =
     bind_res (is_absent_image (steady_os W) (tw_tart W) (nm_warm names)) (\<lambda>absent.
       if \<not> absent then return (Inr ())
       else with_timeout (worker_error_new ''retention rollback exceeded its budget'')
         (clone_image (tw_os W) (tw_tart W) (nm_previous names) (nm_warm names) (rr_profile rq) None))"

definition finalize_live_candidate ::
    "'w env \<Rightarrow> 'w tart_worker \<Rightarrow> retention_request \<Rightarrow> image_names \<Rightarrow> retention_phase \<Rightarrow> worker_error
      \<Rightarrow> ('w, retention_outcome) op" where
  "finalize_live_candidate E W rq names at err = do {
     r \<leftarrow> record_image E W rq names Promoted;
     return (case r of
       Inr _ \<Rightarrow> ret_outcome_of ResPromoted at
         (''warm image promoted; cleanup recovered after: '' @ worker_error_text err) (rr_generation rq)
     | Inl h \<Rightarrow> ret_outcome_of ResFailed at (worker_error_text err @ ''; candidate record failed: ''
         @ (case h of Raised e \<Rightarrow> worker_error_text e | _ \<Rightarrow> [])) (rr_generation rq)) }"

definition persist_previous ::
    "'w env \<Rightarrow> retention_request \<Rightarrow> image_names \<Rightarrow> retention_phase \<Rightarrow> worker_error
      \<Rightarrow> ('w, retention_outcome) op" where
  "persist_previous E rq names at err = do {
     r \<leftarrow> ensure_warm_reverted E (req_profile (alloc_request (rr_allocation rq))) (nm_warm names)
       (rr_previous rq);
     return (case (rr_previous rq, r) of
       (None, Inl e) \<Rightarrow> ret_outcome_of ResFailed at (worker_error_text err
         @ ''; authority cleanup failed: '' @ x_error_text E e) (rr_generation rq)
     | (None, Inr _) \<Rightarrow> retention_outcome_new ResFailed at (worker_error_text err) None
     | (Some g, Inl e) \<Rightarrow> ret_outcome_of ResFailed at (worker_error_text err
         @ ''; rollback record failed: '' @ x_error_text E e) (rr_generation rq)
     | (Some g, Inr _) \<Rightarrow> retention_outcome_new ResRolledBack at (worker_error_text err)
         (Some (gen_generation g))) }"

definition rollback ::
    "'w env \<Rightarrow> 'w tart_worker \<Rightarrow> retention_request \<Rightarrow> image_names \<Rightarrow> retention_phase \<Rightarrow> worker_error
      \<Rightarrow> ('w, retention_outcome) op" where
  "rollback E W rq names at err = do {
     _ \<leftarrow> drop_candidate W rq names;
     r \<leftarrow> on_host (is_absent_image (steady_os W) (tw_tart W) (nm_warm names) :: ('w, bool) work);
     let is_live = (case r of Inr absent \<Rightarrow> \<not> absent | Inl _ \<Rightarrow> True);
     case failed_authority_of at is_live of
       AuthUnchanged \<Rightarrow>
         return (ret_outcome_of ResFailed at (worker_error_text err) (rr_generation rq))
     | AuthCandidateLive \<Rightarrow> finalize_live_candidate E W rq names at err
     | AuthPreviousLive \<Rightarrow> persist_previous E rq names at err
     | AuthLiveAbsent \<Rightarrow> do {
         restored \<leftarrow> on_host (ensure_previous_restored W rq names);
         case restored of
           Inr _ \<Rightarrow> persist_previous E rq names at err
         | Inl h \<Rightarrow> return (ret_outcome_of ResFailed at (worker_error_text err @ ''; restore failed: ''
             @ (case h of Raised e \<Rightarrow> worker_error_text e | _ \<Rightarrow> [])) (rr_generation rq)) } }"

definition retain_warm ::
    "nat \<Rightarrow> 'w env \<Rightarrow> 'w tart_worker \<Rightarrow> retention_request \<Rightarrow> nat \<Rightarrow> string \<Rightarrow> ('w, retention_outcome) op" where
  "retain_warm fuel E W rq vm ip =
     (case derive_names (rr_warm_template rq) of
        Inl _ \<Rightarrow> return (ret_outcome_of ResFailed Stage ''warm image names are underivable''
          (rr_generation rq))
      | Inr names \<Rightarrow> do {
          now \<leftarrow> outside (k_now (o_clock (tw_os W)));
          locked \<leftarrow> host_phase W ''retention image lock exceeded its budget'' (await_lock (tw_os W));
          case locked of
            Inl h \<Rightarrow> return (ret_outcome_of ResFailed Stage
              (case h of Raised e \<Rightarrow> worker_error_text e | _ \<Rightarrow> []) (rr_generation rq))
          | Inr _ \<Rightarrow> do {
              result \<leftarrow> promote fuel E W rq names vm ip
                (now + millis (prof_cleanup_timeout (rr_profile rq)));
              case result of
                Inr _ \<Rightarrow> return (ret_outcome_of ResPromoted Promote ''warm image promoted'' (rr_generation rq))
              | Inl (Raised (at, err)) \<Rightarrow> rollback E W rq names at err
              | Inl _ \<Rightarrow> return (ret_outcome_of ResFailed Stop [] (rr_generation rq)) } })"

end
