(* ===== verification/Tart_Worker.thy ===== *)
theory Tart_Worker
  imports Tart_Retention
begin

text \<open>
  The Tart backend, \<open>crates/flanforge-runtime-tart/src/worker\<close>: preparing a guest
  (\<open>prepare.rs\<close>), the pool of kept processes (\<open>hot.rs\<close>), the gates of retention
  (\<open>retain.rs\<close>), and the methods the manager calls (\<open>run.rs\<close>). The pool is a field of the
  world; everything else of the world stays abstract. \<open>tart_env\<close> is the manager's environment
  with this backend in it, so every theorem about the manager holds with it.
\<close>

subsection \<open>The pool of kept processes\<close>

record pooled_guest =
  pg_child :: nat
  pg_is_claimed :: bool

record hot_world =
  hw_guests :: "(string \<times> pooled_guest) list"

type_synonym 'a hw = "'a hot_world_scheme"

definition pool_park :: "vm_name \<Rightarrow> nat \<Rightarrow> ('a hw, unit) state" where
  "pool_park name child = modify (\<lambda>w. w\<lparr>hw_guests :=
     AList.update (vm_str name) \<lparr>pg_child = child, pg_is_claimed = False\<rparr> (hw_guests w)\<rparr>)"

definition pool_claim :: "vm_name \<Rightarrow> ('a hw, bool) state" where
  "pool_claim name = do {
     held \<leftarrow> gets (\<lambda>w. map_of (hw_guests w) (vm_str name));
     case held of
       None \<Rightarrow> return False
     | Some g \<Rightarrow> do {
         _ \<leftarrow> modify (\<lambda>w. w\<lparr>hw_guests :=
                AList.update (vm_str name) (g\<lparr>pg_is_claimed := True\<rparr>) (hw_guests w)\<rparr>);
         return True } }"

definition pool_is_claimed :: "vm_name \<Rightarrow> ('a hw, bool) state" where
  "pool_is_claimed name =
     gets (\<lambda>w. is_some_and pg_is_claimed (map_of (hw_guests w) (vm_str name)))"

definition guest_is_alive :: "'a hw os \<Rightarrow> pooled_guest \<Rightarrow> ('a hw, bool) state" where
  "guest_is_alive S g = do {
     r \<leftarrow> State (o_try_wait S (pg_child g));
     return (r = Some None) }"

definition pool_is_holding :: "'a hw os \<Rightarrow> vm_name \<Rightarrow> ('a hw, bool) state" where
  "pool_is_holding S name = do {
     held \<leftarrow> gets (\<lambda>w. map_of (hw_guests w) (vm_str name));
     case held of
       None \<Rightarrow> return False
     | Some g \<Rightarrow> if pg_is_claimed g then guest_is_alive S g else return False }"

text \<open>Dropping a held guest kills its process.\<close>

definition pool_release :: "'a hw os \<Rightarrow> vm_name \<Rightarrow> ('a hw, bool) state" where
  "pool_release S name = do {
     held \<leftarrow> gets (\<lambda>w. map_of (hw_guests w) (vm_str name));
     case held of
       None \<Rightarrow> return False
     | Some g \<Rightarrow> do {
         _ \<leftarrow> modify (\<lambda>w. w\<lparr>hw_guests := AList.delete (vm_str name) (hw_guests w)\<rparr>);
         _ \<leftarrow> State (o_kill S (pg_child g));
         return True } }"

definition pool_release_unclaimed :: "'a hw os \<Rightarrow> vm_name \<Rightarrow> ('a hw, bool) state" where
  "pool_release_unclaimed S name = do {
     held \<leftarrow> gets (\<lambda>w. map_of (hw_guests w) (vm_str name));
     case held of
       Some g \<Rightarrow> if pg_is_claimed g then return False else pool_release S name
     | None \<Rightarrow> return False }"

subsection \<open>Pool guests\<close>

definition simulator_reset_text :: "simulator_reset \<Rightarrow> string" where
  "simulator_reset_text r =
     (case r of ResetNone \<Rightarrow> ''none'' | ResetApps \<Rightarrow> ''apps'' | ResetErase \<Rightarrow> ''erase'')"

definition RECYCLE_HELPER :: string where
  "RECYCLE_HELPER = ''/usr/local/libexec/flanforge-guest-recycle''"

text \<open>The decision over the gate's output.\<close>

definition recycle_decision ::
    "(string \<Rightarrow> recycle_report option) \<Rightarrow> guest_output \<Rightarrow> worker_error + unit" where
  "recycle_decision decode out =
     (case go_exit out of
        ExitedCode code \<Rightarrow>
          if go_is_truncated out then Inl (worker_error_new ''the recycle verdict is oversized'')
          else (case verdict_parse decode (go_stdout out) 1 of
              Inl e \<Rightarrow> Inl (worker_error_new (worker_error_text e @ '' (gate exit '' @ int_str code @ '')''))
            | Inr v \<Rightarrow> if code = 0 \<and> ver_is_clean v then Inr ()
                else Inl (worker_error_new (verdict_cause v)))
      | _ \<Rightarrow> Inl (worker_error_new ''the recycle gate was terminated by a signal''))"

definition reset_hot ::
    "nat \<Rightarrow> (string \<Rightarrow> recycle_report option) \<Rightarrow> 'w tart_worker \<Rightarrow> hot_guest \<Rightarrow> hot_reset \<Rightarrow> ('w, unit) work" where
  "reset_hot fuel decode W g reset = do {
     now \<leftarrow> State (k_now (o_clock (tw_os W)));
     bind_res (address_of fuel (steady_os W) (tw_tart W) (hot_vm g)
         (budget_limit (reset_budget reset) 30000 now)) (\<lambda>address.
     bind_res (from_res (session_configured (tw_os W) address)) (\<lambda>session.
     bind_res (from_res (guest_command_new (Program RECYCLE_HELPER
         [''--simulator-reset'', simulator_reset_text (reset_simulator reset)]) None
         (Bounded RECYCLE_MAX_REPORT_BYTES))) (\<lambda>command.
     bind_res (with_timeout (worker_error_new ''the recycle gate exceeded its timeout'')
         (map_raised (\<lambda>e. worker_error_new (''the recycle gate could not run: '' @ worker_error_text e))
           (c_run (ctl_channel (jb_guest (tw_job W)) (o_cuts (tw_os W))) session command))) (\<lambda>out.
       from_res (recycle_decision decode out))))) }"

definition retain_hot ::
    "nat \<Rightarrow> (string \<Rightarrow> recycle_report option) \<Rightarrow> 'a hw tart_worker \<Rightarrow> hot_guest \<Rightarrow> hot_reset \<Rightarrow> ('a hw, unit) work" where
  "retain_hot fuel decode W g reset = do {
     claimed \<leftarrow> pool_claim (hot_vm g);
     if \<not> claimed then fail ''this daemon does not hold the guest's process, so it cannot keep it''
     else do {
       r \<leftarrow> reset_hot fuel decode W g reset;
       case r of
         Inl h \<Rightarrow> do { _ \<leftarrow> pool_release (tw_os W) (hot_vm g); return (Inl h) }
       | Inr _ \<Rightarrow> return (Inr ()) } }"

definition is_hot_alive :: "'a hw tart_worker \<Rightarrow> hot_guest \<Rightarrow> ('a hw, bool) state" where
  "is_hot_alive W g = do {
     holding \<leftarrow> pool_is_holding (tw_os W) (hot_vm g);
     if \<not> holding then return False
     else do {
       r \<leftarrow> tart_is_running (steady_os W) (tw_tart W) (hot_vm g);
       return (r = Inr True) } }"

definition evict_hot :: "'a hw tart_worker \<Rightarrow> hot_guest \<Rightarrow> ('a hw, unit) work" where
  "evict_hot W g =
     bind_res (from_res (ensure_owned_name (tw_tart W) (hot_vm g))) (\<lambda>_. do {
       _ \<leftarrow> pool_release (tw_os W) (hot_vm g);
       with_timeout (worker_error_new ''hot guest eviction exceeded its timeout'')
         (remove_named (tw_os W) (tw_tart W) (hot_vm g) ''running'') })"

subsection \<open>Preparing a guest\<close>

text \<open>A phase around an operation of the manager that only reads.\<close>

definition manager_phase ::
    "'w env \<Rightarrow> 'w tart_worker \<Rightarrow> string \<Rightarrow> ('w, manager_error + 'a) op \<Rightarrow> ('w mgr, worker_error, 'a) task" where
  "manager_phase E W message m =
     phase (host_cuts (tw_os W)) message (do {
       r \<leftarrow> report E m;
       c \<leftarrow> State (host_cuts (tw_os W));
       return (case c of Some i \<Rightarrow> Inl (Interrupted i) | None \<Rightarrow> r) })"

definition plan_source ::
    "'w env \<Rightarrow> 'w tart_worker \<Rightarrow> string \<Rightarrow> allocation \<Rightarrow> profile
      \<Rightarrow> ('w mgr, worker_error, source_selection \<times> allocation) task" where
  "plan_source E W message a p =
     bind_res (manager_phase E W message (resolve_clone_source E (alloc_id a) p)) (\<lambda>sel. do {
       now \<leftarrow> outside (x_unix_time E);
       return (Inr (sel, set_clone_source (sel_source sel) (sel_warm_generation sel) now a)) })"

fun clone_current_source ::
    "nat \<Rightarrow> 'w env \<Rightarrow> 'w tart_worker \<Rightarrow> allocation \<Rightarrow> profile \<Rightarrow> nat \<Rightarrow> ('w mgr, worker_error, allocation) task" where
  "clone_current_source 0 E W a p deadline = return (Inl Unfinished)"
| "clone_current_source (Suc fuel) E W a p deadline =
     (let S = tw_os W; t = tw_tart W in
      bind_res (plan_source E W ''Tart source resolution exceeded its timeout'' a p) (\<lambda>(_, a).
      bind_res (host_phase W ''Tart preparation exceeded its timeout''
        (ensure_can_clone fuel S t a p deadline)) (\<lambda>_.
      bind_res (if alloc_mode a = Warm
          then host_phase W ''Tart image lock exceeded the preparation timeout'' (await_lock S)
          else return (Inr ())) (\<lambda>_.
      bind_res (plan_source E W ''Tart clone-boundary source resolution exceeded its timeout'' a p) (\<lambda>(sel, a). do {
        checked \<leftarrow> host_phase W ''Tart clone-boundary check exceeded its timeout''
          (ensure_can_clone_now S t a p);
        case checked of
          Inl (Raised e) \<Rightarrow>
            if worker_is_capacity e then clone_current_source fuel E W a p deadline
            else raise_err e
        | Inl h \<Rightarrow> return (Inl h)
        | Inr source \<Rightarrow>
            (let generation = (if src_kind source = WarmKind then sel_warm_generation sel else None) in
             bind_res (if src_kind source = TemplateKind
               then bind_res (on_host (tart_fingerprint (steady_os W) t (src_name source))) (\<lambda>f.
                 return (Inr (source\<lparr>src_base_fingerprint := f\<rparr>)))
               else return (Inr source)) (\<lambda>source.
             bind_res (host_phase W ''Tart clone exceeded its timeout'' (tart_clone S t a (src_name source))) (\<lambda>_.
             bind_res (report E (set_clone_source_op E (alloc_id a) source generation)) (\<lambda>_. do {
               now \<leftarrow> outside (x_unix_time E);
               return (Inr (set_clone_source source generation now a)) })))) })))))"

text \<open>The boot: the exit of the machine's process ends the wait for its address.\<close>

definition boot_os :: "'w os \<Rightarrow> nat \<Rightarrow> 'w os" where
  "boot_os S vm = S\<lparr>o_cuts := (\<lambda>w. case o_try_wait S vm w of
     (r, w') \<Rightarrow> if r = Some None then o_cuts S w' else (Some ChildExited, w'))\<rparr>"

definition prepare_vm ::
    "nat \<Rightarrow> 'w env \<Rightarrow> 'w tart_worker \<Rightarrow> allocation \<Rightarrow> profile \<Rightarrow> nat \<Rightarrow> nat
      \<Rightarrow> ('w mgr, worker_error, (nat \<times> string) \<times> allocation) task" where
  "prepare_vm fuel E W a p deadline boot_timeout =
     (let S = tw_os W; t = tw_tart W in
      bind_res (clone_current_source fuel E W a p deadline) (\<lambda>a. do {
        now \<leftarrow> outside (x_unix_time E);
        let a = set_vm_created now a;
        created \<leftarrow> set_vm_created_op E (alloc_id a);
        case created of
          Inl e \<Rightarrow> do {
            _ \<leftarrow> on_host (tart_remove_owned S t a :: ('w, unit) work);
            raise_err (worker_error_new (x_error_text E e)) }
        | Inr _ \<Rightarrow>
            bind_res (host_phase W ''Tart configuration exceeded its timeout'' (tart_configure S t a p)) (\<lambda>_.
            bind_res (report E (transition_op E (alloc_id a) Booting)) (\<lambda>_.
            bind_res (on_host (tart_start S t a p)) (\<lambda>vm.
            bind_res (on_host (phase (o_cuts (boot_os S vm)) ''Tart VM boot exceeded its timeout''
              (wait_for_ip fuel (boot_os S vm) t a boot_timeout))) (\<lambda>ip.
            bind_res (from_res (session_configured S ip)) (\<lambda>session.
            bind_res (host_phase W ''guest readiness exceeded its timeout''
              (ensure_ready (tw_job W) session boot_timeout)) (\<lambda>_.
              return (Inr ((vm, ip), a)))))))) }))"

subsection \<open>Gates of retention\<close>

datatype retention_request_error = RequestSkipped string | RequestFailed manager_error

definition retention_request_of ::
    "'w env \<Rightarrow> allocation \<Rightarrow> profile \<Rightarrow> ('w, retention_request_error + retention_request) op" where
  "retention_request_of E a p =
     bind_res (map_err RequestFailed (reporter_retention_plan E (alloc_id a))) (\<lambda>plan.
       return (case plan of
         None \<Rightarrow> Inl (RequestSkipped ''the profile no longer authorizes production'')
       | Some plan \<Rightarrow>
           if prof_warm_template p \<noteq> Some (plan_warm_template plan)
           then Inl (RequestSkipped ''the warm image name changed while the job ran'')
           else case (case alloc_source a of None \<Rightarrow> None | Some s \<Rightarrow> src_base_fingerprint s) of
             None \<Rightarrow> Inl (RequestSkipped ''the base fingerprint is unknown'')
           | Some f \<Rightarrow> Inr \<lparr>rr_allocation = a, rr_profile = p, rr_warm_template = plan_warm_template plan,
               rr_base_fingerprint = f, rr_generation = plan_generation plan,
               rr_previous = plan_previous plan\<rparr>))"

definition ensure_retained ::
    "nat \<Rightarrow> 'w env \<Rightarrow> 'w tart_worker \<Rightarrow> allocation \<Rightarrow> profile \<Rightarrow> nat \<Rightarrow> string \<Rightarrow> ('w, unit) op" where
  "ensure_retained fuel E W a p vm ip =
     if_then (is_retention_eligible a) (do {
       started \<leftarrow> outside (k_now (o_clock (tw_os W)));
       rq \<leftarrow> retention_request_of E a p;
       outcome \<leftarrow> (case rq of
           Inr rq \<Rightarrow> retain_warm fuel E W rq vm ip
         | Inl (RequestSkipped reason) \<Rightarrow> return (retention_outcome_new ResSkipped Verify reason None)
         | Inl (RequestFailed _) \<Rightarrow>
             return (retention_outcome_new ResFailed Verify ''retention authority is unavailable'' None));
       now \<leftarrow> outside (k_now (o_clock (tw_os W)));
       _ \<leftarrow> set_retention_op E (alloc_id a) (with_duration outcome (now - started));
       return () })"

subsection \<open>The methods of the worker\<close>

definition tart_start_runner ::
    "nat \<Rightarrow> 'w env \<Rightarrow> 'w tart_worker \<Rightarrow> allocation \<Rightarrow> profile \<Rightarrow> string
      \<Rightarrow> ('w mgr, worker_error, started_runner \<times> allocation) task" where
  "tart_start_runner fuel E W a p ip =
     bind_res (from_res (session_configured (tw_os W) ip)) (\<lambda>session.
       job_start_runner fuel E (tw_job W) a p session)"

definition tart_run ::
    "nat \<Rightarrow> 'a hw env \<Rightarrow> 'a hw tart_worker \<Rightarrow> allocation \<Rightarrow> profile \<Rightarrow> ('a hw mgr, worker_error, unit) task" where
  "tart_run fuel E W a p =
     (let boot_timeout = millis (prof_boot_timeout p) in
      bind_res (case hot_vm_name (alloc_origin a) of
          Some pooled \<Rightarrow>
            bind_res (on_host (address_of fuel (steady_os W) (tw_tart W) pooled boot_timeout)) (\<lambda>ip.
              return (Inr (None, ip, a)))
        | None \<Rightarrow>
            bind_res (report E (transition_op E (alloc_id a) Preparing)) (\<lambda>_. do {
              now \<leftarrow> outside (k_now (o_clock (tw_os W)));
              bind_res (prepare_vm fuel E W a p (now + boot_timeout) boot_timeout) (\<lambda>((vm, ip), a).
                return (Inr (Some vm, ip, a))) })) (\<lambda>(vm, ip, a).
      bind_res (report E (transition_op E (alloc_id a) Registering)) (\<lambda>_.
      bind_res (tart_start_runner fuel E W a p ip) (\<lambda>(started, a). do {
        supervised \<leftarrow> supervise fuel E (tw_job W) started a p;
        _ \<leftarrow> (case (vm, supervised) of
            (Some vm, Inr _) \<Rightarrow> ensure_retained fuel E W a p vm ip
          | _ \<Rightarrow> return ());
        _ \<leftarrow> (case (vm, supervised) of
            (Some vm, Inr _) \<Rightarrow>
              if_then (alloc_hot_lane a \<noteq> None) (on_host (pool_park (alloc_vm_name a) vm))
          | _ \<Rightarrow> return ());
        return supervised }))))"

definition tart_delete_vm :: "'w env \<Rightarrow> 'w tart_worker \<Rightarrow> reap_request \<Rightarrow> ('w, unit) work" where
  "tart_delete_vm E W rq =
     (let S = tw_os W; t = tw_tart W;
          owned = bind_res (with_timeout (worker_error_new ''Tart reap deletion exceeded its budget'')
              (delete_owned S t (reap_name rq))) (\<lambda>_.
            case reap_allocation rq of
              None \<Rightarrow> return (Inr ())
            | Some a \<Rightarrow> bind_res (attempt (job_delete_runner E (steady (tw_job W)) a)) (\<lambda>_. return (Inr ())));
          image = (if reap_profile rq = None \<and> reap_record rq = None
            then fail ''image deletion needs a profile or a record that claims the name''
            else with_timeout (worker_error_new ''Tart image deletion exceeded its budget'')
              (delete_image S t (reap_name rq) (reap_profile rq) (reap_record rq)))
      in if vm_str (reap_name rq) \<in> set (reap_reserved rq)
         then fail ''refusing to delete a name live configuration claims''
         else case reap_authorization_of rq of
           AuthRecord _ \<Rightarrow> owned | AuthPrefix \<Rightarrow> owned
         | AuthStaging _ \<Rightarrow> image | AuthImage _ \<Rightarrow> image)"

definition tart_ensure_warm_restored ::
    "'w tart_worker \<Rightarrow> (identifier_error \<Rightarrow> string) \<Rightarrow> profile \<Rightarrow> warm_image_record \<Rightarrow> ('w, unit) work" where
  "tart_ensure_warm_restored W error_text p r =
     bind_res (from_res (map_sum (\<lambda>e. worker_error_new (error_text e)) id (previous_name r))) (\<lambda>previous.
     bind_res (is_absent_image (steady_os W) (tw_tart W) previous) (\<lambda>absent.
       if absent then fail ''no warm image survives this profile; allocations boot cold''
       else with_timeout (worker_error_new ''warm image restore exceeded its timeout'')
         (clone_image (tw_os W) (tw_tart W) previous (img_warm_template r) p None)))"

definition tart_cleanup :: "'a hw env \<Rightarrow> 'a hw tart_worker \<Rightarrow> allocation \<Rightarrow> ('a hw, unit) work" where
  "tart_cleanup E W a = do {
     is_pooled \<leftarrow> (if is_hot_reuse (alloc_origin a) then return True
       else do {
         _ \<leftarrow> pool_release_unclaimed (tw_os W) (alloc_vm_name a);
         pool_is_claimed (alloc_vm_name a) });
     bind_res (if is_pooled then return (Inr (Inr ()))
       else do {
         r \<leftarrow> tart_remove_owned (tw_os W) (tw_tart W) a;
         return (case r of
           Inl (Interrupted _) \<Rightarrow> Inl (Raised (worker_error_new ''Tart cleanup exceeded its timeout''))
         | Inl Unfinished \<Rightarrow> Inl Unfinished
         | Inl (Raised e) \<Rightarrow> Inr (Inl e)
         | Inr _ \<Rightarrow> Inr (Inr ())) }) (\<lambda>vm_result. do {
       r \<leftarrow> job_delete_runner E (tw_job W) a;
       return (case r of
         Inl (Interrupted _) \<Rightarrow> Inl (Raised (worker_error_new ''Forgejo cleanup exceeded its timeout''))
       | Inl Unfinished \<Rightarrow> Inl Unfinished
       | Inl (Raised runner) \<Rightarrow> Inl (Raised (case vm_result of Inl vm \<Rightarrow> vm | Inr _ \<Rightarrow> runner))
       | Inr _ \<Rightarrow> map_sum Raised id vm_result) }) }"

subsection \<open>The manager's environment with this backend\<close>

text \<open>
  A finished task as the manager sees it. Outside every phase nothing interrupts, so only a
  loop out of fuel is left to map, and it is mapped to an error.
\<close>

definition settled :: "('w, 'a) work \<Rightarrow> 'w \<Rightarrow> (worker_error + 'a) \<times> 'w" where
  "settled m w = (case run_state m w of
     (Inr a, w') \<Rightarrow> (Inr a, w')
   | (Inl (Raised e), w') \<Rightarrow> (Inl e, w')
   | (Inl _, w') \<Rightarrow> (Inl (worker_error_new []), w'))"

definition settled_option :: "('w, 'a option) work \<Rightarrow> 'w \<Rightarrow> 'a option \<times> 'w" where
  "settled_option m w = (case run_state m w of (Inr r, w') \<Rightarrow> (r, w') | (Inl _, w') \<Rightarrow> (None, w'))"

definition tart_env ::
    "nat \<Rightarrow> (string \<Rightarrow> recycle_report option) \<Rightarrow> (identifier_error \<Rightarrow> string) \<Rightarrow> 'a hw tart_worker
      \<Rightarrow> 'a hw env \<Rightarrow> 'a hw env" where
  "tart_env fuel decode error_text W E =
     E\<lparr>w_evidence_deferred := True, w_supports_hot := True, w_supports_warm := True,
       w_machines := settled (tart_host_machines (steady_os W) (tw_tart W)),
       w_base_fingerprint := (\<lambda>template. settled_option (tart_fingerprint (steady_os W) (tw_tart W) template)),
       w_base_storage_mb := (\<lambda>_ source. settled_option
          (tart_base_storage_mb (steady_os W) (tw_tart W) (vm_str (src_name source)))),
       w_warm_availability := (\<lambda>_ r listing w. (Inr (default_warm_availability r listing), w)),
       w_is_unclaimed_image := (\<lambda>name listing w. (Inr (default_is_unclaimed_image name listing), w)),
       w_warm_retained := (\<lambda>_ w. (None, w)),
       w_cleanup := (\<lambda>a _. settled (tart_cleanup E W a)),
       w_ensure_recovered := (\<lambda>w. (Inr (), w)),
       w_ensure_warm_restored := (\<lambda>p r. settled (tart_ensure_warm_restored W error_text p r)),
       w_ensure_hot_retained := (\<lambda>g _ _ reset. settled (retain_hot fuel decode W g reset)),
       w_ensure_hot_reset := (\<lambda>g reset. settled (reset_hot fuel decode W g reset)),
       w_is_hot_live := (\<lambda>g. run_state (is_hot_alive W g)),
       w_ensure_hot_evicted := (\<lambda>g _. settled (evict_hot W g)),
       w_delete_vm := (\<lambda>rq. settled (tart_delete_vm E W rq)),
       w_sweep_images := (\<lambda>_ w. (Inr [], w))\<rparr>"

end
