(* ===== verification/Tart_Images.thy ===== *)
theory Tart_Images
  imports Tart_Worker
begin

text \<open>
  What the steps of a retention do to the images on the host. The \<open>tart\<close> command is not part of
  the repository; \<open>tart_effect\<close> states its documented behaviour on the set of images, with a
  command that fails or is killed either done or not done. From it follow the effects of the
  client's operations, and of retiring and publishing, for every failure and interruption.
\<close>

definition done_ok :: "(exit_status \<times> string) option \<Rightarrow> bool" where
  "done_ok r \<longleftrightarrow> is_some_and (\<lambda>(st, _). status_success st) r"

text \<open>Images are seen as a map from names to contents; \<open>cloned\<close> is what a completed clone does.\<close>

definition cloned :: "string \<Rightarrow> string \<Rightarrow> (string \<Rightarrow> 'c option) \<Rightarrow> (string \<Rightarrow> 'c option) \<Rightarrow> bool" where
  "cloned s d f f' \<longleftrightarrow> f d = None \<and> f s \<noteq> None \<and> f' = f(d := f s)"

definition tart_effect ::
    "tart_client \<Rightarrow> string list \<Rightarrow> (exit_status \<times> string) option
      \<Rightarrow> (string \<Rightarrow> 'c option) \<Rightarrow> (string \<Rightarrow> 'c option) \<Rightarrow> bool" where
  "tart_effect t args r f f' \<longleftrightarrow>
     (\<forall>out ms. args = [''list'', ''--format'', ''json''] \<and> r = Some (ExitCode 0, out)
        \<and> tc_decode t out = Some ms \<longrightarrow> (\<forall>n. n \<in> tm_name ` set ms \<longleftrightarrow> f n \<noteq> None))
     \<and> (\<forall>s d. args = [''clone'', s, d] \<longrightarrow> (cloned s d f f' \<or> f' = f) \<and> (done_ok r \<longrightarrow> cloned s d f f'))
     \<and> (\<forall>n. args = [''delete'', n] \<longrightarrow> (f' = f(n := None) \<or> f' = f) \<and> (done_ok r \<longrightarrow> f' = f(n := None)))
     \<and> (hd args \<noteq> ''clone'' \<and> hd args \<noteq> ''delete'' \<longrightarrow> f' = f)"

definition faithful_os :: "('w \<Rightarrow> string \<Rightarrow> 'c option) \<Rightarrow> tart_client \<Rightarrow> 'w os \<Rightarrow> bool" where
  "faithful_os img t S \<longleftrightarrow>
     (\<forall>w. img (snd (o_cuts S w)) = img w) \<and> (\<forall>n w. img (snd (o_timer_fires S n w)) = img w)
     \<and> (\<forall>n w. img (k_sleep (o_clock S) n w) = img w) \<and> (\<forall>w. img (snd (k_now (o_clock S) w)) = img w)
     \<and> (\<forall>w. img (snd (o_unix_time S w)) = img w) \<and> (\<forall>p w. img (snd (o_wait S p w)) = img w)
     \<and> (\<forall>args w. tart_effect t args (fst (o_output S (tart_command t args) w)) (img w)
          (img (snd (o_output S (tart_command t args) w))))"

lemma faithful_no_cuts: "faithful_os img t S \<Longrightarrow> faithful_os img t (S\<lparr>o_cuts := no_cuts\<rparr>)"
  by (simp add: faithful_os_def no_cuts_def)

subsection \<open>Runs of tasks\<close>

lemma bind_resE:
  assumes "run_state (bind_res m f) s = (r, s')"
  obtains (halted) h where "run_state m s = (Inl h, s')" "r = Inl h"
    | (went_on) a s1 where "run_state m s = (Inr a, s1)" "run_state (f a) s1 = (r, s')"
  using assms by (cases "run_state m s") (auto simp: bind_res_def split: sum.splits)

lemma attemptE:
  assumes "run_state (attempt m) s = (r, s')"
  obtains (gave) a where "run_state m s = (Inr a, s')" "r = Inr (Inr a)"
    | (error) e where "run_state m s = (Inl (Raised e), s')" "r = Inr (Inl e)"
    | (stopped) h h' where "run_state m s = (Inl h', s')" "r = Inl h"
  using assms by (cases "run_state m s") (auto simp: attempt_def split: sum.splits halt.splits)

lemma run_from_res: "run_state (from_res r) s = (map_sum Raised id r, s)"
  by (simp add: from_res_def)

lemma from_resE:
  assumes "run_state (from_res r) s = (q, s')"
  obtains "s' = s" "q = map_sum Raised id r"
  using assms by (simp add: run_from_res)

lemma or_failE:
  assumes "run_state (or_fail msg x) s = (q, s')"
  obtains "s' = s" "x = None" "q = Inl (Raised (worker_error_new msg))"
    | a where "s' = s" "x = Some a" "q = Inr a"
  using assms by (cases x) (auto simp: or_fail_def raise_err_def)

lemma img_awaited:
  assumes "faithful_os img t S" and "\<And>w. img (snd (f w)) = img w"
    and "run_state (awaited (o_cuts S) f) w = (r, w')"
  shows "img w' = img w"
  using assms by (auto simp: run_awaited faithful_os_def)

subsection \<open>The client's operations\<close>

lemma run_checked_effect:
  assumes F: "faithful_os img t S" and run: "run_state (run_checked S t args) w = (r, w')"
  obtains out where "tart_effect t args out (img w) (img w')" "r = Inr () \<Longrightarrow> done_ok out"
proof -
  let ?o = "o_output S (tart_command t args) w"
  have eff: "tart_effect t args (fst ?o) (img w) (img (snd ?o))" using F by (simp add: faithful_os_def)
  have w': "w' = snd (o_cuts S (snd ?o))"
    using run by (auto simp: run_checked_def bind_res_def run_awaited or_fail_def raise_err_def
        split: option.splits sum.splits if_splits prod.splits)
  then have "img w' = img (snd ?o)" using F by (simp add: faithful_os_def)
  with eff have "tart_effect t args (fst ?o) (img w) (img w')" by simp
  moreover have "r = Inr () \<Longrightarrow> done_ok (fst ?o)"
    using run by (auto simp: run_checked_def bind_res_def run_awaited or_fail_def raise_err_def done_ok_def
        split: option.splits sum.splits if_splits prod.splits)
  ultimately show ?thesis by (rule that)
qed

lemma run_clone:
  assumes "faithful_os img t S" "run_state (run_checked S t [''clone'', s, d]) w = (r, w')"
  shows "cloned s d (img w) (img w') \<or> img w' = img w" "r = Inr () \<Longrightarrow> cloned s d (img w) (img w')"
  using run_checked_effect[OF assms] unfolding tart_effect_def by metis+

lemma run_delete:
  assumes "faithful_os img t S" "run_state (run_checked S t [''delete'', n]) w = (r, w')"
  shows "img w' = (img w)(n := None) \<or> img w' = img w" "r = Inr () \<Longrightarrow> img w' = (img w)(n := None)"
  using run_checked_effect[OF assms] unfolding tart_effect_def by metis+

lemma run_stop:
  assumes "faithful_os img t S" "run_state (run_checked S t [''stop'', n]) w = (r, w')"
  shows "img w' = img w"
proof -
  obtain out where "tart_effect t [''stop'', n] out (img w) (img w')"
    by (rule run_checked_effect[OF assms])
  then show ?thesis by (simp add: tart_effect_def)
qed

lemma list_attempts_effect:
  assumes F: "faithful_os img t S" and "run_state (list_attempts k S t) w = (r, w')"
  shows "img w' = img w \<and> (\<forall>out ms. r = Inr (ExitCode 0, out) \<longrightarrow> tc_decode t out = Some ms \<longrightarrow>
     (\<forall>n. n \<in> tm_name ` set ms \<longleftrightarrow> img w n \<noteq> None))"
  using assms(2)
proof (induction k arbitrary: w)
  case 0
  then show ?case by (auto simp: raise_err_def)
next
  case (Suc k)
  let ?args = "[''list'', ''--format'', ''json'']"
  let ?o = "o_output S (tart_command t ?args) w"
  have eff: "tart_effect t ?args (fst ?o) (img w) (img (snd ?o))" using F by (simp add: faithful_os_def)
  then have same: "img (snd ?o) = img w" by (simp add: tart_effect_def)
  from Suc.prems[unfolded list_attempts.simps] show ?case
  proof (cases rule: bind_resE)
    case (halted h)
    then show ?thesis using F same by (auto simp: run_awaited faithful_os_def split: option.splits)
  next
    case (went_on a w1)
    then have a: "a = fst ?o" and w1: "img w1 = img w"
      using F same by (auto simp: run_awaited faithful_os_def split: option.splits)
    let ?t = "o_timer_fires S LIST_TIMEOUT w1"
    have t: "img (snd ?t) = img w" using F w1 by (simp add: faithful_os_def)
    show ?thesis
    proof (cases "fst ?t \<or> a \<noteq> None \<or> k = 0")
      case True
      then have w': "w' = snd ?t" and given: "r = Inr x \<Longrightarrow> fst ?o = Some x" for x
        using went_on(2) a by (auto simp: raise_err_def split: prod.splits option.splits if_splits)
      have "\<forall>n. n \<in> tm_name ` set ms \<longleftrightarrow> img w n \<noteq> None"
        if "r = Inr (ExitCode 0, out)" "tc_decode t out = Some ms" for out ms
        using eff given[OF that(1)] that(2) unfolding tart_effect_def by blast
      then show ?thesis using w' t by blast
    next
      case False
      then have "run_state (bind_res (awaited (o_cuts S) (\<lambda>w. ((), k_sleep (o_clock S) 10 w))) (\<lambda>_.
          list_attempts k S t)) (snd ?t) = (r, w')"
        using went_on(2) by (cases a) (auto split: prod.splits)
      then show ?thesis
      proof (cases rule: bind_resE)
        case (halted h)
        then show ?thesis using F t by (auto simp: run_awaited faithful_os_def split: option.splits)
      next
        case (went_on b w2)
        have "img w2 = img w" using img_awaited[OF F _ went_on(1)] F t by (simp add: faithful_os_def)
        then show ?thesis using Suc.IH[OF went_on(2)] by simp
      qed
    qed
  qed
qed

lemma tart_list_effect:
  assumes F: "faithful_os img t S" and run: "run_state (tart_list S t) w = (r, w')"
  shows "img w' = img w" "r = Inr ms \<Longrightarrow> n \<in> tm_name ` set ms \<longleftrightarrow> img w n \<noteq> None"
proof -
  obtain q w1 where q: "run_state (list_attempts 2 S t) w = (q, w1)" by (cases "run_state (list_attempts 2 S t) w")
  note eff = list_attempts_effect[OF F q]
  have "w' = w1" using run q
    by (auto simp: tart_list_def bind_res_def raise_err_def or_fail_def
        split: sum.splits prod.splits if_splits option.splits)
  then show "img w' = img w" using eff by simp
  show "n \<in> tm_name ` set ms \<longleftrightarrow> img w n \<noteq> None" if "r = Inr ms"
    using run q that eff
    by (auto simp: tart_list_def bind_res_def raise_err_def or_fail_def status_success_def
        split: sum.splits prod.splits if_splits option.splits)
qed

lemma is_absent_effect:
  assumes F: "faithful_os img t S" and run: "run_state (is_absent S t n) w = (r, w')"
  shows "img w' = img w" "r = Inr True \<Longrightarrow> img w n = None"
proof -
  obtain q w1 where q: "run_state (tart_list S t) w = (q, w1)" by (cases "run_state (tart_list S t) w")
  note eff = tart_list_effect[OF F q]
  show "img w' = img w" using run q eff(1)
    by (auto simp: is_absent_def bind_res_def attempt_def split: sum.splits halt.splits)
  show "img w n = None" if absent: "r = Inr True"
  proof -
    obtain ms where "q = Inr ms" "\<not> list_ex (\<lambda>m. tm_name m = n) ms"
      using run q absent by (auto simp: is_absent_def bind_res_def attempt_def split: sum.splits halt.splits)
    then show ?thesis using eff(2)[of ms n] by (auto simp: list_ex_iff)
  qed
qed

lemma remove_named_effect:
  assumes F: "faithful_os img t S" and run: "run_state (remove_named S t n st) w = (r, w')"
  defines "gone \<equiv> (img w)(vm_str n := None)"
  shows "img w' = gone \<or> img w' = img w" "r = Inr () \<Longrightarrow> img w' = gone"
proof -
  have "(img w' = gone \<or> img w' = img w) \<and> (r = Inr () \<longrightarrow> img w' = gone)"
    using run[unfolded remove_named_def]
  proof (cases rule: bind_resE)
    case (halted h)
    then show ?thesis using run_stop[OF F]
      by (auto simp: bind_res_def attempt_def split: if_splits prod.splits sum.splits halt.splits)
  next
    case (went_on a w1)
    have w1: "img w1 = img w" using went_on(1) run_stop[OF F]
      by (auto simp: bind_res_def attempt_def split: if_splits prod.splits sum.splits halt.splits)
    from went_on(2) show ?thesis
    proof (cases rule: bind_resE)
      case (halted h)
      from halted(1) obtain q where "run_state (run_checked S t [''delete'', vm_str n]) w1 = (q, w')"
        by (cases rule: attemptE) auto
      then show ?thesis using run_delete(1)[OF F] w1 halted(2) by (force simp: gone_def)
    next
      case (went_on b w2)
      from went_on(1) show ?thesis
      proof (cases rule: attemptE)
        case (gave u)
        then show ?thesis using run_delete(2)[OF F gave(1)] went_on(2) w1 by (auto simp: gone_def)
      next
        case (error e)
        have w2: "img w2 = gone \<or> img w2 = img w" using run_delete(1)[OF F error(1)] w1 by (simp add: gone_def)
        have "run_state (bind_res (is_absent S t (vm_str n)) (\<lambda>absent.
            if absent then return (Inr ()) else raise_err e)) w2 = (r, w')"
          using went_on(2) error(2) by simp
        then show ?thesis
        proof (cases rule: bind_resE)
          case (halted h)
          then show ?thesis using is_absent_effect(1)[OF F halted(1)] w2 by auto
        next
          case (went_on absent w3)
          have "img w3 = img w2" by (rule is_absent_effect(1)[OF F went_on(1)])
          moreover have "w' = w3" "r = Inr () \<Longrightarrow> absent"
            using went_on(2) by (auto simp: raise_err_def split: if_splits)
          moreover have "absent \<Longrightarrow> img w2 (vm_str n) = None"
            using is_absent_effect(2)[OF F went_on(1)] by simp
          ultimately show ?thesis using w2 by (auto simp: gone_def fun_upd_idem)
        qed
      next
        case (stopped h h')
        then show ?thesis using went_on(1) by simp
      qed
    qed
  qed
  then show "img w' = gone \<or> img w' = img w" "r = Inr () \<Longrightarrow> img w' = gone" by auto
qed

lemma remove_listed_effect:
  assumes F: "faithful_os img t S" and run: "run_state (remove_listed S t n) w = (r, w')"
  shows "img w' = (img w)(vm_str n := None) \<or> img w' = img w" "r = Inr () \<Longrightarrow> img w' = (img w)(vm_str n := None)"
proof -
  have "(img w' = (img w)(vm_str n := None) \<or> img w' = img w) \<and> (r = Inr () \<longrightarrow> img w' = (img w)(vm_str n := None))"
    using run[unfolded remove_listed_def]
  proof (cases rule: bind_resE)
    case (halted h)
    then show ?thesis using tart_list_effect(1)[OF F halted(1)] by simp
  next
    case (went_on ms w1)
    note eff = tart_list_effect[OF F went_on(1)]
    show ?thesis
    proof (cases "find (\<lambda>m. tm_name m = vm_str n) ms")
      case None
      then have "vm_str n \<notin> tm_name ` set ms" by (auto simp: find_None_iff)
      then have "img w (vm_str n) = None" using eff(2)[of ms "vm_str n"] by auto
      then show ?thesis using went_on(2) None eff(1) by (auto simp: fun_upd_idem)
    next
      case (Some m)
      then show ?thesis using remove_named_effect[OF F, of n "tm_state m" w1 r w'] went_on(2) eff(1) by auto
    qed
  qed
  then show "img w' = (img w)(vm_str n := None) \<or> img w' = img w"
    "r = Inr () \<Longrightarrow> img w' = (img w)(vm_str n := None)" by auto
qed

lemma delete_image_effect:
  assumes F: "faithful_os img t S" and run: "run_state (delete_image S t n p rec) w = (r, w')"
  shows "img w' = (img w)(vm_str n := None) \<or> img w' = img w" "r = Inr () \<Longrightarrow> img w' = (img w)(vm_str n := None)"
  using run remove_listed_effect[OF F, of n w r w']
  by (auto simp: delete_image_def elim!: bind_resE from_resE)

lemma clone_image_effect:
  assumes F: "faithful_os img t S" and run: "run_state (clone_image S t a b p rec) w = (r, w')"
  shows "cloned (vm_str a) (vm_str b) (img w) (img w') \<or> img w' = img w"
    "r = Inr () \<Longrightarrow> cloned (vm_str a) (vm_str b) (img w) (img w')"
  using run run_clone[OF F, of "vm_str a" "vm_str b" w r w']
  by (auto simp: clone_image_def elim!: bind_resE from_resE)

subsection \<open>Retiring and publishing\<close>

text \<open>
  The stages of retiring the live image \<open>l\<close> into \<open>p\<close>, and of publishing the candidate \<open>c\<close> as \<open>l\<close>,
  from the images \<open>f\<close>: where a failure or an interruption may leave them.
\<close>

definition retire_stages :: "string \<Rightarrow> string \<Rightarrow> (string \<Rightarrow> 'c option) \<Rightarrow> (string \<Rightarrow> 'c option) set" where
  "retire_stages l p f = {f, f(p := None), f(p := f l), f(p := f l, l := None)}"

definition publish_stages :: "string \<Rightarrow> string \<Rightarrow> (string \<Rightarrow> 'c option) \<Rightarrow> (string \<Rightarrow> 'c option) set" where
  "publish_stages c l f = {f, f(l := f c), f(l := f c, c := None)}"

lemma retire_effect:
  assumes F: "faithful_os img (tw_tart W) S" and run: "run_state (retire S W rq nm) w = (r, w')"
    and ne: "vm_str (nm_warm nm) \<noteq> vm_str (nm_previous nm)"
  shows "img w' \<in> retire_stages (vm_str (nm_warm nm)) (vm_str (nm_previous nm)) (img w)"
    and "r = Inr () \<Longrightarrow>
      img w' = (img w)(vm_str (nm_previous nm) := img w (vm_str (nm_warm nm)), vm_str (nm_warm nm) := None)"
proof -
  let ?l = "vm_str (nm_warm nm)" and ?p = "vm_str (nm_previous nm)"
  have "img w' \<in> retire_stages ?l ?p (img w) \<and> (r = Inr () \<longrightarrow> img w' = (img w)(?p := img w ?l, ?l := None))"
    using run[unfolded retire_def]
  proof (cases rule: bind_resE)
    case (halted h)
    then show ?thesis using delete_image_effect(1)[OF F halted(1)] by (auto simp: retire_stages_def)
  next
    case (went_on a w1)
    have w1: "img w1 = (img w)(?p := None)" using delete_image_effect(2)[OF F went_on(1)] by simp
    from went_on(2) show ?thesis
    proof (cases rule: bind_resE)
      case (halted h)
      then show ?thesis using is_absent_effect(1)[OF F halted(1)[unfolded is_absent_image_def]] w1
        by (auto simp: retire_stages_def)
    next
      case (went_on absent w2)
      note ab = is_absent_effect[OF F went_on(1)[unfolded is_absent_image_def]]
      have w2: "img w2 = (img w)(?p := None)" using ab(1) w1 by simp
      show ?thesis
      proof (cases absent)
        case True
        then have "img w ?l = None" using ab(2) w1 ne by simp
        then show ?thesis using went_on(2) True w2 ne by (auto simp: retire_stages_def fun_upd_idem)
      next
        case False
        then have "run_state (bind_res (clone_image S (tw_tart W) (nm_warm nm) (nm_previous nm) (rr_profile rq) None)
            (\<lambda>_. delete_image S (tw_tart W) (nm_warm nm) (Some (rr_profile rq)) None)) w2 = (r, w')"
          using went_on(2) by simp
        then show ?thesis
        proof (cases rule: bind_resE)
          case (halted h)
          then show ?thesis using clone_image_effect(1)[OF F halted(1)] w2 ne
            by (auto simp: retire_stages_def cloned_def)
        next
          case (went_on b w3)
          have "img w3 = (img w)(?p := img w ?l)" using clone_image_effect(2)[OF F went_on(1)] w2 ne
            by (auto simp: cloned_def)
          then show ?thesis using delete_image_effect[OF F went_on(2)] ne
            by (auto simp: retire_stages_def)
        qed
      qed
    qed
  qed
  then show "img w' \<in> retire_stages ?l ?p (img w)"
    "r = Inr () \<Longrightarrow> img w' = (img w)(?p := img w ?l, ?l := None)" by auto
qed

lemma publish_effect:
  assumes F: "faithful_os img (tw_tart W) S" and run: "run_state (publish S W rq nm) w = (r, w')"
  shows "img w' \<in> publish_stages (vm_str (nm_staging nm)) (vm_str (nm_warm nm)) (img w)"
    and "r = Inr () \<Longrightarrow>
      img w' = (img w)(vm_str (nm_warm nm) := img w (vm_str (nm_staging nm)), vm_str (nm_staging nm) := None)"
proof -
  let ?l = "vm_str (nm_warm nm)" and ?c = "vm_str (nm_staging nm)"
  have "img w' \<in> publish_stages ?c ?l (img w) \<and> (r = Inr () \<longrightarrow> img w' = (img w)(?l := img w ?c, ?c := None))"
    using run[unfolded publish_def]
  proof (cases rule: bind_resE)
    case (halted h)
    then show ?thesis using clone_image_effect(1)[OF F halted(1)] by (auto simp: publish_stages_def cloned_def)
  next
    case (went_on a w1)
    have "img w1 = (img w)(?l := img w ?c)" using clone_image_effect(2)[OF F went_on(1)]
      by (simp add: cloned_def)
    then show ?thesis using delete_image_effect[OF F went_on(2)] by (auto simp: publish_stages_def)
  qed
  then show "img w' \<in> publish_stages ?c ?l (img w)"
    "r = Inr () \<Longrightarrow> img w' = (img w)(?l := img w ?c, ?c := None)" by auto
qed

end
