(* ===== verification/Tart_Authority.thy ===== *)
theory Tart_Authority
  imports Tart_Images
begin

text \<open>
  The live image and the durable record of a profile through a retention: after every outcome of
  \<open>retain_warm\<close>, whatever failed or was cut short on the way, a record that says promoted names
  the generation the live image holds.
\<close>

definition faithful_host :: "('w \<Rightarrow> string \<Rightarrow> 'c option) \<Rightarrow> 'w env \<Rightarrow> 'w tart_worker \<Rightarrow> bool" where
  "faithful_host img E W \<longleftrightarrow> faithful_os img (tw_tart W) (tw_os W)
     \<and> (\<forall>w. img (snd (x_db_fails E w)) = img w)
     \<and> (\<forall>session command w. img (snd (run_state
          (c_run (ctl_channel (jb_guest (tw_job W)) (o_cuts (tw_os W))) session command) w)) = img w)"

lemma faithful_hostD:
  assumes "faithful_host img E W"
  shows "faithful_os img (tw_tart W) (tw_os W)" "faithful_os img (tw_tart W) (steady_os W)"
  using assms faithful_no_cuts by (auto simp: faithful_host_def steady_os_def)

subsection \<open>Steps that leave the images alone\<close>

lemma keeps_awaited [frame_intros]:
  "(\<And>s. f (snd (g s)) = f s) \<Longrightarrow> (\<And>s. f (snd (intr s)) = f s) \<Longrightarrow> keeps f (awaited intr g)"
  by (simp add: keeps_def run_awaited)

lemma keeps_State [frame_intros]: "(\<And>s. f (snd (g s)) = f s) \<Longrightarrow> keeps f (State g)"
  by (simp add: keeps_def)

lemma keeps_raise_err [frame_intros]: "keeps f (raise_err e)"
  by (simp add: raise_err_def keeps_def)

lemma keeps_from_res [frame_intros]: "keeps f (from_res r)"
  by (simp add: from_res_def keeps_def)

lemma keeps_or_fail [frame_intros]: "keeps f (or_fail msg x)"
  by (cases x) (simp_all add: or_fail_def raise_err_def keeps_def)

lemma keeps_attempt [frame_intros]: "keeps f m \<Longrightarrow> keeps f (attempt m)"
  unfolding attempt_def by (intro frame_intros)

lemma keeps_map_raised [frame_intros]: "keeps f m \<Longrightarrow> keeps f (map_raised g m)"
  unfolding map_raised_def by (intro frame_intros)

lemma keeps_poll_loop [frame_intros]:
  "keeps f m \<Longrightarrow> (\<And>s. f (snd (k_now K s)) = f s) \<Longrightarrow> (\<And>s. f (k_sleep K pause s) = f s) \<Longrightarrow>
     (\<And>s. f (snd (intr s)) = f s) \<Longrightarrow> keeps f (poll_loop fuel intr K pause expired e m)"
proof (induction fuel)
  case 0
  then show ?case by (simp add: keeps_def)
next
  case (Suc fuel)
  then show ?case unfolding poll_loop.simps by (intro frame_intros) simp_all
qed

lemma keeps_tart_list:
  assumes "faithful_os img t S" shows "keeps img (tart_list S t)"
  using tart_list_effect(1)[OF assms] by (simp add: keeps_def) (metis prod.collapse)

lemma keeps_run_stop:
  assumes "faithful_os img t S" shows "keeps img (run_checked S t [''stop'', n])"
  using run_stop[OF assms] by (simp add: keeps_def) (metis prod.collapse)

lemma keeps_stop_guest:
  assumes F: "faithful_os img (tw_tart W) S"
  shows "keeps img (stop_guest fuel S W a vm deadline)"
  unfolding stop_guest_def tart_ensure_stopped_def
  by (intro frame_intros keeps_tart_list keeps_run_stop F) (use F in \<open>simp_all add: faithful_os_def\<close>)

lemma keeps_ensure_staged:
  assumes F: "faithful_os img (tw_tart W) S"
  shows "keeps img (ensure_staged S W staging)"
  unfolding ensure_staged_def is_stopped_image_def by (intro frame_intros keeps_tart_list F)

lemma keeps_marker:
  assumes F: "faithful_host img E W"
  shows "keeps img (ensure_retention_marker (tw_os W) W ip)"
  unfolding ensure_retention_marker_def run_daemon_script_def run_session_script_def
  by (intro frame_intros) (use F in \<open>simp add: faithful_host_def keeps_def\<close>)

subsection \<open>Steps of the promotion\<close>

abbreviation row_of :: "profile_name \<Rightarrow> 'w mgr \<Rightarrow> warm_image_record option" where
  "row_of pn s \<equiv> map_of (m_images s) pn"

lemma host_phaseE:
  assumes F: "faithful_os img (tw_tart W) (tw_os W)" and run: "run_state (host_phase W msg m) s = (r, s')"
  obtains (cut) e where "img (m_world s') = img (m_world s)" "m_images s' = m_images s" "r = Inl (Raised e)"
    | (ran) w0 q where "img w0 = img (m_world s)" "run_state m w0 = (q, m_world s')"
        "m_images s' = m_images s" "\<And>a. r = Inr a \<longleftrightarrow> q = Inr a"
proof -
  let ?c = "o_cuts (tw_os W) (m_world s)"
  have same: "img (snd ?c) = img (m_world s)" using F by (simp add: faithful_os_def)
  show ?thesis
  proof (cases "fst ?c")
    case (Some i)
    then show ?thesis using run same cut[of "interruption_error msg i"]
      by (auto simp: host_phase_def on_host_def phase_def raise_err_def split: prod.splits)
  next
    case None
    then show ?thesis using run same ran[of "snd ?c" "fst (run_state m (snd ?c))"]
      by (auto simp: host_phase_def on_host_def phase_def split: prod.splits sum.splits halt.splits)
  qed
qed

lemma host_phase_keeps:
  assumes F: "faithful_os img (tw_tart W) (tw_os W)" and K: "keeps img m"
    and run: "run_state (host_phase W msg m) s = (r, s')"
  shows "img (m_world s') = img (m_world s)" "m_images s' = m_images s"
  using host_phaseE[OF F run] K by (metis keeps_def snd_conv)+

lemma step_atE:
  assumes "run_state (step_at at m) s = (r, s')"
  obtains (ok) a where "run_state m s = (Inr a, s')" "r = Inr a"
    | (err) e where "run_state m s = (Inl (Raised e), s')" "r = Inl (Raised (at, e))"
    | (other) h h' where "run_state m s = (Inl h', s')" "r = Inl h" "\<And>x. h \<noteq> Raised x" "\<And>x. h' \<noteq> Raised x"
  using assms unfolding step_at_def map_raised_def
  by (cases "run_state m s") (auto simp: bind_res_def attempt_def from_res_def split: sum.splits halt.splits)

lemma phase_step:
  assumes F: "faithful_os img (tw_tart W) (tw_os W)"
    and run: "run_state (step_at at (host_phase W msg m)) s = (r, s')"
    and A: "\<And>w q w'. run_state m w = (q, w') \<Longrightarrow> A (img w) (img w')" "\<And>f. A f f"
    and B: "\<And>w a w'. run_state m w = (Inr a, w') \<Longrightarrow> B (img w) (img w')"
  shows "m_images s' = m_images s" "A (img (m_world s)) (img (m_world s'))"
    "r = Inr a \<Longrightarrow> B (img (m_world s)) (img (m_world s'))" "r = Inl (Raised (x, e)) \<Longrightarrow> x = at"
proof -
  obtain q where q: "run_state (host_phase W msg m) s = (q, s')" "\<And>a. r = Inr a \<longleftrightarrow> q = Inr a"
    and raised: "r = Inl (Raised (x, e)) \<Longrightarrow> x = at"
    using run by (cases rule: step_atE) auto
  show "m_images s' = m_images s" by (rule host_phaseE[OF F q(1)])
  show "A (img (m_world s)) (img (m_world s'))"
  proof (rule host_phaseE[OF F q(1)])
    fix w0 q0 assume "img w0 = img (m_world s)" "run_state m w0 = (q0, m_world s')"
    then show ?thesis using A(1) by metis
  qed (simp add: A(2))
  show "B (img (m_world s)) (img (m_world s'))" if ok: "r = Inr a"
  proof (rule host_phaseE[OF F q(1)])
    fix w0 q0 assume "img w0 = img (m_world s)" "run_state m w0 = (q0, m_world s')"
      "\<And>a. q = Inr a \<longleftrightarrow> q0 = Inr a"
    then show ?thesis using B ok q(2) by metis
  qed (use ok q(2) in auto)
  show "r = Inl (Raised (x, e)) \<Longrightarrow> x = at" by (rule raised)
qed

lemma images_save_run:
  assumes "run_state (images_save E r) s = (q, s')"
  obtains (kept) "m_images s' = m_images s" "q = Inl DbError" "m_world s' = snd (x_db_fails E (m_world s))"
    | (saved) "map_of (m_images s') = (map_of (m_images s))(img_profile r \<mapsto> r)" "q = Inr ()"
        "m_world s' = snd (x_db_fails E (m_world s))"
  using assms
  by (auto simp: images_save_def db_def image_table_save_def update_conv' split: if_splits sum.splits)

lemma images_remove_run:
  assumes "run_state (images_remove E n) s = (q, s')"
  obtains (kept) "m_images s' = m_images s" "q = Inl DbError" "m_world s' = snd (x_db_fails E (m_world s))"
    | (removed) "map_of (m_images s') = (map_of (m_images s))(n := None)" "q = Inr ()"
        "m_world s' = snd (x_db_fails E (m_world s))"
  using assms
  by (auto simp: images_remove_def db_def image_table_remove_def delete_conv' split: if_splits)

lemma record_image_run:
  assumes F: "faithful_host img E W" and run: "run_state (record_image E W rq nm st) s = (q, s')"
  defines "pn \<equiv> req_profile (alloc_request (rr_allocation rq))"
  obtains (kept) e where "row_of pn s' = row_of pn s" "q = Inl (Raised e)" "img (m_world s') = img (m_world s)"
    | (saved) now where "row_of pn s' = Some (record_of rq nm st now)" "q = Inr ()"
        "img (m_world s') = img (m_world s)"
proof -
  let ?u = "o_unix_time (tw_os W) (m_world s)"
  let ?r = "record_of rq nm st (unwrap_or 0 (fst ?u))"
  let ?s1 = "s\<lparr>m_world := snd ?u\<rparr>"
  let ?s2 = "if st = Promoted then ?s1\<lparr>m_quarantined := removeAll (img_profile ?r) (m_quarantined ?s1)\<rparr> else ?s1"
  obtain q' where save: "run_state (images_save E ?r) ?s2 = (q', s')"
    and q: "q = map_sum (\<lambda>e. Raised (worker_error_new (x_error_text E (StoreErr e)))) (\<lambda>_. ()) q'"
    using run
    by (cases "run_state (images_save E ?r) ?s2")
      (auto simp: record_image_def report_def record_warm_image_def map_err_def if_then_def record_of_def
        sum.map_comp o_def split: if_splits prod.splits)
  have same: "img (m_world ?s2) = img (m_world s)"
    using faithful_hostD(1)[OF F] by (simp add: faithful_os_def)
  have db: "img (snd (x_db_fails E w)) = img w" for w using F by (simp add: faithful_host_def)
  have pn: "img_profile ?r = pn" by (simp add: record_of_def pn_def)
  from save show ?thesis
  proof (cases rule: images_save_run)
    case kept
    show ?thesis by (rule that(1)) (use kept q same db in \<open>auto split: if_splits\<close>)
  next
    case saved
    show ?thesis by (rule that(2)) (use saved q same db pn in \<open>auto split: if_splits\<close>)
  qed
qed

text \<open>Where a promotion may stop, seen from the images \<open>f\<close> and the row it started with.\<close>

definition promote_stops ::
    "retention_request \<Rightarrow> image_names \<Rightarrow> (string \<Rightarrow> 'c option) \<Rightarrow> warm_image_record option
      \<Rightarrow> (retention_phase \<times> worker_error) halt + unit \<Rightarrow> (string \<Rightarrow> 'c option) \<Rightarrow> warm_image_record option \<Rightarrow> bool" where
  "promote_stops rq nm f row r f' row' \<longleftrightarrow>
     (let l = vm_str (nm_warm nm); p = vm_str (nm_previous nm); v = vm_str (alloc_vm_name (rr_allocation rq))
      in (r = Inr () \<and> (\<exists>now. row' = Some (record_of rq nm Promoted now)) \<and> f' l = f v)
       \<or> (r \<noteq> Inr () \<and> row' = row \<and> f' l = f l
           \<and> (\<forall>x e. r = Inl (Raised (x, e)) \<longrightarrow> x \<noteq> Retire \<and> x \<noteq> Promote))
       \<or> (r \<noteq> Inr () \<and> (\<exists>now. row' = Some (record_of rq nm Staging now))
           \<and> (\<forall>x e. r = Inl (Raised (x, e)) \<longrightarrow>
                x = Retire \<and> f' l \<in> {f l, None} \<and> (f' p = f l \<or> f' l = f l \<and> f' p \<in> {f p, None})
              \<or> x = Promote \<and> f' l \<in> {None, f v} \<and> f' p = f l)))"

lemma retire_step:
  assumes F: "faithful_os img (tw_tart W) (tw_os W)"
    and run: "run_state (step_at Retire (host_phase W msg (retire (tw_os W) W rq nm))) s = (r, s')"
    and ne: "vm_str (nm_warm nm) \<noteq> vm_str (nm_previous nm)"
  defines "l \<equiv> vm_str (nm_warm nm)" and "p \<equiv> vm_str (nm_previous nm)"
  shows "m_images s' = m_images s" "img (m_world s') \<in> retire_stages l p (img (m_world s))"
    "r = Inr a \<Longrightarrow> img (m_world s') = (img (m_world s))(p := img (m_world s) l, l := None)"
    "r = Inl (Raised (x, e)) \<Longrightarrow> x = Retire"
proof -
  have A: "run_state (retire (tw_os W) W rq nm) w = (q, w') \<Longrightarrow> img w' \<in> retire_stages l p (img w)" for w q w'
    unfolding l_def p_def by (rule retire_effect(1)[OF F _ ne])
  have B: "run_state (retire (tw_os W) W rq nm) w = (Inr a, w') \<Longrightarrow> img w' = (img w)(p := img w l, l := None)" for w a w'
    unfolding l_def p_def by (rule retire_effect(2)[OF F _ ne]) simp_all
  have R: "f \<in> retire_stages l p f" for f by (simp add: retire_stages_def)
  note st = phase_step[where A = "\<lambda>g g'. g' \<in> retire_stages l p g" and B = "\<lambda>g g'. g' = g(p := g l, l := None)", OF F run A R B]
  show "m_images s' = m_images s" by (rule st(1))
  show "img (m_world s') \<in> retire_stages l p (img (m_world s))" by (rule st(2))
  show "r = Inr a \<Longrightarrow> img (m_world s') = (img (m_world s))(p := img (m_world s) l, l := None)" by (rule st(3))
  show "r = Inl (Raised (x, e)) \<Longrightarrow> x = Retire" by (rule st(4))
qed

lemma publish_step:
  assumes F: "faithful_os img (tw_tart W) (tw_os W)"
    and run: "run_state (step_at Promote (host_phase W msg (publish (tw_os W) W rq nm))) s = (r, s')"
  defines "l \<equiv> vm_str (nm_warm nm)" and "c \<equiv> vm_str (nm_staging nm)"
  shows "m_images s' = m_images s" "img (m_world s') \<in> publish_stages c l (img (m_world s))"
    "r = Inl (Raised (x, e)) \<Longrightarrow> x = Promote"
    "r = Inr a \<Longrightarrow> img (m_world s') = (img (m_world s))(l := img (m_world s) c, c := None)"
proof -
  have A: "run_state (publish (tw_os W) W rq nm) w = (q, w') \<Longrightarrow> img w' \<in> publish_stages c l (img w)" for w q w'
    unfolding l_def c_def by (rule publish_effect(1)[OF F])
  have B: "run_state (publish (tw_os W) W rq nm) w = (Inr a, w') \<Longrightarrow> img w' = (img w)(l := img w c, c := None)" for w a w'
    unfolding l_def c_def by (rule publish_effect(2)[OF F]) simp_all
  have R: "f \<in> publish_stages c l f" for f by (simp add: publish_stages_def)
  note st = phase_step[where A = "\<lambda>g g'. g' \<in> publish_stages c l g" and B = "\<lambda>g g'. g' = g(l := g c, c := None)", OF F run A R B]
  show "m_images s' = m_images s" by (rule st(1))
  show "img (m_world s') \<in> publish_stages c l (img (m_world s))" by (rule st(2))
  show "r = Inl (Raised (x, e)) \<Longrightarrow> x = Promote" by (rule st(4))
  show "r = Inr a \<Longrightarrow> img (m_world s') = (img (m_world s))(l := img (m_world s) c, c := None)" by (rule st(3))
qed

lemma record_step:
  assumes F: "faithful_host img E W" and run: "run_state (step_at at (record_image E W rq nm st)) s = (r, s')"
  defines "pn \<equiv> req_profile (alloc_request (rr_allocation rq))"
  obtains (kept) e where "row_of pn s' = row_of pn s" "r = Inl (Raised (at, e))" "img (m_world s') = img (m_world s)"
    | (saved) now where "row_of pn s' = Some (record_of rq nm st now)" "r = Inr ()" "img (m_world s') = img (m_world s)"
proof -
  obtain q where q: "run_state (record_image E W rq nm st) s = (q, s')"
    and r: "\<And>e. q = Inl (Raised e) \<Longrightarrow> r = Inl (Raised (at, e))" "q = Inr () \<Longrightarrow> r = Inr ()"
    using run by (cases rule: step_atE) auto
  show ?thesis
    by (rule record_image_run[OF F q]) (auto intro: that[unfolded pn_def] dest: r)
qed

lemma promote_tail_stops:
  assumes F: "faithful_host img E W"
    and run: "run_state
      (bind_res (step_at Retire (host_phase W m1 (retire (tw_os W) W rq nm))) (\<lambda>_.
       bind_res (step_at Promote (host_phase W m2 (publish (tw_os W) W rq nm))) (\<lambda>_.
         step_at Promote (record_image E W rq nm Promoted)))) s = (r, s')"
    and ne: "distinct [vm_str (nm_warm nm), vm_str (nm_staging nm), vm_str (nm_previous nm)]"
    and row: "row_of (req_profile (alloc_request (rr_allocation rq))) s = Some (record_of rq nm Staging now)"
    and f: "img (m_world s) (vm_str (nm_staging nm)) = f (vm_str (alloc_vm_name (rr_allocation rq)))"
      "img (m_world s) (vm_str (nm_warm nm)) = f (vm_str (nm_warm nm))"
      "img (m_world s) (vm_str (nm_previous nm)) = f (vm_str (nm_previous nm))"
  shows "promote_stops rq nm f row0 r (img (m_world s')) (row_of (req_profile (alloc_request (rr_allocation rq))) s')"
proof -
  note F1 = faithful_hostD(1)[OF F]
  let ?pn = "req_profile (alloc_request (rr_allocation rq))"
  let ?l = "vm_str (nm_warm nm)" and ?c = "vm_str (nm_staging nm)" and ?p = "vm_str (nm_previous nm)"
  let ?v = "vm_str (alloc_vm_name (rr_allocation rq))"
  have lp: "?l \<noteq> ?p" using ne by simp
  from run show ?thesis
  proof (cases rule: bind_resE)
    case (halted h)
    note ret = retire_step[OF F1 halted(1) lp]
    then show ?thesis using halted(2) row f lp by (auto simp: promote_stops_def Let_def retire_stages_def)
  next
    case (went_on u s1)
    note ret = retire_step(1,3)[OF F1 went_on(1) lp]
    have s1: "row_of ?pn s1 = row_of ?pn s" "img (m_world s1) ?l = None" "img (m_world s1) ?p = f ?l"
      "img (m_world s1) ?c = f ?v" using ret ne f by auto
    from went_on(2) show ?thesis
    proof (cases rule: bind_resE)
      case (halted h)
      note pub = publish_step[OF F1 halted(1)]
      have "img (m_world s') ?l \<in> {None, f ?v}" "img (m_world s') ?p = f ?l"
        using pub(2) s1 ne by (auto simp: publish_stages_def)
      then show ?thesis using halted(2) pub(1,3) row s1(1) by (auto simp: promote_stops_def Let_def)
    next
      case (went_on u s2)
      note pub = publish_step(1,4)[OF F1 went_on(1)]
      have s2: "row_of ?pn s2 = row_of ?pn s" "img (m_world s2) ?l = f ?v" "img (m_world s2) ?p = f ?l"
        using pub s1 ne by auto
      show ?thesis
        by (rule record_step[OF F went_on(2)]) (use s2 row in \<open>auto simp: promote_stops_def Let_def\<close>)
    qed
  qed
qed

lemma keeps_step:
  assumes F: "faithful_os img (tw_tart W) (tw_os W)" and K: "keeps img m"
    and run: "run_state (step_at at (host_phase W msg m)) s = (r, s')"
  shows "m_images s' = m_images s" "img (m_world s') = img (m_world s)" "r = Inl (Raised (x, e)) \<Longrightarrow> x = at"
proof -
  have A: "run_state m w = (q, w') \<Longrightarrow> img w = img w'" for w q w'
    using K by (simp add: keeps_def) (metis snd_conv)
  note st = phase_step[where A = "(=)" and B = "\<lambda>_ _. True", OF F run A refl TrueI]
  show "m_images s' = m_images s" by (rule st(1))
  show "img (m_world s') = img (m_world s)" by (rule st(2)[symmetric])
  show "r = Inl (Raised (x, e)) \<Longrightarrow> x = at" by (rule st(4))
qed

lemma stage_step:
  assumes F: "faithful_os img (tw_tart W) (tw_os W)"
    and run: "run_state (step_at at (host_phase W msg (clone_image (tw_os W) t a b p rc))) s = (r, s')"
    and t: "t = tw_tart W"
  shows "m_images s' = m_images s"
    "cloned (vm_str a) (vm_str b) (img (m_world s)) (img (m_world s')) \<or> img (m_world s') = img (m_world s)"
    "r = Inl (Raised (x, e)) \<Longrightarrow> x = at"
    "r = Inr u \<Longrightarrow> cloned (vm_str a) (vm_str b) (img (m_world s)) (img (m_world s'))"
proof -
  let ?m = "clone_image (tw_os W) t a b p rc"
  have A: "run_state ?m w = (q, w') \<Longrightarrow> cloned (vm_str a) (vm_str b) (img w) (img w') \<or> img w' = img w" for w q w'
    using clone_image_effect(1)[OF F] unfolding t .
  have B: "run_state ?m w = (Inr a', w') \<Longrightarrow> cloned (vm_str a) (vm_str b) (img w) (img w')" for w a' w'
    using clone_image_effect(2)[OF F] unfolding t by simp
  have R: "cloned (vm_str a) (vm_str b) f f \<or> f = f" for f by simp
  note st = phase_step[where A = "\<lambda>g g'. cloned (vm_str a) (vm_str b) g g' \<or> g' = g"
      and B = "cloned (vm_str a) (vm_str b)", OF F run A R B]
  show "m_images s' = m_images s" by (rule st(1))
  show "cloned (vm_str a) (vm_str b) (img (m_world s)) (img (m_world s')) \<or> img (m_world s') = img (m_world s)"
    by (rule st(2))
  show "r = Inl (Raised (x, e)) \<Longrightarrow> x = at" by (rule st(4))
  show "r = Inr u \<Longrightarrow> cloned (vm_str a) (vm_str b) (img (m_world s)) (img (m_world s'))" by (rule st(3))
qed

text \<open>A failure before the record says staging leaves the row and the live image as they were.\<close>

lemma promote_stops_early:
  assumes "r = Inl h" "row' = row" "f' (vm_str (nm_warm nm)) = f (vm_str (nm_warm nm))"
    and "\<And>x e. h = Raised (x, e) \<Longrightarrow> x = at" "at \<noteq> Retire" "at \<noteq> Promote"
  shows "promote_stops rq nm f row r f' row'"
  using assms by (auto simp: promote_stops_def Let_def)

lemma promote_staged_stops:
  assumes F: "faithful_host img E W"
    and run: "run_state
      (bind_res (step_at Stage (host_phase W m1
        (clone_image (tw_os W) (tw_tart W) (alloc_vm_name (rr_allocation rq)) (nm_staging nm) (rr_profile rq) None))) (\<lambda>_.
       bind_res (step_at Verify (host_phase W m2 (ensure_staged (tw_os W) W (nm_staging nm)))) (\<lambda>_.
       bind_res (step_at Verify (record_image E W rq nm Staging)) (\<lambda>_.
       bind_res (step_at Retire (host_phase W m3 (retire (tw_os W) W rq nm))) (\<lambda>_.
       bind_res (step_at Promote (host_phase W m4 (publish (tw_os W) W rq nm))) (\<lambda>_.
         step_at Promote (record_image E W rq nm Promoted))))))) s = (r, s')"
    and ne: "distinct [vm_str (nm_warm nm), vm_str (nm_staging nm), vm_str (nm_previous nm)]"
  shows "promote_stops rq nm (img (m_world s)) (row_of (req_profile (alloc_request (rr_allocation rq))) s) r
    (img (m_world s')) (row_of (req_profile (alloc_request (rr_allocation rq))) s')"
proof -
  note F1 = faithful_hostD(1)[OF F]
  note early = promote_stops_early
  let ?l = "vm_str (nm_warm nm)" and ?c = "vm_str (nm_staging nm)" and ?p = "vm_str (nm_previous nm)"
  let ?v = "vm_str (alloc_vm_name (rr_allocation rq))"
  from run show ?thesis
  proof (cases rule: bind_resE)
    case (halted h)
    note k = stage_step[OF F1 halted(1) refl]
    show ?thesis by (rule early[OF halted(2), where at = Stage]) (use k ne in \<open>auto simp: cloned_def\<close>)
  next
    case (went_on u1 s1)
    note k1 = stage_step(1,4)[OF F1 went_on(1) refl]
    have s1: "m_images s1 = m_images s" "img (m_world s1) ?c = img (m_world s) ?v"
      "img (m_world s1) ?l = img (m_world s) ?l" "img (m_world s1) ?p = img (m_world s) ?p"
      using k1 ne by (auto simp: cloned_def)
    from went_on(2) show ?thesis
    proof (cases rule: bind_resE)
      case (halted h)
      note k = keeps_step[OF F1 keeps_ensure_staged[OF F1] halted(1)]
      show ?thesis by (rule early[OF halted(2), where at = Verify]) (use k s1 in auto)
    next
      case (went_on u2 s2)
      note k2 = keeps_step(1,2)[OF F1 keeps_ensure_staged[OF F1] went_on(1)]
      from went_on(2) show ?thesis
      proof (cases rule: bind_resE)
        case (halted h)
        show ?thesis by (rule record_step[OF F halted(1)], rule early[OF halted(2), where at = Verify])
            (use k2 s1 in auto)
      next
        case (went_on u3 s3)
        show ?thesis
          by (rule record_step[OF F went_on(1)]) (use promote_tail_stops[OF F went_on(2) ne] k2 s1 in simp_all)
      qed
    qed
  qed
qed

lemma promote_run:
  assumes F: "faithful_host img E W"
    and run: "run_state (promote fuel E W rq nm vm ip deadline) s = (r, s')"
    and ne: "distinct [vm_str (nm_warm nm), vm_str (nm_staging nm), vm_str (nm_previous nm)]"
  shows "promote_stops rq nm (img (m_world s)) (row_of (req_profile (alloc_request (rr_allocation rq))) s) r
    (img (m_world s')) (row_of (req_profile (alloc_request (rr_allocation rq))) s')"
proof -
  note F1 = faithful_hostD(1)[OF F]
  from run[unfolded promote_def Let_def] show ?thesis
  proof (cases rule: bind_resE)
    case (halted h)
    note k = keeps_step[OF F1 keeps_marker[OF F] halted(1)]
    show ?thesis by (rule promote_stops_early[OF halted(2), where at = Verify]) (use k in auto)
  next
    case (went_on u1 s1)
    note k1 = keeps_step(1,2)[OF F1 keeps_marker[OF F] went_on(1)]
    from went_on(2) show ?thesis
    proof (cases rule: bind_resE)
      case (halted h)
      note k = keeps_step[OF F1 keeps_stop_guest[OF F1] halted(1)]
      show ?thesis by (rule promote_stops_early[OF halted(2), where at = Stop]) (use k k1 in auto)
    next
      case (went_on u2 s2)
      note k2 = keeps_step(1,2)[OF F1 keeps_stop_guest[OF F1] went_on(1)]
      show ?thesis using promote_staged_stops[OF F went_on(2) ne] k1 k2 by simp
    qed
  qed
qed

subsection \<open>Rolling back\<close>

definition reverted_row :: "profile_name \<Rightarrow> vm_name \<Rightarrow> warm_generation option \<Rightarrow> warm_image_record option" where
  "reverted_row pn warm previous = map_option (\<lambda>g. \<lparr>img_profile = pn, img_warm_template = warm,
     img_generation = gen_generation g, img_base_fingerprint = gen_base_fingerprint g,
     img_produced_by = gen_produced_by g, img_produced_at_unix = gen_produced_at_unix g,
     img_state = Promoted, img_previous = None\<rparr>) previous"

lemma persist_previous_run:
  assumes F: "faithful_host img E W" and run: "run_state (persist_previous E rq nm at err) s = (q, s')"
  defines "pn \<equiv> req_profile (alloc_request (rr_allocation rq))"
  shows "row_of pn s' \<in> {row_of pn s, reverted_row pn (nm_warm nm) (rr_previous rq)}"
    "img (m_world s') = img (m_world s)"
proof -
  have db: "img (snd (x_db_fails E w)) = img w" for w using F by (simp add: faithful_host_def)
  have "row_of pn s' \<in> {row_of pn s, reverted_row pn (nm_warm nm) (rr_previous rq)}
      \<and> img (m_world s') = img (m_world s)"
  proof (cases "rr_previous rq")
    case None
    obtain q' where "run_state (images_remove E pn) s = (q', s')"
      using run None by (auto simp: persist_previous_def ensure_warm_reverted_def map_err_def pn_def split: prod.splits)
    then show ?thesis by (cases rule: images_remove_run) (auto simp: None reverted_row_def db)
  next
    case (Some g)
    obtain q' where "run_state (images_save E (the (reverted_row pn (nm_warm nm) (rr_previous rq)))) s = (q', s')"
      using run Some
      by (auto simp: persist_previous_def ensure_warm_reverted_def map_err_def pn_def reverted_row_def split: prod.splits)
    then show ?thesis by (cases rule: images_save_run) (auto simp: Some reverted_row_def db)
  qed
  then show "row_of pn s' \<in> {row_of pn s, reverted_row pn (nm_warm nm) (rr_previous rq)}"
    "img (m_world s') = img (m_world s)" by auto
qed

lemma restore_effect:
  assumes F: "faithful_host img E W" and run: "run_state (ensure_previous_restored W rq nm) w = (r, w')"
  shows "img w' (vm_str (nm_warm nm)) \<in> {img w (vm_str (nm_warm nm)), img w (vm_str (nm_previous nm))}"
  using run[unfolded ensure_previous_restored_def]
proof (cases rule: bind_resE)
  case (halted h)
  then show ?thesis using is_absent_effect(1)[OF faithful_hostD(2)[OF F] halted(1)[unfolded is_absent_image_def]] by simp
next
  case (went_on absent w1)
  have w1: "img w1 = img w"
    by (rule is_absent_effect(1)[OF faithful_hostD(2)[OF F] went_on(1)[unfolded is_absent_image_def]])
  show ?thesis
  proof (cases absent)
    case True
    let ?m = "clone_image (tw_os W) (tw_tart W) (nm_previous nm) (nm_warm nm) (rr_profile rq) None"
    have "run_state ?m w1 = (fst (run_state ?m w1), w')"
      using went_on(2) True by (auto simp: with_timeout_def split: prod.splits)
    from clone_image_effect(1)[OF faithful_hostD(1)[OF F] this] show ?thesis using w1 by (auto simp: cloned_def)
  qed (use went_on(2) w1 in simp)
qed

text \<open>What a rollback leaves, from the images \<open>f\<close> and the row it found.\<close>

definition rolled_back ::
    "retention_request \<Rightarrow> image_names \<Rightarrow> retention_phase \<Rightarrow> (string \<Rightarrow> 'c option) \<Rightarrow> warm_image_record option
      \<Rightarrow> (string \<Rightarrow> 'c option) \<Rightarrow> warm_image_record option \<Rightarrow> bool" where
  "rolled_back rq nm at f row f' row' \<longleftrightarrow>
     (let l = vm_str (nm_warm nm); p = vm_str (nm_previous nm); pn = req_profile (alloc_request (rr_allocation rq));
          reverted = reverted_row pn (nm_warm nm) (rr_previous rq)
      in (at \<noteq> Retire \<and> at \<noteq> Promote \<longrightarrow> row' = row \<and> f' l = f l)
       \<and> (at = Retire \<longrightarrow> row' \<in> {row, reverted} \<and> (f' l = f l \<or> f l = None \<and> f' l = f p))
       \<and> (at = Promote \<longrightarrow> row' = row \<or> (\<exists>now. row' = Some (record_of rq nm Promoted now)) \<and> f' l = f l
            \<or> row' = reverted \<and> f l = None \<and> f' l \<in> {None, f p}))"

lemma finalize_run:
  assumes F: "faithful_host img E W" and run: "run_state (finalize_live_candidate E W rq nm at err) s = (q, s')"
  defines "pn \<equiv> req_profile (alloc_request (rr_allocation rq))"
  shows "row_of pn s' = row_of pn s \<or> (\<exists>now. row_of pn s' = Some (record_of rq nm Promoted now))"
    "img (m_world s') = img (m_world s)"
proof -
  obtain q' where q': "run_state (record_image E W rq nm Promoted) s = (q', s')"
    using run by (auto simp: finalize_live_candidate_def split: prod.splits)
  show "row_of pn s' = row_of pn s \<or> (\<exists>now. row_of pn s' = Some (record_of rq nm Promoted now))"
    unfolding pn_def by (rule record_image_run[OF F q']) auto
  show "img (m_world s') = img (m_world s)" by (rule record_image_run[OF F q'])
qed

lemma restore_previous_run:
  assumes F: "faithful_host img E W"
    and run: "run_state (do {
         restored \<leftarrow> on_host (ensure_previous_restored W rq nm);
         case restored of Inr _ \<Rightarrow> persist_previous E rq nm at err | Inl h \<Rightarrow> return (failed h) }) s = (q, s')"
  defines "pn \<equiv> req_profile (alloc_request (rr_allocation rq))"
  shows "row_of pn s' \<in> {row_of pn s, reverted_row pn (nm_warm nm) (rr_previous rq)}"
    "img (m_world s') (vm_str (nm_warm nm))
      \<in> {img (m_world s) (vm_str (nm_warm nm)), img (m_world s) (vm_str (nm_previous nm))}"
proof -
  obtain r w where r: "run_state (ensure_previous_restored W rq nm) (m_world s) = (r, w)" by fastforce
  let ?s = "s\<lparr>m_world := w\<rparr>"
  have "row_of pn s' \<in> {row_of pn s, reverted_row pn (nm_warm nm) (rr_previous rq)}
      \<and> img (m_world s') = img w"
  proof (cases r)
    case (Inl h)
    then show ?thesis using run r by (auto simp: on_host_def)
  next
    case (Inr u)
    then have "run_state (persist_previous E rq nm at err) ?s = (q, s')" using run r by (simp add: on_host_def)
    from persist_previous_run[OF F this] show ?thesis by (simp add: pn_def)
  qed
  then show "row_of pn s' \<in> {row_of pn s, reverted_row pn (nm_warm nm) (rr_previous rq)}"
    "img (m_world s') (vm_str (nm_warm nm))
      \<in> {img (m_world s) (vm_str (nm_warm nm)), img (m_world s) (vm_str (nm_previous nm))}"
    using restore_effect[OF F r] by auto
qed

lemma rollback_run:
  assumes F: "faithful_host img E W" and run: "run_state (rollback E W rq nm at err) s = (q, s')"
    and ne: "distinct [vm_str (nm_warm nm), vm_str (nm_staging nm), vm_str (nm_previous nm)]"
  defines "pn \<equiv> req_profile (alloc_request (rr_allocation rq))"
  shows "rolled_back rq nm at (img (m_world s)) (row_of pn s) (img (m_world s')) (row_of pn s')"
proof -
  let ?l = "vm_str (nm_warm nm)" and ?p = "vm_str (nm_previous nm)"
  let ?d = "delete_image (tw_os W) (tw_tart W) (nm_staging nm) (Some (rr_profile rq)) None"
  let ?a = "is_absent_image (steady_os W) (tw_tart W) (nm_warm nm)"
  obtain d w1 where d: "run_state ?d (m_world s) = (d, w1)" by (cases "run_state ?d (m_world s)")
  obtain a w2 where a: "run_state ?a w1 = (a, w2)" by (cases "run_state ?a w1")
  note ab = is_absent_effect[OF faithful_hostD(2)[OF F] a[unfolded is_absent_image_def]]
  have w2: "img w2 ?l = img (m_world s) ?l" "img w2 ?p = img (m_world s) ?p"
    using delete_image_effect(1)[OF faithful_hostD(1)[OF F] d] ab(1) ne by auto
  let ?live = "case a of Inr absent \<Rightarrow> \<not> absent | Inl _ \<Rightarrow> True"
  let ?s2 = "s\<lparr>m_world := w2\<rparr>"
  have absent: "\<not> ?live \<Longrightarrow> img (m_world s) ?l = None" using ab w2 by (auto split: sum.splits)
  have on: "run_state (on_host m) t = (fst (run_state m (m_world t)), t\<lparr>m_world := snd (run_state m (m_world t))\<rparr>)"
    for m :: "('a, 'x) state" and t by (simp add: on_host_def outside_def split: prod.splits)
  have run2: "run_state (case failed_authority_of at ?live of
       AuthUnchanged \<Rightarrow> return (ret_outcome_of ResFailed at (worker_error_text err) (rr_generation rq))
     | AuthCandidateLive \<Rightarrow> finalize_live_candidate E W rq nm at err
     | AuthPreviousLive \<Rightarrow> persist_previous E rq nm at err
     | AuthLiveAbsent \<Rightarrow> do {
         restored \<leftarrow> on_host (ensure_previous_restored W rq nm);
         case restored of
           Inr _ \<Rightarrow> persist_previous E rq nm at err
         | Inl h \<Rightarrow> return (ret_outcome_of ResFailed at (worker_error_text err @ ''; restore failed: ''
             @ (case h of Raised e \<Rightarrow> worker_error_text e | _ \<Rightarrow> [])) (rr_generation rq)) }) ?s2 = (q, s')"
    using run by (simp add: rollback_def drop_candidate_def Let_def on_host_def d a)
  show ?thesis
  proof (cases "failed_authority_of at ?live")
    case AuthUnchanged
    then show ?thesis using run2 w2
      by (auto simp: rolled_back_def Let_def failed_authority_of_def split: retention_phase.splits bool.splits)
  next
    case AuthPreviousLive
    then have "run_state (persist_previous E rq nm at err) ?s2 = (q, s')" "at = Retire"
      using run2 by (auto simp: failed_authority_of_def split: retention_phase.splits bool.splits)
    with persist_previous_run[OF F this(1)] w2 show ?thesis by (auto simp: rolled_back_def Let_def pn_def)
  next
    case AuthCandidateLive
    then have "run_state (finalize_live_candidate E W rq nm at err) ?s2 = (q, s')" "at = Promote"
      using run2 by (auto simp: failed_authority_of_def split: retention_phase.splits bool.splits)
    with finalize_run[OF F this(1)] w2 show ?thesis by (auto simp: rolled_back_def Let_def pn_def)
  next
    case AuthLiveAbsent
    then have gone: "img (m_world s) ?l = None" "at = Retire \<or> at = Promote"
      using absent by (auto simp: failed_authority_of_def split: retention_phase.splits bool.splits)
    note restore_previous_run[OF F run2[unfolded AuthLiveAbsent failed_authority.case]]
    with gone w2 show ?thesis by (auto simp: rolled_back_def Let_def pn_def)
  qed
qed

subsection \<open>The whole retention\<close>

definition generation_of :: "warm_image_record \<Rightarrow> warm_generation" where
  "generation_of r = \<lparr>gen_generation = img_generation r, gen_base_fingerprint = img_base_fingerprint r,
     gen_produced_by = img_produced_by r, gen_produced_at_unix = img_produced_at_unix r\<rparr>"

text \<open>
  The content \<open>gen\<close> of an image is the generation it was made for. A row and a live image agree
  when a promoted row names the generation the live image holds; they are settled when the row
  is promoted and its image there, or neither exists.
\<close>

definition authority_agrees :: "('c \<Rightarrow> u64) \<Rightarrow> warm_image_record option \<Rightarrow> 'c option \<Rightarrow> bool" where
  "authority_agrees gen row live \<longleftrightarrow>
     (\<forall>r c. row = Some r \<and> img_state r = Promoted \<and> live = Some c \<longrightarrow> gen c = img_generation r)"

definition authority_settled ::
    "('c \<Rightarrow> u64) \<Rightarrow> warm_image_record option \<Rightarrow> 'c option \<Rightarrow> 'c option \<Rightarrow> bool" where
  "authority_settled gen row live previous =
     (case row of
        None \<Rightarrow> live = None \<and> previous = None
      | Some r \<Rightarrow> img_state r = Promoted \<and> is_some_and (\<lambda>c. gen c = img_generation r) live)"

lemma derive_names_run:
  assumes "derive_names warm = Inr nm"
  shows "nm_warm nm = warm" "distinct [vm_str (nm_warm nm), vm_str (nm_staging nm), vm_str (nm_previous nm)]"
    "vm_str (nm_previous nm) = vm_str warm @ PREVIOUS_SUFFIX"
  using assms
  by (auto simp: derive_names_def and_then_def STAGING_SUFFIX_def PREVIOUS_SUFFIX_def
      dest!: with_suffix_Inr split: sum.splits)

lemma settled_agrees: "authority_settled gen row live p \<Longrightarrow> authority_agrees gen row live"
  by (cases row; cases live) (auto simp: authority_settled_def authority_agrees_def)

lemma reverted_agrees:
  assumes "authority_settled gen row live p" "rr_previous rq = map_option generation_of row" "live' \<in> {live, None}"
  shows "authority_agrees gen (reverted_row pn warm (rr_previous rq)) live'"
  using assms by (cases row; cases live)
    (auto simp: authority_settled_def authority_agrees_def reverted_row_def generation_of_def)

lemma recorded_agrees:
  assumes "\<And>c. live = Some c \<Longrightarrow> gen c = rr_generation rq"
  shows "authority_agrees gen (Some (record_of rq nm st now)) live"
  using assms by (auto simp: authority_agrees_def record_of_def)

lemma staged_agrees: "authority_agrees gen (Some (record_of rq nm Staging now)) live"
  by (simp add: authority_agrees_def record_of_def)

lemma rolled_back_agrees:
  assumes stops: "promote_stops rq nm f row (Inl (Raised (at, err))) f1 row1"
    and undone: "rolled_back rq nm at f1 row1 f2 row2"
    and settled: "authority_settled gen row (f (vm_str (nm_warm nm))) (f (vm_str (nm_previous nm)))"
    and previous: "rr_previous rq = map_option generation_of row"
    and candidate: "\<And>c. f (vm_str (alloc_vm_name (rr_allocation rq))) = Some c \<Longrightarrow> gen c = rr_generation rq"
  shows "authority_agrees gen row2 (f2 (vm_str (nm_warm nm)))"
proof -
  let ?l = "vm_str (nm_warm nm)" and ?p = "vm_str (nm_previous nm)"
  let ?v = "vm_str (alloc_vm_name (rr_allocation rq))"
  let ?pn = "req_profile (alloc_request (rr_allocation rq))"
  have none: "f ?l = None \<Longrightarrow> f ?p = None"
    using settled by (auto simp: authority_settled_def split: option.splits)
  note reverted = reverted_agrees[OF settled previous, of _ ?pn "nm_warm nm"]
  consider (early) "at \<noteq> Retire" "at \<noteq> Promote" "row1 = row" "f1 ?l = f ?l"
    | (retire) now where "at = Retire" "row1 = Some (record_of rq nm Staging now)"
        "f1 ?l \<in> {f ?l, None}" "f1 ?p = f ?l \<or> f1 ?l = f ?l \<and> f1 ?p \<in> {f ?p, None}"
    | (promote) now where "at = Promote" "row1 = Some (record_of rq nm Staging now)"
        "f1 ?l \<in> {None, f ?v}" "f1 ?p = f ?l"
    using stops by (auto simp: promote_stops_def Let_def)
  then show ?thesis
  proof cases
    case early
    then show ?thesis using undone settled_agrees[OF settled] by (auto simp: rolled_back_def Let_def)
  next
    case retire
    then have "f2 ?l \<in> {f ?l, None}" "row2 \<in> {row1, reverted_row ?pn (nm_warm nm) (rr_previous rq)}"
      using undone none by (auto simp: rolled_back_def Let_def)
    then show ?thesis using reverted staged_agrees retire(2) by auto
  next
    case promote
    from undone promote(1) consider "row2 = row1"
      | now where "row2 = Some (record_of rq nm Promoted now)" "f2 ?l = f1 ?l"
      | "row2 = reverted_row ?pn (nm_warm nm) (rr_previous rq)" "f2 ?l \<in> {None, f1 ?p}"
      by (auto simp: rolled_back_def Let_def)
    then show ?thesis
    proof cases
      case 1
      then show ?thesis using staged_agrees promote(2) by simp
    next
      case 2
      then show ?thesis using recorded_agrees[of "f2 ?l" gen rq nm] candidate promote(3) by auto
    next
      case 3
      then show ?thesis using reverted promote(4) by auto
    qed
  qed
qed

lemma retain_warm_agrees:
  assumes F: "faithful_host img E W" and run: "run_state (retain_warm fuel E W rq vm ip) s = (q, s')"
  defines "pn \<equiv> req_profile (alloc_request (rr_allocation rq))" and "l \<equiv> vm_str (rr_warm_template rq)"
  assumes settled: "authority_settled gen (row_of pn s) (img (m_world s) l) (img (m_world s) (l @ PREVIOUS_SUFFIX))"
    and previous: "rr_previous rq = map_option generation_of (row_of pn s)"
    and candidate: "\<And>c. img (m_world s) (vm_str (alloc_vm_name (rr_allocation rq))) = Some c \<Longrightarrow> gen c = rr_generation rq"
  shows "authority_agrees gen (row_of pn s') (img (m_world s') l)"
proof (cases "derive_names (rr_warm_template rq)")
  case (Inl e)
  then show ?thesis using run settled_agrees[OF settled] by (simp add: retain_warm_def)
next
  case (Inr nm)
  note nm = derive_names_run[OF Inr]
  let ?n = "k_now (o_clock (tw_os W)) (m_world s)"
  let ?s1 = "s\<lparr>m_world := snd ?n\<rparr>"
  let ?lock = "host_phase W ''retention image lock exceeded its budget'' (await_lock (tw_os W))"
  obtain r s2 where lock: "run_state ?lock ?s1 = (r, s2)" by fastforce
  have s1: "img (m_world ?s1) = img (m_world s)" using F by (simp add: faithful_host_def faithful_os_def)
  have "keeps img (await_lock (tw_os W))"
    using F by (simp add: keeps_def await_lock_def run_awaited faithful_host_def faithful_os_def)
  then have s2: "img (m_world s2) = img (m_world s)" "m_images s2 = m_images s"
    using host_phase_keeps[OF faithful_hostD(1)[OF F] _ lock] s1 by auto
  show ?thesis
  proof (cases r)
    case (Inl h)
    then have "s' = s2" using run Inr lock by (simp add: retain_warm_def)
    then show ?thesis using settled_agrees[OF settled] s2 by simp
  next
    case u: (Inr u)
    let ?pr = "promote fuel E W rq nm vm ip (fst ?n + millis (prof_cleanup_timeout (rr_profile rq)))"
    obtain r3 s3 where pr: "run_state ?pr s2 = (r3, s3)" by fastforce
    note stops = promote_run[OF F pr nm(2), unfolded s2, folded pn_def]
    have set': "authority_settled gen (row_of pn s) (img (m_world s) (vm_str (nm_warm nm))) (img (m_world s) (vm_str (nm_previous nm)))"
      using settled nm by (simp add: l_def)
    show ?thesis
    proof (cases "\<exists>at err. r3 = Inl (Raised (at, err))")
      case True
      then obtain at err where r3: "r3 = Inl (Raised (at, err))" by blast
      then have undone: "run_state (rollback E W rq nm at err) s3 = (q, s')"
        using run Inr lock u pr by (simp add: retain_warm_def)
      show ?thesis
        using rolled_back_agrees[OF stops[unfolded r3] rollback_run[OF F undone nm(2), folded pn_def] set' previous candidate] nm(1)
        by (simp add: l_def)
    next
      case False
      then have "s' = s3" using run Inr lock u pr
        by (auto simp: retain_warm_def split: sum.splits halt.splits)
      moreover have "authority_agrees gen (Some (record_of rq nm st now))
          (img (m_world s) (vm_str (alloc_vm_name (rr_allocation rq))))" for st now
        by (rule recorded_agrees) (rule candidate)
      ultimately show ?thesis using stops False settled_agrees[OF settled] nm(1)
        by (auto simp: promote_stops_def Let_def l_def intro: staged_agrees)
    qed
  qed
qed

end
