(* ===== verification/Tart_Scope.thy ===== *)
theory Tart_Scope
  imports Tart_Authority
begin

text \<open>
  What the destructive operations of the Tart backend can reach. Machines and images outside the
  service's prefix survive a cleanup and an eviction; a deletion by the reaper reaches a name
  outside the prefix only when the request's profile or record declares it.
\<close>

subsection \<open>The host of the backend\<close>

text \<open>The images are part of the outside that the pool, a kill and a request to Forgejo do not touch.\<close>

definition detached :: "('a hw \<Rightarrow> string \<Rightarrow> 'c option) \<Rightarrow> 'a hw env \<Rightarrow> 'a hw tart_worker \<Rightarrow> bool" where
  "detached img E W \<longleftrightarrow> faithful_host img E W \<and> (\<forall>w g. img (w\<lparr>hw_guests := g\<rparr>) = img w)
     \<and> (\<forall>p w. img (snd (o_kill (tw_os W) p w)) = img w)
     \<and> (\<forall>rq w. img (snd (h_send (jb_http (tw_job W)) rq w)) = img w)
     \<and> (\<forall>w. img (snd (h_cut (jb_http (tw_job W)) w)) = img w)"

definition claimed_images :: "reap_request \<Rightarrow> vm_name list" where
  "claimed_images rq =
     (case reap_profile rq of None \<Rightarrow> [] | Some p \<Rightarrow>
        (case prof_warm_template p of None \<Rightarrow> [] | Some warm \<Rightarrow> image_derived_names warm))
     @ (case reap_record rq of None \<Rightarrow> [] | Some r \<Rightarrow> image_derived_names (img_warm_template r))"

subsection \<open>Steps that leave an image alone\<close>

lemma keeps_at: "keeps img m \<Longrightarrow> keeps (\<lambda>w. img w n) m"
  by (simp add: keeps_def)

lemma keeps_try_each [frame_intros]: "(\<And>x. keeps f (body x)) \<Longrightarrow> keeps f (try_each body xs)"
  by (induction xs) (simp_all add: keeps_return keeps_bind_res)

lemma keeps_with_timeout [frame_intros]: "keeps f m \<Longrightarrow> keeps f (with_timeout e m)"
  unfolding with_timeout_def by (intro frame_intros)

lemma keeps_send:
  assumes "\<And>rq w. f (snd (h_send H rq w)) = f w" "\<And>w. f (snd (h_cut H w)) = f w"
  shows "keeps f (send H rq)"
  unfolding send_def by (intro frame_intros) (simp_all add: assms)

lemma keeps_delete_runner:
  assumes "\<And>rq w. f (snd (h_send H rq w)) = f w" "\<And>w. f (snd (h_cut H w)) = f w"
  shows "keeps f (delete_runner H F repository runner)"
  unfolding delete_runner_def by (intro frame_intros keeps_send assms)

lemma keeps_list_runners:
  assumes "\<And>rq w. f (snd (h_send H rq w)) = f w" "\<And>w. f (snd (h_cut H w)) = f w"
  shows "keeps f (list_runners H F repository name left page ids)"
proof (induction left arbitrary: page ids)
  case (Suc left)
  show ?case unfolding list_runners.simps runner_page_def by (intro frame_intros keeps_send assms Suc)
qed (simp add: keeps_return)

lemma keeps_job_delete_runner:
  assumes "\<And>rq w. f (snd (h_send (jb_http J) rq w)) = f w" "\<And>w. f (snd (h_cut (jb_http J) w)) = f w"
  shows "keeps f (job_delete_runner E J a)"
  unfolding job_delete_runner_def delete_runners_named_def
  by (intro frame_intros keeps_delete_runner keeps_list_runners assms)

lemma keeps_remove_named:
  assumes F: "faithful_os img t S" and "n \<noteq> vm_str name"
  shows "keeps (\<lambda>w. img w n) (remove_named S t name st)"
  using remove_named_effect(1)[OF F] assms(2) by (simp add: keeps_def) (metis fun_upd_other prod.collapse)

lemma keeps_remove_listed:
  assumes F: "faithful_os img t S" and "n \<noteq> vm_str name"
  shows "keeps (\<lambda>w. img w n) (remove_listed S t name)"
  using remove_listed_effect(1)[OF F] assms(2) by (simp add: keeps_def) (metis fun_upd_other prod.collapse)

lemma keeps_guarded:
  assumes "\<And>u. r = Inr u \<Longrightarrow> keeps f m"
  shows "keeps f (bind_res (from_res r) (\<lambda>_. m))"
  using assms by (cases r) (simp_all add: keeps_def from_res_def bind_res_def)

lemma keeps_pool_release:
  assumes "\<And>w g. f (w\<lparr>hw_guests := g\<rparr>) = f w" "\<And>p w. f (snd (o_kill S p w)) = f w"
  shows "keeps f (pool_release S name)"
  unfolding pool_release_def by (intro frame_intros keeps_modify) (simp_all add: assms)

lemma keeps_pool_release_unclaimed:
  assumes "\<And>w g. f (w\<lparr>hw_guests := g\<rparr>) = f w" "\<And>p w. f (snd (o_kill S p w)) = f w"
  shows "keeps f (pool_release_unclaimed S name)"
  unfolding pool_release_unclaimed_def by (intro frame_intros keeps_pool_release assms)

lemma keeps_settled: "keeps f m \<Longrightarrow> f (snd (settled m w)) = f w"
proof -
  assume K: "keeps f m"
  obtain r w' where r: "run_state m w = (r, w')" by fastforce
  have "snd (settled m w) = w'" by (simp add: settled_def r split: sum.splits halt.splits)
  then show ?thesis using K r by (metis keeps_def snd_conv)
qed

subsection \<open>The operations\<close>

lemma keeps_evict:
  assumes D: "detached img E W" and n: "\<not> tart_owned_name (tw_tart W) n"
  shows "keeps (\<lambda>w. img w n) (evict_hot W g)"
proof -
  have F: "faithful_os img (tw_tart W) (tw_os W)" using D faithful_hostD by (auto simp: detached_def)
  show ?thesis unfolding evict_hot_def
  proof (rule keeps_guarded)
    fix u assume "ensure_owned_name (tw_tart W) (hot_vm g) = Inr u"
    then have "n \<noteq> vm_str (hot_vm g)" using n by (auto simp: ensure_owned_name_def is_owned_def split: if_splits)
    then show "keeps (\<lambda>w. img w n) (do {
       _ \<leftarrow> pool_release (tw_os W) (hot_vm g);
       with_timeout (worker_error_new ''hot guest eviction exceeded its timeout'')
         (remove_named (tw_os W) (tw_tart W) (hot_vm g) ''running'') })"
      by (intro frame_intros keeps_pool_release keeps_remove_named F) (use D in \<open>simp_all add: detached_def\<close>)
  qed
qed

lemma keeps_remove_owned:
  assumes F: "faithful_os img (tw_tart W) (tw_os W)" and n: "\<not> tart_owned_name (tw_tart W) n"
  shows "keeps (\<lambda>w. img w n) (tart_remove_owned (tw_os W) (tw_tart W) a)"
  unfolding tart_remove_owned_def
proof (rule keeps_guarded)
  fix u assume "tart_ensure_owned (tw_tart W) a = Inr u"
  then have "n \<noteq> vm_str (alloc_vm_name a)" using n by (auto simp: tart_ensure_owned_def is_owned_def split: if_splits)
  then show "keeps (\<lambda>w. img w n) (bind_res (tart_list (tw_os W) (tw_tart W)) (\<lambda>ms.
       case find (\<lambda>m. tm_name m = vm_str (alloc_vm_name a)) ms of
         Some m \<Rightarrow> remove_machine (tw_os W) (tw_tart W) a (tm_state m)
       | None \<Rightarrow> return (Inr ())))"
    unfolding remove_machine_def
    by (intro frame_intros keeps_at[OF keeps_tart_list[OF F]] keeps_remove_named F)
qed

lemma keeps_cleanup:
  assumes D: "detached img E W" and n: "\<not> tart_owned_name (tw_tart W) n"
  shows "keeps (\<lambda>w. img w n) (tart_cleanup E' W a)"
proof -
  have F: "faithful_os img (tw_tart W) (tw_os W)" using D faithful_hostD by (auto simp: detached_def)
  show ?thesis unfolding tart_cleanup_def pool_is_claimed_def
    by (intro frame_intros keeps_pool_release_unclaimed keeps_remove_owned keeps_job_delete_runner F n)
      (use D in \<open>simp_all add: detached_def\<close>)
qed

lemma writable_declared:
  "ensure_image_writable t (reap_name rq) (reap_profile rq) (reap_record rq) = Inr u \<Longrightarrow>
     reap_name rq \<in> set (claimed_images rq) \<and> (\<forall>p. reap_profile rq = Some p \<longrightarrow> reap_name rq \<noteq> prof_template p)"
  by (auto simp: ensure_image_writable_def claimed_images_def split: if_splits option.splits)

lemma keeps_delete_vm:
  assumes D: "detached img E W"
    and n: "n \<in> set (reap_reserved rq) \<or> \<not> tart_owned_name (tw_tart W) n \<and> n \<notin> vm_str ` set (claimed_images rq)
      \<or> \<not> tart_owned_name (tw_tart W) n \<and> (\<exists>p. reap_profile rq = Some p \<and> n = vm_str (prof_template p))"
  shows "keeps (\<lambda>w. img w n) (tart_delete_vm E' W rq)"
proof -
  have F: "faithful_os img (tw_tart W) (tw_os W)" using D faithful_hostD by (auto simp: detached_def)
  have res: "n \<noteq> vm_str (reap_name rq) \<or> vm_str (reap_name rq) \<in> set (reap_reserved rq) \<or> \<not> is_owned (tw_tart W) (reap_name rq)"
    using n by (auto simp: is_owned_def)
  have img: "n \<noteq> vm_str (reap_name rq) \<or> vm_str (reap_name rq) \<in> set (reap_reserved rq)"
    if "ensure_image_writable (tw_tart W) (reap_name rq) (reap_profile rq) (reap_record rq) = Inr u" for u
    using writable_declared[OF that] n by (auto simp: vm_name.expand)
  have owned: "keeps (\<lambda>w. img w n) (delete_owned (tw_os W) (tw_tart W) (reap_name rq))"
    if "vm_str (reap_name rq) \<notin> set (reap_reserved rq)"
    unfolding delete_owned_def
    by (intro frame_intros keeps_remove_listed F) (use res that in auto)
  have image: "keeps (\<lambda>w. img w n) (delete_image (tw_os W) (tw_tart W) (reap_name rq) (reap_profile rq) (reap_record rq))"
    if "vm_str (reap_name rq) \<notin> set (reap_reserved rq)"
    unfolding delete_image_def
    by (intro keeps_guarded keeps_remove_listed F) (use img that in auto)
  have http: "\<And>rq w. img (snd (h_send (jb_http (steady (tw_job W))) rq w)) n = img w n"
    "\<And>w. img (snd (h_cut (jb_http (steady (tw_job W))) w)) n = img w n"
    using D by (simp_all add: detached_def steady_def no_cuts_def)
  show ?thesis unfolding tart_delete_vm_def Let_def
    by (cases "reap_authorization_of rq"; intro keeps_if)
      (auto intro!: frame_intros owned image keeps_job_delete_runner http)
qed

end
