(* ===== verification/Timely.thy ===== *)
theory Timely
  imports Supervision
begin

text \<open>
  Progress of the waiting loops. The fuel of a loop bounds the turns of the model and nothing in
  the source; here a bound is derived from a clock that does not run backwards and that a pause
  moves_on, and from a cancellation that stays. With at least that fuel no loop runs out of it.
\<close>

subsection \<open>Polling\<close>

text \<open>A reading \<open>tm\<close> of the time and a flag \<open>cn\<close> that stays set, through one call of the outside.\<close>

definition moves_on :: "('s \<Rightarrow> nat) \<Rightarrow> ('s \<Rightarrow> bool) \<Rightarrow> ('s \<Rightarrow> 'a \<times> 's) \<Rightarrow> bool" where
  "moves_on tm cn f \<longleftrightarrow> (\<forall>s. tm s \<le> tm (snd (f s)) \<and> (cn s \<longrightarrow> cn (snd (f s))))"

definition ticking :: "('s \<Rightarrow> nat) \<Rightarrow> ('s \<Rightarrow> bool) \<Rightarrow> 's clock \<Rightarrow> bool" where
  "ticking tm cn K \<longleftrightarrow> moves_on tm cn (k_now K) \<and> (\<forall>s. tm s \<le> fst (k_now K s) \<and> fst (k_now K s) \<le> tm (snd (k_now K s)))
     \<and> (\<forall>n s. tm s + n \<le> tm (k_sleep K n s) \<and> (cn s \<longrightarrow> cn (k_sleep K n s)))"

text \<open>A loop whose step never runs out of fuel itself ends within the milliseconds left.\<close>

lemma poll_loop_finishes:
  assumes K: "ticking tm cn K" and intr: "moves_on tm cn intr" and m: "moves_on tm cn (run_state m)"
    and step: "\<And>s. fst (run_state m s) \<noteq> Inl Unfinished"
    and due: "\<And>now. deadline \<le> now \<Longrightarrow> expired now" and pause: "0 < pause"
  shows "deadline - tm s < fuel \<Longrightarrow> fst (run_state (poll_loop fuel intr K pause expired err m) s) \<noteq> Inl Unfinished"
proof (induction fuel arbitrary: s)
  case (Suc fuel)
  obtain r s1 where r: "run_state m s = (r, s1)" by fastforce
  let ?n = "k_now K s1"
  let ?s2 = "k_sleep K pause (snd ?n)"
  have s1: "tm s \<le> tm s1" using m r by (metis moves_on_def snd_conv)
  have n: "tm s1 \<le> tm (snd ?n)" "tm s1 \<le> fst ?n" using K by (auto simp: ticking_def moves_on_def)
  have s2: "tm (snd ?n) + pause \<le> tm ?s2" using K by (simp add: ticking_def)
  let ?s3 = "snd (intr ?s2)"
  have s3: "tm ?s2 \<le> tm ?s3" using intr by (simp add: moves_on_def)
  have left: "\<not> expired (fst ?n) \<Longrightarrow> deadline - tm ?s3 < fuel"
    using due[of "fst ?n"] Suc.prems s1 n s2 s3 pause by linarith
  show ?case
  proof (cases "\<exists>h. r = Inl h \<or> r \<noteq> Inr None")
    case True
    then show ?thesis using r step[of s] by (cases r) (auto simp: bind_res_def split: option.splits)
  next
    case False
    then have "r = Inr None" by auto
    then show ?thesis using r Suc.IH[of ?s3] left
      by (auto simp: bind_res_def raise_err_def run_awaited split: prod.splits option.splits)
  qed
qed simp

subsection \<open>Supervision\<close>

text \<open>
  What supervision relies on of the outside: nothing runs backwards or is un-cancelled, a call is
  cut short only by a cancellation, the token then reads as cancelled, and the channel's probe
  of the runner answers.
\<close>

definition timely :: "('w \<Rightarrow> nat) \<Rightarrow> ('w \<Rightarrow> bool) \<Rightarrow> 'w env \<Rightarrow> 'w guest_job \<Rightarrow> bool" where
  "timely tm cn E J \<longleftrightarrow>
     ticking tm cn (jb_clock J) \<and> 0 < jb_poll J
     \<and> moves_on tm cn (jb_cuts J) \<and> (\<forall>w. fst (jb_cuts J w) \<noteq> None \<longrightarrow> cn (snd (jb_cuts J w)))
     \<and> moves_on tm cn (h_cut (jb_http J)) \<and> (\<forall>w. fst (h_cut (jb_http J) w) \<noteq> None \<longrightarrow> cn (snd (h_cut (jb_http J) w)))
     \<and> (\<forall>rq. moves_on tm cn (h_send (jb_http J) rq))
     \<and> moves_on tm cn (jb_is_cancelled J) \<and> (\<forall>w. cn w \<longrightarrow> fst (jb_is_cancelled J w))
     \<and> (\<forall>p. moves_on tm cn (run_state (c_try_exit (jb_channel J) p))
          \<and> (\<forall>w. fst (run_state (c_try_exit (jb_channel J) p) w) \<noteq> Inl Unfinished))
     \<and> (\<forall>p. moves_on tm cn (c_probe_now (jb_channel J) p))
     \<and> moves_on tm cn (x_unix_time E) \<and> moves_on tm cn (x_db_fails E)"

definition onward :: "('w \<Rightarrow> nat) \<Rightarrow> ('w \<Rightarrow> bool) \<Rightarrow> 'w mgr \<Rightarrow> 'w mgr \<Rightarrow> bool" where
  "onward tm cn s s' \<longleftrightarrow> tm (m_world s) \<le> tm (m_world s') \<and> (cn (m_world s) \<longrightarrow> cn (m_world s'))"

interpretation onw: state_preorder "onward tm cn" for tm cn
  by unfold_locales (auto simp: onward_def)

lemma onward_outside: "moves_on tm cn f \<Longrightarrow> rel_op (onward tm cn) (outside f)"
  by (simp add: rel_op_def onward_def moves_on_def)

lemma onward_db:
  "moves_on tm cn (x_db_fails E) \<Longrightarrow> rel_op (onward tm cn) m \<Longrightarrow> rel_op (onward tm cn) (db E m)"
  unfolding db_def by (intro onw.rel_intros onward_outside)

lemma onward_transition:
  assumes T: "timely tm cn E J"
  shows "rel_op (onward tm cn) (transition_op E ident st)"
proof -
  have x: "moves_on tm cn (x_unix_time E)" "moves_on tm cn (x_db_fails E)" using T by (auto simp: timely_def)
  show ?thesis
    unfolding transition_op_def update_allocation_def get_allocation_def emit_def store_save_def map_err_def
    by (intro onw.rel_intros onw.rel_modify onward_outside onward_db x) (simp_all add: onward_def set_entry_def)
qed

lemma fetch_timely:
  assumes T: "timely tm cn E J" and run: "run_state (fetch_runner_status (jb_http J) F repository runner) w = (r, w')"
  shows "tm w \<le> tm w'" "cn w \<Longrightarrow> cn w'" "r \<noteq> Inl Unfinished" "r = Inl (Interrupted i) \<Longrightarrow> cn w'"
proof -
  let ?H = "jb_http J"
  have step: "tm w \<le> tm (snd (h_cut ?H (snd (h_send ?H rq w))))"
    "cn w \<longrightarrow> cn (snd (h_cut ?H (snd (h_send ?H rq w))))"
    "fst (h_cut ?H (snd (h_send ?H rq w))) \<noteq> None \<Longrightarrow> cn (snd (h_cut ?H (snd (h_send ?H rq w))))" for rq
    using T by (auto simp: timely_def moves_on_def) (meson order_trans)
  have "tm w \<le> tm w' \<and> (cn w \<longrightarrow> cn w') \<and> r \<noteq> Inl Unfinished \<and> (\<forall>i. r = Inl (Interrupted i) \<longrightarrow> cn w')"
  proof (cases "runner_url ?H F repository (Some runner)")
    case (Inl e)
    then show ?thesis using run by (auto simp: fetch_runner_status_def bind_res_def from_res_def)
  next
    case (Inr u)
    let ?rq = "\<lparr>rq_method = GET, rq_url = u, rq_runner_name = None\<rparr>"
    have "w' = snd (h_cut ?H (snd (h_send ?H ?rq w)))"
      "r \<noteq> Inl Unfinished" "\<forall>i. r = Inl (Interrupted i) \<longrightarrow> fst (h_cut ?H (snd (h_send ?H ?rq w))) \<noteq> None"
      using run Inr
      by (auto simp: fetch_runner_status_def send_def bind_res_def from_res_def raise_err_def run_awaited
          map_sum_def split: option.splits sum.splits prod.splits)
    then show ?thesis using step[of ?rq] by blast
  qed
  then show "tm w \<le> tm w'" "cn w \<Longrightarrow> cn w'" "r \<noteq> Inl Unfinished" "r = Inl (Interrupted i) \<Longrightarrow> cn w'" by auto
qed

lemma advance_keeps_deadline:
  "win_supervised_deadline (snd (window_advance st now w)) = win_supervised_deadline w"
  by (simp add: window_advance_def start_job_def split: runner_status.splits observed_phase.splits)

lemma reports_finish:
  assumes T: "timely tm cn E J"
    and run: "run_state (try_each (\<lambda>state. report E (transition_op E ident state)) states) s = (r, s')"
  shows "onward tm cn s s'" "r \<noteq> Inl Unfinished"
proof -
  have rep: "rel_op (onward tm cn) (report E (transition_op E ident st))" for st
    unfolding report_def by (intro onw.rel_intros onward_transition[OF T])
  have "rel_op (onward tm cn) (try_each (\<lambda>state. report E (transition_op E ident state)) states)"
    by (induction states) (simp_all add: onw.rel_return onw.rel_bind_res rep)
  then show "onward tm cn s s'" by (rule rel_op_run) (rule run)
  show "r \<noteq> Inl Unfinished" using run
  proof (induction states arbitrary: s)
    case (Cons st states)
    then show ?case
      by (auto simp: bind_res_def report_def map_sum_def split: sum.splits prod.splits)
  qed auto
qed

lemma observe_timely:
  assumes T: "timely tm cn E J" and run: "run_state (observe_runner E J a win) s = (r, s')"
  shows "onward tm cn s s'" "r \<noteq> Inl Unfinished" "r = Inr CutShort \<Longrightarrow> cn (m_world s')"
    "r = Inr (ObservedWindow win') \<Longrightarrow> win_supervised_deadline win' = win_supervised_deadline win"
proof -
  let ?f = "fetch_runner_status (jb_http J) (jb_forgejo J) (req_repository (alloc_request a)) (unwrap_or 0 (alloc_runner_id a))"
  obtain o1 w1 where o1: "run_state ?f (m_world s) = (o1, w1)" by fastforce
  note ft = fetch_timely[OF T o1]
  let ?s1 = "s\<lparr>m_world := w1\<rparr>"
  have on1: "onward tm cn s ?s1" using ft(1,2) by (simp add: onward_def)
  let ?k = "k_now (jb_clock J) w1"
  let ?s2 = "s\<lparr>m_world := snd ?k\<rparr>"
  have on2: "onward tm cn s ?s2" using ft(1,2) T
    by (auto simp: onward_def timely_def ticking_def moves_on_def intro: order_trans)
  have "onward tm cn s s' \<and> r \<noteq> Inl Unfinished \<and> (r = Inr CutShort \<longrightarrow> cn (m_world s'))
      \<and> (\<forall>win'. r = Inr (ObservedWindow win') \<longrightarrow> win_supervised_deadline win' = win_supervised_deadline win)"
  proof (cases o1)
    case (Inl h)
    show ?thesis
    proof (cases h)
      case (Interrupted i)
      then show ?thesis using run o1 Inl on1 ft(4) by (auto simp: observe_runner_def on_host_def)
    next
      case Unfinished
      then show ?thesis using ft(3) Inl by simp
    next
      case (Raised e)
      then show ?thesis using run o1 Inl on1 on2
        by (auto simp: observe_runner_def on_host_def window_unobserved_def Let_def split: if_splits)
    qed
  next
    case (Inr st)
    obtain states w where adv: "window_advance st (fst ?k) (window_observed win) = (states, w)" by fastforce
    have w: "win_supervised_deadline w = win_supervised_deadline win"
      using advance_keeps_deadline[of st "fst ?k" "window_observed win"] adv by (simp add: window_observed_def)
    let ?t = "try_each (\<lambda>state. report E (transition_op E (alloc_id a) state)) states"
    obtain q s3 where q: "run_state ?t ?s2 = (q, s3)" by fastforce
    have "onward tm cn s s3" "q \<noteq> Inl Unfinished" using reports_finish[OF T q] on2 by (auto intro: onw.trans)
    moreover have "s' = s3" "r = map_sum id (\<lambda>_. ObservedWindow w) q"
      using run o1 Inr adv q by (auto simp: observe_runner_def on_host_def bind_res_def split: sum.splits)
    ultimately show ?thesis using w by (cases q) auto
  qed
  then show "onward tm cn s s'" "r \<noteq> Inl Unfinished" "r = Inr CutShort \<Longrightarrow> cn (m_world s')"
    "r = Inr (ObservedWindow win') \<Longrightarrow> win_supervised_deadline win' = win_supervised_deadline win" by auto
qed

lemma pause_timely:
  assumes T: "timely tm cn E J"
  obtains w where "run_state (jb_pause J) s = ((), s\<lparr>m_world := w\<rparr>)"
    "tm (m_world s) + 1 \<le> tm w"
proof -
  let ?w = "k_sleep (jb_clock J) (jb_poll J) (m_world s)"
  let ?c = "jb_cuts J ?w"
  have "tm (m_world s) + jb_poll J \<le> tm ?w" "0 < jb_poll J" "tm ?w \<le> tm (snd ?c)"
    using T by (simp_all add: timely_def ticking_def moves_on_def)
  then have "tm (m_world s) + 1 \<le> tm (snd ?c)" by linarith
  moreover have "run_state (jb_pause J) s = ((), s\<lparr>m_world := snd ?c\<rparr>)"
    by (simp add: jb_pause_def on_host_def run_awaited)
  ultimately show ?thesis using that by blast
qed

lemma stop_and_fail_raises: "fst (run_state (stop_and_fail J process message) s) = Inl (Raised (worker_error_new message))"
  by (simp add: stop_and_fail_def on_host_def raise_err_def)

lemma probe_timely:
  assumes T: "timely tm cn E J" and run: "run_state (on_host (c_try_exit (jb_channel J) process)) s = (r, s')"
  shows "onward tm cn s s'" "r \<noteq> Inl Unfinished"
proof -
  have "moves_on tm cn (run_state (c_try_exit (jb_channel J) process))" using T by (simp add: timely_def)
  then show "onward tm cn s s'" using onward_outside run unfolding on_host_def by (metis rel_op_run)
  show "r \<noteq> Inl Unfinished" using T run by (auto simp: timely_def on_host_def)
qed

lemma from_res_finishes: "fst (run_state (from_res r) s) \<noteq> Inl Unfinished"
  by (cases r) (simp_all add: from_res_def)

lemma cancelled_timely:
  assumes T: "timely tm cn E J"
  shows "onward tm cn s (s\<lparr>m_world := snd (jb_is_cancelled J (m_world s))\<rparr>)"
    "cn (m_world s) \<Longrightarrow> fst (jb_is_cancelled J (m_world s))"
  using T by (auto simp: timely_def onward_def moves_on_def)

lemma now_timely:
  assumes T: "timely tm cn E J"
  shows "onward tm cn s (s\<lparr>m_world := snd (k_now (jb_clock J) (m_world s))\<rparr>)"
    "tm (m_world s) \<le> fst (k_now (jb_clock J) (m_world s))"
    "fst (k_now (jb_clock J) (m_world s)) \<le> tm (snd (k_now (jb_clock J) (m_world s)))"
  using T by (auto simp: timely_def ticking_def onward_def moves_on_def)

lemma await_released_finishes:
  assumes T: "timely tm cn E J"
  shows "deadline - tm (m_world s) < fuel \<Longrightarrow>
    fst (run_state (await_released_exit fuel J process win deadline) s) \<noteq> Inl Unfinished"
proof (induction fuel arbitrary: s)
  case (Suc fuel)
  let ?s1 = "s\<lparr>m_world := snd (c_probe_now (jb_channel J) process (m_world s))\<rparr>"
  let ?s2 = "?s1\<lparr>m_world := snd (jb_is_cancelled J (m_world ?s1))\<rparr>"
  obtain r s3 where r: "run_state (on_host (c_try_exit (jb_channel J) process)) ?s2 = (r, s3)" by fastforce
  let ?s4 = "s3\<lparr>m_world := snd (k_now (jb_clock J) (m_world s3))\<rparr>"
  obtain w where w: "run_state (jb_pause J) ?s4 = ((), ?s4\<lparr>m_world := w\<rparr>)" "tm (m_world ?s4) + 1 \<le> tm w"
    by (rule pause_timely[OF T])
  have "onward tm cn s ?s1" using T by (auto simp: timely_def onward_def moves_on_def)
  then have on: "tm (m_world s) \<le> tm (m_world s3)" "tm (m_world s3) \<le> tm (m_world ?s4)"
    using cancelled_timely(1)[OF T, of ?s1] probe_timely(1)[OF T r] now_timely(1)[OF T, of s3]
    unfolding onward_def by linarith+
  have left: "\<not> deadline \<le> fst (k_now (jb_clock J) (m_world s3)) \<Longrightarrow> deadline - tm w < fuel"
    using Suc.prems on w(2) now_timely(2)[OF T, of s3] by linarith
  show ?case
  proof (cases r)
    case (Inl h)
    then show ?thesis using r probe_timely(2)[OF T r]
      by (simp add: bind_res_def stop_and_fail_raises)
  next
    case (Inr x)
    show ?thesis
    proof (cases x)
      case None
      then show ?thesis using r Inr w(1) left Suc.IH[of "?s4\<lparr>m_world := w\<rparr>"]
        by (simp add: bind_res_def stop_and_fail_raises)
    next
      case (Some e)
      then show ?thesis using r Inr by (simp add: bind_res_def stop_and_fail_raises from_res_finishes)
    qed
  qed
qed simp

lemma released_finishes:
  assumes T: "timely tm cn E J" and fuel: "win_supervised_deadline win - tm (m_world s) < fuel"
  shows "fst (run_state (ensure_released_runner_exits fuel J process win) s) \<noteq> Inl Unfinished"
proof -
  let ?s1 = "s\<lparr>m_world := snd (k_now (jb_clock J) (m_world s))\<rparr>"
  let ?d = "released_deadline (fst (k_now (jb_clock J) (m_world s))) win"
  have "?d \<le> win_supervised_deadline win" by (simp add: released_deadline_def)
  then have "?d - tm (m_world ?s1) < fuel"
    using fuel now_timely(1)[OF T, of s] unfolding onward_def by linarith
  from await_released_finishes[OF T this] show ?thesis by (simp add: ensure_released_runner_exits_def)
qed

lemma supervise_loop_finishes:
  assumes T: "timely tm cn E J"
  shows "\<lbrakk>0 < fuel; cn (m_world s) \<or> win_supervised_deadline win - tm (m_world s) + 2 \<le> fuel\<rbrakk> \<Longrightarrow>
    fst (run_state (supervise_loop fuel E J a process win) s) \<noteq> Inl Unfinished"
proof (induction fuel arbitrary: s win)
  case (Suc fuel)
  let ?D = "win_supervised_deadline win"
  let ?s1 = "s\<lparr>m_world := snd (jb_is_cancelled J (m_world s))\<rparr>"
  let ?probe = "on_host (c_try_exit (jb_channel J) process)"
  obtain r s2 where r: "run_state ?probe ?s1 = (r, s2)" by fastforce
  obtain seen s3 where seen: "run_state (observe_runner E J a win) s2 = (seen, s3)" by fastforce
  note obs = observe_timely[OF T seen]
  let ?now = "k_now (jb_clock J) (m_world s3)"
  let ?s4 = "s3\<lparr>m_world := snd ?now\<rparr>"
  obtain w where w: "run_state (jb_pause J) ?s4 = ((), ?s4\<lparr>m_world := w\<rparr>)" "tm (m_world ?s4) + 1 \<le> tm w"
    by (rule pause_timely[OF T])
  have on: "tm (m_world s) \<le> tm (m_world s3)" "tm (m_world s3) \<le> tm (m_world ?s4)"
    using cancelled_timely(1)[OF T, of s] probe_timely(1)[OF T r] obs(1) now_timely(1)[OF T, of s3]
    unfolding onward_def by linarith+
  show ?case
  proof (cases "fst (jb_is_cancelled J (m_world s)) \<or> (\<exists>h. r = Inl h) \<or> (\<exists>e. r = Inr (Some e)) \<or> (\<exists>h. seen = Inl h)")
    case True
    then show ?thesis using r seen probe_timely(2)[OF T r] obs(2)
      by (cases r) (auto simp: bind_res_def stop_and_fail_raises from_res_finishes split: option.splits)
  next
    case False
    then have r': "r = Inr None" and go: "\<not> fst (jb_is_cancelled J (m_world s))" by (cases r; auto)+
    have left: "?D - tm (m_world s) + 1 \<le> fuel" using Suc.prems(2) cancelled_timely(2)[OF T] go by auto
    from False obtain x where x: "seen = Inr x" by (cases seen) auto
    show ?thesis
    proof (cases x)
      case ReleasedRunner
      have "?D - tm (m_world s3) < fuel" using left on by linarith
      from released_finishes[OF T this] show ?thesis using r r' go seen x ReleasedRunner by (simp add: bind_res_def)
    next
      case CutShort
      then show ?thesis using Suc.IH[of s3 win] left obs(3) r r' go seen x by (simp add: bind_res_def)
    next
      case (ObservedWindow win')
      then have D: "win_supervised_deadline win' = ?D" using obs(4) x by simp
      have "window_overrun (fst ?now) win' = None \<Longrightarrow> ?D - tm w + 2 \<le> fuel"
        using D left on w(2) now_timely(2)[OF T, of s3] by (auto simp: window_overrun_def split: if_splits)
      then show ?thesis using Suc.IH[of "?s4\<lparr>m_world := w\<rparr>" win'] D ObservedWindow r r' go seen x w(1)
        by (auto simp: bind_res_def stop_and_fail_raises split: option.splits)
    qed
  qed
qed simp

end
