(* ===== verification/Sample_Host.thy ===== *)
theory Sample_Host
  imports Sample_World Tart_Images
begin

text \<open>
  A concrete host for the Tart worker: machines and images as an association list from names to
  the generation they hold, a clock that a sleep advances, and a \<open>tart\<close> command that does what it
  is asked. The listing is printed with each character of a name tagged, so that its decoder
  recovers every name.
\<close>

record host_world = hot_world +
  hw_images :: "(string \<times> u64) list"
  hw_time :: nat

definition host_images :: "host_world \<Rightarrow> string \<Rightarrow> u64 option" where
  "host_images w = map_of (hw_images w)"

definition print_name :: "string \<Rightarrow> string" where
  "print_name n = concat (map (\<lambda>c. [CHR ''x'', c]) n) @ ''e''"

fun parse_names :: "string \<Rightarrow> string \<Rightarrow> string list" where
  "parse_names acc [] = []"
| "parse_names acc [t] = [acc]"
| "parse_names acc (t # c # rest) =
     (if t = CHR ''x'' then parse_names (acc @ [c]) rest else acc # parse_names [] (c # rest))"

lemma parse_print_name: "parse_names acc (print_name n @ rest) = (acc @ n) # parse_names [] rest"
proof (induction n arbitrary: acc)
  case Nil
  then show ?case by (cases rest) (simp_all add: print_name_def)
qed (simp add: print_name_def)

lemma parse_names_print: "parse_names [] (concat (map print_name ns)) = ns"
  by (induction ns) (simp_all add: parse_print_name)

definition sample_listing :: "string \<Rightarrow> tart_machine list option" where
  "sample_listing out = Some (map (\<lambda>n. \<lparr>tm_name = n, tm_state = ''stopped''\<rparr>) (parse_names [] out))"

definition sample_output :: "os_command \<Rightarrow> host_world \<Rightarrow> (exit_status \<times> string) option \<times> host_world" where
  "sample_output c w =
     (let args = cmd_args c; ok = Some (ExitCode 0, []); refused = Some (ExitCode 1, []) in
      if args = [''list'', ''--format'', ''json'']
      then (Some (ExitCode 0, concat (map (print_name \<circ> fst) (hw_images w))), w)
      else if length args = 3 \<and> hd args = ''clone''
      then (case (host_images w (args ! 1), host_images w (args ! 2)) of
              (Some g, None) \<Rightarrow> (ok, w\<lparr>hw_images := AList.update (args ! 2) g (hw_images w)\<rparr>)
            | _ \<Rightarrow> (refused, w))
      else if length args = 2 \<and> hd args = ''delete''
      then (ok, w\<lparr>hw_images := AList.delete (args ! 1) (hw_images w)\<rparr>)
      else (ok, w))"

definition sample_os :: "host_world os" where
  "sample_os = \<lparr>o_cuts = no_cuts,
     o_clock = \<lparr>k_now = (\<lambda>w. (hw_time w, w)), k_sleep = (\<lambda>n w. w\<lparr>hw_time := hw_time w + n\<rparr>)\<rparr>,
     o_output = sample_output, o_spawn = (\<lambda>_ w. (Some 1, w)), o_write = (\<lambda>_ _ w. (True, w)),
     o_read = (\<lambda>_ _ w. (Some [], w)), o_wait = (\<lambda>_ w. (Some (ExitCode 0), w)),
     o_try_wait = (\<lambda>_ w. (Some (Some (ExitCode 0)), w)), o_kill = (\<lambda>_ w. ((), w)),
     o_metadata = (\<lambda>_ w. (None, w)), o_symlink_metadata = (\<lambda>_ w. (None, w)),
     o_read_file = (\<lambda>_ w. (None, w)), o_unix_time = (\<lambda>w. (Some 2000, w)),
     o_timer_fires = (\<lambda>_ w. (False, w)), o_ip = Some, o_url = (\<lambda>_. None), o_is_uuid = (\<lambda>_. True),
     o_is_utf8 = (\<lambda>_. True), o_lossy = id, o_split_words = (\<lambda>s. Some [s])\<rparr>"

definition sample_guest_output :: guest_output where
  "sample_guest_output = \<lparr>go_exit = ExitedCode 0, go_stdout = [], go_is_truncated = False\<rparr>"

definition sample_channel :: "host_world cuts \<Rightarrow> host_world channel" where
  "sample_channel intr = \<lparr>c_ensure_ready = (\<lambda>_ _. return (Inr ())),
     c_run = (\<lambda>_ _. return (Inr sample_guest_output)),
     c_run_privileged = (\<lambda>_ _. return (Inr sample_guest_output)),
     c_spawn = (\<lambda>_ _. return (Inr 7)), c_try_exit = (\<lambda>_. return (Inr (Some (ExitedCode 0)))),
     c_ensure_stopped = (\<lambda>_. return (Inr ())), c_probe_now = (\<lambda>_ w. ((), w)), c_install_file = None\<rparr>"

definition sample_http :: "host_world http" where
  "sample_http = \<lparr>h_send = (\<lambda>_ w. (None, w)), h_cut = no_cuts, h_extend = (\<lambda>u _. Some u),
     h_query = (\<lambda>u _. u), h_status_text = (\<lambda>_. []), h_is_uuid = (\<lambda>_. True), h_jobs = (\<lambda>_. None),
     h_runners = (\<lambda>_. None), h_runner = (\<lambda>_. None), h_credentials = (\<lambda>_. None)\<rparr>"

definition sample_tart :: tart_client where
  "sample_tart = \<lparr>tc_config = sample_runtime,
     tc_tart = \<lparr>tart_path = ''/bin/tart'', tart_home = None, tart_runner_host_path = None\<rparr>,
     tc_library = None, tc_decode = sample_listing\<rparr>"

definition sample_worker :: "host_world tart_worker" where
  "sample_worker = \<lparr>tw_tart = sample_tart,
     tw_job = \<lparr>jb_guest = \<lparr>ctl_channel = sample_channel, ctl_runner_path = ''/bin/runner'',
         ctl_runner_user = ''runner'', ctl_tailscale = cfg_tailscale sample_config,
         ctl_tailscale_path = ''/bin/tailscale''\<rparr>,
       jb_http = sample_http, jb_forgejo = cfg_forgejo sample_config, jb_poll = 2000, jb_backend = TartBackend,
       jb_delivery = ImageDelivery, jb_os = sample_os, jb_is_cancelled = (\<lambda>w. (False, w)),
       jb_url_text = (\<lambda>_. [])\<rparr>\<rparr>"

definition sample_host_env :: "host_world env" where
  "sample_host_env = \<lparr>w_evidence_deferred = False, w_supports_hot = True, w_supports_warm = True,
     w_machines = (\<lambda>w. (Inr [], w)), w_base_fingerprint = (\<lambda>_ w. (None, w)),
     w_base_storage_mb = (\<lambda>_ _ w. (None, w)),
     w_warm_availability = (\<lambda>_ _ _ w. (Inr WarmAbsent, w)),
     w_is_unclaimed_image = (\<lambda>_ _ w. (Inr False, w)), w_warm_retained = (\<lambda>_ w. (None, w)),
     w_cleanup = (\<lambda>_ _ w. (Inr (), w)), w_ensure_recovered = (\<lambda>w. (Inr (), w)),
     w_ensure_warm_restored = (\<lambda>_ _ w. (Inr (), w)),
     w_ensure_hot_retained = (\<lambda>_ _ _ _ w. (Inr (), w)), w_ensure_hot_reset = (\<lambda>_ _ w. (Inr (), w)),
     w_is_hot_live = (\<lambda>_ w. (True, w)), w_ensure_hot_evicted = (\<lambda>_ _ w. (Inr (), w)),
     w_delete_vm = (\<lambda>_ w. (Inr (), w)), w_sweep_images = (\<lambda>_ w. (Inr [], w)),
     x_unix_time = (\<lambda>w. (1000, w)), x_instant = (\<lambda>w. (hw_time w, w)),
     x_new_uuid = (\<lambda>w. (9, w)), x_uuid_str = (\<lambda>u. nat_str (unat u)),
     x_error_text = (\<lambda>_. ''error''), x_db_fails = (\<lambda>w. (False, w)), x_timer_fires = (\<lambda>_ w. (False, w))\<rparr>"

lemma sample_os_faithful: "faithful_os host_images sample_tart sample_os"
  unfolding faithful_os_def
proof (intro conjI allI)
  fix args w
  show "tart_effect sample_tart args (fst (o_output sample_os (tart_command sample_tart args) w)) (host_images w)
    (host_images (snd (o_output sample_os (tart_command sample_tart args) w)))"
    unfolding tart_effect_def
  proof (intro conjI allI impI)
    fix out ms n
    assume "args = [''list'', ''--format'', ''json''] \<and> fst (o_output sample_os (tart_command sample_tart args) w)
        = Some (ExitCode 0, out) \<and> tc_decode sample_tart out = Some ms"
    then have "ms = map (\<lambda>n. \<lparr>tm_name = n, tm_state = ''stopped''\<rparr>)
        (parse_names [] (concat (map print_name (map fst (hw_images w)))))"
      by (auto simp: sample_os_def sample_output_def tart_command_def sample_tart_def sample_listing_def)
    then have "tm_name ` set ms = fst ` set (hw_images w)" by (simp only: parse_names_print) (simp add: image_image)
    then show "n \<in> tm_name ` set ms \<longleftrightarrow> host_images w n \<noteq> None"
      by (simp only: host_images_def map_of_eq_None_iff not_not)
  qed (auto simp: sample_os_def sample_output_def tart_command_def Let_def cloned_def host_images_def
      update_conv' delete_conv' done_ok_def status_success_def split: option.splits if_splits)
qed (simp_all add: sample_os_def no_cuts_def host_images_def)

end
