(* ===== verification/Stale_Restart.thy ===== *)
theory Stale_Restart
  imports Tart_Authority Sample_Host
begin

text \<open>
  A restart over what an interrupted rollback left, run on the concrete host: the rollback of a
  failed retirement drops the candidate before it reverts the record, and recovery takes a staging
  record with a live image and no candidate for a finished promotion.
\<close>

subsection \<open>The client on the concrete host\<close>

lemma sample_steady: "steady_os sample_worker = sample_os"
  by (simp add: steady_os_def sample_worker_def sample_os_def)

abbreviation names_on :: "host_world \<Rightarrow> string list" where
  "names_on w \<equiv> map fst (hw_images w)"

lemma sample_tart_list:
  assumes "length (concat (map print_name (names_on w))) \<le> 1048576"
  shows "run_state (tart_list sample_os sample_tart) w =
    (Inr (map (\<lambda>n. \<lparr>tm_name = n, tm_state = ''stopped''\<rparr>) (names_on w)), w)"
proof -
  have out: "sample_output (tart_command sample_tart [''list'', ''--format'', ''json'']) w =
      (Some (ExitCode 0, concat (map print_name (names_on w))), w)"
    by (simp add: sample_output_def tart_command_def)
  have "run_state (list_attempts 2 sample_os sample_tart) w = (Inr (ExitCode 0, concat (map print_name (names_on w))), w)"
    using out by (simp add: eval_nat_numeral bind_res_def run_awaited sample_os_def no_cuts_def)
  then show ?thesis using assms
    by (simp add: tart_list_def bind_res_def status_success_def or_fail_def sample_tart_def sample_listing_def
        parse_names_print del: map_map)
qed

lemma sample_is_absent:
  assumes "length (concat (map print_name (names_on w))) \<le> 1048576"
  shows "run_state (is_absent sample_os sample_tart n) w = (Inr (n \<notin> set (names_on w)), w)"
  using sample_tart_list[OF assms]
  by (auto simp: is_absent_def attempt_def bind_res_def list_ex_iff)

lemma sample_delete:
  "run_state (run_checked sample_os sample_tart [''delete'', n]) w =
     (Inr (), w\<lparr>hw_images := AList.delete n (hw_images w)\<rparr>)"
  by (simp add: run_checked_def bind_res_def run_awaited sample_os_def no_cuts_def or_fail_def status_success_def
      sample_output_def tart_command_def)

lemma find_stopped:
  "x \<in> set ns \<Longrightarrow> find (\<lambda>m. tm_name m = x) (map (\<lambda>n. \<lparr>tm_name = n, tm_state = ''stopped''\<rparr>) ns)
     = Some \<lparr>tm_name = x, tm_state = ''stopped''\<rparr>"
  by (induction ns) auto

lemma sample_remove_listed:
  assumes "length (concat (map print_name (names_on w))) \<le> 1048576" "vm_str n \<in> set (names_on w)"
  shows "run_state (remove_listed sample_os sample_tart n) w =
    (Inr (), w\<lparr>hw_images := AList.delete (vm_str n) (hw_images w)\<rparr>)"
proof -
  have "\<not> eq_ignore_ascii_case ''stopped'' ''running''" by code_simp
  then show ?thesis
    using sample_tart_list[OF assms(1)] sample_delete[of "vm_str n" w] find_stopped[OF assms(2)]
    by (simp add: remove_listed_def remove_named_def bind_res_def attempt_def del: map_map)
qed

definition stale_profile :: profile_name where "stale_profile = ProfileName ''mac''"

definition old_record :: warm_image_record where
  "old_record = \<lparr>img_profile = stale_profile, img_warm_template = VmName ''mac-warm'',
     img_generation = 3, img_base_fingerprint = BaseFingerprint (replicate 64 (CHR ''a'')), img_produced_by = 1,
     img_produced_at_unix = 900, img_state = Promoted, img_previous = None\<rparr>"

definition stale_request :: retention_request where
  "stale_request = \<lparr>rr_allocation = sample_allocation, rr_profile = sample_profile,
     rr_warm_template = VmName ''mac-warm'', rr_base_fingerprint = BaseFingerprint (replicate 64 (CHR ''b'')),
     rr_generation = 4, rr_previous = Some (generation_of old_record)\<rparr>"

definition stale_names :: image_names where
  "stale_names = \<lparr>nm_warm = VmName ''mac-warm'', nm_staging = VmName ''mac-warm.staging'',
     nm_previous = VmName ''mac-warm.previous''\<rparr>"

text \<open>The candidate is staged and recorded, the live image still the old one: retirement failed first.\<close>

definition staged_world :: host_world where
  "staged_world = \<lparr>hw_guests = [], hw_images = [(''mac-warm'', 3), (''mac-warm.staging'', 4)], hw_time = 0\<rparr>"

definition staged_state :: "host_world mgr" where
  "staged_state = (mgr_build sample_config [] [] [] tuning_default staged_world)
     \<lparr>m_images := [(stale_profile, record_of stale_request stale_names Staging 1000)]\<rparr>"

definition refusing_env :: "host_world env" where
  "refusing_env = sample_host_env\<lparr>x_db_fails := (\<lambda>w. (True, w))\<rparr>"

definition dropped_world :: host_world where
  "dropped_world = \<lparr>hw_guests = [], hw_images = [(''mac-warm'', 3)], hw_time = 0\<rparr>"

lemma small_listings:
  "length (concat (map print_name (names_on staged_world))) \<le> 1048576"
  "length (concat (map print_name (names_on dropped_world))) \<le> 1048576"
  by (simp_all add: staged_world_def dropped_world_def print_name_def)

lemma candidate_dropped:
  "snd (run_state (rollback refusing_env sample_worker stale_request stale_names Retire err) staged_state)
     = staged_state\<lparr>m_world := dropped_world\<rparr>"
proof -
  have tw: "tw_os sample_worker = sample_os" "tw_tart sample_worker = sample_tart" by (simp_all add: sample_worker_def)
  have writable: "ensure_image_writable sample_tart (VmName ''mac-warm.staging'') (Some sample_profile) None = Inr ()"
    by code_simp
  have del: "run_state (delete_image sample_os sample_tart (VmName ''mac-warm.staging'') (Some sample_profile) None) staged_world
      = (Inr (), dropped_world)"
    using sample_remove_listed[OF small_listings(1), of "VmName ''mac-warm.staging''"] writable
    by (simp add: delete_image_def bind_res_def from_res_def staged_world_def dropped_world_def)
  have live: "run_state (is_absent_image sample_os sample_tart (VmName ''mac-warm'')) dropped_world = (Inr False, dropped_world)"
    using sample_is_absent[OF small_listings(2), of "''mac-warm''"] by (simp add: is_absent_image_def dropped_world_def)
  have "m_world staged_state = staged_world" by (simp add: staged_state_def mgr_build_def)
  then show ?thesis
    by (simp add: rollback_def drop_candidate_def on_host_def tw sample_steady stale_names_def stale_request_def del live
        failed_authority_of_def persist_previous_def ensure_warm_reverted_def map_err_def images_save_def db_def
        refusing_env_def)
qed

subsection \<open>The restart\<close>

abbreviation restart_env :: "host_world env" where
  "restart_env \<equiv> tart_env 5 (\<lambda>_. None) (\<lambda>_. []) sample_worker sample_host_env"

definition live_machine :: host_machine where
  "live_machine = \<lparr>mach_name = ''mac-warm'', mach_state = MachineStopped, mach_age_seconds = None,
     mach_size = None, mach_ownership = Foreign\<rparr>"

lemma restart_machines: "w_machines restart_env dropped_world = (Inr [live_machine], dropped_world)"
proof -
  have kinds: "tm_machine_state \<lparr>tm_name = ''mac-warm'', tm_state = ''stopped''\<rparr> = MachineStopped"
    "\<not> tart_owned_name sample_tart ''mac-warm''" by code_simp+
  have age: "run_state (machine_age_seconds sample_os sample_tart n) w = (Inr None, w)" for n w
    by (simp add: machine_age_seconds_def library_vm_directory_def sample_tart_def)
  have "run_state (tart_list sample_os sample_tart) dropped_world =
      (Inr [\<lparr>tm_name = ''mac-warm'', tm_state = ''stopped''\<rparr>], dropped_world)"
    using sample_tart_list[OF small_listings(2)] by (simp add: dropped_world_def)
  then have "run_state (tart_host_machines sample_os sample_tart) dropped_world = (Inr [live_machine], dropped_world)"
    using kinds by (simp add: tart_host_machines_def bind_res_def age live_machine_def)
  then show ?thesis by (simp add: tart_env_def settled_def sample_steady) (simp add: sample_worker_def)
qed

definition candidate_record :: "warm_image_state \<Rightarrow> warm_image_record" where
  "candidate_record st = \<lparr>img_profile = ProfileName ''mac'', img_warm_template = VmName ''mac-warm'', img_generation = 4,
     img_base_fingerprint = BaseFingerprint (replicate 64 (CHR ''b'')), img_produced_by = 2,
     img_produced_at_unix = 1000, img_state = st,
     img_previous = Some \<lparr>gen_generation = 3, gen_base_fingerprint = BaseFingerprint (replicate 64 (CHR ''a'')),
       gen_produced_by = 1, gen_produced_at_unix = 900\<rparr>\<rparr>"

lemma staged_record: "record_of stale_request stale_names st 1000 = candidate_record st"
  by (simp add: record_of_def stale_request_def stale_names_def candidate_record_def generation_of_def old_record_def
      sample_ids sample_request_def)

lemma candidate_evaluated:
  "warm_image_validate (candidate_record Staging)" "image_storable (candidate_record Promoted)"
  "staging_name (candidate_record Staging) = Inr (VmName ''mac-warm.staging'')"
  "previous_name (candidate_record Staging) = Inr (VmName ''mac-warm.previous'')"
  "(candidate_record st)\<lparr>img_state := st'\<rparr> = candidate_record st'"
  "img_state (candidate_record st) = st" "img_profile (candidate_record st) = ProfileName ''mac''"
  "img_produced_by (candidate_record st) = 2" "img_warm_template (candidate_record st) = VmName ''mac-warm''"
  by (code_simp, code_simp, code_simp, code_simp, simp_all add: candidate_record_def)

lemma restart_finalizes:
  "snd (run_state (ensure_warm_consistent restart_env sample_config) (staged_state\<lparr>m_world := dropped_world\<rparr>))
     = staged_state\<lparr>m_world := dropped_world, m_images := [(ProfileName ''mac'', candidate_record Promoted)]\<rparr>"
proof -
  have E: "x_db_fails restart_env = (\<lambda>w. (False, w))" "x_unix_time restart_env = (\<lambda>w. (1000, w))"
    "w_warm_availability restart_env p r ms w = (Inr (default_warm_availability r ms), w)" for p r ms w
    by (simp_all add: tart_env_def sample_host_env_def)
  have avail: "default_warm_availability (candidate_record Staging) [live_machine] = WarmReady"
    by (simp add: default_warm_availability_def live_machine_def candidate_evaluated)
  have profiles: "cfg_profiles sample_config = [(ProfileName ''mac'', sample_profile)]"
    "prof_warm_template sample_profile = Some (VmName ''mac-warm'')"
    by (simp_all add: sample_config_def sample_profile_def)
  have start: "m_images staged_state = [(ProfileName ''mac'', candidate_record Staging)]" "m_entries staged_state = []"
    by (simp_all add: staged_state_def staged_record stale_profile_def mgr_build_def)
  let ?s = "staged_state\<lparr>m_world := dropped_world\<rparr>"
  let ?s' = "?s\<lparr>m_images := [(ProfileName ''mac'', candidate_record Promoted)]\<rparr>"
  have settle: "run_state (settle_record restart_env sample_profile (candidate_record Staging) True False) ?s = (Inr (), ?s')"
    by (simp add: settle_record_def candidate_evaluated finalize_record_def map_err_def images_save_def db_def E start
        image_table_save_def)
  have mark: "run_state (mark_retention_interrupted restart_env (candidate_record Staging)) ?s' = ((), ?s')"
    by (simp add: mark_retention_interrupted_def set_retention_op_def update_allocation_def get_allocation_def
        bind_res_def start candidate_evaluated)
  have "run_state (reconcile_image restart_env [live_machine] (ProfileName ''mac'') sample_profile (candidate_record Staging)) ?s
      = (Inr (), ?s')"
    by (simp add: reconcile_image_def candidate_evaluated E avail settle mark bind_res_def if_then_def)
      (simp add: live_machine_def settle mark)
  then show ?thesis
    by (simp add: ensure_warm_consistent_def bind_res_def map_err_def restart_machines profiles images_load_def db_def E
        image_table_load_def start candidate_evaluated stale_profile_def)
qed

end
