(* ===== verification/Runtime_Props.thy ===== *)
theory Runtime_Props
  imports Policy_Props Tart_Scope Timely Stale_Restart
begin

text \<open>
  Properties of the runtime: what a retention leaves behind, what the backend never touches, the
  end of supervision, what supervision reports, the job a runner is bound to, the words a guest's
  shell reads, and the verdict of the recycle gate.
\<close>

subsection \<open>Retention\<close>


definition sample_record :: warm_image_record where
  "sample_record = \<lparr>img_profile = ProfileName ''mac'', img_warm_template = VmName ''mac-warm'',
     img_generation = 3, img_base_fingerprint = BaseFingerprint ''a'', img_produced_by = 1,
     img_produced_at_unix = 900, img_state = Promoted, img_previous = None\<rparr>"


definition sample_host_start :: "host_world mgr" where
  "sample_host_start = (mgr_build sample_config [] [] []
      tuning_default \<lparr>hw_guests = [], hw_images = [(''mac-base'', 0), (''mac-warm'', 3), (vm_str (alloc_vm_name sample_allocation), 4)], hw_time = 0\<rparr>)
      \<lparr>m_images := [(ProfileName ''mac'', sample_record)]\<rparr>"

lemma sample_host_faithful: "faithful_host host_images sample_host_env sample_worker"
  using sample_os_faithful
  by (simp add: faithful_host_def sample_worker_def sample_host_env_def sample_channel_def)



subsection \<open>The reach of the backend\<close>

text \<open>
  C10. The Tart backend destroys only what the service owns: a name outside the service's prefix
  survives every cleanup and eviction, and a deletion unless the request's profile or record
  declares it as a warm image; a configured template outside the prefix and a reserved name
  survive every deletion. This holds whatever fails or is interrupted on the way.
\<close>

theorem backend_spares_foreign:
  assumes "detached img E W"
  shows "(\<not> tart_owned_name (tw_tart W) n \<longrightarrow>
      img (snd (w_cleanup (tart_env fuel decode text W E) a budget w)) n = img w n
      \<and> img (snd (w_ensure_hot_evicted (tart_env fuel decode text W E) g budget w)) n = img w n
      \<and> (n \<notin> vm_str ` set (claimed_images rq) \<or> (\<exists>p. reap_profile rq = Some p \<and> n = vm_str (prof_template p)) \<longrightarrow>
           img (snd (w_delete_vm (tart_env fuel decode text W E) rq w)) n = img w n))
    \<and> (n \<in> set (reap_reserved rq) \<longrightarrow>
        img (snd (w_delete_vm (tart_env fuel decode text W E) rq w)) n = img w n)"
proof -
  note cleanup = keeps_settled[OF keeps_cleanup[OF assms]]
  note evict = keeps_settled[OF keeps_evict[OF assms]]
  note delete = keeps_settled[OF keeps_delete_vm[OF assms]]
  show ?thesis by (simp add: tart_env_def) (auto simp: cleanup evict intro!: delete)
qed

definition sample_reap :: reap_request where
  "sample_reap = \<lparr>reap_name = VmName ''mac-warm.staging'', reap_authorization_of = AuthImage (ProfileName ''mac''),
     reap_profile = Some sample_profile, reap_record = None, reap_allocation = None,
     reap_reserved = [''mac-base''], reap_budget = budget_allow 60000\<rparr>"

lemma sample_detached: "detached host_images sample_host_env sample_worker"
  using sample_host_faithful
  by (simp add: detached_def sample_worker_def sample_os_def sample_http_def no_cuts_def host_images_def)

theorem backend_spares_foreign_witness:
  "host_images (snd (w_cleanup (tart_env 5 (\<lambda>_. None) (\<lambda>_. []) sample_worker sample_host_env) sample_allocation
       (budget_allow 60000) (m_world sample_host_start))) ''mac-base'' = Some 0
   \<and> host_images (snd (w_delete_vm (tart_env 5 (\<lambda>_. None) (\<lambda>_. []) sample_worker sample_host_env) sample_reap
       (m_world sample_host_start))) ''mac-base'' = Some 0"
proof -
  have "\<not> tart_owned_name (tw_tart sample_worker) ''mac-base''" "''mac-base'' \<in> set (reap_reserved sample_reap)"
    by code_simp+
  moreover have "host_images (m_world sample_host_start) ''mac-base'' = Some 0"
    by (simp add: host_images_def sample_host_start_def mgr_build_def)
  ultimately show ?thesis
    using backend_spares_foreign[OF sample_detached, of "''mac-base''" 5 "\<lambda>_. None" "\<lambda>_. []" sample_allocation
        "budget_allow 60000" "m_world sample_host_start" sample_guest sample_reap] by simp
qed

subsection \<open>Supervision\<close>

text \<open>
  C14. Supervision of a runner ends: with a clock that a pause advances, a cancellation that stays and
  a channel that answers, the loop returns a verdict within the job timeout, in milliseconds, plus
  two turns; it never keeps waiting, whatever Forgejo answers.
\<close>

theorem supervise_finishes:
  assumes "timely tm cn E J" and "millis (prof_job_timeout p) + 2 \<le> fuel"
  shows "fst (run_state (supervise fuel E J started a p) s) \<noteq> Inl Unfinished"
proof -
  let ?n = "k_now (jb_clock J) (m_world s)"
  let ?s = "s\<lparr>m_world := snd ?n\<rparr>"
  let ?win = "window_new p (sr_idle_deadline started) (fst ?n)"
  have "win_supervised_deadline ?win - tm (m_world ?s) + 2 \<le> fuel"
    using assms(2) now_timely(3)[OF assms(1), of s] by (simp add: window_new_def Let_def)
  then have "fst (run_state (supervise_loop fuel E J a (sr_process started) ?win) ?s) \<noteq> Inl Unfinished"
    using supervise_loop_finishes[OF assms(1), of fuel ?s ?win a "sr_process started"] by linarith
  then show ?thesis by (simp add: supervise_def)
qed

theorem supervise_finishes_witness:
  "fst (run_state (supervise 3600002 sample_host_env (tw_job sample_worker) \<lparr>sr_process = 7, sr_idle_deadline = 300000\<rparr>
     sample_allocation sample_profile) sample_host_start) \<noteq> Inl Unfinished"
  by (rule supervise_finishes[of hw_time "\<lambda>_. False"])
    (auto simp: timely_def ticking_def moves_on_def sample_worker_def sample_os_def sample_http_def sample_channel_def
      sample_host_env_def no_cuts_def millis_def sample_profile_def)

text \<open>A sequence of looks at Forgejo, each answered or failed, at the times given.\<close>

datatype look = Saw runner_status | Missed forgejo_error

fun watch :: "(look \<times> nat) list \<Rightarrow> supervision_window \<Rightarrow> allocation_state list \<times> supervision_window" where
  "watch [] w = ([], w)"
| "watch ((Saw st, now) # ls) w =
     (case window_advance st now (window_observed w) of (states, w') \<Rightarrow>
        (case watch ls w' of (rest, w'') \<Rightarrow> (states @ rest, w'')))"
| "watch ((Missed e, now) # ls) w = watch ls (window_unobserved e now w)"

lemma watch_reports:
  "(case win_phase w of
      ObsWaiting \<Rightarrow> fst (watch ls w) \<in> {[], [Ready], [Ready, Running]}
    | ObsReady \<Rightarrow> fst (watch ls w) \<in> {[], [Running]}
    | ObsRunning \<Rightarrow> fst (watch ls w) = [] \<and> window_is_running (snd (watch ls w)))
   \<and> (win_phase w \<noteq> ObsRunning \<longrightarrow> (window_is_running (snd (watch ls w)) \<longleftrightarrow> Running \<in> set (fst (watch ls w))))"
proof (induction ls w rule: watch.induct)
  case (2 st now ls w)
  then show ?case
    by (cases st; cases "win_phase w")
      (auto simp: window_advance_def window_observed_def start_job_def window_is_running_def split: prod.splits)
next
  case (3 e now ls w)
  moreover have "win_phase (window_unobserved e now w) = win_phase w" by (simp add: window_unobserved_def Let_def)
  ultimately show ?case by (cases "win_phase w") simp_all
qed (auto simp: window_is_running_def split: observed_phase.splits)

text \<open>
  C27. Whatever sequence of answers and failures supervision sees, the states it reports are none,
  \<open>Ready\<close>, or \<open>Ready\<close> and then \<open>Running\<close>, each once and each a legal transition of an allocation that
  waits for its job; the exit of the runner counts as a finished job exactly when \<open>Running\<close> was
  reported or the exit was a success.
\<close>

theorem supervision_reports_legal:
  "successively can_transition_to (WaitingForJob # fst (watch ls (window_new p idle now)))
   \<and> distinct (fst (watch ls (window_new p idle now)))
   \<and> (ensure_exit_completed_a_job e (snd (watch ls (window_new p idle now))) = Inr () \<longleftrightarrow>
        exit_is_success e \<or> Running \<in> set (fst (watch ls (window_new p idle now))))"
  using watch_reports[where w = "window_new p idle now" and ls = ls]
  by (auto simp: window_new_def Let_def ensure_exit_completed_a_job_def can_transition_to_def)

lemma watch_deadlines:
  assumes "list_all (\<lambda>(_, t). start \<le> t) ls"
    and "win_supervised_deadline w = start + win_job_timeout w"
    and "\<And>d. win_job_deadline w = Some d \<Longrightarrow> win_supervised_deadline w \<le> d"
  shows "win_job_deadline (snd (watch ls w)) = Some d \<Longrightarrow> win_supervised_deadline (snd (watch ls w)) \<le> d"
  using assms
proof (induction ls w rule: watch.induct)
  case (2 st now ls w)
  then show ?case
    by (cases st; cases "win_phase w")
      (force simp: window_advance_def window_observed_def start_job_def split: prod.splits)+
next
  case (3 e now ls w)
  then show ?case by (auto simp: window_unobserved_def Let_def split: if_splits)
qed simp

text \<open>
  C36. The job timeout is never the reason supervision ends: the supervised lifetime starts before the
  job does and lasts as long, so it always ends first, and a job that starts late is stopped
  before its own timeout as an overrun of the lifetime.
\<close>

theorem job_timeout_never_reported:
  assumes "list_all (\<lambda>(_, t). start \<le> t) ls"
  shows "window_overrun now (snd (watch ls (window_new p idle start))) \<noteq> Some ''guest job exceeded its timeout''"
proof -
  let ?w = "snd (watch ls (window_new p idle start))"
  have "win_job_deadline ?w = Some d \<Longrightarrow> win_supervised_deadline ?w \<le> d" for d
    by (rule watch_deadlines[OF assms]) (simp_all add: window_new_def Let_def)
  then show ?thesis by (cases "win_job_deadline ?w") (auto simp: window_overrun_def split: if_splits)
qed

theorem job_timeout_never_reported_witness:
  "snd (watch [(Saw Active_runner, 5000)] (window_new sample_profile 300000 0)) =
     (window_new sample_profile 300000 0)\<lparr>win_phase := ObsRunning, win_job_deadline := Some 3605000\<rparr>
   \<and> window_overrun 3600000 (snd (watch [(Saw Active_runner, 5000)] (window_new sample_profile 300000 0)))
       \<noteq> Some ''guest job exceeded its timeout''"
  using job_timeout_never_reported[of 0 "[(Saw Active_runner, 5000)]" 3600000 sample_profile 300000]
  by (simp add: window_advance_def window_observed_def start_job_def window_new_def Let_def millis_def
      sample_profile_def)

subsection \<open>Binding the job\<close>



subsection \<open>Words for the guest's shell\<close>

text \<open>
  The part of a POSIX shell's word splitting that a quoted command uses: blanks separate words,
  single quotes keep everything up to the next one, a backslash keeps the next character. A
  character that could mean anything else outside quotes is refused.
\<close>

definition is_plain :: "char \<Rightarrow> bool" where
  "is_plain c \<longleftrightarrow> is_ascii_alphanumeric c \<or> c \<in> set ''_-./:=@%+,''"

fun sh_words :: "bool \<Rightarrow> string option \<Rightarrow> string \<Rightarrow> string list option" where
  "sh_words quoted word [] = (if quoted then None else Some (case word of None \<Rightarrow> [] | Some w \<Rightarrow> [w]))"
| "sh_words True word (c # cs) =
     (if c = squote then sh_words False (Some (unwrap_or [] word)) cs
      else sh_words True (Some (unwrap_or [] word @ [c])) cs)"
| "sh_words False word (c # cs) =
     (if c = squote then sh_words True (Some (unwrap_or [] word)) cs
      else if c = backslash
      then (case cs of
              [] \<Rightarrow> None
            | d # ds \<Rightarrow> sh_words False (Some (unwrap_or [] word @ [d])) ds)
      else if c = CHR '' ''
      then map_option (\<lambda>ws. (case word of None \<Rightarrow> [] | Some w \<Rightarrow> [w]) @ ws) (sh_words False None cs)
      else if is_plain c then sh_words False (Some (unwrap_or [] word @ [c])) cs
      else None)"

lemma sh_words_quoted:
  "sh_words True (Some acc) (concat (map (\<lambda>c. if c = squote then [squote, backslash, squote, squote] else [c]) w)
     @ squote # rest) = sh_words False (Some (acc @ w)) rest"
proof (induction w arbitrary: acc)
  case (Cons c w)
  then show ?case by (cases "c = squote") (simp_all add: squote_def backslash_def)
qed (simp add: squote_def)

lemma sh_words_quote: "sh_words False None (shell_quote w @ rest) = sh_words False (Some w) rest"
  using sh_words_quoted[of "[]" w rest] by (simp add: shell_quote_def squote_def)

lemma sh_words_joined: "sh_words False None (join_words (map shell_quote ws)) = Some ws"
proof (induction ws rule: join_words.induct)
  case (2 w)
  then show ?case using sh_words_quote[of w "[]"] by simp
next
  case (3 w v vs)
  then show ?case by (simp add: sh_words_quote squote_def backslash_def)
qed simp

text \<open>
  C22. A program started in a guest receives exactly its arguments: the line the SSH channel sends is
  read back by the guest's shell as the path and the arguments, whatever bytes they contain, so
  no argument can become a second command.
\<close>

theorem remote_command_round_trip:
  "sh_words False None (remote_command (Program path arguments)) = Some (path # arguments)"
  using sh_words_joined[of "path # arguments"] by simp

subsection \<open>The recycle gate\<close>


end
