(* ===== verification/Spec2Isabelle.thy ===== *)
theory Spec2Isabelle
  imports Core_Props Policy_Props Runtime_Props
begin

text \<open>
  A verification development for flanforge, a daemon that gives every job of a Forgejo workflow a
  virtual machine of its own. A workflow asks with a signed token; the daemon authorises the claims
  against a configured profile, admits the request into the host's capacity, clones and boots a
  machine, registers a one-job runner in it, supervises the job, and then destroys the machine,
  keeps it in a pool of hot guests, or promotes it to the warm image the next jobs are cloned from.

  \<^bold>\<open>Parts and theories.\<close> All sources are under \<open>crates/\<close>.

  \<^item> \<open>Prelude\<close>: machine integers as words, byte strings, results as sums, the state monad with its
    loops, frames (\<open>keeps\<close>) and preorders on states (locale \<open>state_preorder\<close>).
  \<^item> \<open>Text_Utils\<close>, \<open>Identifiers\<close>, \<open>Lifecycle\<close>, \<open>Images\<close>, \<open>Allocations\<close>, \<open>Config_Model\<close>,
    \<open>Config_Validate\<close>, \<open>Claims\<close>: \<open>flanforge-utils\<close>, \<open>flanforge-paths\<close> and \<open>flanforge-core\<close>, the
    values of the system with their constructors, validation and decisions.
  \<^item> \<open>Manager_State\<close>: the worker trait as a record \<open>'w env\<close> over an outside world \<open>'w\<close>, the store
    tables of \<open>flanforge-orm\<close> as keyed lists, the state \<open>'w mgr\<close> and its primitives.
  \<^item> \<open>Admission\<close>, \<open>Hot_Select\<close>, \<open>Entries\<close>, \<open>Warm\<close>, \<open>Config_Reload\<close>, \<open>Hot_Pool\<close>, \<open>Reaper\<close>, \<open>Teardown\<close>,
    \<open>Service\<close>, \<open>Recovery\<close>, \<open>Operator\<close>, \<open>History\<close>: the modules of \<open>flanforge-manager\<close> of these names.
  \<^item> \<open>Manager_Run\<close>: the manager as a step relation, with reachability and its invariants; \<open>Ending\<close>:
    the task of a worker to its end.
  \<^item> \<open>Interrupts\<close>: steps inside \<open>tokio::select!\<close> and \<open>timeout\<close>, cut short at any await point.
  \<^item> \<open>Forgejo\<close>: \<open>flanforge-forgejo\<close>, the client of runners and jobs.
  \<^item> \<open>Guest_Channel\<close>, \<open>Guest_Job\<close>, \<open>Supervision\<close>: \<open>flanforge-runtime\<close>, commands in a guest over
    SSH, the start of the runner, the wait for its job and its supervision; \<open>Timely\<close>: progress of
    the waiting loops.
  \<^item> \<open>Tart_Client\<close>, \<open>Tart_Retention\<close>, \<open>Tart_Worker\<close>: \<open>flanforge-runtime-tart\<close>, and the worker as an
    environment of the manager (\<open>tart_env\<close>); \<open>Tart_Images\<close>, \<open>Tart_Authority\<close>, \<open>Tart_Scope\<close>: what
    its steps do to the images of the host; \<open>Stale_Restart\<close>: a restart after an interrupted rollback.
  \<^item> \<open>Samples\<close>, \<open>Sample_World\<close>, \<open>Sample_Host\<close>: a concrete installation, world and host.
  \<^item> \<open>Core_Props\<close>, \<open>Manager_Props\<close>, \<open>Ending_Props\<close>, \<open>Policy_Props\<close>, \<open>Runtime_Props\<close>: the properties.

  \<^bold>\<open>Correspondence.\<close> A struct is a record, an enum a datatype, a newtype a datatype of one
  constructor; a \<open>Result\<close> is a sum with the error on the left; strings are lists of bytes. A method
  of the manager is an operation \<open>('w, 'a) op\<close> on the state that holds the entries, the three store
  tables, the configuration, the caches and the outside world. Whatever is not in the repository is
  a field of \<open>'w env\<close>, \<open>'w os\<close> or \<open>'w http\<close>: the clock, the database's failures, processes, files,
  HTTP, JSON and URL parsing. A lock held across a block makes the block one step; where the source
  releases it, the model has two operations and the step relation lets others come between. A step
  of a worker is a task, which returns, raises an error, is interrupted, or runs out of fuel.

  \<^bold>\<open>What is shown.\<close> Of the core: authorization accepts exactly what the claims and the profile
  allow, the glob matcher decides its language, a valid configuration keeps names apart, lifecycles
  are monotone. Of the manager: every step refines an abstract registry of unfinished allocations,
  which never share a machine, an attempt or an image; admission is exact and bounds the host;
  creation is authorised and durable; a restart recovers exactly the unfinished; a worker's task
  always ends its allocation; sweeps and evictions spare what is protected; a closing manager admits
  nothing. Of the runtime: a retention never leaves a promoted record over another image, whatever
  fails; the backend destroys nothing foreign; supervision ends and reports only legal transitions;
  a runner is bound to the one job of the signed run; a command reaches the guest's shell as its
  words. Four properties state where the code does not do what it means to: a drained guest
  disappears, a restart promotes a stale image, the job timeout is never the reason supervision
  ends, and a bounded reason may not be storable.

  \<^bold>\<open>Locales.\<close> \<open>validated_name\<close> (names with one constructor), \<open>lifecycle\<close> and \<open>ranked_lifecycle\<close>,
  \<open>keyed_store\<close> (the tables), \<open>exclusive_key\<close> (what two allocations never share) and
  \<open>state_preorder\<close> are each interpreted on the definitions that promise their laws.

  \<^bold>\<open>Fuel.\<close> Loops over data are structural or have termination proofs. The polling loops of the
  runtime take fuel, a bound of the model only: \<open>poll_loop_finishes\<close> and
  \<open>supervise_loop_finishes\<close> show that as many turns as milliseconds are left before the deadline,
  plus two for supervision, are enough. The retry of a clone that lost its slot
  (\<open>clone_current_source\<close>) is bounded by its deadline in the source and by fuel here, and running
  out is a value of its own, \<open>Unfinished\<close>.

  \<^bold>\<open>Not modelled.\<close> The libvirt backend and its RPC client (\<open>flanforge-runtime-libvirt\<close>,
  \<open>flanforge-libvirt-wire\<close>, \<open>flanforge-libvirt-operator\<close>): the manager reaches it through the same
  worker trait, and the guest job it shares is modelled. The HTTP layer, the wire types, the web
  client, the command line, logging and the service installation: they decode, encode and print
  around the operations modelled here. Token verification and password hashing: third-party
  cryptography; the model starts at verified claims. The TOML documents and the SQL statements:
  the validated configuration and the tables are modelled instead. Within the modelled parts, log
  output is left out, the image lock of a profile is an await point whose exclusion is not stated,
  and concurrency is the interleaving of whole operations between two releases of a lock.
\<close>

end
